(* ===== verification/Prelude.thy ===== *)
theory Prelude
  imports Main "HOL-Library.Word" "HOL-Library.Monad_Syntax"
begin

text \<open>
  Shared vocabulary of the development: the machine integer types of the Rust code, the
  adaptors of \<open>Option\<close>, \<open>Result\<close> and \<open>Iterator\<close> that the sources use, the type of effectful
  operations, and the theorem collections the component theories extend.

  A \<open>Result<T, E>\<close> is a value of \<open>'e + 'a\<close> (\<open>Inl\<close> the error, \<open>Inr\<close> the value).  An
  asynchronous operation on a state \<open>'st\<close> is a function \<open>'st \<Rightarrow> ('a \<times> 'st) option\<close>: \<open>None\<close>
  means that the awaited future never completes.
\<close>

type_synonym u8 = "8 word"
type_synonym u16 = "16 word"
type_synonym u32 = "32 word"
type_synonym u64 = "64 word"
type_synonym i64 = "64 word" \<comment> \<open>read with \<open>sint\<close>\<close>

type_synonym ('st, 'a) eff = "'st \<Rightarrow> ('a \<times> 'st) option"

named_theorems text_simps \<open>evaluation of text operations on literals\<close>
named_theorems model_simps \<open>unfolding of the model's non-recursive operations\<close>

section \<open>Result and Option adaptors\<close>

primrec sum_ok :: "'e + 'a \<Rightarrow> 'a option" where
  "sum_ok (Inl e) = None"
| "sum_ok (Inr a) = Some a"

primrec unwrap_or :: "'a \<Rightarrow> 'e + 'a \<Rightarrow> 'a" where
  "unwrap_or d (Inl e) = d"
| "unwrap_or d (Inr a) = a"

primrec map_err :: "('e \<Rightarrow> 'f) \<Rightarrow> 'e + 'a \<Rightarrow> 'f + 'a" where
  "map_err f (Inl e) = Inl (f e)"
| "map_err f (Inr a) = Inr a"

primrec is_Inr :: "'e + 'a \<Rightarrow> bool" where
  "is_Inr (Inl e) = False"
| "is_Inr (Inr a) = True"

definition option_or :: "'a \<Rightarrow> 'a option \<Rightarrow> 'a" where
  "option_or d o' = (case o' of None \<Rightarrow> d | Some a \<Rightarrow> a)"

lemma option_or_simps [simp]:
  "option_or d None = d"
  "option_or d (Some a) = a"
  by (simp_all add: option_or_def)

lemma sum_ok_Some [simp]: "sum_ok r = Some a \<longleftrightarrow> r = Inr a"
  by (cases r) auto

lemma sum_ok_None [simp]: "sum_ok r = None \<longleftrightarrow> (\<exists>e. r = Inl e)"
  by (cases r) auto

section \<open>Iterator adaptors\<close>

fun find_map :: "('a \<Rightarrow> 'b option) \<Rightarrow> 'a list \<Rightarrow> 'b option" where
  "find_map f [] = None"
| "find_map f (x # xs) = (case f x of None \<Rightarrow> find_map f xs | Some y \<Rightarrow> Some y)"

lemma find_map_None: "find_map f xs = None \<longleftrightarrow> (\<forall>x \<in> set xs. f x = None)"
  by (induction xs) (auto split: option.splits)

lemma find_map_Some: "find_map f xs = Some y \<Longrightarrow> \<exists>x \<in> set xs. f x = Some y"
  by (induction xs) (auto split: option.splits)

lemma find_map_append:
  "find_map f (xs @ ys) = (case find_map f xs of None \<Rightarrow> find_map f ys | Some y \<Rightarrow> Some y)"
  by (induction xs) (auto split: option.splits)

text \<open>\<open>Iterator::filter_map\<close> is \<open>List.map_filter\<close>.\<close>

lemma map_filter_Cons: "List.map_filter f (x # xs) =
    (case f x of None \<Rightarrow> List.map_filter f xs | Some y \<Rightarrow> y # List.map_filter f xs)"
  by (auto simp: List.map_filter_def split: option.splits)

lemma map_filter_Nil [simp]: "List.map_filter f [] = []"
  by (simp add: List.map_filter_def)

lemma map_filter_append: "List.map_filter f (xs @ ys) = List.map_filter f xs @ List.map_filter f ys"
  by (simp add: List.map_filter_def)

lemma map_filter_snoc:
  "List.map_filter f (xs @ [x]) =
     (case f x of None \<Rightarrow> List.map_filter f xs | Some y \<Rightarrow> List.map_filter f xs @ [y])"
  by (simp add: List.map_filter_def split: option.splits)

text \<open>\<open>Iterator::collect\<close> into an \<open>Option\<close> of a vector: the first \<open>None\<close> wins.\<close>

fun collect_option :: "'a option list \<Rightarrow> 'a list option" where
  "collect_option [] = Some []"
| "collect_option (x # xs) =
     (case x of None \<Rightarrow> None | Some y \<Rightarrow> map_option ((#) y) (collect_option xs))"

lemma collect_option_map_Some: "collect_option (map (\<lambda>x. Some (f x)) xs) = Some (map f xs)"
  by (induction xs) auto

lemma collect_option_length: "collect_option xs = Some ys \<Longrightarrow> length ys = length xs"
  by (induction xs arbitrary: ys) (auto split: option.splits)

text \<open>\<open>Vec::dedup\<close>: drops an element equal to its predecessor.\<close>

fun dedup :: "'a list \<Rightarrow> 'a list" where
  "dedup [] = []"
| "dedup [x] = [x]"
| "dedup (x # y # xs) = (if x = y then dedup (y # xs) else x # dedup (y # xs))"

lemma dedup_set [simp]: "set (dedup xs) = set xs"
  by (induction xs rule: dedup.induct) auto

lemma dedup_hd: "xs \<noteq> [] \<Longrightarrow> dedup xs \<noteq> [] \<and> hd (dedup xs) = hd xs"
  by (induction xs rule: dedup.induct) auto

lemma dedup_no_adjacent: "Suc i < length (dedup xs) \<Longrightarrow> dedup xs ! i \<noteq> dedup xs ! Suc i"
proof (induction xs arbitrary: i rule: dedup.induct)
  case (3 x y xs)
  show ?case
  proof (cases "x = y")
    case True
    with 3 show ?thesis by simp
  next
    case False
    have "hd (dedup (y # xs)) = y" "dedup (y # xs) \<noteq> []"
      using dedup_hd [of "y # xs"] by simp_all
    with 3 False show ?thesis
      by (cases i) (auto simp: hd_conv_nth)
  qed
qed auto

lemma dedup_length: "length (dedup xs) \<le> length xs"
  by (induction xs rule: dedup.induct) auto

lemma dedup_distinct_id: "distinct xs \<Longrightarrow> dedup xs = xs"
  by (induction xs rule: dedup.induct) auto

text \<open>Changing the first element that satisfies a test (\<open>iter_mut().find\<close>).\<close>

fun update_first :: "('a \<Rightarrow> bool) \<Rightarrow> ('a \<Rightarrow> 'a) \<Rightarrow> 'a list \<Rightarrow> 'a list" where
  "update_first p g [] = []"
| "update_first p g (x # xs) = (if p x then g x # xs else x # update_first p g xs)"

lemma update_first_none: "find p xs = None \<Longrightarrow> update_first p g xs = xs"
  by (induction xs) (auto split: if_splits)

lemma length_update_first [simp]: "length (update_first p g xs) = length xs"
  by (induction xs) auto

text \<open>A lookup that the change neither creates nor destroys sees the changed element, if any.\<close>

lemma find_update_first_same:
  "(\<And>x. p x \<Longrightarrow> p (g x)) \<Longrightarrow> find p (update_first p g xs) = map_option g (find p xs)"
  by (induction xs) auto

lemma find_update_first_other:
  "(\<And>x. p x \<Longrightarrow> \<not> q x \<and> \<not> q (g x)) \<Longrightarrow> find q (update_first p g xs) = find q xs"
  by (induction xs) auto

lemma image_update_first:
  "(\<And>x. h (g x) = h x) \<Longrightarrow> map h (update_first p g xs) = map h xs"
  by (induction xs) auto

lemma find_split:
  "find p xs = Some x \<Longrightarrow> \<exists>pre post. xs = pre @ x # post \<and> p x \<and> list_all (\<lambda>y. \<not> p y) pre"
proof (induction xs)
  case (Cons y ys)
  show ?case
  proof (cases "p y")
    case True
    with Cons.prems show ?thesis by (intro exI [of _ "[]"] exI [of _ ys]) auto
  next
    case False
    with Cons obtain pre post where "ys = pre @ x # post" "p x" "list_all (\<lambda>y. \<not> p y) pre" by auto
    with False show ?thesis by (intro exI [of _ "y # pre"] exI [of _ post]) auto
  qed
qed simp

lemma find_SomeD: "find p xs = Some x \<Longrightarrow> x \<in> set xs \<and> p x"
  by (induction xs) (auto split: if_splits)

section \<open>Sequencing of effects\<close>

text \<open>
  \<open>eff_bind\<close> is awaiting one operation and going on with its value; \<open>try_bind\<close> is the same with
  the question mark operator: an error ends the enclosing function at once, with the state
  reached so far.
\<close>

definition eff_return :: "'a \<Rightarrow> ('st, 'a) eff" where
  "eff_return a = (\<lambda>s. Some (a, s))"

definition eff_bind :: "('st, 'a) eff \<Rightarrow> ('a \<Rightarrow> ('st, 'b) eff) \<Rightarrow> ('st, 'b) eff" where
  "eff_bind m k = (\<lambda>s. case m s of None \<Rightarrow> None | Some (a, s') \<Rightarrow> k a s')"

definition try_bind ::
    "('st, 'e + 'a) eff \<Rightarrow> ('a \<Rightarrow> ('st, 'e + 'b) eff) \<Rightarrow> ('st, 'e + 'b) eff" where
  "try_bind m k = (\<lambda>s. case m s of
       None \<Rightarrow> None
     | Some (Inl e, s') \<Rightarrow> Some (Inl e, s')
     | Some (Inr a, s') \<Rightarrow> k a s')"

definition eff_get :: "('st \<Rightarrow> 'a) \<Rightarrow> ('st, 'a) eff" where
  "eff_get f = (\<lambda>s. Some (f s, s))"

definition eff_modify :: "('st \<Rightarrow> 'st) \<Rightarrow> ('st, unit) eff" where
  "eff_modify f = (\<lambda>s. Some ((), f s))"

text \<open>A computation that has its error or value already.\<close>

definition eff_lift :: "'e + 'a \<Rightarrow> ('st, 'e + 'a) eff" where
  "eff_lift r = eff_return r"

lemma eff_simps [simp]:
  "eff_return a s = Some (a, s)"
  "eff_get f s = Some (f s, s)"
  "eff_modify g s = Some ((), g s)"
  "eff_lift r s = Some (r, s)"
  by (simp_all add: eff_return_def eff_get_def eff_modify_def eff_lift_def)

lemma eff_bind_run [simp]:
  "m s = None \<Longrightarrow> eff_bind m k s = None"
  "m s = Some (a, s') \<Longrightarrow> eff_bind m k s = k a s'"
  by (simp_all add: eff_bind_def)

lemma try_bind_run [simp]:
  "m s = None \<Longrightarrow> try_bind m k s = None"
  "m s = Some (Inl e, s') \<Longrightarrow> try_bind m k s = Some (Inl e, s')"
  "m s = Some (Inr a, s') \<Longrightarrow> try_bind m k s = k a s'"
  by (simp_all add: try_bind_def)

lemma eff_bind_Some:
  "eff_bind m k s = Some (b, t) \<longleftrightarrow> (\<exists>a s'. m s = Some (a, s') \<and> k a s' = Some (b, t))"
  by (auto simp: eff_bind_def split: option.splits)

lemma try_bind_Some:
  "try_bind m k s = Some (b, t) \<longleftrightarrow>
     (\<exists>e. m s = Some (Inl e, t) \<and> b = Inl e)
   \<or> (\<exists>a s'. m s = Some (Inr a, s') \<and> k a s' = Some (b, t))"
  by (auto simp: try_bind_def split: option.splits sum.splits)

text \<open>A relation between states that every step keeps is kept by the sequence.\<close>

lemma eff_bind_rel:
  assumes "eff_bind m k s = Some (b, t)"
    and "\<And>a s'. m s = Some (a, s') \<Longrightarrow> P s s'"
    and "\<And>a s'. m s = Some (a, s') \<Longrightarrow> k a s' = Some (b, t) \<Longrightarrow> P s' t"
    and "\<And>x y z. P x y \<Longrightarrow> P y z \<Longrightarrow> P x z"
  shows "P s t"
  using assms by (auto simp: eff_bind_Some)

lemma try_bind_rel:
  assumes "try_bind m k s = Some (b, t)"
    and "\<And>a s'. m s = Some (a, s') \<Longrightarrow> P s s'"
    and "\<And>a s'. m s = Some (Inr a, s') \<Longrightarrow> k a s' = Some (b, t) \<Longrightarrow> P s' t"
    and "\<And>x y z. P x y \<Longrightarrow> P y z \<Longrightarrow> P x z"
  shows "P s t"
  using assms by (auto simp: try_bind_Some)

end
