(* ===== verification/RText.thy ===== *)
theory RText
  imports Prelude
begin

text \<open>
  Rust's \<open>str\<close> and \<open>String\<close>: a text is the list of its characters' code points, a character
  literal is written with \<open>lit\<close>.  The operations of the standard library that the sources use
  are defined here as documented: \<open>eq_ignore_ascii_case\<close>, \<open>to_lowercase\<close>, \<open>trim_end\<close>,
  \<open>rsplit\<close>, \<open>contains\<close>, \<open>starts_with\<close>, \<open>join\<close>, decimal printing and \<open>str::parse::<u64>\<close>.
  The Unicode case tables enter only for texts that are not pure ASCII, as the parameter of
  \<open>to_lowercase\<close>.
\<close>

type_synonym rchar = nat
type_synonym rstr = "rchar list"

definition lit :: "string \<Rightarrow> rstr" where
  "lit s = map of_char s"

lemma lit_Nil [simp]: "lit [] = []"
  by (simp add: lit_def)

lemma lit_Cons: "lit (c # cs) = of_char c # lit cs"
  by (simp add: lit_def)

lemma lit_append: "lit (s @ t) = lit s @ lit t"
  by (simp add: lit_def)

lemma lit_eq_iff [simp]: "lit s = lit t \<longleftrightarrow> s = t"
  by (simp add: lit_def inj_map_eq_map [OF inj_of_char])

lemma lit_eq_Nil [simp]: "lit s = [] \<longleftrightarrow> s = []" "[] = lit s \<longleftrightarrow> s = []"
  by (auto simp: lit_def)

lemma length_lit [simp]: "length (lit s) = length s"
  by (simp add: lit_def)

text \<open>A code point that is a Unicode scalar value, which is what a Rust \<open>char\<close> holds.\<close>

definition scalar :: "rchar \<Rightarrow> bool" where
  "scalar c \<longleftrightarrow> c < 0xD800 \<or> (0xE000 \<le> c \<and> c < 0x110000)"

definition ascii :: "rchar \<Rightarrow> bool" where
  "ascii c \<longleftrightarrow> c < 128"

section \<open>Case\<close>

definition to_ascii_lowercase :: "rchar \<Rightarrow> rchar" where
  "to_ascii_lowercase c = (if 65 \<le> c \<and> c \<le> 90 then c + 32 else c)"

definition eq_ignore_ascii_case :: "rstr \<Rightarrow> rstr \<Rightarrow> bool" where
  "eq_ignore_ascii_case s t \<longleftrightarrow> map to_ascii_lowercase s = map to_ascii_lowercase t"

definition to_lowercase :: "(rstr \<Rightarrow> rstr) \<Rightarrow> rstr \<Rightarrow> rstr" where
  "to_lowercase unicode s = (if list_all ascii s then map to_ascii_lowercase s else unicode s)"

lemma eq_ignore_ascii_case_refl [simp]: "eq_ignore_ascii_case s s"
  by (simp add: eq_ignore_ascii_case_def)

lemma eq_ignore_ascii_case_sym: "eq_ignore_ascii_case s t \<Longrightarrow> eq_ignore_ascii_case t s"
  by (simp add: eq_ignore_ascii_case_def)

lemma eq_ignore_ascii_case_trans:
  "eq_ignore_ascii_case s t \<Longrightarrow> eq_ignore_ascii_case t u \<Longrightarrow> eq_ignore_ascii_case s u"
  by (simp add: eq_ignore_ascii_case_def)

lemma to_ascii_lowercase_idem [simp]:
  "to_ascii_lowercase (to_ascii_lowercase c) = to_ascii_lowercase c"
  by (simp add: to_ascii_lowercase_def)

section \<open>Trimming, splitting and searching\<close>

text \<open>The Unicode property White_Space.\<close>

definition white_space :: "rchar \<Rightarrow> bool" where
  "white_space c \<longleftrightarrow>
     (9 \<le> c \<and> c \<le> 13) \<or> c = 0x20 \<or> c = 0x85 \<or> c = 0xA0 \<or> c = 0x1680
   \<or> (0x2000 \<le> c \<and> c \<le> 0x200A) \<or> c = 0x2028 \<or> c = 0x2029 \<or> c = 0x202F
   \<or> c = 0x205F \<or> c = 0x3000"

definition trim_end :: "rstr \<Rightarrow> rstr" where
  "trim_end s = rev (dropWhile white_space (rev s))"

text \<open>\<open>s.rsplit(seps).next()\<close>: the part behind the last separator (all of \<open>s\<close> without one).\<close>

definition rsplit_first :: "(rchar \<Rightarrow> bool) \<Rightarrow> rstr \<Rightarrow> rstr" where
  "rsplit_first sep s = rev (takeWhile (\<lambda>c. \<not> sep c) (rev s))"

definition starts_with :: "rstr \<Rightarrow> rstr \<Rightarrow> bool" where
  "starts_with s p \<longleftrightarrow> take (length p) s = p"

fun contains :: "rstr \<Rightarrow> rstr \<Rightarrow> bool" where
  "contains [] p \<longleftrightarrow> p = []"
| "contains (c # cs) p \<longleftrightarrow> starts_with (c # cs) p \<or> contains cs p"

fun join :: "rstr \<Rightarrow> rstr list \<Rightarrow> rstr" where
  "join sep [] = []"
| "join sep [s] = s"
| "join sep (s # t # ts) = s @ sep @ join sep (t # ts)"

lemma trim_end_Nil [simp]: "trim_end [] = []"
  by (simp add: trim_end_def)

lemma rsplit_first_Nil [simp]: "rsplit_first sep [] = []"
  by (simp add: rsplit_first_def)

lemma rsplit_first_no_sep: "c \<in> set (rsplit_first sep s) \<Longrightarrow> \<not> sep c"
  by (auto simp: rsplit_first_def dest: set_takeWhileD)

lemma rsplit_first_split:
  assumes "sep c" and "\<forall>x \<in> set t. \<not> sep x"
  shows "rsplit_first sep (s @ c # t) = t"
  using assms
  by (simp add: rsplit_first_def takeWhile_append)

lemma rsplit_first_whole: "\<forall>x \<in> set t. \<not> sep x \<Longrightarrow> rsplit_first sep t = t"
  by (simp add: rsplit_first_def takeWhile_eq_all_conv [THEN iffD2])

lemma contains_Nil [simp]: "contains s []"
  by (cases s) (auto simp: starts_with_def)

lemma contains_empty_text [simp]: "p \<noteq> [] \<Longrightarrow> \<not> contains [] p"
  by simp

lemma contains_iff: "contains s p \<longleftrightarrow> (\<exists>u v. s = u @ p @ v)"
proof (induction s)
  case Nil
  then show ?case by auto
next
  case (Cons c cs)
  have "starts_with (c # cs) p \<longleftrightarrow> (\<exists>v. c # cs = p @ v)"
    unfolding starts_with_def by (metis append_eq_conv_conj append_take_drop_id)
  with Cons show ?case
    by (auto simp: Cons_eq_append_conv)
qed

section \<open>Decimal numbers\<close>

fun dec_digits :: "nat \<Rightarrow> rstr" where
  "dec_digits n = (if n < 10 then [48 + n] else dec_digits (n div 10) @ [48 + n mod 10])"

declare dec_digits.simps [simp del]

text \<open>\<open>to_string\<close> of an unsigned integer.\<close>

definition dec_of :: "'a::len word \<Rightarrow> rstr" where
  "dec_of w = dec_digits (unat w)"

definition is_digit :: "rchar \<Rightarrow> bool" where
  "is_digit c \<longleftrightarrow> 48 \<le> c \<and> c \<le> 57"

definition dec_value :: "rstr \<Rightarrow> nat" where
  "dec_value s = foldl (\<lambda>a c. 10 * a + (c - 48)) 0 s"

text \<open>
  \<open>str::parse::<u64>\<close>: an optional plus sign, then at least one digit and nothing else, with
  a value that fits.
\<close>

definition parse_u64 :: "rstr \<Rightarrow> u64 option" where
  "parse_u64 s =
     (let ds = (case s of c # cs \<Rightarrow> if c = 43 then cs else s | [] \<Rightarrow> s)
      in if ds \<noteq> [] \<and> list_all is_digit ds \<and> dec_value ds < 2 ^ 64
         then Some (of_nat (dec_value ds)) else None)"

lemma dec_value_append: "dec_value (s @ [c]) = 10 * dec_value s + (c - 48)"
  by (simp add: dec_value_def)

lemma dec_digits_not_Nil [simp]: "dec_digits n \<noteq> []"
  by (subst dec_digits.simps) simp

lemma dec_digits_is_digit: "list_all is_digit (dec_digits n)"
proof (induction n rule: dec_digits.induct)
  case (1 n)
  have "n mod 10 \<le> 9" by simp
  then have d: "is_digit (48 + n mod 10)" by (simp add: is_digit_def)
  show ?case
  proof (cases "n < 10")
    case True
    with d show ?thesis by (subst dec_digits.simps) simp
  next
    case False
    with 1 d show ?thesis by (subst dec_digits.simps) simp
  qed
qed

lemma dec_value_digits: "dec_value (dec_digits n) = n"
proof (induction n rule: dec_digits.induct)
  case (1 n)
  show ?case
  proof (cases "n < 10")
    case True
    then show ?thesis by (subst dec_digits.simps) (simp add: dec_value_def)
  next
    case False
    with 1 have "dec_value (dec_digits (n div 10)) = n div 10" by simp
    with False show ?thesis
      by (subst dec_digits.simps) (simp add: dec_value_append)
  qed
qed

lemma dec_digits_hd: "dec_digits n = c # cs \<Longrightarrow> c \<noteq> 43"
  using dec_digits_is_digit [of n] by (auto simp: is_digit_def)

lemma parse_u64_dec_of: "parse_u64 (dec_of (w :: u64)) = Some w"
proof -
  let ?ds = "dec_digits (unat w)"
  have "unat w < 2 ^ LENGTH(64)"
    by (rule unsigned_less)
  then have bound: "dec_value ?ds < 2 ^ 64"
    by (simp add: dec_value_digits)
  have strip: "(case ?ds of c # cs \<Rightarrow> if c = 43 then cs else ?ds | [] \<Rightarrow> ?ds) = ?ds"
    using dec_digits_hd [of "unat w"] by (auto split: list.splits)
  show ?thesis
    unfolding parse_u64_def dec_of_def strip Let_def
    using bound by (simp add: dec_digits_is_digit dec_value_digits)
qed

end
