(* ===== verification/Sanitize.thy ===== *)
theory Sanitize
  imports RText
begin

text \<open>
  \<open>src/src/sanitize.rs\<close>: terminal-unsafe control characters are taken out of untrusted text
  before it is logged or used by the folder role heuristics.
\<close>

fun sanitize_terminal_text :: "rstr \<Rightarrow> rstr" where
  "sanitize_terminal_text [] = []"
| "sanitize_terminal_text (c # cs) =
     (if c = 9 \<or> c = 10 \<or> c = 13 then c # sanitize_terminal_text cs
      else if c = 0x1b then sanitize_terminal_text cs
      else if c < 0x20 then 32 # sanitize_terminal_text cs
      else if 0x7f \<le> c \<and> c \<le> 0x9f then 32 # sanitize_terminal_text cs
      else c # sanitize_terminal_text cs)"

text \<open>What the module comment calls a terminal hazard: C0 controls but tab and line ends, C1, DEL.\<close>

definition terminal_hazard :: "rchar \<Rightarrow> bool" where
  "terminal_hazard c \<longleftrightarrow>
     (c < 0x20 \<and> c \<noteq> 9 \<and> c \<noteq> 10 \<and> c \<noteq> 13) \<or> (0x7f \<le> c \<and> c \<le> 0x9f)"

lemma sanitize_append:
  "sanitize_terminal_text (s @ t) = sanitize_terminal_text s @ sanitize_terminal_text t"
  by (induction s) auto

lemma sanitize_clean_id: "\<forall>c \<in> set s. \<not> terminal_hazard c \<Longrightarrow> sanitize_terminal_text s = s"
  by (induction s) (auto simp: terminal_hazard_def)

lemma sanitize_no_hazard: "c \<in> set (sanitize_terminal_text s) \<Longrightarrow> \<not> terminal_hazard c"
  by (induction s) (auto simp: terminal_hazard_def split: if_splits)

lemma sanitize_filter_map:
  "sanitize_terminal_text s =
     map (\<lambda>c. if terminal_hazard c then 32 else c) (filter (\<lambda>c. c \<noteq> 0x1b) s)"
  by (induction s) (auto simp: terminal_hazard_def)

lemma sanitize_length:
  "length (sanitize_terminal_text s) + count_list s 0x1b = length s"
  by (induction s) auto

section \<open>Property\<close>

text \<open>
  C31. The sanitizer leaves no terminal hazard, drops exactly the ESC characters and keeps the
  place of every other one, replaces the other hazards by a space and nothing else, and is
  idempotent.
\<close>

theorem sanitize_spec:
  "sanitize_terminal_text s =
     map (\<lambda>c. if terminal_hazard c then 32 else c) (filter (\<lambda>c. c \<noteq> 0x1b) s)
   \<and> list_all (\<lambda>c. \<not> terminal_hazard c) (sanitize_terminal_text s)
   \<and> sanitize_terminal_text (sanitize_terminal_text s) = sanitize_terminal_text s"
  unfolding list_all_iff
  using sanitize_filter_map [of s] sanitize_no_hazard sanitize_clean_id by blast

end
