(* ===== verification/Utf8.thy ===== *)
theory Utf8
  imports RText
begin

text \<open>
  The UTF-8 representation behind Rust strings: \<open>str::as_bytes\<close> and \<open>String::into_bytes\<close>
  (encoding), \<open>String::from_utf8_lossy\<close> (decoding, each maximal ill-formed prefix replaced by
  U+FFFD) and slicing at byte offsets, which panics off a character boundary.
\<close>

section \<open>Encoding\<close>

definition utf8_char :: "rchar \<Rightarrow> u8 list" where
  "utf8_char c =
     (if c < 0x80 then [of_nat c]
      else if c < 0x800 then [of_nat (0xC0 + c div 64), of_nat (0x80 + c mod 64)]
      else if c < 0x10000
        then [of_nat (0xE0 + c div 4096), of_nat (0x80 + c div 64 mod 64), of_nat (0x80 + c mod 64)]
      else [of_nat (0xF0 + c div 262144), of_nat (0x80 + c div 4096 mod 64),
            of_nat (0x80 + c div 64 mod 64), of_nat (0x80 + c mod 64)])"

definition utf8_encode :: "rstr \<Rightarrow> u8 list" where
  "utf8_encode s = concat (map utf8_char s)"

section \<open>Lossy decoding\<close>

definition replacement :: rchar where
  "replacement = 0xFFFD"

definition cont_byte :: "nat \<Rightarrow> bool" where
  "cont_byte n \<longleftrightarrow> 0x80 \<le> n \<and> n \<le> 0xBF"

text \<open>The second bytes admitted after a three-byte and a four-byte lead.\<close>

definition second3 :: "nat \<Rightarrow> nat \<Rightarrow> bool" where
  "second3 a b \<longleftrightarrow>
     (if a = 0xE0 then 0xA0 \<le> b \<and> b \<le> 0xBF
      else if a = 0xED then 0x80 \<le> b \<and> b \<le> 0x9F
      else cont_byte b)"

definition second4 :: "nat \<Rightarrow> nat \<Rightarrow> bool" where
  "second4 a b \<longleftrightarrow>
     (if a = 0xF0 then 0x90 \<le> b \<and> b \<le> 0xBF
      else if a = 0xF4 then 0x80 \<le> b \<and> b \<le> 0x8F
      else cont_byte b)"

text \<open>
  One step of the decoder on a non-empty input: the character produced and the number of bytes
  it used up (an ill-formed prefix yields the replacement character).
\<close>

fun utf8_step :: "nat list \<Rightarrow> rchar \<times> nat" where
  "utf8_step [] = (replacement, 0)"
| "utf8_step (a # bs) =
     (if a < 0x80 then (a, 1)
      else if 0xC2 \<le> a \<and> a \<le> 0xDF then
        (case bs of
           b # _ \<Rightarrow> if cont_byte b then ((a - 0xC0) * 64 + (b - 0x80), 2) else (replacement, 1)
         | [] \<Rightarrow> (replacement, 1))
      else if 0xE0 \<le> a \<and> a \<le> 0xEF then
        (case bs of
           [] \<Rightarrow> (replacement, 1)
         | b # cs \<Rightarrow>
             if \<not> second3 a b then (replacement, 1)
             else (case cs of
                 c # _ \<Rightarrow> if cont_byte c
                   then ((a - 0xE0) * 4096 + (b - 0x80) * 64 + (c - 0x80), 3)
                   else (replacement, 2)
               | [] \<Rightarrow> (replacement, 2)))
      else if 0xF0 \<le> a \<and> a \<le> 0xF4 then
        (case bs of
           [] \<Rightarrow> (replacement, 1)
         | b # cs \<Rightarrow>
             if \<not> second4 a b then (replacement, 1)
             else (case cs of
                 [] \<Rightarrow> (replacement, 2)
               | c # ds \<Rightarrow>
                   if \<not> cont_byte c then (replacement, 2)
                   else (case ds of
                       d # _ \<Rightarrow> if cont_byte d
                         then ((a - 0xF0) * 262144 + (b - 0x80) * 4096 + (c - 0x80) * 64 + (d - 0x80), 4)
                         else (replacement, 3)
                     | [] \<Rightarrow> (replacement, 3))))
      else (replacement, 1))"

lemma utf8_step_pos: "bs \<noteq> [] \<Longrightarrow> 0 < snd (utf8_step bs)"
  by (cases bs) (auto split: list.splits)

function utf8_decode_nat :: "nat list \<Rightarrow> rstr" where
  "utf8_decode_nat bs =
     (if bs = [] then []
      else fst (utf8_step bs) # utf8_decode_nat (drop (snd (utf8_step bs)) bs))"
  by pat_completeness auto
termination
  by (relation "measure length") (use utf8_step_pos in auto)

declare utf8_decode_nat.simps [simp del]

definition from_utf8_lossy :: "u8 list \<Rightarrow> rstr" where
  "from_utf8_lossy bs = utf8_decode_nat (map unat bs)"

lemma utf8_decode_nat_Nil [simp]: "utf8_decode_nat [] = []"
  by (simp add: utf8_decode_nat.simps)

lemma utf8_decode_nat_step:
  "utf8_step bs = (c, length p) \<Longrightarrow> bs = p @ r \<Longrightarrow> p \<noteq> [] \<Longrightarrow>
     utf8_decode_nat bs = c # utf8_decode_nat r"
  by (subst utf8_decode_nat.simps) auto

section \<open>Round trip\<close>

lemma scalar_bound: "scalar c \<Longrightarrow> c < 0x110000"
  by (auto simp: scalar_def)

lemma unat_of_nat_u8: "n < 256 \<Longrightarrow> unat (of_nat n :: u8) = n"
  by (simp add: unat_of_nat)

definition utf8_char_nat :: "rchar \<Rightarrow> nat list" where
  "utf8_char_nat c =
     (if c < 0x80 then [c]
      else if c < 0x800 then [0xC0 + c div 64, 0x80 + c mod 64]
      else if c < 0x10000 then [0xE0 + c div 4096, 0x80 + c div 64 mod 64, 0x80 + c mod 64]
      else [0xF0 + c div 262144, 0x80 + c div 4096 mod 64, 0x80 + c div 64 mod 64,
            0x80 + c mod 64])"

lemma utf8_char_unat: "scalar c \<Longrightarrow> map unat (utf8_char c) = utf8_char_nat c"
proof -
  assume "scalar c"
  then have c: "c < 0x110000" by (rule scalar_bound)
  have m: "0x80 + n mod 64 < (256::nat)" for n
    using mod_less_divisor [of 64 n] by simp
  have d: "c < 0x800 \<Longrightarrow> 0xC0 + c div 64 < 256" "c < 0x10000 \<Longrightarrow> 0xE0 + c div 4096 < 256"
    "0xF0 + c div 262144 < 256"
    using c by (simp_all add: div_less_iff_less_mult)
  show ?thesis
    using d unfolding utf8_char_def utf8_char_nat_def
    by (simp add: unat_of_nat_u8 [OF m] unat_of_nat_u8 del: of_nat_add)
qed

text \<open>The base-64 digits of a code point.\<close>

lemma digits64: "(c::nat) div 4096 = c div 64 div 64" "c div 262144 = c div 64 div 64 div 64"
  by (simp_all add: div_mult2_eq [symmetric])

lemma combine2: "q * 64 + r = c \<Longrightarrow> a * 64 + b = q \<Longrightarrow> a * 4096 + b * 64 + r = (c::nat)"
  by linarith

lemma split3: "(c::nat) div 4096 * 4096 + c div 64 mod 64 * 64 + c mod 64 = c"
  unfolding digits64 by (rule combine2) (rule div_mult_mod_eq)+

lemma split4:
  "(c::nat) div 262144 * 262144 + c div 4096 mod 64 * 4096 + c div 64 mod 64 * 64 + c mod 64 = c"
  using split3 [of c] div_mult_mod_eq [of "c div 64 div 64" 64] unfolding digits64 by linarith

lemma bound3:
  fixes c :: nat
  assumes "0x800 \<le> c" "c < 0x10000" "c < 0xD800 \<or> 0xE000 \<le> c"
  shows "c div 4096 < 16" "c div 4096 = 0 \<Longrightarrow> 32 \<le> c div 64 mod 64"
    "c div 4096 = 13 \<Longrightarrow> c div 64 mod 64 < 32"
proof -
  define q where "q = c div 64"
  have q: "32 \<le> q" "q < 1024" "q < 864 \<or> 896 \<le> q"
    using assms unfolding q_def by linarith+
  show "c div 4096 < 16" "c div 4096 = 0 \<Longrightarrow> 32 \<le> c div 64 mod 64"
    "c div 4096 = 13 \<Longrightarrow> c div 64 mod 64 < 32"
    using q div_mult_mod_eq [of q 64] mod_less_divisor [of 64 q]
    unfolding digits64 q_def [symmetric] by linarith+
qed

lemma bound4:
  fixes c :: nat
  assumes "0x10000 \<le> c" "c < 0x110000"
  shows "c div 262144 < 5" "c div 262144 = 0 \<Longrightarrow> 16 \<le> c div 4096 mod 64"
    "c div 262144 = 4 \<Longrightarrow> c div 4096 mod 64 < 16"
proof -
  define q where "q = c div 4096"
  have q: "16 \<le> q" "q < 272"
    using assms unfolding q_def by linarith+
  have "c div 262144 = q div 64"
    by (simp add: q_def div_mult2_eq [symmetric])
  with q show "c div 262144 < 5" "c div 262144 = 0 \<Longrightarrow> 16 \<le> c div 4096 mod 64"
    "c div 262144 = 4 \<Longrightarrow> c div 4096 mod 64 < 16"
    using div_mult_mod_eq [of q 64] mod_less_divisor [of 64 q]
    unfolding q_def [symmetric] by linarith+
qed

lemma utf8_step_char:
  assumes "scalar c"
  shows "utf8_step (utf8_char_nat c @ r) = (c, length (utf8_char_nat c))"
proof -
  have c: "c < 0x110000" using assms by (rule scalar_bound)
  have nsur: "c < 0xD800 \<or> 0xE000 \<le> c" using assms by (auto simp: scalar_def)
  have cb: "cont_byte (128 + n mod 64)" for n
    using mod_less_divisor [of 64 n] by (simp add: cont_byte_def)
  consider "c < 0x80" | "0x80 \<le> c" "c < 0x800" | "0x800 \<le> c" "c < 0x10000"
    | "0x10000 \<le> c" by linarith
  then show ?thesis
  proof cases
    case 1
    then show ?thesis by (simp add: utf8_char_nat_def)
  next
    case 2
    then have "2 \<le> c div 64" "c div 64 < 32" by linarith+
    with 2 cb [of c] show ?thesis
      by (simp add: utf8_char_nat_def)
  next
    case 3
    note b = bound3 [OF 3 nsur]
    have "second3 (224 + c div 4096) (128 + c div 64 mod 64)"
      using b(2,3) cb [of "c div 64"] by (auto simp: second3_def cont_byte_def)
    with 3 b(1) cb [of c] show ?thesis
      using split3 [of c] by (simp add: utf8_char_nat_def)
  next
    case 4
    note b = bound4 [OF 4 c]
    have "second4 (240 + c div 262144) (128 + c div 4096 mod 64)"
      using b(2,3) cb [of "c div 4096"] by (auto simp: second4_def cont_byte_def)
    with 4 b(1) cb [of c] cb [of "c div 64"] show ?thesis
      using split4 [of c] by (simp add: utf8_char_nat_def)
  qed
qed

lemma utf8_char_nat_not_Nil: "utf8_char_nat c \<noteq> []"
  by (simp add: utf8_char_nat_def)

lemma utf8_encode_Cons: "utf8_encode (c # cs) = utf8_char c @ utf8_encode cs"
  by (simp add: utf8_encode_def)

lemma utf8_encode_Nil [simp]: "utf8_encode [] = []"
  by (simp add: utf8_encode_def)

lemma utf8_encode_append: "utf8_encode (s @ t) = utf8_encode s @ utf8_encode t"
  by (simp add: utf8_encode_def)

lemma from_utf8_lossy_encode: "list_all scalar s \<Longrightarrow> from_utf8_lossy (utf8_encode s) = s"
proof (induction s)
  case Nil
  then show ?case by (simp add: from_utf8_lossy_def)
next
  case (Cons c cs)
  then have sc: "scalar c" and IH: "from_utf8_lossy (utf8_encode cs) = cs" by simp_all
  have "utf8_decode_nat (utf8_char_nat c @ map unat (utf8_encode cs)) =
          c # utf8_decode_nat (map unat (utf8_encode cs))"
    using utf8_step_char [OF sc] utf8_char_nat_not_Nil
    by (intro utf8_decode_nat_step [where p = "utf8_char_nat c"]) simp_all
  then show ?case
    using IH sc by (simp add: from_utf8_lossy_def utf8_encode_Cons utf8_char_unat)
qed

text \<open>Decoding yields scalar values only.\<close>

lemma utf8_step_scalar: "bs \<noteq> [] \<Longrightarrow> list_all (\<lambda>b. b < 256) bs \<Longrightarrow> scalar (fst (utf8_step bs))"
  by (cases bs) (auto simp: scalar_def replacement_def cont_byte_def second3_def second4_def
      split: list.splits if_splits)

lemma utf8_decode_nat_scalar: "list_all (\<lambda>b. b < 256) bs \<Longrightarrow> list_all scalar (utf8_decode_nat bs)"
proof (induction bs rule: utf8_decode_nat.induct)
  case (1 bs)
  show ?case
  proof (cases "bs = []")
    case False
    have "list_all (\<lambda>b. b < 256) (drop (snd (utf8_step bs)) bs)"
      using 1(2) by (auto simp: list_all_iff dest: in_set_dropD)
    with 1 False utf8_step_scalar show ?thesis
      by (subst utf8_decode_nat.simps) simp
  qed simp
qed

lemma from_utf8_lossy_scalar: "list_all scalar (from_utf8_lossy bs)"
proof -
  have "unat b < 256" for b :: u8 using unsigned_less [of b] by simp
  then show ?thesis
    unfolding from_utf8_lossy_def by (intro utf8_decode_nat_scalar) (simp add: list_all_iff)
qed

lemma utf8_encode_inj:
  "list_all scalar s \<Longrightarrow> list_all scalar t \<Longrightarrow> utf8_encode s = utf8_encode t \<Longrightarrow> s = t"
  by (metis from_utf8_lossy_encode)

text \<open>Pure ASCII is encoded byte for byte.\<close>

lemma utf8_encode_ascii: "list_all ascii s \<Longrightarrow> utf8_encode s = map of_nat s"
  by (induction s) (auto simp: utf8_encode_Cons utf8_char_def ascii_def)

section \<open>Slicing at byte offsets\<close>

text \<open>\<open>None\<close> is the panic of slicing past the end or inside a character.\<close>

fun split_at_byte :: "rstr \<Rightarrow> nat \<Rightarrow> (rstr \<times> rstr) option" where
  "split_at_byte s 0 = Some ([], s)"
| "split_at_byte [] (Suc n) = None"
| "split_at_byte (c # cs) (Suc n) =
     (let l = length (utf8_char c)
      in if l \<le> Suc n
         then map_option (\<lambda>(a, b). (c # a, b)) (split_at_byte cs (Suc n - l)) else None)"

definition slice_bytes :: "rstr \<Rightarrow> nat \<Rightarrow> nat \<Rightarrow> rstr option" where
  "slice_bytes s i j =
     Option.bind (split_at_byte s i) (\<lambda>(_, r). map_option fst (split_at_byte r (j - i)))"

lemma length_utf8_ascii: "ascii c \<Longrightarrow> length (utf8_char c) = 1"
  by (simp add: utf8_char_def ascii_def)

lemma split_at_byte_ascii:
  "list_all ascii s \<Longrightarrow> n \<le> length s \<Longrightarrow> split_at_byte s n = Some (take n s, drop n s)"
  by (induction s n rule: split_at_byte.induct) (auto simp: length_utf8_ascii)

lemma slice_bytes_ascii:
  assumes "list_all ascii s" "i \<le> j" "j \<le> length s"
  shows "slice_bytes s i j = Some (take (j - i) (drop i s))"
proof -
  have "list_all ascii (drop i s)"
    using assms(1) by (meson in_set_dropD list_all_iff)
  with assms show ?thesis
    by (simp add: slice_bytes_def split_at_byte_ascii)
qed

end
