(* ===== verification/Clock.thy ===== *)
theory Clock
  imports Prelude
begin

text \<open>
  \<open>src/src/clock.rs\<close>: wall-clock time as \<open>i64\<close> milliseconds since the Unix epoch.  The system
  clock's reading is a parameter (nanoseconds relative to the epoch); the fake clock is its
  current reading.  Additions wrap, as in a release build.
\<close>

definition i64_max :: int where
  "i64_max = 2 ^ 63 - 1"

text \<open>
  \<open>SystemClock::now_unix_ms\<close>: a reading before the epoch gives 0, one that does not fit in an
  \<open>i64\<close> gives \<open>i64::MAX\<close>.
\<close>

definition system_now_unix_ms :: "int \<Rightarrow> i64" where
  "system_now_unix_ms nanos =
     (if nanos < 0 then 0
      else let ms = nanos div 1000000 in if ms \<le> i64_max then of_int ms else of_int i64_max)"

record fake_clock =
  fc_now :: i64

definition fake_clock_new :: "i64 \<Rightarrow> fake_clock" where
  "fake_clock_new start = \<lparr>fc_now = start\<rparr>"

definition fake_clock_advance :: "i64 \<Rightarrow> fake_clock \<Rightarrow> fake_clock" where
  "fake_clock_advance millis c = c\<lparr>fc_now := fc_now c + millis\<rparr>"

definition fake_now_unix_ms :: "fake_clock \<Rightarrow> i64" where
  "fake_now_unix_ms c = fc_now c"

lemma sint_of_int_i64:
  assumes "0 \<le> n" "n \<le> i64_max"
  shows "sint (of_int n :: i64) = n"
proof -
  have "signed_take_bit 63 n = n"
    using assms by (intro signed_take_bit_int_eq_self) (auto simp: i64_max_def)
  then show ?thesis by (simp add: sint_sbintrunc')
qed

lemma system_now_nonneg: "0 \<le> sint (system_now_unix_ms t) \<and> sint (system_now_unix_ms t) \<le> i64_max"
proof -
  consider "t < 0" | "0 \<le> t" "t div 1000000 \<le> i64_max" | "0 \<le> t" "i64_max < t div 1000000"
    by linarith
  then show ?thesis
  proof cases
    case 1
    then show ?thesis by (simp add: system_now_unix_ms_def i64_max_def)
  next
    case 2
    then have "sint (of_int (t div 1000000) :: i64) = t div 1000000"
      by (intro sint_of_int_i64) (auto simp: pos_imp_zdiv_nonneg_iff)
    with 2 show ?thesis by (simp add: system_now_unix_ms_def Let_def pos_imp_zdiv_nonneg_iff)
  next
    case 3
    have "sint (of_int i64_max :: i64) = i64_max"
      by (intro sint_of_int_i64) (auto simp: i64_max_def)
    with 3 show ?thesis by (simp add: system_now_unix_ms_def Let_def i64_max_def)
  qed
qed

text \<open>The reading is monotone in the system's time.\<close>

lemma system_now_mono: "t \<le> u \<Longrightarrow> sint (system_now_unix_ms t) \<le> sint (system_now_unix_ms u)"
proof -
  assume tu: "t \<le> u"
  then have d: "t div 1000000 \<le> u div 1000000" by (rule zdiv_mono1) simp
  show ?thesis
  proof (cases "t < 0")
    case True
    then show ?thesis using system_now_nonneg [of u] by (simp add: system_now_unix_ms_def)
  next
    case t: False
    show ?thesis
    proof (cases "u div 1000000 \<le> i64_max")
      case True
      then show ?thesis
        using t tu d sint_of_int_i64 [of "t div 1000000"] sint_of_int_i64 [of "u div 1000000"]
        by (simp add: system_now_unix_ms_def Let_def pos_imp_zdiv_nonneg_iff)
    next
      case False
      have "sint (of_int i64_max :: i64) = i64_max"
        by (intro sint_of_int_i64) (auto simp: i64_max_def)
      then show ?thesis
        using False t tu system_now_nonneg [of t]
        by (simp add: system_now_unix_ms_def [of u] Let_def)
    qed
  qed
qed

lemma fake_clock_advance_add:
  "fake_clock_advance b (fake_clock_advance a c) = fake_clock_advance (a + b) c"
  by (simp add: fake_clock_advance_def add.assoc)

section \<open>Property\<close>

text \<open>
  C33. The production clock never reports a negative time, is exact to the millisecond while the
  reading fits, saturates above, and never runs backwards when the system's time does not.
\<close>

theorem system_clock_correct:
  "0 \<le> sint (system_now_unix_ms t)
   \<and> (0 \<le> t \<and> t div 1000000 \<le> i64_max \<longrightarrow> sint (system_now_unix_ms t) = t div 1000000)
   \<and> (t \<le> u \<longrightarrow> sint (system_now_unix_ms t) \<le> sint (system_now_unix_ms u))"
proof -
  have "sint (system_now_unix_ms t) = t div 1000000" if "0 \<le> t" "t div 1000000 \<le> i64_max"
    using that sint_of_int_i64 [of "t div 1000000"]
    by (simp add: system_now_unix_ms_def Let_def pos_imp_zdiv_nonneg_iff)
  then show ?thesis using system_now_nonneg system_now_mono by blast
qed

theorem system_clock_correct_witness:
  "sint (system_now_unix_ms 1700000000123456789) = 1700000000123
   \<and> sint (system_now_unix_ms 5) \<le> sint (system_now_unix_ms 7)"
  using system_clock_correct [of 1700000000123456789 0] system_clock_correct [of 5 7]
  by (simp add: i64_max_def)

end
