(* ===== verification/Model.thy ===== *)
theory Model
  imports Utf8
begin

unbundle bit_operations_syntax

text \<open>
  \<open>src/src/model.rs\<close>: typed identifiers, the content hash \<open>BlobHash\<close> with its hexadecimal
  forms, and the value objects that cross the storage and event seams.  Parsing and printing of
  UUIDs belong to the \<open>uuid\<close> crate and are parameters.
\<close>

section \<open>Typed identifiers\<close>

type_synonym uuid = "128 word"

datatype account_id = AccountId (account_uuid: uuid)
datatype folder_id = FolderId (folder_uuid: uuid)
datatype message_id = MessageId (message_uuid: uuid)
datatype outbox_id = OutboxId (outbox_uuid: uuid)

text \<open>The derived orders compare the wrapped UUIDs.\<close>

instantiation account_id :: linorder
begin
definition less_eq_account_id :: "account_id \<Rightarrow> account_id \<Rightarrow> bool" where
  "less_eq_account_id a b \<longleftrightarrow> account_uuid a \<le> account_uuid b"
definition less_account_id :: "account_id \<Rightarrow> account_id \<Rightarrow> bool" where
  "less_account_id a b \<longleftrightarrow> account_uuid a < account_uuid b"
instance
  by standard (auto simp: less_eq_account_id_def less_account_id_def account_id.expand)
end

instantiation folder_id :: linorder
begin
definition less_eq_folder_id :: "folder_id \<Rightarrow> folder_id \<Rightarrow> bool" where
  "less_eq_folder_id a b \<longleftrightarrow> folder_uuid a \<le> folder_uuid b"
definition less_folder_id :: "folder_id \<Rightarrow> folder_id \<Rightarrow> bool" where
  "less_folder_id a b \<longleftrightarrow> folder_uuid a < folder_uuid b"
instance
  by standard (auto simp: less_eq_folder_id_def less_folder_id_def folder_id.expand)
end

instantiation message_id :: linorder
begin
definition less_eq_message_id :: "message_id \<Rightarrow> message_id \<Rightarrow> bool" where
  "less_eq_message_id a b \<longleftrightarrow> message_uuid a \<le> message_uuid b"
definition less_message_id :: "message_id \<Rightarrow> message_id \<Rightarrow> bool" where
  "less_message_id a b \<longleftrightarrow> message_uuid a < message_uuid b"
instance
  by standard (auto simp: less_eq_message_id_def less_message_id_def message_id.expand)
end

instantiation outbox_id :: linorder
begin
definition less_eq_outbox_id :: "outbox_id \<Rightarrow> outbox_id \<Rightarrow> bool" where
  "less_eq_outbox_id a b \<longleftrightarrow> outbox_uuid a \<le> outbox_uuid b"
definition less_outbox_id :: "outbox_id \<Rightarrow> outbox_id \<Rightarrow> bool" where
  "less_outbox_id a b \<longleftrightarrow> outbox_uuid a < outbox_uuid b"
instance
  by standard (auto simp: less_eq_outbox_id_def less_outbox_id_def outbox_id.expand)
end

text \<open>\<open>parse\<close> and \<open>Display\<close> of the identifier types, over the parser and printer of \<open>uuid\<close>.\<close>

definition account_id_parse :: "(rstr \<Rightarrow> uuid option) \<Rightarrow> rstr \<Rightarrow> account_id option" where
  "account_id_parse uuid_parse s = map_option AccountId (uuid_parse s)"

definition account_id_display :: "(uuid \<Rightarrow> rstr) \<Rightarrow> account_id \<Rightarrow> rstr" where
  "account_id_display hyphenated a = hyphenated (account_uuid a)"

section \<open>Blob hashes\<close>

datatype blob_hash = BlobHash (to_hex: rstr)

definition hex_table :: rstr where
  "hex_table = lit ''0123456789abcdef''"

definition encode_hex :: "u8 list \<Rightarrow> rstr" where
  "encode_hex bytes =
     concat (map (\<lambda>b. [hex_table ! unat (drop_bit 4 b), hex_table ! unat (b AND 0x0f)]) bytes)"

definition from_digest :: "u8 list \<Rightarrow> blob_hash" where
  "from_digest digest = BlobHash (encode_hex digest)"

definition nibble :: "u8 \<Rightarrow> u8 option" where
  "nibble c =
     (if 48 \<le> c \<and> c \<le> 57 then Some (c - 48)
      else if 97 \<le> c \<and> c \<le> 102 then Some (c - 97 + 10)
      else if 65 \<le> c \<and> c \<le> 70 then Some (c - 65 + 10)
      else None)"

text \<open>The two-byte chunks; a chunk of one byte does not occur behind the parity check.\<close>

fun decode_pairs :: "u8 list \<Rightarrow> u8 list option" where
  "decode_pairs [] = Some []"
| "decode_pairs [a] = None"
| "decode_pairs (a # b # r) =
     (case nibble a of None \<Rightarrow> None
      | Some x \<Rightarrow> (case nibble b of None \<Rightarrow> None
                  | Some y \<Rightarrow> map_option ((#) (push_bit 4 x OR y)) (decode_pairs r)))"

definition decode_hex :: "rstr \<Rightarrow> u8 list option" where
  "decode_hex s =
     (let hex = utf8_encode s in if length hex mod 2 \<noteq> 0 then None else decode_pairs hex)"

definition parse_hex :: "rstr \<Rightarrow> blob_hash option" where
  "parse_hex s =
     (case decode_hex s of None \<Rightarrow> None
      | Some bytes \<Rightarrow> if length bytes = 32 then Some (from_digest bytes) else None)"

text \<open>\<open>None\<close>: one of the two slices panics.\<close>

definition shard_prefix :: "blob_hash \<Rightarrow> rstr option" where
  "shard_prefix h =
     (case slice_bytes (to_hex h) 0 2 of None \<Rightarrow> None
      | Some a \<Rightarrow> map_option (\<lambda>b. a @ lit ''/'' @ b) (slice_bytes (to_hex h) 2 4))"

definition hex_digit :: "rchar \<Rightarrow> bool" where
  "hex_digit c \<longleftrightarrow> (48 \<le> c \<and> c \<le> 57) \<or> (97 \<le> c \<and> c \<le> 102) \<or> (65 \<le> c \<and> c \<le> 70)"

subsection \<open>Nibbles and hexadecimal digits\<close>

definition hex_char :: "nat \<Rightarrow> rchar" where
  "hex_char n = (if n < 10 then 48 + n else 87 + n)"

lemma less16_cases: "n < 16 \<Longrightarrow> n \<in> {0, 1, 2, 3, 4, 5, 6, 7, 8, 9, 10, 11, 12, 13, 14, 15::nat}"
  by (simp add: numeral_eq_Suc less_Suc_eq)

lemma hex_table_nth: "n < 16 \<Longrightarrow> hex_table ! n = hex_char n"
  by (drule less16_cases) (auto simp: hex_table_def lit_def hex_char_def)

lemma unat_u8_less: "unat (b :: u8) < 256"
  using unsigned_less [of b] by simp

lemma high_nibble_eq: "unat (drop_bit 4 (b :: u8)) = unat b div 16"
  by (simp add: drop_bit_eq_div unat_div_distrib)

lemma low_nibble_eq: "unat ((b :: u8) AND 0x0f) = unat b mod 16"
proof -
  have "b AND 0x0f = take_bit 4 b"
    by (simp add: take_bit_eq_mask mask_eq_exp_minus_1)
  then show ?thesis by (simp add: take_bit_eq_mod unat_mod_distrib)
qed

lemma encode_hex_Cons:
  "encode_hex (b # bs) = hex_char (unat b div 16) # hex_char (unat b mod 16) # encode_hex bs"
proof -
  have "unat b div 16 < 16"
    using unat_u8_less [of b] by (simp add: less_mult_imp_div_less)
  then show ?thesis
    unfolding encode_hex_def by (simp only: list.map concat.simps high_nibble_eq low_nibble_eq)
      (simp add: hex_table_nth)
qed

lemma encode_hex_Nil [simp]: "encode_hex [] = []"
  by (simp add: encode_hex_def)

lemma length_encode_hex [simp]: "length (encode_hex bs) = 2 * length bs"
  by (induction bs) (auto simp: encode_hex_Cons)

lemma hex_char_ascii: "n < 16 \<Longrightarrow> ascii (hex_char n)"
  by (simp add: hex_char_def ascii_def)

lemma encode_hex_ascii: "list_all ascii (encode_hex bs)"
proof (induction bs)
  case (Cons b bs)
  with unat_u8_less [of b] show ?case
    by (simp add: encode_hex_Cons hex_char_ascii less_mult_imp_div_less)
qed simp

lemma nibble_hex_char: "n < 16 \<Longrightarrow> nibble (of_nat (hex_char n)) = Some (of_nat n)"
  by (drule less16_cases) (auto simp: hex_char_def nibble_def)

lemma nibbles_join: "push_bit 4 (of_nat (n div 16)) OR of_nat (n mod 16) = (of_nat n :: u8)"
proof -
  have "push_bit 4 (of_nat (n div 16)) OR of_nat (n mod 16) =
          (of_nat (push_bit 4 (drop_bit 4 n) OR take_bit 4 n) :: u8)"
    by (simp add: of_nat_or_eq of_nat_push_bit drop_bit_eq_div take_bit_eq_mod)
  also have "push_bit 4 (drop_bit 4 n) OR take_bit 4 n = n"
    by (rule bit_eqI) (auto simp: bit_simps)
  finally show ?thesis .
qed

lemma decode_pairs_encode: "decode_pairs (map of_nat (encode_hex bs)) = Some bs"
proof (induction bs)
  case (Cons b bs)
  have "unat b div 16 < 16" "unat b mod 16 < 16"
    using unat_u8_less [of b] by auto
  then show ?case
    using nibbles_join [of "unat b"] Cons by (simp add: encode_hex_Cons nibble_hex_char)
qed simp

lemma decode_hex_encode: "decode_hex (encode_hex bs) = Some bs"
  by (simp add: decode_hex_def utf8_encode_ascii [OF encode_hex_ascii] decode_pairs_encode)

text \<open>What the parser accepts, and the value it gives back.\<close>

lemma nibble_Some:
  assumes "nibble c = Some x"
  shows "unat x < 16 \<and> hex_char (unat x) = to_ascii_lowercase (unat c) \<and> hex_digit (unat c)"
proof -
  have le: "(48 \<le> c) = (48 \<le> unat c)" "(c \<le> 57) = (unat c \<le> 57)" "(97 \<le> c) = (97 \<le> unat c)"
    "(c \<le> 102) = (unat c \<le> 102)" "(65 \<le> c) = (65 \<le> unat c)" "(c \<le> 70) = (unat c \<le> 70)"
    by (simp_all add: word_le_nat_alt)
  have digit: "unat (c - 48) = unat c - 48" if "48 \<le> unat c"
    using that by (simp add: unat_sub word_le_nat_alt)
  have lower: "unat (c - 97 + 10) = unat c - 87" if "97 \<le> unat c" "unat c \<le> 102"
  proof -
    have "c - 97 + 10 = c - 87" by simp
    with that show ?thesis by (simp add: unat_sub word_le_nat_alt)
  qed
  have upper: "unat (c - 65 + 10) = unat c - 55" if "65 \<le> unat c" "unat c \<le> 70"
  proof -
    have "c - 65 + 10 = c - 55" by simp
    with that show ?thesis by (simp add: unat_sub word_le_nat_alt)
  qed
  from assms consider "48 \<le> unat c" "unat c \<le> 57" "x = c - 48"
    | "97 \<le> unat c" "unat c \<le> 102" "x = c - 97 + 10"
    | "65 \<le> unat c" "unat c \<le> 70" "x = c - 65 + 10"
    unfolding nibble_def le by (auto split: if_splits)
  then show ?thesis
    by (cases; simp only: digit lower upper hex_char_def to_ascii_lowercase_def hex_digit_def; auto)
qed

lemma nibble_None: "nibble c = None \<Longrightarrow> \<not> hex_digit (unat c)"
  by (auto simp: nibble_def hex_digit_def word_le_nat_alt split: if_splits)

lemma unat_nibbles: "unat x < 16 \<Longrightarrow> unat y < 16 \<Longrightarrow> unat (push_bit 4 x OR y :: u8) = 16 * unat x + unat y"
proof -
  assume x: "unat x < 16" and y: "unat y < 16"
  let ?n = "16 * unat x + unat y"
  have "push_bit 4 (of_nat (?n div 16)) OR of_nat (?n mod 16) = (of_nat ?n :: u8)"
    by (rule nibbles_join)
  then have "push_bit 4 x OR y = (of_nat ?n :: u8)"
    using y by simp
  moreover have "?n < 256" using x y by linarith
  ultimately show ?thesis by (simp only: unat_of_nat_u8)
qed

lemma decode_pairs_Some:
  "decode_pairs bs = Some ds \<Longrightarrow>
     encode_hex ds = map to_ascii_lowercase (map unat bs) \<and> list_all hex_digit (map unat bs)"
proof (induction bs arbitrary: ds rule: decode_pairs.induct)
  case (3 a b r)
  from "3.prems" obtain x y es where xy: "nibble a = Some x" "nibble b = Some y"
    and es: "decode_pairs r = Some es" and ds: "ds = (push_bit 4 x OR y) # es"
    by (auto split: option.splits)
  note X = nibble_Some [OF xy(1)] and Y = nibble_Some [OF xy(2)]
  have u: "unat (push_bit 4 x OR y) = 16 * unat x + unat y"
    using X Y by (intro unat_nibbles) auto
  have q: "(16 * unat x + unat y) div 16 = unat x" "(16 * unat x + unat y) mod 16 = unat y"
    using Y by auto
  show ?case
    using "3.IH" [OF xy(1) xy(2) es] X Y unfolding ds encode_hex_Cons u q by simp
qed auto

lemma decode_pairs_None:
  "decode_pairs bs = None \<Longrightarrow> even (length bs) \<Longrightarrow> \<not> list_all hex_digit (map unat bs)"
  by (induction bs rule: decode_pairs.induct) (auto split: option.splits dest: nibble_None)

lemma hex_digit_ascii: "hex_digit c \<Longrightarrow> ascii c"
  by (auto simp: hex_digit_def ascii_def)

text \<open>Text whose UTF-8 bytes are all hexadecimal digits is that very text.\<close>

lemma utf8_head_not_ascii: "scalar c \<Longrightarrow> \<not> ascii c \<Longrightarrow> 0x80 \<le> hd (map unat (utf8_char c))"
  by (simp add: utf8_char_unat) (simp add: utf8_char_nat_def ascii_def)

lemma hex_bytes_text:
  "list_all scalar s \<Longrightarrow> list_all hex_digit (map unat (utf8_encode s)) \<Longrightarrow>
     map unat (utf8_encode s) = s \<and> list_all hex_digit s"
proof (induction s)
  case (Cons c cs)
  have "ascii c"
  proof (rule ccontr)
    assume "\<not> ascii c"
    then have "0x80 \<le> hd (map unat (utf8_char c))"
      using Cons.prems by (intro utf8_head_not_ascii) auto
    moreover have "utf8_char c \<noteq> []" by (simp add: utf8_char_def)
    ultimately show False
      using Cons.prems(2) by (cases "utf8_char c") (auto simp: utf8_encode_Cons hex_digit_def)
  qed
  then have "utf8_char c = [of_nat c]" "unat (of_nat c :: u8) = c"
    by (simp_all add: utf8_char_def ascii_def unat_of_nat_u8)
  with Cons show ?case by (simp add: utf8_encode_Cons)
qed simp

lemma parse_hex_from_digest: "length d = 32 \<Longrightarrow> parse_hex (to_hex (from_digest d)) = Some (from_digest d)"
  by (simp add: parse_hex_def from_digest_def decode_hex_encode)

lemma hex_text_bytes: "list_all hex_digit s \<Longrightarrow> map unat (utf8_encode s) = s"
proof (induction s)
  case (Cons c cs)
  then have "c < 128" by (auto dest: hex_digit_ascii simp: ascii_def)
  with Cons show ?case
    by (simp add: utf8_encode_Cons utf8_char_def unat_of_nat_u8)
qed simp

lemma parse_hex_iff:
  assumes "list_all scalar s"
  shows "parse_hex s = Some h \<longleftrightarrow>
    length s = 64 \<and> list_all hex_digit s \<and> h = BlobHash (map to_ascii_lowercase s)"
proof
  assume "parse_hex s = Some h"
  then obtain ds where ds: "decode_pairs (utf8_encode s) = Some ds" "length ds = 32"
    and h: "h = BlobHash (encode_hex ds)"
    by (auto simp: parse_hex_def decode_hex_def from_digest_def Let_def
        split: option.splits if_splits)
  note D = decode_pairs_Some [OF ds(1)]
  then have t: "map unat (utf8_encode s) = s" "list_all hex_digit s"
    using hex_bytes_text [OF assms] by auto
  have "length s = 64"
    using D ds(2) t length_encode_hex [of ds] by (metis length_map mult_2 numeral_Bit0)
  with D t h show "length s = 64 \<and> list_all hex_digit s \<and> h = BlobHash (map to_ascii_lowercase s)"
    by simp
next
  assume R: "length s = 64 \<and> list_all hex_digit s \<and> h = BlobHash (map to_ascii_lowercase s)"
  have t: "map unat (utf8_encode s) = s"
    using R by (simp add: hex_text_bytes)
  then have len: "length (utf8_encode s) = 64"
    using R by (metis length_map)
  obtain ds where ds: "decode_pairs (utf8_encode s) = Some ds"
    using decode_pairs_None [of "utf8_encode s"] len t R by (cases "decode_pairs (utf8_encode s)") auto
  have enc: "encode_hex ds = map to_ascii_lowercase s"
    using decode_pairs_Some [OF ds] t by simp
  then have "length ds = 32"
    using R length_encode_hex [of ds] by simp
  with enc ds len R show "parse_hex s = Some h"
    by (simp add: parse_hex_def decode_hex_def from_digest_def)
qed

lemma shard_prefix_from_digest:
  assumes "length d = 32"
  shows "shard_prefix (from_digest d) =
    Some (take 2 (encode_hex d) @ lit ''/'' @ take 2 (drop 2 (encode_hex d)))"
  using assms
  by (simp add: shard_prefix_def from_digest_def slice_bytes_ascii encode_hex_ascii)

text \<open>A hash deserialised from a shorter text makes \<open>shard_prefix\<close> panic.\<close>

lemma shard_prefix_short: "shard_prefix (BlobHash (lit ''abc'')) = None"
  by (simp add: shard_prefix_def slice_bytes_def lit_def utf8_char_def numeral_eq_Suc)

section \<open>Value objects\<close>

datatype flag = Seen | Answered | Flagged | Deleted | Draft | Custom rstr

datatype connection_state =
  Disconnected | Connecting | Authenticating | Syncing | Idle | OfflineMode

datatype folder_role = Inbox | Sent | Drafts | Trash | Archive | Junk

record folder_delta =
  fd_new :: u32
  fd_total :: u64
  fd_unread :: u64

record folder_summary =
  fs_id :: folder_id
  fs_account :: account_id
  fs_remote_name :: rstr
  fs_role :: "folder_role option"
  fs_delimiter :: rstr
  fs_unread :: u64
  fs_total :: u64

record address =
  addr_name :: "rstr option"
  addr_email :: rstr

definition address_bare :: "rstr \<Rightarrow> address" where
  "address_bare e = \<lparr>addr_name = None, addr_email = e\<rparr>"

record window =
  w_offset :: u64
  w_limit :: u64

definition window_default :: window where
  "window_default = \<lparr>w_offset = 0, w_limit = 50\<rparr>"

datatype sort_field = SF_Date | SF_Subject | SF_Sender | SF_Uid
datatype sort_dir = SD_Asc | SD_Desc

record sort_spec =
  ss_field :: sort_field
  ss_dir :: sort_dir

definition sort_spec_default :: sort_spec where
  "sort_spec_default = \<lparr>ss_field = SF_Date, ss_dir = SD_Desc\<rparr>"

record message_summary =
  ms_id :: message_id
  ms_folder :: folder_id
  ms_uid :: u32
  ms_internal_date :: i64
  ms_flags :: "flag list"
  ms_subject :: "rstr option"
  ms_from :: "address option"
  ms_size :: u64
  ms_is_read :: bool
  ms_is_flagged :: bool
  ms_is_answered :: bool

record message_page =
  mp_items :: "message_summary list"
  mp_total :: u64

definition message_page_default :: message_page where
  "message_page_default = \<lparr>mp_items = [], mp_total = 0\<rparr>"

section \<open>Property\<close>

text \<open>
  C32. \<open>BlobHash::parse_hex\<close> accepts a text exactly if it consists of 64 hexadecimal digits, in
  either case, and the hash it yields is the lower-case form of the text; parsing the printed
  form of a digest gives the digest's hash back.
\<close>

theorem parse_hex_correct:
  assumes "list_all scalar s"
  shows "(parse_hex s = Some h \<longleftrightarrow>
      length s = 64 \<and> list_all hex_digit s \<and> to_hex h = map to_ascii_lowercase s)
    \<and> (length d = 32 \<longrightarrow> parse_hex (to_hex (from_digest d)) = Some (from_digest d)
        \<and> shard_prefix (from_digest d) =
            Some (take 2 (encode_hex d) @ lit ''/'' @ take 2 (drop 2 (encode_hex d))))"
  using parse_hex_iff [OF assms, of h] parse_hex_from_digest [of d] shard_prefix_from_digest [of d]
  by (cases h) auto

theorem parse_hex_correct_witness:
  "parse_hex (lit ''zz'') \<noteq> Some (BlobHash (lit ''zz''))
   \<and> parse_hex (to_hex (from_digest (replicate 32 0xab))) = Some (from_digest (replicate 32 0xab))"
  using parse_hex_correct [of "lit ''zz''" "BlobHash (lit ''zz'')" "replicate 32 0xab"]
  by (simp add: lit_def scalar_def)

end
