(* ===== verification/Errors.thy ===== *)
theory Errors
  imports RText
begin

text \<open>
  \<open>src/src/error.rs\<close>: the errors of the storage seam and of the engines, with the texts their
  \<open>Display\<close> implementations print.
\<close>

datatype store_error = NotFound rstr | BlobMissing rstr | Failed rstr

datatype sync_error =
    Store_Error store_error
  | Transport rstr
  | Tls rstr
  | CredentialsRejected
  | Sasl rstr
  | CapabilityMissing rstr
  | Protocol rstr
  | SmtpTransient u16
  | MessageRejected rstr
  | DraftInvalid rstr
  | RetryExhausted u32

fun store_error_display :: "store_error \<Rightarrow> rstr" where
  "store_error_display (NotFound s) = lit ''not found: '' @ s"
| "store_error_display (BlobMissing s) = lit ''blob missing: '' @ s"
| "store_error_display (Failed s) = lit ''storage failure: '' @ s"

fun sync_error_display :: "sync_error \<Rightarrow> rstr" where
  "sync_error_display (Store_Error e) = store_error_display e"
| "sync_error_display (Transport d) = lit ''transport: '' @ d"
| "sync_error_display (Tls d) = lit ''tls handshake: '' @ d"
| "sync_error_display CredentialsRejected = lit ''credentials rejected''"
| "sync_error_display (Sasl s) = lit ''sasl: '' @ s"
| "sync_error_display (CapabilityMissing s) = lit ''capability missing: '' @ s"
| "sync_error_display (Protocol s) = lit ''protocol: '' @ s"
| "sync_error_display (SmtpTransient c) = lit ''smtp transient '' @ dec_of c"
| "sync_error_display (MessageRejected d) = lit ''message rejected: '' @ d"
| "sync_error_display (DraftInvalid d) = lit ''draft invalid: '' @ d"
| "sync_error_display (RetryExhausted n) = lit ''retry exhausted after '' @ dec_of n @ lit '' attempts''"

type_synonym 'a sync_result = "sync_error + 'a"
type_synonym 'a store_result = "store_error + 'a"

end
