(* ===== verification/Event.thy ===== *)
theory Event
  imports Model Errors
begin

text \<open>
  \<open>src/src/event.rs\<close>: the events the engines put on the host's bus.  A \<open>Duration\<close> is its number
  of milliseconds.

  The bus is the sending end of a bounded channel.  Its state is the list of the events accepted
  so far and the number of further sends after which the receiver is gone (\<open>None\<close>: it stays);
  waiting for room in a full channel is not modelled.
\<close>

type_synonym duration = nat \<comment> \<open>milliseconds\<close>

datatype engine_event =
    AccountConnection account_id connection_state
  | MailArrived account_id folder_id folder_delta
  | MessagesChanged folder_id u32 u32 \<comment> \<open>changed, removed\<close>
  | FlagsChanged "message_id list"
  | FolderTreeChanged account_id
  | OutboxRetry outbox_id u32 duration rstr \<comment> \<open>attempt, next in, last error\<close>
  | MailSent outbox_id message_id
  | MailFailed outbox_id sync_error bool \<comment> \<open>permanent\<close>

record bus =
  bus_sent :: "engine_event list"
  bus_room :: "nat option"

text \<open>\<open>Sender::send\<close>: \<open>False\<close> is the error of a closed channel.\<close>

definition bus_send :: "engine_event \<Rightarrow> bus \<Rightarrow> bool \<times> bus" where
  "bus_send ev b =
     (case bus_room b of
        Some 0 \<Rightarrow> (False, b)
      | Some (Suc n) \<Rightarrow> (True, b\<lparr>bus_sent := bus_sent b @ [ev], bus_room := Some n\<rparr>)
      | None \<Rightarrow> (True, b\<lparr>bus_sent := bus_sent b @ [ev]\<rparr>))"

text \<open>Sending with the result ignored (\<open>let _ = ...\<close>).\<close>

definition bus_push :: "engine_event \<Rightarrow> bus \<Rightarrow> bus" where
  "bus_push ev b = snd (bus_send ev b)"

definition bus_open :: "bus \<Rightarrow> bool" where
  "bus_open b \<longleftrightarrow> bus_room b = None"

lemma bus_push_open [simp]:
  "bus_open b \<Longrightarrow> bus_sent (bus_push ev b) = bus_sent b @ [ev]"
  "bus_open (bus_push ev b) = (bus_open b)"
  by (auto simp: bus_push_def bus_send_def bus_open_def split: option.splits nat.splits)

lemma bus_push_prefix: "\<exists>evs. bus_sent (bus_push ev b) = bus_sent b @ evs \<and> set evs \<subseteq> {ev}"
  by (auto simp: bus_push_def bus_send_def split: option.splits nat.splits)

end
