(* ===== verification/Config.thy ===== *)
theory Config
  imports RText
begin

text \<open>\<open>src/src/config.rs\<close>: the tuning of the IMAP engine.\<close>

record sync_config =
  poll_interval_secs :: u64
  idle_timeout_mins :: u64
  body_prefetch_recent :: u64
  idle_poll_only_hosts :: "rstr list"

definition sync_config_default :: sync_config where
  "sync_config_default =
     \<lparr>poll_interval_secs = 120, idle_timeout_mins = 29, body_prefetch_recent = 200,
      idle_poll_only_hosts = []\<rparr>"

end
