(* ===== verification/Float64.thy ===== *)
theory Float64
  imports Complex_Main "HOL-Library.Word"
begin

text \<open>
  The \<open>f64\<close> arithmetic that \<open>backoff_for\<close> uses, on positive normal numbers: a double is the
  rational number it stands for, an operation is the exact one followed by rounding to 53 bits,
  ties to even.  Overflow, subnormal numbers and signs do not occur for the values in question.
\<close>

text \<open>The floor of the binary logarithm of a positive integer.\<close>

function ilog2 :: "int \<Rightarrow> int" where
  "ilog2 n = (if n \<le> 1 then 0 else 1 + ilog2 (n div 2))"
  by pat_completeness auto
termination
  by (relation "measure nat") auto

declare ilog2.simps [simp del]

text \<open>The exponent \<open>e\<close> with \<open>2 ^ e \<le> x < 2 ^ (e + 1)\<close>.\<close>

definition exponent :: "rat \<Rightarrow> int" where
  "exponent x = (if 1 \<le> x then ilog2 \<lfloor>x\<rfloor> else - (1 + ilog2 (\<lceil>1 / x\<rceil> - 1)))"

definition round_half_even :: "rat \<Rightarrow> int" where
  "round_half_even y =
     (let n = \<lfloor>y\<rfloor>; d = y - of_int n
      in if d < 1 / 2 \<or> (d = 1 / 2 \<and> even n) then n else n + 1)"

definition round64 :: "rat \<Rightarrow> rat" where
  "round64 x =
     (if x \<le> 0 then 0
      else let u = 2 powi (exponent x - 52) in of_int (round_half_even (x / u)) * u)"

definition f64_add :: "rat \<Rightarrow> rat \<Rightarrow> rat" where "f64_add a b = round64 (a + b)"
definition f64_sub :: "rat \<Rightarrow> rat \<Rightarrow> rat" where "f64_sub a b = round64 (a - b)"
definition f64_mul :: "rat \<Rightarrow> rat \<Rightarrow> rat" where "f64_mul a b = round64 (a * b)"
definition f64_div :: "rat \<Rightarrow> rat \<Rightarrow> rat" where "f64_div a b = round64 (a / b)"

text \<open>\<open>x as u64\<close> truncates and saturates.\<close>

definition f64_as_u64 :: "rat \<Rightarrow> 64 word" where
  "f64_as_u64 x = (if 2 ^ 64 \<le> x then - 1 else of_int \<lfloor>x\<rfloor>)"

section \<open>The exponent and the rounding error\<close>

lemma ilog2_nonneg: "0 \<le> ilog2 n"
proof (induction n rule: ilog2.induct)
  case (1 n)
  then show ?case by (subst ilog2.simps) auto
qed

lemma ilog2_numeral [simp]:
  "ilog2 1 = 0"
  "ilog2 (numeral (num.Bit0 n)) = 1 + ilog2 (numeral n)"
  "ilog2 (numeral (num.Bit1 n)) = 1 + ilog2 (numeral n)"
  by (simp_all add: ilog2.simps [of 1] ilog2.simps [of "numeral (num.Bit0 n)"]
      ilog2.simps [of "numeral (num.Bit1 n)"])

lemma ilog2_bounds: "1 \<le> n \<Longrightarrow> 2 ^ nat (ilog2 n) \<le> n \<and> n < 2 * 2 ^ nat (ilog2 n)"
proof (induction n rule: ilog2.induct)
  case (1 n)
  show ?case
  proof (cases "n \<le> 1")
    case True
    with "1.prems" have "n = 1" by simp
    then show ?thesis by (simp add: ilog2.simps)
  next
    case False
    let ?p = "2 ^ nat (ilog2 (n div 2)) :: int"
    have IH: "?p \<le> n div 2 \<and> n div 2 < 2 * ?p"
      using "1.IH" False by simp
    have "nat (ilog2 n) = Suc (nat (ilog2 (n div 2)))"
      using False ilog2_nonneg [of "n div 2"] by (subst ilog2.simps) (simp add: nat_add_distrib)
    then have "2 ^ nat (ilog2 n) = 2 * ?p" by simp
    with IH show ?thesis by linarith
  qed
qed

lemma powi_nat: "0 \<le> e \<Longrightarrow> (2::rat) powi e = of_int (2 ^ nat e)"
  by (simp add: power_int_nonneg_exp)

lemma powi_Suc: "(2::rat) powi (e + 1) = 2 * 2 powi e"
  by (simp add: power_int_add)

lemma exponent_bounds:
  assumes "0 < x"
  shows "2 powi exponent x \<le> x \<and> x < 2 powi (exponent x + 1)"
proof (cases "1 \<le> x")
  case True
  then have "1 \<le> \<lfloor>x\<rfloor>" by simp
  note B = ilog2_bounds [OF this]
  have "of_int (2 ^ nat (ilog2 \<lfloor>x\<rfloor>)) \<le> (of_int \<lfloor>x\<rfloor> :: rat)"
    using B by (subst of_int_le_iff) simp
  moreover have "(of_int \<lfloor>x\<rfloor> :: rat) + 1 \<le> of_int (2 * 2 ^ nat (ilog2 \<lfloor>x\<rfloor>))"
    using B by (metis add1_zle_eq of_int_1 of_int_add of_int_le_iff)
  moreover have "of_int \<lfloor>x\<rfloor> \<le> x" "x < of_int \<lfloor>x\<rfloor> + 1"
    by linarith+
  moreover have "of_int (2 * 2 ^ nat (ilog2 \<lfloor>x\<rfloor>)) = 2 * (of_int (2 ^ nat (ilog2 \<lfloor>x\<rfloor>)) :: rat)"
    by simp
  ultimately have "2 powi ilog2 \<lfloor>x\<rfloor> \<le> x" "x < 2 * 2 powi ilog2 \<lfloor>x\<rfloor>"
    unfolding powi_nat [OF ilog2_nonneg] by linarith+
  with True show ?thesis by (simp add: exponent_def powi_Suc)
next
  case False
  define n where "n = \<lceil>1 / x\<rceil> - 1"
  define k where "k = ilog2 n"
  have r: "1 < 1 / x" using False assms by (simp add: less_divide_eq)
  then have "1 \<le> n" unfolding n_def by linarith
  note B = ilog2_bounds [OF this, folded k_def]
  have k0: "0 \<le> k" unfolding k_def by (rule ilog2_nonneg)
  have c: "1 / x \<le> of_int n + 1" "of_int n < 1 / x"
    unfolding n_def by linarith+
  have "(of_int n :: rat) + 1 \<le> of_int (2 * 2 ^ nat k)"
    using B by (metis add1_zle_eq of_int_1 of_int_add of_int_le_iff)
  then have up: "1 / x \<le> 2 * 2 powi k" using c k0 by (simp add: powi_nat)
  have "of_int (2 ^ nat k) \<le> (of_int n :: rat)"
    using B by (subst of_int_le_iff) simp
  then have lo: "2 powi k < 1 / x"
    unfolding powi_nat [OF k0] using c(2) by (rule le_less_trans)
  have e: "exponent x = - (k + 1)" using False by (simp add: exponent_def n_def k_def)
  have p: "0 < (2::rat) powi k" by simp
  have "2 powi (- (k + 1)) = 1 / (2 * (2::rat) powi k)"
    by (simp only: power_int_minus_divide powi_Suc)
  moreover have "1 / (2 * 2 powi k) \<le> x"
    using up p assms by (simp add: divide_le_eq field_simps)
  moreover have "2 powi (- (k + 1) + 1) = 1 / (2::rat) powi k"
    by (simp add: power_int_minus_divide)
  moreover have "x < 1 / 2 powi k"
    using lo p assms by (simp add: field_simps)
  ultimately show ?thesis unfolding e by simp
qed

lemma exponent_unique:
  assumes "2 powi e \<le> x" "x < 2 powi (e + 1)"
  shows "exponent x = e"
proof -
  have x: "0 < x" using assms(1) by (rule less_le_trans [rotated]) simp
  note B = exponent_bounds [OF x]
  have "(2::rat) powi e < 2 powi (exponent x + 1)" "(2::rat) powi exponent x < 2 powi (e + 1)"
    using assms B by (blast intro: le_less_trans)+
  then have "\<not> exponent x + 1 \<le> e" "\<not> e + 1 \<le> exponent x"
    using power_int_increasing [of _ _ "2::rat"] by (force simp: not_le)+
  then show ?thesis by simp
qed

lemma round_half_even_near: "\<bar>of_int (round_half_even y) - y\<bar> \<le> 1 / 2"
proof -
  have "of_int \<lfloor>y\<rfloor> \<le> y" "y < of_int \<lfloor>y\<rfloor> + 1" by linarith+
  then show ?thesis by (simp add: round_half_even_def Let_def abs_le_iff)
qed

text \<open>Rounding is within half a unit in the last place.\<close>

lemma round64_near:
  assumes "0 < x"
  shows "\<bar>round64 x - x\<bar> \<le> 2 powi (exponent x - 52) / 2"
proof -
  define u where "u = (2::rat) powi (exponent x - 52)"
  have u: "0 < u" by (simp add: u_def)
  have "\<bar>of_int (round_half_even (x / u)) - x / u\<bar> * u \<le> 1 / 2 * u"
    using round_half_even_near [of "x / u"] u by (intro mult_right_mono) auto
  also have "\<bar>of_int (round_half_even (x / u)) - x / u\<bar> * u =
               \<bar>of_int (round_half_even (x / u)) * u - x\<bar>"
    using u by (simp add: abs_mult_pos left_diff_distrib)
  finally show ?thesis
    using assms by (simp add: round64_def u_def [symmetric] Let_def)
qed

section \<open>Rounding with integer arithmetic\<close>

definition rhe_div :: "int \<Rightarrow> int \<Rightarrow> int" where
  "rhe_div p q =
     (let d = p div q; r = p mod q in if 2 * r < q \<or> (2 * r = q \<and> even d) then d else d + 1)"

lemma round_half_even_div: "0 < q \<Longrightarrow> round_half_even (of_int p / of_int q) = rhe_div p q"
proof -
  assume q: "0 < q"
  have fl: "\<lfloor>(of_int p / of_int q :: rat)\<rfloor> = p div q" by (rule floor_divide_of_int_eq)
  have "(of_int p :: rat) = of_int (p div q) * of_int q + of_int (p mod q)"
    by (metis div_mult_mod_eq of_int_add of_int_mult)
  then have d: "of_int p / of_int q - (of_int (p div q) :: rat) = of_int (p mod q) / of_int q"
    using q by (simp add: field_simps)
  have q': "(0::rat) < of_int q" using q by simp
  have "(of_int (p mod q) / of_int q < (1 / 2 :: rat)) = (2 * of_int (p mod q) < (of_int q :: rat))"
    using q' by (simp add: divide_less_eq mult.commute)
  also have "\<dots> = (2 * (p mod q) < q)"
    by (metis of_int_less_iff of_int_mult of_int_numeral)
  finally have "(of_int (p mod q) / of_int q < (1 / 2 :: rat)) = (2 * (p mod q) < q)" .
  moreover
  have "(of_int (p mod q) / of_int q = (1 / 2 :: rat)) = (2 * of_int (p mod q) = (of_int q :: rat))"
    using q' by (auto simp add: divide_eq_eq)
  then have "(of_int (p mod q) / of_int q = (1 / 2 :: rat)) = (2 * (p mod q) = q)"
    by (metis of_int_eq_iff of_int_mult of_int_numeral)
  ultimately show ?thesis
    by (simp only: round_half_even_def rhe_div_def Let_def fl d)
qed

definition dy_round :: "int \<Rightarrow> int" where
  "dy_round n = (let s = nat (ilog2 n - 52) in rhe_div n (2 ^ s) * 2 ^ s)"

text \<open>A dyadic fraction with enough digits in its numerator.\<close>

lemma round64_dyadic:
  assumes "1 \<le> n" "52 \<le> ilog2 n"
  shows "round64 (of_int n / 2 ^ t) = of_int (dy_round n) / 2 ^ t"
proof -
  define l where "l = ilog2 n"
  define s where "s = nat (l - 52)"
  have B: "2 ^ nat l \<le> n" "n < 2 * 2 ^ nat l"
    using ilog2_bounds [OF assms(1)] by (simp_all add: l_def)
  have Br: "(2::rat) ^ nat l \<le> of_int n" "of_int n < (2::rat) * 2 ^ nat l"
    using B by (metis of_int_le_iff of_int_numeral of_int_power,
        metis (mono_tags) of_int_less_iff of_int_mult of_int_numeral of_int_power)
  have l52: "52 \<le> l" using assms(2) by (simp add: l_def)
  have pw: "(2::rat) powi (l - int t) = 2 ^ nat l / 2 ^ t"
    using l52 by (simp add: power_int_diff powi_nat)
  have e: "exponent (of_int n / 2 ^ t) = l - int t"
    by (rule exponent_unique) (use Br in \<open>simp_all only: powi_Suc pw, simp_all add: divide_simps\<close>)
  have u: "(2::rat) powi (l - int t - 52) = 2 ^ s / 2 ^ t"
  proof -
    have "l - int t - 52 = int s - int t" using l52 by (simp add: s_def)
    then have "(2::rat) powi (l - int t - 52) = 2 powi (int s - int t)" by (rule arg_cong)
    also have "\<dots> = 2 powi int s / 2 powi int t" by (rule power_int_diff) simp
    finally show ?thesis by (simp only: power_int_of_nat)
  qed
  have q: "of_int n / 2 ^ t / (2 ^ s / 2 ^ t) = (of_int n / of_int (2 ^ s) :: rat)"
    by simp
  have pos: "\<not> of_int n / 2 ^ t \<le> (0::rat)"
    using assms(1) by (simp add: not_le)
  have "round_half_even (of_int n / of_int (2 ^ s)) = rhe_div n (2 ^ s)"
    by (rule round_half_even_div) simp
  with pos have "round64 (of_int n / 2 ^ t) = of_int (rhe_div n (2 ^ s)) * (2 ^ s / 2 ^ t)"
    unfolding round64_def e u Let_def q by simp
  then show ?thesis
    by (simp add: dy_round_def l_def [symmetric] s_def [symmetric])
qed

text \<open>A quotient below 1 whose exponent is \<open>- s\<close>.\<close>

lemma round64_quotient:
  assumes "0 < p" "0 < q" "q \<le> p * 2 ^ s" "p * 2 ^ s < 2 * q"
  shows "round64 (of_int p / of_int q) = of_int (rhe_div (p * 2 ^ (52 + s)) q) / 2 ^ (52 + s)"
proof -
  have R: "(of_int q :: rat) \<le> of_int p * 2 ^ s" "of_int p * 2 ^ s < 2 * (of_int q :: rat)"
    using assms(3,4)
    by (metis (mono_tags) of_int_le_iff of_int_mult of_int_numeral of_int_power,
        metis (mono_tags) of_int_less_iff of_int_mult of_int_numeral of_int_power)
  have pw: "(2::rat) powi (- int s) = 1 / 2 ^ s"
    by (simp add: power_int_minus_divide)
  have e: "exponent (of_int p / of_int q) = - int s"
    by (rule exponent_unique)
      (use R assms(2) in \<open>simp_all only: powi_Suc pw, simp_all add: field_simps\<close>)
  have u: "(2::rat) powi (- int s - 52) = 1 / 2 ^ (52 + s)"
  proof -
    have "- int s - 52 = - int (52 + s)" by simp
    then show ?thesis by (simp only: power_int_minus_divide power_int_of_nat)
  qed
  have q: "of_int p / of_int q / (1 / 2 ^ (52 + s)) = (of_int (p * 2 ^ (52 + s)) / of_int q :: rat)"
    by simp
  have pos: "\<not> of_int p / of_int q \<le> (0::rat)"
    using assms(1,2) by (simp add: not_le)
  have "round_half_even (of_int (p * 2 ^ (52 + s)) / of_int q) = rhe_div (p * 2 ^ (52 + s)) q"
    using assms(2) by (rule round_half_even_div)
  with pos show ?thesis
    unfolding round64_def e u Let_def q by simp
qed

end
