(* ===== verification/Backoff.thy ===== *)
theory Backoff
  imports Prelude Float64
begin

text \<open>
  The retry schedule of \<open>src/src/outbox_service.rs\<close>: the table \<open>BACKOFF_SCHEDULE_MS\<close>, the retry
  budget, and \<open>backoff_for\<close> with its floating-point jitter.
\<close>

definition backoff_schedule_ms :: "u64 list" where
  "backoff_schedule_ms =
     [30000, 120000, 480000, 1800000, 7200000, 21600000, 21600000, 21600000, 21600000,
      21600000, 21600000, 21600000]"

definition max_retry_attempts :: u32 where
  "max_retry_attempts = 12"

definition saturating_sub :: "'a::len word \<Rightarrow> 'a word \<Rightarrow> 'a word" where
  "saturating_sub a b = (if b \<le> a then a - b else 0)"

text \<open>The literal \<open>0.2\<close> is the double nearest to one fifth.\<close>

definition jitter :: "u32 \<Rightarrow> rat" where
  "jitter k = f64_sub (f64_add 1 (f64_div (of_int (uint k)) 25)) (f64_div 1 5)"

text \<open>The wait in milliseconds.\<close>

definition backoff_for :: "u32 \<Rightarrow> nat" where
  "backoff_for retry_count =
     (let idx = unat (saturating_sub retry_count 1) mod length backoff_schedule_ms;
          base = backoff_schedule_ms ! idx
      in unat (f64_as_u64 (f64_mul (of_int (uint base)) (jitter (retry_count mod 10)))))"

section \<open>The schedule in integer arithmetic\<close>

text \<open>
  The intermediate doubles as numerators over \<open>2 ^ 57\<close>: \<open>k / 25\<close> (whose exponent is \<open>- s\<close>),
  \<open>1 + k / 25\<close>, the literal \<open>0.2\<close>, and the jitter.
\<close>

definition quot_num :: "int \<Rightarrow> nat \<Rightarrow> int" where
  "quot_num k s = rhe_div (k * 2 ^ (52 + s)) 25 * 2 ^ (5 - s)"

definition sum_num :: "int \<Rightarrow> nat \<Rightarrow> int" where
  "sum_num k s = dy_round (2 ^ 57 + quot_num k s)"

definition fifth_num :: int where
  "fifth_num = rhe_div (2 ^ 55) 5 * 4"

definition jitter_num :: "int \<Rightarrow> nat \<Rightarrow> int" where
  "jitter_num k s = dy_round (sum_num k s - fifth_num)"

text \<open>The side conditions of the rounding lemmas, and the closed form of the wait.\<close>

definition wide :: "int \<Rightarrow> bool" where
  "wide n \<longleftrightarrow> 1 \<le> n \<and> 52 \<le> ilog2 n"

definition jitter_ok :: "int \<Rightarrow> nat \<Rightarrow> bool" where
  "jitter_ok k s \<longleftrightarrow>
     s \<le> 5 \<and> (k = 0 \<or> (0 < k \<and> 25 \<le> k * 2 ^ s \<and> k * 2 ^ s < 50))
     \<and> wide (2 ^ 57 + quot_num k s) \<and> wide (sum_num k s - fifth_num)"

definition backoff_exact :: "int \<Rightarrow> int \<Rightarrow> int" where
  "backoff_exact base k =
     base * (20 + k) div 25 - (if k = 9 \<and> (base = 1800000 \<or> base = 7200000) then 1 else 0)"

definition entry_ok :: "int \<Rightarrow> int \<times> nat \<Rightarrow> bool" where
  "entry_ok base ks \<longleftrightarrow>
     (case ks of (k, s) \<Rightarrow>
        let n = base * jitter_num k s; w = dy_round n div 2 ^ 57
        in wide n \<and> w = backoff_exact base k \<and> 0 \<le> w \<and> w < 2 ^ 60)"

definition jitter_table :: "(int \<times> nat) list" where
  "jitter_table = [(0, 5), (1, 5), (2, 4), (3, 4), (4, 3), (5, 3), (6, 3), (7, 2), (8, 2), (9, 2)]"

definition base_table :: "int list" where
  "base_table = [30000, 120000, 480000, 1800000, 7200000, 21600000]"

text \<open>The intermediate values, stage by stage.\<close>

lemma fifth_val: "fifth_num = 28823037615171176"
  by (simp add: fifth_num_def rhe_div_def)

lemma quot_vals:
  "quot_num 0 5 = 0" "quot_num 1 5 = 5764607523034235"
  "quot_num 2 4 = 11529215046068470" "quot_num 3 4 = 17293822569102704"
  "quot_num 4 3 = 23058430092136940" "quot_num 5 3 = 28823037615171176"
  "quot_num 6 3 = 34587645138205408" "quot_num 7 2 = 40352252661239648"
  "quot_num 8 2 = 46116860184273880" "quot_num 9 2 = 51881467707308112"
  by (simp_all add: quot_num_def rhe_div_def)

lemma sum_vals:
  "sum_num 0 5 = 144115188075855872" "sum_num 1 5 = 149879795598890112"
  "sum_num 2 4 = 155644403121924352" "sum_num 3 4 = 161409010644958592"
  "sum_num 4 3 = 167173618167992800" "sum_num 5 3 = 172938225691027040"
  "sum_num 6 3 = 178702833214061280" "sum_num 7 2 = 184467440737095520"
  "sum_num 8 2 = 190232048260129760" "sum_num 9 2 = 195996655783163968"
  by (simp_all add: sum_num_def quot_vals dy_round_def rhe_div_def)

lemma jitter_vals:
  "jitter_num 0 5 = 115292150460684704" "jitter_num 1 5 = 121056757983718944"
  "jitter_num 2 4 = 126821365506753184" "jitter_num 3 4 = 132585973029787424"
  "jitter_num 4 3 = 138350580552821632" "jitter_num 5 3 = 144115188075855872"
  "jitter_num 6 3 = 149879795598890112" "jitter_num 7 2 = 155644403121924352"
  "jitter_num 8 2 = 161409010644958592" "jitter_num 9 2 = 167173618167992800"
  by (simp_all add: jitter_num_def sum_vals fifth_val dy_round_def rhe_div_def)

lemma jitter_table_ok: "list_all (\<lambda>(k, s). jitter_ok k s) jitter_table"
  by (simp add: jitter_table_def jitter_ok_def wide_def quot_vals sum_vals fifth_val)

text \<open>The rounded products of the six bases with the ten jitter values.\<close>

lemma dy_30000:
  "dy_round 3458764513820541120000 = 3458764513820540928000"
  "dy_round 3631702739511568320000 = 3631702739511568498688"
  "dy_round 3804640965202595520000 = 3804640965202595545088"
  "dy_round 3977579190893622720000 = 3977579190893622591488"
  "dy_round 4150517416584648960000 = 4150517416584649113600"
  "dy_round 4323455642275676160000 = 4323455642275676160000"
  "dy_round 4496393867966703360000 = 4496393867966703206400"
  "dy_round 4669332093657730560000 = 4669332093657730777088"
  "dy_round 4842270319348757760000 = 4842270319348757299200"
  "dy_round 5015208545039784000000 = 5015208545039784345600"
  by (simp_all add: dy_round_def rhe_div_def)

lemma entry_30000: "list_all (entry_ok 30000) jitter_table"
  by (simp add: jitter_table_def entry_ok_def jitter_vals dy_30000 wide_def backoff_exact_def)

lemma dy_120000:
  "dy_round 13835058055282164480000 = 13835058055282163712000"
  "dy_round 14526810958046273280000 = 14526810958046273994752"
  "dy_round 15218563860810382080000 = 15218563860810382180352"
  "dy_round 15910316763574490880000 = 15910316763574490365952"
  "dy_round 16602069666338595840000 = 16602069666338596454400"
  "dy_round 17293822569102704640000 = 17293822569102704640000"
  "dy_round 17985575471866813440000 = 17985575471866812825600"
  "dy_round 18677328374630922240000 = 18677328374630923108352"
  "dy_round 19369081277395031040000 = 19369081277395029196800"
  "dy_round 20060834180159136000000 = 20060834180159137382400"
  by (simp_all add: dy_round_def rhe_div_def)

lemma entry_120000: "list_all (entry_ok 120000) jitter_table"
  by (simp add: jitter_table_def entry_ok_def jitter_vals dy_120000 wide_def backoff_exact_def)

lemma dy_480000:
  "dy_round 55340232221128657920000 = 55340232221128654848000"
  "dy_round 58107243832185093120000 = 58107243832185095979008"
  "dy_round 60874255443241528320000 = 60874255443241528721408"
  "dy_round 63641267054297963520000 = 63641267054297961463808"
  "dy_round 66408278665354383360000 = 66408278665354385817600"
  "dy_round 69175290276410818560000 = 69175290276410818560000"
  "dy_round 71942301887467253760000 = 71942301887467251302400"
  "dy_round 74709313498523688960000 = 74709313498523692433408"
  "dy_round 77476325109580124160000 = 77476325109580116787200"
  "dy_round 80243336720636544000000 = 80243336720636549529600"
  by (simp_all add: dy_round_def rhe_div_def)

lemma entry_480000: "list_all (entry_ok 480000) jitter_table"
  by (simp add: jitter_table_def entry_ok_def jitter_vals dy_480000 wide_def backoff_exact_def)

lemma dy_1800000:
  "dy_round 207525870829232467200000 = 207525870829232455680000"
  "dy_round 217902164370694099200000 = 217902164370694112018432"
  "dy_round 228278457912155731200000 = 228278457912155734802432"
  "dy_round 238654751453617363200000 = 238654751453617357586432"
  "dy_round 249031044995078937600000 = 249031044995078946816000"
  "dy_round 259407338536540569600000 = 259407338536540569600000"
  "dy_round 269783632078002201600000 = 269783632078002192384000"
  "dy_round 280159925619463833600000 = 280159925619463848722432"
  "dy_round 290536219160925465600000 = 290536219160925471506432"
  "dy_round 300912512702387040000000 = 300912512702387027181568"
  by (simp_all add: dy_round_def rhe_div_def)

lemma entry_1800000: "list_all (entry_ok 1800000) jitter_table"
  by (simp add: jitter_table_def entry_ok_def jitter_vals dy_1800000 wide_def backoff_exact_def)

lemma dy_7200000:
  "dy_round 830103483316929868800000 = 830103483316929822720000"
  "dy_round 871608657482776396800000 = 871608657482776448073728"
  "dy_round 913113831648622924800000 = 913113831648622939209728"
  "dy_round 954619005814469452800000 = 954619005814469430345728"
  "dy_round 996124179980315750400000 = 996124179980315787264000"
  "dy_round 1037629354146162278400000 = 1037629354146162278400000"
  "dy_round 1079134528312008806400000 = 1079134528312008769536000"
  "dy_round 1120639702477855334400000 = 1120639702477855394889728"
  "dy_round 1162144876643701862400000 = 1162144876643701886025728"
  "dy_round 1203650050809548160000000 = 1203650050809548108726272"
  by (simp_all add: dy_round_def rhe_div_def)

lemma entry_7200000: "list_all (entry_ok 7200000) jitter_table"
  by (simp add: jitter_table_def entry_ok_def jitter_vals dy_7200000 wide_def backoff_exact_def)

lemma dy_21600000:
  "dy_round 2490310449950789606400000 = 2490310449950789468160000"
  "dy_round 2614825972448329190400000 = 2614825972448328941568000"
  "dy_round 2739341494945868774400000 = 2739341494945868951846912"
  "dy_round 2863857017443408358400000 = 2863857017443408425254912"
  "dy_round 2988372539940947251200000 = 2988372539940947361792000"
  "dy_round 3112888062438486835200000 = 3112888062438486835200000"
  "dy_round 3237403584936026419200000 = 3237403584936026308608000"
  "dy_round 3361919107433566003200000 = 3361919107433565782016000"
  "dy_round 3486434629931105587200000 = 3486434629931105792294912"
  "dy_round 3610950152428644480000000 = 3610950152428644728832000"
  by (simp_all add: dy_round_def rhe_div_def)

lemma entry_21600000: "list_all (entry_ok 21600000) jitter_table"
  by (simp add: jitter_table_def entry_ok_def jitter_vals dy_21600000 wide_def backoff_exact_def)

lemma entry_table_ok: "list_all (\<lambda>b. list_all (entry_ok b) jitter_table) base_table"
  using entry_30000 entry_120000 entry_480000 entry_1800000 entry_7200000 entry_21600000
  by (simp add: base_table_def)

lemma fifth: "f64_div 1 5 = of_int fifth_num / 2 ^ 57"
proof -
  have "f64_div 1 5 = of_int (rhe_div (1 * 2 ^ (52 + 3)) 5) / 2 ^ (52 + 3)"
    using round64_quotient [of 1 5 3] by (simp add: f64_div_def)
  then show ?thesis by (simp add: fifth_num_def)
qed

lemma quotient:
  assumes "jitter_ok k s"
  shows "f64_div (of_int k) 25 = of_int (quot_num k s) / 2 ^ 57"
proof (cases "k = 0")
  case True
  then show ?thesis by (simp add: f64_div_def round64_def quot_num_def rhe_div_def)
next
  case False
  then have c: "0 < k" "25 \<le> k * 2 ^ s" "k * 2 ^ s < 2 * 25" "s \<le> 5"
    using assms by (auto simp: jitter_ok_def)
  have "f64_div (of_int k) 25 = of_int (rhe_div (k * 2 ^ (52 + s)) 25) / 2 ^ (52 + s)"
    using round64_quotient [OF c(1) _ c(2,3)] by (simp add: f64_div_def)
  moreover have "(2::rat) ^ 57 = 2 ^ (52 + s) * 2 ^ (5 - s)"
    using c(4) by (simp flip: power_add)
  moreover have "of_int (quot_num k s) / (2 ^ (52 + s) * 2 ^ (5 - s)) =
      (of_int (rhe_div (k * 2 ^ (52 + s)) 25) / 2 ^ (52 + s) :: rat)"
    by (simp add: quot_num_def del: power_add)
  ultimately show ?thesis by (simp only:)
qed

lemma jitter_eq:
  assumes ok: "jitter_ok (uint k) s"
  shows "jitter k = of_int (jitter_num (uint k) s) / 2 ^ 57"
proof -
  have w: "wide (2 ^ 57 + quot_num (uint k) s)" "wide (sum_num (uint k) s - fifth_num)"
    using ok by (auto simp: jitter_ok_def)
  have "1 + of_int (quot_num (uint k) s) / 2 ^ 57 = (of_int (2 ^ 57 + quot_num (uint k) s) / 2 ^ 57 :: rat)"
    by (simp add: add_divide_distrib)
  then have sum: "f64_add 1 (f64_div (of_int (uint k)) 25) = of_int (sum_num (uint k) s) / 2 ^ 57"
    using w(1) round64_dyadic by (simp only: f64_add_def quotient [OF ok] sum_num_def wide_def)
  have "of_int (sum_num (uint k) s) / 2 ^ 57 - of_int fifth_num / 2 ^ 57 =
          (of_int (sum_num (uint k) s - fifth_num) / 2 ^ 57 :: rat)"
    by (simp add: diff_divide_distrib)
  then show ?thesis
    using w(2) round64_dyadic by (simp only: jitter_def f64_sub_def sum fifth jitter_num_def wide_def)
qed

lemma product_eq:
  assumes "jitter_ok (uint k) s" "entry_ok base (uint k, s)"
  shows "f64_as_u64 (f64_mul (of_int base) (jitter k)) = of_int (backoff_exact base (uint k))"
    and "0 \<le> backoff_exact base (uint k)" "backoff_exact base (uint k) < 2 ^ 60"
proof -
  define n where "n = base * jitter_num (uint k) s"
  have w: "wide n" and e: "dy_round n div 2 ^ 57 = backoff_exact base (uint k)"
    and b: "0 \<le> backoff_exact base (uint k)" "backoff_exact base (uint k) < 2 ^ 60"
    using assms(2) by (auto simp: entry_ok_def Let_def n_def)
  show "0 \<le> backoff_exact base (uint k)" "backoff_exact base (uint k) < 2 ^ 60"
    by (rule b)+
  have "of_int base * jitter k = of_int n / 2 ^ 57"
    by (simp add: jitter_eq [OF assms(1)] n_def)
  then have m: "f64_mul (of_int base) (jitter k) = of_int (dy_round n) / 2 ^ 57"
    using w round64_dyadic by (simp only: f64_mul_def wide_def)
  have fl: "\<lfloor>(of_int (dy_round n) / 2 ^ 57 :: rat)\<rfloor> = backoff_exact base (uint k)"
    using floor_divide_of_int_eq [of "dy_round n" "2 ^ 57", where ?'a = rat] e by simp
  then have "\<lfloor>(of_int (dy_round n) / 2 ^ 57 :: rat)\<rfloor> < 2 ^ 64"
    using b(2) by simp
  then have "(of_int (dy_round n) / 2 ^ 57 :: rat) < 2 ^ 64"
    by (simp add: floor_less_iff)
  then show "f64_as_u64 (f64_mul (of_int base) (jitter k)) = of_int (backoff_exact base (uint k))"
    unfolding m f64_as_u64_def fl by (simp only: not_le [symmetric] if_False)
qed

text \<open>The base of the schedule that an attempt uses.\<close>

definition backoff_base :: "u32 \<Rightarrow> int" where
  "backoff_base r =
     uint (backoff_schedule_ms ! (unat (saturating_sub r 1) mod length backoff_schedule_ms))"

lemma schedule_base: "i < 12 \<Longrightarrow> uint (backoff_schedule_ms ! i) \<in> set base_table"
proof -
  assume "i < 12"
  then have "backoff_schedule_ms ! i \<in> set backoff_schedule_ms"
    by (intro nth_mem) (simp add: backoff_schedule_ms_def)
  then show ?thesis by (auto simp: backoff_schedule_ms_def base_table_def)
qed

lemma backoff_base_in: "backoff_base r \<in> set base_table"
  unfolding backoff_base_def by (rule schedule_base) (simp add: backoff_schedule_ms_def)

lemma jitter_table_cover: "0 \<le> k \<Longrightarrow> k < 10 \<Longrightarrow> \<exists>s. (k, s) \<in> set jitter_table"
  by (simp add: jitter_table_def) presburger

lemma backoff_for_eq:
  "int (backoff_for r) = backoff_exact (backoff_base r) (uint r mod 10)"
  "backoff_for r < 2 ^ 60"
proof -
  have k: "uint (r mod 10) = uint r mod 10" by (simp add: uint_mod_distrib)
  obtain s where s: "(uint (r mod 10), s) \<in> set jitter_table"
    using jitter_table_cover [of "uint (r mod 10)"] k by auto
  have j: "jitter_ok (uint (r mod 10)) s"
    using jitter_table_ok s by (auto simp: list_all_iff)
  have e: "entry_ok (backoff_base r) (uint (r mod 10), s)"
    using entry_table_ok backoff_base_in s by (auto simp: list_all_iff)
  note P = product_eq [OF j e]
  have eq: "backoff_for r = unat (of_int (backoff_exact (backoff_base r) (uint r mod 10)) :: u64)"
    using P(1) by (simp add: backoff_for_def Let_def backoff_base_def k)
  have "uint (of_int (backoff_exact (backoff_base r) (uint r mod 10)) :: u64) =
          backoff_exact (backoff_base r) (uint r mod 10)"
    using P(2,3) unfolding k by (simp add: uint_word_of_int)
  then show "int (backoff_for r) = backoff_exact (backoff_base r) (uint r mod 10)"
    unfolding eq by simp
  with P(3) have "int (backoff_for r) < 2 ^ 60"
    unfolding k by simp
  then show "backoff_for r < 2 ^ 60" by simp
qed

section \<open>Properties\<close>

text \<open>
  C34. The wait before attempt \<open>r\<close>, computed by the code in floating point, is in exact integer
  arithmetic the schedule's entry \<open>(r - 1) mod 12\<close> times \<open>(20 + r mod 10) / 25\<close>, rounded down,
  one millisecond less in exactly two residues; it is positive and stays between 80% and 116% of
  the entry.
\<close>

theorem backoff_closed_form:
  "int (backoff_for r) = backoff_exact (backoff_base r) (uint r mod 10)
   \<and> 0 < backoff_for r
   \<and> 80 * backoff_base r \<le> 100 * int (backoff_for r)
   \<and> 100 * int (backoff_for r) \<le> 116 * backoff_base r"
proof -
  have k: "uint r mod 10 \<in> {0..9}" by simp
  have "\<forall>b \<in> set base_table. \<forall>k \<in> {0..9}.
      0 < backoff_exact b k \<and> 80 * b \<le> 100 * backoff_exact b k \<and> 100 * backoff_exact b k \<le> 116 * b"
    unfolding base_table_def by (simp add: atLeastAtMost_insertL [symmetric] backoff_exact_def)
  with k backoff_base_in [of r] have
    "0 < backoff_exact (backoff_base r) (uint r mod 10)
     \<and> 80 * backoff_base r \<le> 100 * backoff_exact (backoff_base r) (uint r mod 10)
     \<and> 100 * backoff_exact (backoff_base r) (uint r mod 10) \<le> 116 * backoff_base r"
    by blast
  then show ?thesis by (simp flip: backoff_for_eq(1))
qed

text \<open>
  The schedule wraps: attempt 13 waits from the 30 second entry again, less than attempt 12,
  so the waits are not monotone in the attempt.
\<close>

lemma backoff_wraps:
  assumes "1 \<le> r" and "unat r + 12 < 2 ^ 32"
  shows "backoff_base (r + 12) = backoff_base r \<and> backoff_for 13 < backoff_for 12"
proof -
  have one: "1 \<le> unat r" using assms(1) by (simp add: word_le_nat_alt)
  have u: "unat (r + 12) = unat r + 12"
    using assms(2) by (subst unat_add_lem [THEN iffD1]) simp_all
  have s: "unat (saturating_sub x 1) = unat x - 1" if "1 \<le> unat x" for x :: u32
    using that by (simp add: saturating_sub_def word_le_nat_alt unat_sub)
  have l: "length backoff_schedule_ms = 12" by (simp add: backoff_schedule_ms_def)
  have "unat r + 12 - 1 = unat r - 1 + 12" using one by simp
  then have "(unat r + 12 - 1) mod 12 = (unat r - 1) mod 12" by (metis mod_add_self2)
  then have "backoff_base (r + 12) = backoff_base r"
    using one by (simp only: backoff_base_def l s u le_add2 trans_le_add1)
  moreover have "int (backoff_for 13) = 27600" "int (backoff_for 12) = 19008000"
    by (simp_all add: backoff_for_eq(1) backoff_base_def s backoff_schedule_ms_def backoff_exact_def)
  ultimately show ?thesis by linarith
qed

end
