(* ===== verification/Store.thy ===== *)
theory Store
  imports Model Errors
begin

text \<open>
  \<open>src/src/store.rs\<close>: the storage vocabulary and the storage seam.  The trait \<open>MailStore\<close> is a
  record of operations on the host's storage state \<open>'s\<close>; \<open>'p\<close> is the host's parsed-message
  type.  The engines take such a record as an argument and never look into \<open>'s\<close>.

  The contract that the method comments of the trait state is the locale \<open>mail_store\<close>.
\<close>

section \<open>Storage records\<close>

record new_folder =
  nf_account :: account_id
  nf_remote_name :: rstr
  nf_attributes :: "rstr list"
  nf_role :: "folder_role option"
  nf_delimiter :: rstr
  nf_uid_validity :: u32
  nf_highest_modseq :: u64

record folder_row =
  fr_id :: folder_id
  fr_account :: account_id
  fr_remote_name :: rstr
  fr_attributes :: "rstr list"
  fr_role :: "folder_role option"
  fr_delimiter :: rstr
  fr_uid_validity :: u32
  fr_highest_modseq :: u64

record 'p ingest_message =
  im_folder :: folder_id
  im_uid :: u32
  im_internal_date :: i64
  im_flags :: "flag list"
  im_parsed :: 'p
  im_raw_blob :: "blob_hash option"
  im_raw_size :: u64

record ingest_stats =
  is_inserted :: u64
  is_updated :: u64

record outbox_envelope =
  oe_from :: address
  oe_to :: "address list"
  oe_cc :: "address list"
  oe_bcc :: "address list"
  oe_subject :: rstr

record outbox_row =
  or_id :: outbox_id
  or_account :: account_id
  or_raw_blob :: blob_hash
  or_envelope :: outbox_envelope
  or_retry_count :: u32
  or_last_error :: "rstr option"
  or_created_at :: i64

section \<open>The MailStore trait\<close>

record ('s, 'p) mail_store_ops =
  upsert_folder :: "new_folder \<Rightarrow> 's \<Rightarrow> folder_id store_result \<times> 's"
  list_folders :: "account_id \<Rightarrow> 's \<Rightarrow> folder_summary list store_result \<times> 's"
  get_folder :: "folder_id \<Rightarrow> 's \<Rightarrow> folder_row store_result \<times> 's"
  ingest_batch :: "'p ingest_message list \<Rightarrow> 's \<Rightarrow> ingest_stats store_result \<times> 's"
  list_messages :: "folder_id \<Rightarrow> window \<Rightarrow> sort_spec \<Rightarrow> 's \<Rightarrow> message_page store_result \<times> 's"
  purge_folder :: "folder_id \<Rightarrow> 's \<Rightarrow> u64 store_result \<times> 's"
  update_sync_cursors :: "folder_id \<Rightarrow> u32 \<Rightarrow> u64 option \<Rightarrow> 's \<Rightarrow> unit store_result \<times> 's"
  max_uid :: "folder_id \<Rightarrow> 's \<Rightarrow> u32 option store_result \<times> 's"
  outbox_due :: "'s \<Rightarrow> outbox_row list store_result \<times> 's"
  outbox_mark_retry :: "outbox_id \<Rightarrow> u32 \<Rightarrow> i64 \<Rightarrow> rstr \<Rightarrow> 's \<Rightarrow> unit store_result \<times> 's"
  outbox_mark_sent :: "outbox_id \<Rightarrow> i64 \<Rightarrow> 's \<Rightarrow> unit store_result \<times> 's"
  read_blob :: "blob_hash \<Rightarrow> 's \<Rightarrow> u8 list store_result \<times> 's"
  write_blob :: "u8 list \<Rightarrow> 's \<Rightarrow> blob_hash store_result \<times> 's"
  set_account_state :: "account_id \<Rightarrow> connection_state \<Rightarrow> 's \<Rightarrow> unit store_result \<times> 's"

section \<open>The contract of the folder operations\<close>

text \<open>
  \<open>uids s f\<close> is the set of message UIDs that folder \<open>f\<close> holds in state \<open>s\<close>, \<open>cursors s f\<close> its
  pair of sync cursors (\<open>None\<close>: no such folder).  A store may fail; a failed operation is required
  to leave both views and the invariant alone.
\<close>

locale mail_store =
  fixes ops :: "('s, 'p) mail_store_ops"
    and invar :: "'s \<Rightarrow> bool"
    and uids :: "'s \<Rightarrow> folder_id \<Rightarrow> u32 set"
    and cursors :: "'s \<Rightarrow> folder_id \<Rightarrow> (u32 \<times> u64) option"
  assumes purge_ok: "invar s \<Longrightarrow> purge_folder ops f s = (Inr n, s') \<Longrightarrow>
      invar s' \<and> uids s' = (uids s)(f := {}) \<and> cursors s' = cursors s"
    and purge_err: "invar s \<Longrightarrow> purge_folder ops f s = (Inl e, s') \<Longrightarrow>
      invar s' \<and> uids s' = uids s \<and> cursors s' = cursors s"
    and cursors_ok: "invar s \<Longrightarrow> update_sync_cursors ops f v q s = (Inr (), s') \<Longrightarrow>
      invar s' \<and> uids s' = uids s \<and>
      (\<exists>v0 q0. cursors s f = Some (v0, q0) \<and>
         cursors s' = (cursors s)(f := Some (v, case q of None \<Rightarrow> q0 | Some m \<Rightarrow> m)))"
    and cursors_err: "invar s \<Longrightarrow> update_sync_cursors ops f v q s = (Inl e, s') \<Longrightarrow>
      invar s' \<and> uids s' = uids s \<and> cursors s' = cursors s"
    and max_uid_ok: "invar s \<Longrightarrow> max_uid ops f s = (Inr m, s') \<Longrightarrow>
      invar s' \<and> uids s' = uids s \<and> cursors s' = cursors s \<and> finite (uids s f) \<and>
      m = (if uids s f = {} then None else Some (Max (uids s f)))"
    and max_uid_err: "invar s \<Longrightarrow> max_uid ops f s = (Inl e, s') \<Longrightarrow>
      invar s' \<and> uids s' = uids s \<and> cursors s' = cursors s"
    and ingest_ok: "invar s \<Longrightarrow> ingest_batch ops b s = (Inr st, s') \<Longrightarrow>
      invar s' \<and> (\<forall>f. uids s' f = uids s f \<union> {im_uid m | m. m \<in> set b \<and> im_folder m = f})
      \<and> cursors s' = cursors s"
    and ingest_err: "invar s \<Longrightarrow> ingest_batch ops b s = (Inl e, s') \<Longrightarrow>
      invar s' \<and> uids s' = uids s \<and> cursors s' = cursors s"
    and reads_pure:
      "invar s \<Longrightarrow> invar (snd (list_folders ops a s)) \<and> uids (snd (list_folders ops a s)) = uids s
        \<and> cursors (snd (list_folders ops a s)) = cursors s"
      "invar s \<Longrightarrow> invar (snd (list_messages ops f w o' s)) \<and> uids (snd (list_messages ops f w o' s)) = uids s
        \<and> cursors (snd (list_messages ops f w o' s)) = cursors s"
      "invar s \<Longrightarrow> invar (snd (write_blob ops bs s)) \<and> uids (snd (write_blob ops bs s)) = uids s
        \<and> cursors (snd (write_blob ops bs s)) = cursors s"

section \<open>The contract of the outbox operations\<close>

text \<open>What a retry does not change: all of a row but its retry counter, its last error and its time stamp,
  which a store may use for the next attempt.\<close>

definition row_core :: "outbox_row \<Rightarrow> outbox_row" where
  "row_core row = row\<lparr>or_retry_count := 0, or_last_error := None, or_created_at := 0\<rparr>"

lemma row_core_simps [simp]:
  "or_id (row_core row) = or_id row" "or_raw_blob (row_core row) = or_raw_blob row"
  "or_envelope (row_core row) = or_envelope row" "row_core (row_core row) = row_core row"
  by (simp_all add: row_core_def)

lemma map_row_core_ids: "map row_core xs = map row_core ys \<Longrightarrow> map or_id xs = map or_id ys"
proof -
  assume "map row_core xs = map row_core ys"
  then have "map or_id (map row_core xs) = map or_id (map row_core ys)" by simp
  then show ?thesis by (simp add: comp_def)
qed

text \<open>
  \<open>entries s\<close> are the outbox rows in state \<open>s\<close>, \<open>blobs s\<close> its content store.  An entry leaves the
  outbox only when it is marked as sent, a retry changes no address and no content, the content
  of a blob never changes, and due rows are entries.
\<close>

locale outbox_store =
  fixes ops :: "('s, 'p) mail_store_ops"
    and entries :: "'s \<Rightarrow> outbox_row list"
    and blobs :: "'s \<Rightarrow> blob_hash \<Rightarrow> u8 list option"
  assumes due: "outbox_due ops s = (r, s') \<Longrightarrow>
      entries s' = entries s \<and> blobs s' = blobs s \<and> (\<forall>rows. r = Inr rows \<longrightarrow> set rows \<subseteq> set (entries s))"
    and mark_sent: "outbox_mark_sent ops i at s = (u, s') \<Longrightarrow>
      blobs s' = blobs s \<and> entries s' = (if is_Inr u then filter (\<lambda>row. or_id row \<noteq> i) (entries s) else entries s)"
    and mark_retry: "outbox_mark_retry ops i n at err s = (v, s') \<Longrightarrow>
      blobs s' = blobs s \<and> map row_core (entries s') = map row_core (entries s)"
    and read: "read_blob ops h s = (b, s') \<Longrightarrow>
      entries s' = entries s \<and> blobs s' = blobs s \<and> (\<forall>raw. b = Inr raw \<longrightarrow> blobs s h = Some raw)"

end
