(* ===== verification/Mock_Store.thy ===== *)
theory Mock_Store
  imports Store
begin

unbundle bit_operations_syntax

text \<open>
  \<open>src/tests/common/mod.rs\<close>: \<open>MockStore\<close>, the in-memory implementation of the storage seam that
  the repository carries.  It meets the contract \<open>mail_store\<close>.  Parameters: the \<open>n\<close>-th UUID that
  \<open>Uuid::now_v7\<close> yields, the hyphenated form of a UUID, and the standard library's default hasher
  on a byte slice.
\<close>

record mock_env =
  me_uuid :: "nat \<Rightarrow> uuid"
  me_hyphenated :: "uuid \<Rightarrow> rstr"
  me_hash :: "u8 list \<Rightarrow> u64"

record mock_message =
  mm_id :: message_id
  mm_folder :: folder_id
  mm_uid :: u32
  mm_internal_date :: i64
  mm_flags :: "flag list"

record mock_state =
  mk_folders :: "folder_row list"
  mk_messages :: "mock_message list"
  mk_blobs :: "(rstr \<times> u8 list) list"
  mk_outbox :: "outbox_row list"
  mk_account_states :: "(account_id \<times> connection_state) list"
  mk_ingest_inserted :: u64
  mk_drawn :: nat \<comment> \<open>UUIDs drawn so far\<close>

definition mock_new :: mock_state where
  "mock_new = \<lparr>mk_folders = [], mk_messages = [], mk_blobs = [], mk_outbox = [],
     mk_account_states = [], mk_ingest_inserted = 0, mk_drawn = 0\<rparr>"

definition mock_push_outbox :: "outbox_row \<Rightarrow> mock_state \<Rightarrow> mock_state" where
  "mock_push_outbox r s = s\<lparr>mk_outbox := mk_outbox s @ [r]\<rparr>"

section \<open>The trait methods\<close>

definition mock_upsert_folder ::
    "mock_env \<Rightarrow> new_folder \<Rightarrow> mock_state \<Rightarrow> folder_id store_result \<times> mock_state" where
  "mock_upsert_folder e nf s =
     (let same = (\<lambda>r. fr_account r = nf_account nf \<and> fr_remote_name r = nf_remote_name nf)
      in case find same (mk_folders s) of
           Some r \<Rightarrow>
             (Inr (fr_id r),
              s\<lparr>mk_folders := update_first same
                  (\<lambda>r. r\<lparr>fr_attributes := nf_attributes nf, fr_role := nf_role nf,
                        fr_delimiter := nf_delimiter nf\<rparr>) (mk_folders s)\<rparr>)
         | None \<Rightarrow>
             (let i = FolderId (me_uuid e (mk_drawn s))
              in (Inr i,
                  s\<lparr>mk_folders := mk_folders s @
                      [\<lparr>fr_id = i, fr_account = nf_account nf, fr_remote_name = nf_remote_name nf,
                        fr_attributes = nf_attributes nf, fr_role = nf_role nf,
                        fr_delimiter = nf_delimiter nf, fr_uid_validity = nf_uid_validity nf,
                        fr_highest_modseq = nf_highest_modseq nf\<rparr>],
                    mk_drawn := Suc (mk_drawn s)\<rparr>)))"

definition mock_summary :: "mock_state \<Rightarrow> folder_row \<Rightarrow> folder_summary" where
  "mock_summary s f =
     (let ms = filter (\<lambda>m. mm_folder m = fr_id f) (mk_messages s);
          counts = (if fr_role f = Some Sent then (0, 0)
                    else (of_nat (length (filter (\<lambda>m. Seen \<notin> set (mm_flags m)) ms)),
                          of_nat (length ms)))
      in \<lparr>fs_id = fr_id f, fs_account = fr_account f, fs_remote_name = fr_remote_name f,
          fs_role = fr_role f, fs_delimiter = fr_delimiter f,
          fs_unread = fst counts, fs_total = snd counts\<rparr>)"

definition mock_list_folders ::
    "account_id \<Rightarrow> mock_state \<Rightarrow> folder_summary list store_result \<times> mock_state" where
  "mock_list_folders a s =
     (Inr (map (mock_summary s) (filter (\<lambda>f. fr_account f = a) (mk_folders s))), s)"

definition mock_get_folder ::
    "mock_env \<Rightarrow> folder_id \<Rightarrow> mock_state \<Rightarrow> folder_row store_result \<times> mock_state" where
  "mock_get_folder e i s =
     (case find (\<lambda>f. fr_id f = i) (mk_folders s) of
        Some r \<Rightarrow> (Inr r, s)
      | None \<Rightarrow> (Inl (NotFound (lit ''folder '' @ me_hyphenated e (folder_uuid i))), s))"

text \<open>One message of a batch: the state, and whether it was inserted.\<close>

definition mock_ingest_one ::
    "mock_env \<Rightarrow> 'p ingest_message \<Rightarrow> mock_state \<Rightarrow> bool \<times> mock_state" where
  "mock_ingest_one e m s =
     (let same = (\<lambda>x. mm_folder x = im_folder m \<and> mm_uid x = im_uid m)
      in case find same (mk_messages s) of
           Some _ \<Rightarrow>
             (False, s\<lparr>mk_messages := update_first same
                  (\<lambda>x. x\<lparr>mm_flags := im_flags m, mm_internal_date := im_internal_date m\<rparr>)
                  (mk_messages s)\<rparr>)
         | None \<Rightarrow>
             (True, s\<lparr>mk_messages := mk_messages s @
                  [\<lparr>mm_id = MessageId (me_uuid e (mk_drawn s)), mm_folder = im_folder m,
                    mm_uid = im_uid m, mm_internal_date = im_internal_date m,
                    mm_flags = im_flags m\<rparr>],
                mk_drawn := Suc (mk_drawn s)\<rparr>))"

fun mock_ingest_loop ::
    "mock_env \<Rightarrow> 'p ingest_message list \<Rightarrow> u64 \<Rightarrow> u64 \<Rightarrow> mock_state \<Rightarrow> ingest_stats \<times> mock_state" where
  "mock_ingest_loop e [] inserted updated s =
     (\<lparr>is_inserted = inserted, is_updated = updated\<rparr>, s)"
| "mock_ingest_loop e (m # ms) inserted updated s =
     (let (new, s') = mock_ingest_one e m s
      in if new then mock_ingest_loop e ms (inserted + 1) updated s'
         else mock_ingest_loop e ms inserted (updated + 1) s')"

definition mock_ingest_batch ::
    "mock_env \<Rightarrow> 'p ingest_message list \<Rightarrow> mock_state \<Rightarrow> ingest_stats store_result \<times> mock_state" where
  "mock_ingest_batch e b s =
     (let (st, s') = mock_ingest_loop e b 0 0 s
      in (Inr st, s'\<lparr>mk_ingest_inserted := mk_ingest_inserted s' + is_inserted st\<rparr>))"

definition mock_message_summary :: "mock_message \<Rightarrow> message_summary" where
  "mock_message_summary m =
     \<lparr>ms_id = mm_id m, ms_folder = mm_folder m, ms_uid = mm_uid m,
      ms_internal_date = mm_internal_date m, ms_flags = mm_flags m, ms_subject = None,
      ms_from = None, ms_size = 0, ms_is_read = (Seen \<in> set (mm_flags m)),
      ms_is_flagged = (Flagged \<in> set (mm_flags m)),
      ms_is_answered = (Answered \<in> set (mm_flags m))\<rparr>"

definition mock_list_messages ::
    "folder_id \<Rightarrow> window \<Rightarrow> sort_spec \<Rightarrow> mock_state \<Rightarrow> message_page store_result \<times> mock_state" where
  "mock_list_messages f w o' s =
     (let rows = filter (\<lambda>m. mm_folder m = f) (mk_messages s);
          sorted = (if ss_field o' = SF_Uid then sort_key (\<lambda>m. int (unat (mm_uid m))) rows
                    else sort_key (\<lambda>m. sint (mm_internal_date m)) rows);
          ordered = (if ss_dir o' = SD_Desc then rev sorted else sorted);
          items = map mock_message_summary
                    (take (unat (w_limit w)) (drop (unat (w_offset w)) ordered))
      in (Inr \<lparr>mp_items = items, mp_total = of_nat (length ordered)\<rparr>, s))"

definition mock_purge_folder :: "folder_id \<Rightarrow> mock_state \<Rightarrow> u64 store_result \<times> mock_state" where
  "mock_purge_folder f s =
     (let before = length (mk_messages s);
          s' = s\<lparr>mk_messages := filter (\<lambda>m. mm_folder m \<noteq> f) (mk_messages s)\<rparr>
      in (Inr (of_nat (before - length (mk_messages s'))), s'))"

definition mock_update_sync_cursors ::
    "mock_env \<Rightarrow> folder_id \<Rightarrow> u32 \<Rightarrow> u64 option \<Rightarrow> mock_state \<Rightarrow> unit store_result \<times> mock_state" where
  "mock_update_sync_cursors e f v q s =
     (case find (\<lambda>r. fr_id r = f) (mk_folders s) of
        None \<Rightarrow> (Inl (NotFound (lit ''folder '' @ me_hyphenated e (folder_uuid f))), s)
      | Some _ \<Rightarrow>
          (Inr (), s\<lparr>mk_folders := update_first (\<lambda>r. fr_id r = f)
             (\<lambda>r. r\<lparr>fr_uid_validity := v,
                   fr_highest_modseq := (case q of None \<Rightarrow> fr_highest_modseq r | Some m \<Rightarrow> m)\<rparr>)
             (mk_folders s)\<rparr>))"

definition max_option :: "u32 list \<Rightarrow> u32 option" where
  "max_option us = (if us = [] then None else Some (fold max (tl us) (hd us)))"

definition mock_max_uid :: "folder_id \<Rightarrow> mock_state \<Rightarrow> u32 option store_result \<times> mock_state" where
  "mock_max_uid f s =
     (Inr (max_option (map mm_uid (filter (\<lambda>m. mm_folder m = f) (mk_messages s)))), s)"

definition mock_outbox_due :: "mock_state \<Rightarrow> outbox_row list store_result \<times> mock_state" where
  "mock_outbox_due s = (Inr (mk_outbox s), s)"

definition mock_outbox_mark_retry ::
    "mock_env \<Rightarrow> outbox_id \<Rightarrow> u32 \<Rightarrow> i64 \<Rightarrow> rstr \<Rightarrow> mock_state \<Rightarrow> unit store_result \<times> mock_state" where
  "mock_outbox_mark_retry e i n at err s =
     (case find (\<lambda>r. or_id r = i) (mk_outbox s) of
        None \<Rightarrow> (Inl (NotFound (lit ''outbox '' @ me_hyphenated e (outbox_uuid i))), s)
      | Some _ \<Rightarrow>
          (Inr (), s\<lparr>mk_outbox := update_first (\<lambda>r. or_id r = i)
             (\<lambda>r. r\<lparr>or_retry_count := n, or_created_at := at, or_last_error := Some err\<rparr>)
             (mk_outbox s)\<rparr>))"

definition mock_outbox_mark_sent ::
    "outbox_id \<Rightarrow> i64 \<Rightarrow> mock_state \<Rightarrow> unit store_result \<times> mock_state" where
  "mock_outbox_mark_sent i at s =
     (Inr (), s\<lparr>mk_outbox := filter (\<lambda>r. or_id r \<noteq> i) (mk_outbox s)\<rparr>)"

definition mock_read_blob :: "blob_hash \<Rightarrow> mock_state \<Rightarrow> u8 list store_result \<times> mock_state" where
  "mock_read_blob h s =
     (case find (\<lambda>(k, _). k = to_hex h) (mk_blobs s) of
        Some (_, bytes) \<Rightarrow> (Inr bytes, s)
      | None \<Rightarrow> (Inl (BlobMissing (to_hex h)), s))"

definition le_bytes :: "u64 \<Rightarrow> u8 list" where
  "le_bytes w = map (\<lambda>k. ucast (drop_bit (8 * k) w)) [0..<8]"

definition mock_digest :: "mock_env \<Rightarrow> u8 list \<Rightarrow> u8 list" where
  "mock_digest e bytes =
     (let word = le_bytes (me_hash e bytes)
      in concat (map (\<lambda>i. map (\<lambda>j. word ! ((i + j) mod 8)) [0..<8]) [0..<4]))"

definition mock_write_blob ::
    "mock_env \<Rightarrow> u8 list \<Rightarrow> mock_state \<Rightarrow> blob_hash store_result \<times> mock_state" where
  "mock_write_blob e bytes s =
     (let h = from_digest (mock_digest e bytes)
      in (Inr h,
          if \<exists>(k, _) \<in> set (mk_blobs s). k = to_hex h then s
          else s\<lparr>mk_blobs := mk_blobs s @ [(to_hex h, bytes)]\<rparr>))"

definition mock_set_account_state ::
    "account_id \<Rightarrow> connection_state \<Rightarrow> mock_state \<Rightarrow> unit store_result \<times> mock_state" where
  "mock_set_account_state a st s =
     (case find (\<lambda>(b, _). b = a) (mk_account_states s) of
        Some _ \<Rightarrow> (Inr (), s\<lparr>mk_account_states :=
             update_first (\<lambda>(b, _). b = a) (\<lambda>(b, _). (b, st)) (mk_account_states s)\<rparr>)
      | None \<Rightarrow> (Inr (), s\<lparr>mk_account_states := mk_account_states s @ [(a, st)]\<rparr>))"

definition mock_ops :: "mock_env \<Rightarrow> (mock_state, 'p) mail_store_ops" where
  "mock_ops e =
     \<lparr>upsert_folder = mock_upsert_folder e, list_folders = mock_list_folders,
      get_folder = mock_get_folder e, ingest_batch = mock_ingest_batch e,
      list_messages = mock_list_messages, purge_folder = mock_purge_folder,
      update_sync_cursors = mock_update_sync_cursors e, max_uid = mock_max_uid,
      outbox_due = mock_outbox_due, outbox_mark_retry = mock_outbox_mark_retry e,
      outbox_mark_sent = mock_outbox_mark_sent, read_blob = mock_read_blob,
      write_blob = mock_write_blob e, set_account_state = mock_set_account_state\<rparr>"

lemma mock_ops_simps [simp]:
  "upsert_folder (mock_ops e) = mock_upsert_folder e"
  "list_folders (mock_ops e) = mock_list_folders"
  "get_folder (mock_ops e) = mock_get_folder e"
  "ingest_batch (mock_ops e) = mock_ingest_batch e"
  "list_messages (mock_ops e) = mock_list_messages"
  "purge_folder (mock_ops e) = mock_purge_folder"
  "update_sync_cursors (mock_ops e) = mock_update_sync_cursors e"
  "max_uid (mock_ops e) = mock_max_uid"
  "outbox_due (mock_ops e) = mock_outbox_due"
  "outbox_mark_retry (mock_ops e) = mock_outbox_mark_retry e"
  "outbox_mark_sent (mock_ops e) = mock_outbox_mark_sent"
  "read_blob (mock_ops e) = mock_read_blob"
  "write_blob (mock_ops e) = mock_write_blob e"
  "set_account_state (mock_ops e) = mock_set_account_state"
  by (simp_all add: mock_ops_def)

section \<open>The contract\<close>

definition mock_uids :: "mock_state \<Rightarrow> folder_id \<Rightarrow> u32 set" where
  "mock_uids s f = mm_uid ` {m \<in> set (mk_messages s). mm_folder m = f}"

definition mock_cursors :: "mock_state \<Rightarrow> folder_id \<Rightarrow> (u32 \<times> u64) option" where
  "mock_cursors s f =
     map_option (\<lambda>r. (fr_uid_validity r, fr_highest_modseq r))
       (find (\<lambda>r. fr_id r = f) (mk_folders s))"

text \<open>The keys under which messages are filed, which determine the UID view.\<close>

definition mock_keys :: "mock_state \<Rightarrow> (folder_id \<times> u32) list" where
  "mock_keys s = map (\<lambda>m. (mm_folder m, mm_uid m)) (mk_messages s)"

lemma mock_uids_keys: "mock_uids s f = {u. (f, u) \<in> set (mock_keys s)}"
  by (auto simp: mock_uids_def mock_keys_def image_iff)

lemma mock_keys_counter [simp]: "mock_keys (s\<lparr>mk_ingest_inserted := n\<rparr>) = mock_keys s"
  by (simp add: mock_keys_def)

lemma mock_ingest_one_keys:
  "set (mock_keys (snd (mock_ingest_one e m s))) = insert (im_folder m, im_uid m) (set (mock_keys s))
   \<and> mk_folders (snd (mock_ingest_one e m s)) = mk_folders s"
proof (cases "find (\<lambda>x. mm_folder x = im_folder m \<and> mm_uid x = im_uid m) (mk_messages s)")
  case None
  then show ?thesis by (simp add: mock_ingest_one_def mock_keys_def)
next
  case (Some x)
  then have "x \<in> set (mk_messages s)" "mm_folder x = im_folder m" "mm_uid x = im_uid m"
    using find_SomeD by force+
  then have "(im_folder m, im_uid m) \<in> set (mock_keys s)"
    by (force simp: mock_keys_def)
  with Some show ?thesis
    by (simp add: mock_ingest_one_def mock_keys_def image_update_first insert_absorb
        flip: set_map)
qed

lemma mock_ingest_loop_keys:
  "set (mock_keys (snd (mock_ingest_loop e b i u s))) =
     set (mock_keys s) \<union> {(im_folder m, im_uid m) | m. m \<in> set b}
   \<and> mk_folders (snd (mock_ingest_loop e b i u s)) = mk_folders s"
proof (induction b arbitrary: i u s)
  case (Cons m ms)
  show ?case
    using Cons.IH mock_ingest_one_keys [of e m s]
    by (cases "mock_ingest_one e m s") (auto split: prod.splits)
qed simp

lemma max_option_Max: "max_option us = (if set us = {} then None else Some (Max (set us)))"
proof (cases us)
  case (Cons v vs)
  then show ?thesis using Max.set_eq_fold [of v vs] by (simp add: max_option_def)
qed (simp add: max_option_def)

lemma mock_cursors_update:
  assumes "mock_update_sync_cursors e f v q s = (r, s')"
  shows "case r of
      Inl _ \<Rightarrow> s' = s
    | Inr _ \<Rightarrow> mk_messages s' = mk_messages s \<and>
        (\<exists>v0 q0. mock_cursors s f = Some (v0, q0) \<and>
           mock_cursors s' = (mock_cursors s)(f := Some (v, case q of None \<Rightarrow> q0 | Some m \<Rightarrow> m)))"
proof (cases "find (\<lambda>r. fr_id r = f) (mk_folders s)")
  case None
  with assms show ?thesis by (auto simp: mock_update_sync_cursors_def)
next
  case (Some r0)
  let ?g = "\<lambda>r. r\<lparr>fr_uid_validity := v,
      fr_highest_modseq := (case q of None \<Rightarrow> fr_highest_modseq r | Some m \<Rightarrow> m)\<rparr>"
  let ?fs = "update_first (\<lambda>r. fr_id r = f) ?g (mk_folders s)"
  have s': "r = Inr ()" "s' = s\<lparr>mk_folders := ?fs\<rparr>"
    using assms Some by (auto simp: mock_update_sync_cursors_def)
  have same: "find (\<lambda>r. fr_id r = f) ?fs = Some (?g r0)"
    using Some by (subst find_update_first_same) auto
  have other: "find (\<lambda>r. fr_id r = g) ?fs = find (\<lambda>r. fr_id r = g) (mk_folders s)" if "g \<noteq> f" for g
    using that by (intro find_update_first_other) auto
  have "mock_cursors s' = (mock_cursors s)(f :=
      Some (v, case q of None \<Rightarrow> fr_highest_modseq r0 | Some m \<Rightarrow> m))"
    by (rule ext) (auto simp: mock_cursors_def s' same other split: option.splits)
  with Some s' show ?thesis by (auto simp: mock_cursors_def)
qed

interpretation mock: mail_store "mock_ops e" "\<lambda>_. True" mock_uids mock_cursors for e
proof
  fix f s s' and n :: u64
  assume "purge_folder (mock_ops e) f s = (Inr n, s')"
  then show "True \<and> mock_uids s' = (mock_uids s)(f := {}) \<and> mock_cursors s' = mock_cursors s"
    by (auto simp: mock_purge_folder_def Let_def mock_uids_def mock_cursors_def fun_eq_iff)
next
  fix f s s' er
  assume "purge_folder (mock_ops e) f s = (Inl er, s')"
  then show "True \<and> mock_uids s' = mock_uids s \<and> mock_cursors s' = mock_cursors s"
    by (simp add: mock_purge_folder_def Let_def)
next
  fix f v q s s'
  assume "update_sync_cursors (mock_ops e) f v q s = (Inr (), s')"
  then show "True \<and> mock_uids s' = mock_uids s \<and>
      (\<exists>v0 q0. mock_cursors s f = Some (v0, q0) \<and>
         mock_cursors s' = (mock_cursors s)(f := Some (v, case q of None \<Rightarrow> q0 | Some m \<Rightarrow> m)))"
    using mock_cursors_update [of e f v q s "Inr ()" s'] by (simp add: mock_uids_def fun_eq_iff)
next
  fix f v q s s' er
  assume "update_sync_cursors (mock_ops e) f v q s = (Inl er, s')"
  then show "True \<and> mock_uids s' = mock_uids s \<and> mock_cursors s' = mock_cursors s"
    using mock_cursors_update [of e f v q s "Inl er" s'] by simp
next
  fix f s m s'
  assume "max_uid (mock_ops e) f s = (Inr m, s')"
  then show "True \<and> mock_uids s' = mock_uids s \<and> mock_cursors s' = mock_cursors s \<and>
      finite (mock_uids s f) \<and>
      m = (if mock_uids s f = {} then None else Some (Max (mock_uids s f)))"
    by (auto simp: mock_max_uid_def max_option_Max mock_uids_def)
next
  fix f s er s'
  assume "max_uid (mock_ops e) f s = (Inl er, s')"
  then show "True \<and> mock_uids s' = mock_uids s \<and> mock_cursors s' = mock_cursors s"
    by (simp add: mock_max_uid_def)
next
  fix b s st s'
  assume "ingest_batch (mock_ops e) b s = (Inr st, s')"
  then show "True \<and> (\<forall>f. mock_uids s' f = mock_uids s f \<union> {im_uid m | m. m \<in> set b \<and> im_folder m = f})
      \<and> mock_cursors s' = mock_cursors s"
    using mock_ingest_loop_keys [of e b 0 0 s]
    by (auto simp: mock_ingest_batch_def mock_uids_keys mock_cursors_def split: prod.splits)
next
  fix b s er s'
  assume "ingest_batch (mock_ops e) b s = (Inl er, s')"
  then show "True \<and> mock_uids s' = mock_uids s \<and> mock_cursors s' = mock_cursors s"
    by (auto simp: mock_ingest_batch_def split: prod.splits)
qed (simp_all add: mock_list_folders_def mock_list_messages_def Let_def mock_write_blob_def
    mock_uids_def mock_cursors_def fun_eq_iff)

section \<open>The contract of the outbox operations\<close>

definition mock_blob :: "mock_state \<Rightarrow> blob_hash \<Rightarrow> u8 list option" where
  "mock_blob s h = map_option snd (find (\<lambda>(k, _). k = to_hex h) (mk_blobs s))"

interpretation mock_box: outbox_store "mock_ops e" mk_outbox mock_blob for e
proof
  fix s r s'
  assume "outbox_due (mock_ops e) s = (r, s')"
  then show "mk_outbox s' = mk_outbox s \<and> mock_blob s' = mock_blob s
      \<and> (\<forall>rows. r = Inr rows \<longrightarrow> set rows \<subseteq> set (mk_outbox s))"
    by (auto simp: mock_outbox_due_def)
next
  fix i at s r s'
  assume "outbox_mark_sent (mock_ops e) i at s = (r, s')"
  then show "mock_blob s' = mock_blob s
      \<and> mk_outbox s' = (if is_Inr r then filter (\<lambda>row. or_id row \<noteq> i) (mk_outbox s) else mk_outbox s)"
    by (auto simp: mock_outbox_mark_sent_def mock_blob_def fun_eq_iff)
next
  fix i n at err s r s'
  assume "outbox_mark_retry (mock_ops e) i n at err s = (r, s')"
  then show "mock_blob s' = mock_blob s \<and> map row_core (mk_outbox s') = map row_core (mk_outbox s)"
    by (auto simp: row_core_def mock_outbox_mark_retry_def mock_blob_def fun_eq_iff image_update_first split: option.splits)
next
  fix h s r s'
  assume "read_blob (mock_ops e) h s = (r, s')"
  then show "mk_outbox s' = mk_outbox s \<and> mock_blob s' = mock_blob s \<and> (\<forall>raw. r = Inr raw \<longrightarrow> mock_blob s h = Some raw)"
    by (auto simp: mock_read_blob_def mock_blob_def split: option.splits prod.splits)
qed

end
