(* ===== verification/Imap_Types.thy ===== *)
theory Imap_Types
  imports Model Errors
begin

text \<open>
  The part of the vocabulary of the \<open>imap-types\<close> and \<open>imap-next\<close> crates that the sources match on
  or build: response data, statuses, response codes, commands and client events, with one rest
  constructor for everything the sources do not look into.  A value that the program only prints
  with \<open>{:?}\<close> (other flags, list attributes, other responses) is represented by that text.
  Functions of these crates are the fields of \<open>imap_lib\<close>, a parameter of the model.
\<close>

section \<open>Strings of the protocol\<close>

datatype istring = Quoted rstr | QuotedUtf8 rstr | Literal "u8 list"
datatype nstring = NString "istring option"
datatype astring = AAtom rstr | AString istring
datatype mailbox = MB_Inbox | MB_Other astring
datatype sequence_set = SequenceSet rstr
datatype imap_datetime = DateTime i64 \<comment> \<open>the instant, as \<open>timestamp_millis\<close> gives it\<close>

record imap_address =
  ia_name :: nstring
  ia_mailbox :: nstring
  ia_host :: nstring

record envelope =
  env_subject :: nstring
  env_from :: "imap_address list"
  env_to :: "imap_address list"
  env_in_reply_to :: nstring
  env_message_id :: nstring

section \<open>Responses\<close>

datatype imap_flag =
  IF_Seen | IF_Answered | IF_Flagged | IF_Deleted | IF_Draft | IF_Other rstr

datatype flag_fetch = FF_Flag imap_flag | FF_Recent

datatype message_data_item =
    MDI_Uid u32
  | MDI_Flags "flag_fetch list"
  | MDI_InternalDate imap_datetime
  | MDI_Rfc822Size u32
  | MDI_Envelope envelope
  | MDI_Rfc822 nstring
  | MDI_BodyExt nstring
  | MDI_Other

datatype imap_data =
    Data_Exists u32
  | Data_Recent u32
  | Data_Expunge u32
  | Data_Vanished sequence_set
  | Data_Fetch u32 "message_data_item list"
  | Data_List mailbox "rstr list" "rchar option" \<comment> \<open>mailbox, attributes, delimiter\<close>
  | Data_Capability "rstr list" \<comment> \<open>wire names\<close>
  | Data_Other rstr

datatype status_kind = SK_Ok | SK_No | SK_Bad

datatype code =
    Code_UidValidity u32
  | Code_UidNext u32
  | Code_HighestModSeq u64
  | Code_Capability "rstr list"
  | Code_Other

record status_body =
  sb_kind :: status_kind
  sb_code :: "code option"

type_synonym tag = rstr

datatype status = St_Untagged status_body | St_Tagged tag status_body | St_Bye

definition status_tag :: "status \<Rightarrow> tag option" where
  "status_tag s = (case s of St_Tagged t _ \<Rightarrow> Some t | _ \<Rightarrow> None)"

datatype continuation = Ccr_Basic | Ccr_Base64 "u8 list"

section \<open>Commands\<close>

datatype auth_mechanism = AM_Plain | AM_Login | AM_ScramSha256 | AM_XOAuth2

datatype fetch_items = FI_All | FI_Rfc822 | FI_Flags

datatype command_body =
    Cmd_Capability
  | Cmd_StartTLS
  | Cmd_Login astring astring
  | Cmd_Authenticate auth_mechanism "u8 list option"
  | Cmd_List mailbox rstr
  | Cmd_Select mailbox
  | Cmd_Fetch sequence_set fetch_items bool "u64 option" \<comment> \<open>by UID; \<open>CHANGEDSINCE\<close>\<close>
  | Cmd_Append mailbox "flag_fetch list" "u8 list"
  | Cmd_Idle
  | Cmd_Logout

record command =
  cmd_tag :: tag
  cmd_body :: command_body

section \<open>The sans-I/O client\<close>

type_synonym handle = nat

datatype event =
    Ev_CommandSent handle
  | Ev_CommandRejected handle status
  | Ev_DataReceived imap_data
  | Ev_StatusReceived status
  | Ev_ContinuationRequestReceived
  | Ev_GreetingReceived "code option"
  | Ev_AuthenticateStarted
  | Ev_AuthenticateContinuation continuation
  | Ev_AuthenticateStatusReceived status
  | Ev_IdleCommandSent
  | Ev_IdleAccepted
  | Ev_IdleRejected status
  | Ev_IdleDoneSent
  | Ev_Other

text \<open>What \<open>Client::next\<close> answers: an event or an interrupt.\<close>

datatype client_next =
    Next_Event event
  | Next_NeedMoreInput
  | Next_Output "u8 list"
  | Next_Error rstr

record 'c client_ops =
  client_new :: 'c
  client_next :: "'c \<Rightarrow> client_next \<times> 'c"
  enqueue_input :: "u8 list \<Rightarrow> 'c \<Rightarrow> 'c"
  enqueue_command :: "command \<Rightarrow> 'c \<Rightarrow> handle \<times> 'c"
  set_authenticate_data :: "u8 list \<Rightarrow> 'c \<Rightarrow> bool \<times> 'c" \<comment> \<open>accepted\<close>
  set_idle_done :: "'c \<Rightarrow> bool \<times> 'c" \<comment> \<open>accepted\<close>

section \<open>Functions of the crates\<close>

record imap_lib =
  dbg_status :: "status \<Rightarrow> rstr" \<comment> \<open>\<open>format!("{:?}", status)\<close>\<close>
  dbg_data :: "imap_data \<Rightarrow> rstr"
  dbg_str :: "rstr \<Rightarrow> rstr" \<comment> \<open>\<open>{:?}\<close> of a text: quoted and escaped\<close>
  seq_iter :: "sequence_set \<Rightarrow> u32 list" \<comment> \<open>members, with \<open>*\<close> read as \<open>u32::MAX\<close>\<close>
  seq_try_from :: "rstr \<Rightarrow> rstr + sequence_set" \<comment> \<open>left: the error's Debug text\<close>
  mailbox_try_from :: "rstr \<Rightarrow> rstr + mailbox"
  astring_try_from :: "rstr \<Rightarrow> rstr + astring"
  literal_try_from :: "u8 list \<Rightarrow> rstr + u8 list"
  tag_try_from :: "rstr \<Rightarrow> rstr + tag"
  base64_decode :: "u8 list \<Rightarrow> u8 list option"

end
