(* ===== verification/Transport_Io.thy ===== *)
theory Transport_Io
  imports Imap_Types
begin

text \<open>
  The byte transport of an IMAP session (the enum \<open>Transport\<close> of \<open>src/src/session.rs\<close> over a TCP or
  TLS stream) and the pump that services the I/O interrupts of the client.

  The peer and the network are a script: what arrives on the stream, each item with the time at
  which it is there to be read (milliseconds of the runtime's clock), and which writes fail.  A
  fixed script covers every reactive server, because the program's own behaviour is determined by
  what it has read.  Awaiting under \<open>tokio::time::timeout\<close> is reading with a deadline: an item
  that is there by the deadline is delivered, otherwise the clock moves to the deadline and the
  wait has elapsed; data that is already there is delivered even when the deadline has passed,
  since the timeout polls the inner future first.
\<close>

datatype inbound =
    In_Bytes nat "u8 list"
  | In_Eof nat
  | In_Err nat rstr

primrec arrival :: "inbound \<Rightarrow> nat" where
  "arrival (In_Bytes t _) = t"
| "arrival (In_Eof t) = t"
| "arrival (In_Err t _) = t"

record transport =
  tr_tls :: bool
  tr_now :: nat
  tr_in :: "inbound list"
  tr_out :: "u8 list list"
  tr_write_errs :: "rstr option list"

definition read_chunk :: nat where
  "read_chunk = 16 * 1024"

datatype read_result = Read_Elapsed | Read_Err rstr | Read_Ok "u8 list"

text \<open>
  \<open>transport.read(&mut chunk)\<close>, at most \<open>read_chunk\<close> bytes, with an optional deadline; the result
  \<open>None\<close> is a read that waits for ever.
\<close>

definition transport_read :: "nat option \<Rightarrow> transport \<Rightarrow> (read_result \<times> transport) option" where
  "transport_read deadline t =
     (let elapsed = (\<lambda>d. Some (Read_Elapsed, t\<lparr>tr_now := max (tr_now t) d\<rparr>))
      in case tr_in t of
           [] \<Rightarrow> (case deadline of None \<Rightarrow> None | Some d \<Rightarrow> elapsed d)
         | i # rest \<Rightarrow>
             if (case deadline of None \<Rightarrow> False | Some d \<Rightarrow> max (tr_now t) d < arrival i)
             then elapsed (the deadline)
             else
               (let t' = t\<lparr>tr_now := max (tr_now t) (arrival i)\<rparr>
                in Some (case i of
                     In_Eof _ \<Rightarrow> (Read_Ok [], t')
                   | In_Err _ e \<Rightarrow> (Read_Err e, t'\<lparr>tr_in := rest\<rparr>)
                   | In_Bytes at bs \<Rightarrow>
                       (Read_Ok (take read_chunk bs),
                        t'\<lparr>tr_in := (if length bs \<le> read_chunk then rest
                                    else In_Bytes at (drop read_chunk bs) # rest)\<rparr>))))"

text \<open>\<open>futures_write\<close>: the whole buffer is written and flushed, or an error is reported.\<close>

definition futures_write :: "u8 list \<Rightarrow> transport \<Rightarrow> (rstr + unit) \<times> transport" where
  "futures_write bs t =
     (case tr_write_errs t of
        Some e # r \<Rightarrow> (Inl e, t\<lparr>tr_write_errs := r\<rparr>)
      | None # r \<Rightarrow> (Inr (), t\<lparr>tr_out := tr_out t @ [bs], tr_write_errs := r\<rparr>)
      | [] \<Rightarrow> (Inr (), t\<lparr>tr_out := tr_out t @ [bs]\<rparr>))"

section \<open>Sessions and the pump\<close>

record 'c session =
  se_transport :: transport
  se_client :: 'c
  se_tag_counter :: u64
  se_capabilities :: "rstr set"

definition from_transport :: "'c client_ops \<Rightarrow> transport \<Rightarrow> 'c session" where
  "from_transport cl t =
     \<lparr>se_transport = t, se_client = client_new cl, se_tag_counter = 0, se_capabilities = {}\<rparr>"

datatype pump_result = Pump_Event event | Pump_Err sync_error | Pump_Elapsed

text \<open>\<open>ImapSession::pump\<close>, under an optional deadline.\<close>

partial_function (option) pump ::
    "'c client_ops \<Rightarrow> nat option \<Rightarrow> 'c session \<Rightarrow> (pump_result \<times> 'c session) option" where
  "pump cl deadline s =
     (case client_next cl (se_client s) of (n, c) \<Rightarrow>
        let s1 = s\<lparr>se_client := c\<rparr>
        in case n of
             Next_Event ev \<Rightarrow> Some (Pump_Event ev, s1)
           | Next_NeedMoreInput \<Rightarrow>
               (case transport_read deadline (se_transport s1) of None \<Rightarrow> None | Some (r, t) \<Rightarrow>
                 let s2 = s1\<lparr>se_transport := t\<rparr>
                 in case r of
                      Read_Elapsed \<Rightarrow> Some (Pump_Elapsed, s2)
                    | Read_Err e \<Rightarrow> Some (Pump_Err (Transport e), s2)
                    | Read_Ok bs \<Rightarrow>
                        if bs = []
                        then Some (Pump_Err (Transport (lit ''server closed connection'')), s2)
                        else pump cl deadline (s2\<lparr>se_client := enqueue_input cl bs (se_client s2)\<rparr>))
           | Next_Output bs \<Rightarrow>
               (case futures_write bs (se_transport s1) of (w, t) \<Rightarrow>
                  let s2 = s1\<lparr>se_transport := t\<rparr>
                  in case w of
                       Inl e \<Rightarrow> Some (Pump_Err (Transport e), s2)
                     | Inr _ \<Rightarrow> pump cl deadline s2)
           | Next_Error e \<Rightarrow> Some (Pump_Err (Protocol (lit ''decode: '' @ e)), s1))"

section \<open>What the pump leaves alone\<close>

lemma transport_read_now: "transport_read d t = Some (r, t') \<Longrightarrow> tr_now t \<le> tr_now t' \<and> tr_tls t' = tr_tls t"
  by (auto simp: transport_read_def Let_def split: list.splits option.splits inbound.splits if_splits)

lemma transport_read_elapsed:
  "transport_read d t = Some (Read_Elapsed, t') \<Longrightarrow>
     \<exists>dl. d = Some dl \<and> tr_now t' = max (tr_now t) dl \<and> tr_in t' = tr_in t"
  by (auto simp: transport_read_def Let_def split: list.splits option.splits inbound.splits if_splits)

lemma transport_read_chunk: "transport_read d t = Some (Read_Ok bs, t') \<Longrightarrow> length bs \<le> read_chunk"
  by (auto simp: transport_read_def Let_def split: list.splits option.splits inbound.splits if_splits)

lemma futures_write_now: "futures_write bs t = (w, t') \<Longrightarrow> tr_now t' = tr_now t \<and> tr_tls t' = tr_tls t"
  by (auto simp: futures_write_def split: list.splits option.splits)

text \<open>The pump moves time forward and never touches the tag counter or the capabilities.\<close>

definition pump_frame :: "'c session \<Rightarrow> 'c session \<Rightarrow> bool" where
  "pump_frame s s' \<longleftrightarrow>
     tr_now (se_transport s) \<le> tr_now (se_transport s') \<and>
     tr_tls (se_transport s') = tr_tls (se_transport s) \<and>
     se_tag_counter s' = se_tag_counter s \<and> se_capabilities s' = se_capabilities s"

lemma pump_frame_refl [simp]: "pump_frame s s"
  by (simp add: pump_frame_def)

lemma pump_frame_trans: "pump_frame s t \<Longrightarrow> pump_frame t u \<Longrightarrow> pump_frame s u"
  by (auto simp: pump_frame_def)

lemma pump_frame_client [simp]: "pump_frame s (s\<lparr>se_client := c\<rparr>)"
  "pump_frame (s\<lparr>se_client := c\<rparr>) t = pump_frame s t"
  by (simp_all add: pump_frame_def)

lemma pump_keeps:
  assumes "pump cl d s = Some res"
  shows "pump_frame s (snd res)"
proof (rule pump.raw_induct [where P = "\<lambda>cl d s res. pump_frame s (snd res)", OF _ assms])
  fix f :: "'c client_ops \<Rightarrow> nat option \<Rightarrow> 'c session \<Rightarrow> (pump_result \<times> 'c session) option"
  fix cl d s res
  assume IH: "\<And>cl d s res. f cl d s = Some res \<Longrightarrow> pump_frame s (snd res)"
  assume body: "(case client_next cl (se_client s) of (n, c) \<Rightarrow>
        let s1 = s\<lparr>se_client := c\<rparr>
        in case n of
             Next_Event ev \<Rightarrow> Some (Pump_Event ev, s1)
           | Next_NeedMoreInput \<Rightarrow>
               (case transport_read d (se_transport s1) of None \<Rightarrow> None | Some (r, t) \<Rightarrow>
                 let s2 = s1\<lparr>se_transport := t\<rparr>
                 in case r of
                      Read_Elapsed \<Rightarrow> Some (Pump_Elapsed, s2)
                    | Read_Err e \<Rightarrow> Some (Pump_Err (Transport e), s2)
                    | Read_Ok bs \<Rightarrow>
                        if bs = []
                        then Some (Pump_Err (Transport (lit ''server closed connection'')), s2)
                        else f cl d (s2\<lparr>se_client := enqueue_input cl bs (se_client s2)\<rparr>))
           | Next_Output bs \<Rightarrow>
               (case futures_write bs (se_transport s1) of (w, t) \<Rightarrow>
                  let s2 = s1\<lparr>se_transport := t\<rparr>
                  in case w of
                       Inl e \<Rightarrow> Some (Pump_Err (Transport e), s2)
                     | Inr _ \<Rightarrow> f cl d s2)
           | Next_Error e \<Rightarrow> Some (Pump_Err (Protocol (lit ''decode: '' @ e)), s1)) = Some res"
  obtain n c where n: "client_next cl (se_client s) = (n, c)" by fastforce
  have tr: "pump_frame s (s\<lparr>se_client := c, se_transport := t\<rparr>)"
    if "tr_now (se_transport s) \<le> tr_now t" "tr_tls t = tr_tls (se_transport s)" for t
    using that by (simp add: pump_frame_def)
  show "pump_frame s (snd res)"
  proof (cases n)
    case Next_NeedMoreInput
    then obtain r t where r: "transport_read d (se_transport s) = Some (r, t)"
      using body n by (auto simp: Let_def split: option.splits)
    note F = tr [of t] transport_read_now [OF r]
    show ?thesis
    proof (cases r)
      case (Read_Ok bs)
      then show ?thesis
        using body n Next_NeedMoreInput r F
        by (auto simp: Let_def pump_frame_def split: if_splits dest!: IH)
    qed (use body n Next_NeedMoreInput r F in \<open>auto simp: Let_def\<close>)
  next
    case (Next_Output bs)
    obtain w t where w: "futures_write bs (se_transport s) = (w, t)" by fastforce
    note F = tr [of t] futures_write_now [OF w]
    show ?thesis
      using body n Next_Output w F
      by (auto simp: Let_def pump_frame_def split: sum.splits dest!: IH)
  qed (use body n in \<open>auto simp: Let_def\<close>)
qed

text \<open>The pump's errors are transport and protocol errors.\<close>

lemma pump_errors:
  assumes "pump cl d s = Some res"
  shows "fst res = Pump_Err e \<longrightarrow> (\<exists>x. e = Transport x \<or> e = Protocol x)"
proof (rule pump.raw_induct
    [where P = "\<lambda>cl d s res. fst res = Pump_Err e \<longrightarrow> (\<exists>x. e = Transport x \<or> e = Protocol x)", OF _ assms],
    goal_cases)
  case (1 f cl d s res)
  then show ?case
    by (cases res, auto simp: Let_def
        split: prod.splits client_next.splits sum.splits option.splits)
      (auto split: read_result.splits if_splits)
qed

text \<open>Under a deadline the pump does not move the time past it.\<close>

lemma transport_read_within:
  "transport_read (Some d) t = Some (r, t') \<Longrightarrow> tr_now t \<le> d \<Longrightarrow> tr_now t' \<le> d"
  by (auto simp: transport_read_def Let_def split: list.splits inbound.splits if_splits)

lemma pump_within:
  assumes "pump cl (Some d) s = Some res" and "tr_now (se_transport s) \<le> d"
  shows "tr_now (se_transport (snd res)) \<le> d"
proof -
  have "Some d = Some d \<longrightarrow> tr_now (se_transport s) \<le> d \<longrightarrow> tr_now (se_transport (snd res)) \<le> d"
  proof (rule pump.raw_induct [where P = "\<lambda>cl dl s res. dl = Some d \<longrightarrow> tr_now (se_transport s) \<le> d
      \<longrightarrow> tr_now (se_transport (snd res)) \<le> d", OF _ assms(1)], goal_cases)
    case (1 f cl dl s res)
    show ?case
    proof (intro impI)
      assume dl: "dl = Some d" and now: "tr_now (se_transport s) \<le> d"
      obtain n c where n: "client_next cl (se_client s) = (n, c)" by fastforce
      show "tr_now (se_transport (snd res)) \<le> d"
      proof (cases n)
        case Next_NeedMoreInput
        then obtain r t where r: "transport_read (Some d) (se_transport s) = Some (r, t)"
          using 1(2) n dl by (auto simp: Let_def split: option.splits)
        show ?thesis
          using 1(2) n Next_NeedMoreInput r dl transport_read_within [OF r now]
          by (cases r) (auto simp: Let_def split: if_splits dest!: 1(1))
      next
        case (Next_Output bs)
        obtain w t where w: "futures_write bs (se_transport s) = (w, t)" by fastforce
        then show ?thesis
          using 1(2) n Next_Output dl now futures_write_now [OF w]
          by (cases w) (auto simp: Let_def dest!: 1(1))
      qed (use 1(2) n now in \<open>auto simp: Let_def\<close>)
    qed
  qed
  with assms(2) show ?thesis by simp
qed

end
