(* ===== verification/Drive.thy ===== *)
theory Drive
  imports Transport_Io
begin

text \<open>
  The shape that every loop of \<open>ImapSession\<close> in \<open>src/src/session.rs\<close> has: await the pump under a
  deadline, then handle an elapsed wait or an event, and either leave the loop with a result or
  go round with the loop's local variables updated.  \<open>drive\<close> is that loop for given handlers; a
  handler returns \<open>Inl\<close> the result of the enclosing function or \<open>Inr\<close> the locals.

  The inductive predicate \<open>driven\<close> lists what the pump returned in each round; it is adequate
  for \<open>drive\<close>, and the properties of the session's operations are proved by its rule induction.
\<close>

type_synonym ('c, 'a, 'r) handler = "'a \<Rightarrow> 'c session \<Rightarrow> ('r sync_result + 'a) \<times> 'c session"

text \<open>One round, given what the pump returned.\<close>

definition round ::
    "('c, 'a, 'r) handler \<Rightarrow> (event \<Rightarrow> ('c, 'a, 'r) handler) \<Rightarrow> pump_result \<Rightarrow> ('c, 'a, 'r) handler" where
  "round el ev p a s =
     (case p of
        Pump_Err e \<Rightarrow> (Inl (Inl e), s)
      | Pump_Elapsed \<Rightarrow> el a s
      | Pump_Event e \<Rightarrow> ev e a s)"

partial_function (option) drive ::
    "'c client_ops \<Rightarrow> ('c session \<Rightarrow> nat option) \<Rightarrow> ('c, 'a, 'r) handler \<Rightarrow> (event \<Rightarrow> ('c, 'a, 'r) handler)
       \<Rightarrow> 'a \<Rightarrow> 'c session \<Rightarrow> ('r sync_result \<times> 'c session) option" where
  "drive cl dl el ev a s =
     (case pump cl (dl s) s of
        None \<Rightarrow> None
      | Some (p, s1) \<Rightarrow>
          (case round el ev p a s1 of
             (Inl r, s2) \<Rightarrow> Some (r, s2)
           | (Inr a', s2) \<Rightarrow> drive cl dl el ev a' s2))"

inductive driven ::
    "'c client_ops \<Rightarrow> ('c session \<Rightarrow> nat option) \<Rightarrow> ('c, 'a, 'r) handler \<Rightarrow> (event \<Rightarrow> ('c, 'a, 'r) handler)
       \<Rightarrow> 'a \<Rightarrow> 'c session \<Rightarrow> pump_result list \<Rightarrow> 'r sync_result \<Rightarrow> 'c session \<Rightarrow> bool"
  for cl dl el ev
where
  last: "pump cl (dl s) s = Some (p, s1) \<Longrightarrow> round el ev p a s1 = (Inl r, s2) \<Longrightarrow>
    driven cl dl el ev a s [p] r s2"
| more: "pump cl (dl s) s = Some (p, s1) \<Longrightarrow> round el ev p a s1 = (Inr a', s2) \<Longrightarrow>
    driven cl dl el ev a' s2 ps r s3 \<Longrightarrow> driven cl dl el ev a s (p # ps) r s3"

lemma drive_driven:
  fixes el :: "('c, 'a, 'r) handler"
  assumes "drive cl dl el ev a s = Some res"
  shows "\<exists>ps. driven cl dl el ev a s ps (fst res) (snd res)"
proof (rule drive.raw_induct
    [where P = "\<lambda>cl dl el ev a s res. \<exists>ps. driven cl dl el ev a s ps (fst res) (snd res)", OF _ assms])
  fix f cl dl a s
    and el :: "('c, 'a, 'r) handler" and ev :: "event \<Rightarrow> ('c, 'a, 'r) handler"
    and res :: "'r sync_result \<times> 'c session"
  assume IH: "\<And>cl dl el ev a s res. f cl dl el ev a s = Some res \<Longrightarrow>
      \<exists>ps. driven cl dl (el :: ('c, 'a, 'r) handler) ev a s ps (fst res) (snd res)"
  assume "(case pump cl (dl s) s of
        None \<Rightarrow> None
      | Some (p, s1) \<Rightarrow>
          (case round el ev p a s1 of
             (Inl r, s2) \<Rightarrow> Some (r, s2)
           | (Inr a', s2) \<Rightarrow> f cl dl el ev a' s2)) = Some res"
  then obtain p s1 where p: "pump cl (dl s) s = Some (p, s1)"
    and rest: "(case round el ev p a s1 of
         (Inl r, s2) \<Rightarrow> Some (r, s2)
       | (Inr a', s2) \<Rightarrow> f cl dl el ev a' s2) = Some res"
    by (auto split: option.splits)
  obtain x s2 where x: "round el ev p a s1 = (x, s2)" by fastforce
  show "\<exists>ps. driven cl dl el ev a s ps (fst res) (snd res)"
  proof (cases x)
    case (Inl r)
    with x rest have res: "res = (r, s2)" by simp
    have "driven cl dl el ev a s [p] r s2"
      using p x Inl by (intro driven.last) simp_all
    with res show "\<exists>ps. driven cl dl el ev a s ps (fst res) (snd res)" by auto
  next
    case (Inr a')
    with x rest IH obtain ps where "driven cl dl el ev a' s2 ps (fst res) (snd res)" by force
    then have "driven cl dl el ev a s (p # ps) (fst res) (snd res)"
      using p x Inr by (intro driven.more) simp_all
    then show "\<exists>ps. driven cl dl el ev a s ps (fst res) (snd res)" ..
  qed
qed

lemma driven_drive: "driven cl dl el ev a s ps r s' \<Longrightarrow> drive cl dl el ev a s = Some (r, s')"
  by (induction rule: driven.induct) (simp_all add: drive.simps)

lemma drive_iff: "drive cl dl el ev a s = Some (r, s') \<longleftrightarrow> (\<exists>ps. driven cl dl el ev a s ps r s')"
  using drive_driven [of cl dl el ev a s "(r, s')"] driven_drive by fastforce

section \<open>Invariants of a loop\<close>

text \<open>
  What the pump keeps and the handlers keep, the loop keeps: \<open>R\<close> relates a session with a later
  one.
\<close>

lemma driven_keeps:
  assumes "driven cl dl el ev a s ps r s'"
    and "\<And>p a s1 x s2. round el ev p a s1 = (x, s2) \<Longrightarrow> R s1 s2"
    and "\<And>s s1. pump_frame s s1 \<Longrightarrow> R s s1"
    and "\<And>x y z. R x y \<Longrightarrow> R y z \<Longrightarrow> R x z"
  shows "R s s'"
  using assms(1)
proof (induction rule: driven.induct)
  case (last s p s1 a r s2)
  then show ?case using pump_keeps [OF last(1)] assms(2-4) by fastforce
next
  case (more s p s1 a a' s2 ps r s3)
  then have "R s s1" "R s1 s2" "R s2 s3" using pump_keeps [OF more(1)] assms(2,3) by fastforce+
  then show ?case using assms(4) by blast
qed

section \<open>Termination\<close>

text \<open>
  What is still to be read, in bytes.  A script is finite, so every read brings the loop nearer
  to the point where nothing more arrives and the deadline elapses.
\<close>

primrec inbound_size :: "inbound \<Rightarrow> nat" where
  "inbound_size (In_Bytes _ bs) = Suc (length bs)"
| "inbound_size (In_Eof _) = 1"
| "inbound_size (In_Err _ _) = 1"

definition to_read :: "transport \<Rightarrow> nat" where
  "to_read t = sum_list (map inbound_size (tr_in t))"

text \<open>
  The client makes progress: with no more input it comes to the point of asking for some, after
  \<open>work\<close> more answers at most.
\<close>

definition client_progress :: "'c client_ops \<Rightarrow> ('c \<Rightarrow> nat) \<Rightarrow> bool" where
  "client_progress cl work \<longleftrightarrow>
     (\<forall>c n c'. client_next cl c = (n, c') \<longrightarrow>
        (if n = Next_NeedMoreInput then work c' \<le> work c else work c' < work c))"

lemma transport_read_progress:
  "transport_read d t = Some (Read_Ok bs, t') \<Longrightarrow> bs \<noteq> [] \<Longrightarrow> to_read t' < to_read t"
  "transport_read d t = Some (r, t') \<Longrightarrow> to_read t' \<le> to_read t"
  by (auto simp: transport_read_def to_read_def Let_def read_chunk_def
      split: list.splits option.splits inbound.splits if_splits)

lemma transport_read_defined: "\<exists>res. transport_read (Some d) t = Some res"
  by (auto simp: transport_read_def Let_def split: list.splits)

lemma futures_write_to_read: "futures_write bs t = (w, t') \<Longrightarrow> to_read t' = to_read t"
  by (auto simp: futures_write_def to_read_def split: list.splits option.splits)

definition drive_measure :: "('c \<Rightarrow> nat) \<Rightarrow> 'c session \<Rightarrow> nat \<times> nat" where
  "drive_measure work s = (to_read (se_transport s), work (se_client s))"

definition nearer :: "('c \<Rightarrow> nat) \<Rightarrow> ('c session \<times> 'c session) set" where
  "nearer work = inv_image (less_than <*lex*> less_than) (drive_measure work)"

lemma nearer_iff:
  "(s', s) \<in> nearer work \<longleftrightarrow>
     to_read (se_transport s') < to_read (se_transport s)
   \<or> (to_read (se_transport s') = to_read (se_transport s) \<and> work (se_client s') < work (se_client s))"
  by (auto simp: drive_measure_def nearer_def)

lemma wf_nearer: "wf (nearer work)"
  unfolding nearer_def by (intro wf_inv_image wf_lex_prod wf_less_than)

text \<open>Under a deadline the pump returns; an event is progress, and an elapsed wait takes nothing.\<close>

definition pump_progress :: "('c \<Rightarrow> nat) \<Rightarrow> 'c session \<Rightarrow> pump_result \<Rightarrow> 'c session \<Rightarrow> bool" where
  "pump_progress work s p s' \<longleftrightarrow>
     (case p of
        Pump_Event _ \<Rightarrow> (s', s) \<in> nearer work
      | Pump_Elapsed \<Rightarrow> (s', s) \<in> nearer work \<or> drive_measure work s' = drive_measure work s
      | Pump_Err _ \<Rightarrow> True)"

lemma pump_progress_step:
  "(s1, s) \<in> nearer work \<Longrightarrow> pump_progress work s1 p s' \<Longrightarrow> pump_progress work s p s'"
  by (auto simp: pump_progress_def nearer_iff drive_measure_def split: pump_result.splits)

lemma pump_returns:
  assumes "client_progress cl work"
  shows "\<exists>p s'. pump cl (Some d) s = Some (p, s') \<and> pump_progress work s p s'"
  using wf_nearer [of work]
proof (induction s rule: wf_induct_rule)
  case (less s)
  obtain n c where n: "client_next cl (se_client s) = (n, c)" by fastforce
  have w: "if n = Next_NeedMoreInput then work c \<le> work (se_client s) else work c < work (se_client s)"
    using assms n by (auto simp: client_progress_def)
  show ?case
  proof (cases n)
    case (Next_Event e)
    with n w show ?thesis
      by (simp add: pump.simps [of _ _ s] pump_progress_def nearer_iff Let_def)
  next
    case (Next_Error e)
    with n show ?thesis by (simp add: pump.simps [of _ _ s] pump_progress_def Let_def)
  next
    case (Next_Output bs)
    obtain r t where o: "futures_write bs (se_transport s) = (r, t)" by fastforce
    let ?s2 = "s\<lparr>se_client := c, se_transport := t\<rparr>"
    have near: "(?s2, s) \<in> nearer work"
      using w Next_Output futures_write_to_read [OF o] by (simp add: nearer_iff)
    show ?thesis
    proof (cases r)
      case (Inl er)
      with n o Next_Output show ?thesis
        by (simp add: pump.simps [of _ _ s] pump_progress_def Let_def)
    next
      case (Inr u)
      obtain p s' where "pump cl (Some d) ?s2 = Some (p, s')" "pump_progress work ?s2 p s'"
        using less.IH [OF near] by blast
      with n o Next_Output Inr near show ?thesis
        by (auto simp: pump.simps [of _ _ s] Let_def intro: pump_progress_step)
    qed
  next
    case Next_NeedMoreInput
    obtain r t where rd: "transport_read (Some d) (se_transport s) = Some (r, t)"
      using transport_read_defined [of d "se_transport s"] by auto
    show ?thesis
    proof (cases r)
      case Read_Elapsed
      with n w rd Next_NeedMoreInput transport_read_elapsed [of "Some d" "se_transport s" t]
      show ?thesis
        by (auto simp: pump.simps [of _ _ s] pump_progress_def nearer_iff drive_measure_def
            to_read_def Let_def)
    next
      case (Read_Err er)
      with n rd Next_NeedMoreInput show ?thesis
        by (simp add: pump.simps [of _ _ s] pump_progress_def Let_def)
    next
      case (Read_Ok bs)
      show ?thesis
      proof (cases "bs = []")
        case True
        with n rd Next_NeedMoreInput Read_Ok show ?thesis
          by (simp add: pump.simps [of _ _ s] pump_progress_def Let_def)
      next
        case False
        let ?s2 = "s\<lparr>se_transport := t, se_client := enqueue_input cl bs c\<rparr>"
        have near: "(?s2, s) \<in> nearer work"
          using False Read_Ok rd transport_read_progress(1) by (fastforce simp: nearer_iff)
        obtain p s' where "pump cl (Some d) ?s2 = Some (p, s')" "pump_progress work ?s2 p s'"
          using less.IH [OF near] by blast
        with n rd Next_NeedMoreInput Read_Ok False near show ?thesis
          by (auto simp: pump.simps [of _ _ s] Let_def intro: pump_progress_step)
      qed
    qed
  qed
qed

text \<open>
  A loop whose waits all have a deadline returns, if events leave the client's work alone but for
  progress, and an elapsed wait is survived only while \<open>fuel\<close>, which events do not raise, goes
  down.
\<close>

lemma drive_returns:
  fixes fuel :: "'a \<Rightarrow> nat"
  assumes prog: "client_progress cl work"
    and dl: "\<And>s. \<exists>d. dl s = Some d"
    and el: "\<And>a s a' s'. el a s = (Inr a', s') \<Longrightarrow>
        fuel a' < fuel a \<and> to_read (se_transport s') = to_read (se_transport s)"
    and ev: "\<And>e a s a' s'. ev e a s = (Inr a', s') \<Longrightarrow>
        fuel a' < fuel a \<and> to_read (se_transport s') = to_read (se_transport s)
        \<or> fuel a' \<le> fuel a \<and> drive_measure work s' = drive_measure work s"
  shows "\<exists>res. drive cl dl el ev a s = Some res"
proof -
  let ?R = "inv_image (less_than <*lex*> (less_than <*lex*> less_than))
      (\<lambda>(a, s). (to_read (se_transport s), fuel a, work (se_client s)))"
  have wf: "wf ?R" by (intro wf_inv_image wf_lex_prod wf_less_than)
  have "\<exists>res. drive cl dl el ev (fst as) (snd as) = Some res" for as
    using wf
  proof (induction as rule: wf_induct_rule)
    case (less as)
    obtain a s where as: "as = (a, s)" by fastforce
    obtain d where d: "dl s = Some d" using dl by blast
    obtain p s1 where p: "pump cl (Some d) s = Some (p, s1)" and pr: "pump_progress work s p s1"
      using pump_returns [OF prog] by blast
    show ?case
    proof (cases "round el ev p a s1")
      case (Pair x s2)
      show ?thesis
      proof (cases x)
        case (Inl r)
        with as d p Pair show ?thesis by (simp add: drive.simps [of _ _ _ _ _ s])
      next
        case (Inr a')
        have "((a', s2), as) \<in> ?R"
          using pr Pair Inr el ev unfolding as round_def pump_progress_def
          by (cases p) (fastforce simp: drive_measure_def nearer_iff)+
        from less.IH [OF this] as d p Pair Inr show ?thesis
          by (simp add: drive.simps [of _ _ _ _ _ s])
      qed
    qed
  qed
  from this [of "(a, s)"] show ?thesis by simp
qed

end
