(* ===== verification/Sasl.thy ===== *)
theory Sasl
  imports RText
begin

text \<open>
  \<open>src/src/sasl.rs\<close> and \<open>src/src/secrets.rs\<close>: the mechanisms and their wire names, the step-wise
  exchange that the host injects, and the secret carrier.
\<close>

datatype sasl_mechanism = SM_Plain | SM_Login | SM_ScramSha256 | SM_Xoauth2

fun mechanism_name :: "sasl_mechanism \<Rightarrow> rstr" where
  "mechanism_name SM_Plain = lit ''PLAIN''"
| "mechanism_name SM_Login = lit ''LOGIN''"
| "mechanism_name SM_ScramSha256 = lit ''SCRAM-SHA-256''"
| "mechanism_name SM_Xoauth2 = lit ''XOAUTH2''"

text \<open>The trait \<open>SaslSession\<close>, on the exchange's own state.\<close>

record 'q sasl_ops =
  initial_response :: "'q \<Rightarrow> u8 list option \<times> 'q"
  respond :: "u8 list \<Rightarrow> 'q \<Rightarrow> (rstr + u8 list) \<times> 'q"

datatype secret_string = SecretString (expose: rstr)

text \<open>The \<open>Debug\<close> form of a secret.\<close>

definition secret_debug :: "secret_string \<Rightarrow> rstr" where
  "secret_debug s = lit ''SecretString(***)''"

lemma mechanism_name_inj: "mechanism_name a = mechanism_name b \<Longrightarrow> a = b"
  by (cases a; cases b) auto

end
