(* ===== verification/Session.thy ===== *)
theory Session
  imports Drive Sasl
begin

text \<open>
  \<open>src/src/session.rs\<close>: the driver of one IMAP session.  Commands run one at a time: a fresh tag,
  the command handed to the sans-I/O client, then the event loop until the command's own status.
  Parameters: the client and the functions of the crates (\<open>client_ops\<close>, \<open>imap_lib\<close>), the outcome
  of the TCP connect, the TLS handshake, and the host's SASL exchanges.
\<close>

section \<open>Connection parameters\<close>

datatype security = Sec_Tls | Sec_StartTls | Sec_Insecure

text \<open>
  \<open>cp_tls\<close> is \<open>TlsConnector::connect\<close> (\<open>None\<close>: the handshake never completes), \<open>cp_server_name\<close>
  is \<open>ServerName::try_from\<close>, and \<open>cp_sasl_ops\<close> are the methods of the boxed exchanges that the
  factory makes.
\<close>

record 'q connect_params =
  cp_host :: rstr
  cp_port :: u16
  cp_security :: security
  cp_username :: rstr
  cp_secret :: secret_string
  cp_mechanisms :: "sasl_mechanism list"
  cp_tls :: "rstr \<Rightarrow> transport \<Rightarrow> (rstr + transport) option"
  cp_server_name :: "rstr \<Rightarrow> rstr + rstr"
  cp_sasl_factory :: "sasl_mechanism \<Rightarrow> rstr \<Rightarrow> secret_string \<Rightarrow> 'q"
  cp_sasl_ops :: "'q sasl_ops"

datatype tcp_result = Tcp_Elapsed | Tcp_Err rstr | Tcp_Ok transport

section \<open>Unsolicited data\<close>

datatype unsolicited =
    U_Exists u32
  | U_Recent u32
  | U_Expunge u32
  | U_FetchFlags u32 "rstr list"
  | U_Vanished "u32 list"
  | U_Other rstr

fun flag_fetch_text :: "flag_fetch \<Rightarrow> rstr" where
  "flag_fetch_text (FF_Flag IF_Seen) = 92 # lit ''Seen''"
| "flag_fetch_text (FF_Flag IF_Answered) = 92 # lit ''Answered''"
| "flag_fetch_text (FF_Flag IF_Flagged) = 92 # lit ''Flagged''"
| "flag_fetch_text (FF_Flag IF_Deleted) = 92 # lit ''Deleted''"
| "flag_fetch_text (FF_Flag IF_Draft) = 92 # lit ''Draft''"
| "flag_fetch_text FF_Recent = 92 # lit ''Recent''"
| "flag_fetch_text (FF_Flag (IF_Other dbg)) = dbg"

text \<open>The scan over the items of a FETCH response: the last UID and the last flag list win.\<close>

fun scan_items :: "message_data_item list \<Rightarrow> u32 option \<Rightarrow> rstr list option \<Rightarrow> u32 option \<times> rstr list option" where
  "scan_items [] uid flags = (uid, flags)"
| "scan_items (MDI_Uid u # is) uid flags = scan_items is (Some u) flags"
| "scan_items (MDI_Flags f # is) uid flags = scan_items is uid (Some (map flag_fetch_text f))"
| "scan_items (_ # is) uid flags = scan_items is uid flags"

fun from_data :: "imap_lib \<Rightarrow> imap_data \<Rightarrow> unsolicited list" where
  "from_data lib (Data_Exists n) = [U_Exists n]"
| "from_data lib (Data_Recent n) = [U_Recent n]"
| "from_data lib (Data_Expunge n) = [U_Expunge n]"
| "from_data lib (Data_Vanished known) = [U_Vanished (seq_iter lib known)]"
| "from_data lib (Data_Fetch _ is) =
     (case scan_items is None None of
        (Some uid, Some flags) \<Rightarrow> [U_FetchFlags uid flags]
      | _ \<Rightarrow> [])"
| "from_data lib d = [U_Other (dbg_data lib d)]"

section \<open>Command outcomes\<close>

record command_outcome =
  co_status :: status
  co_data :: "imap_data list"
  co_untagged :: "status list"

definition status_ok :: "status \<Rightarrow> bool" where
  "status_ok st = (case st of St_Tagged _ b \<Rightarrow> sb_kind b = SK_Ok | _ \<Rightarrow> False)"

definition is_ok :: "command_outcome \<Rightarrow> bool" where
  "is_ok o' = status_ok (co_status o')"

definition status_summary :: "imap_lib \<Rightarrow> command_outcome \<Rightarrow> rstr" where
  "status_summary lib o' = dbg_status lib (co_status o')"

section \<open>Capabilities and tags\<close>

definition has_capability :: "rstr \<Rightarrow> 'c session \<Rightarrow> bool" where
  "has_capability needle s \<longleftrightarrow> (\<exists>c \<in> se_capabilities s. eq_ignore_ascii_case c needle)"

definition absorb_capability_list :: "rstr list \<Rightarrow> 'c session \<Rightarrow> 'c session" where
  "absorb_capability_list caps s = s\<lparr>se_capabilities := se_capabilities s \<union> set caps\<rparr>"

definition absorb_capabilities :: "imap_data \<Rightarrow> 'c session \<Rightarrow> 'c session" where
  "absorb_capabilities d s =
     (case d of Data_Capability caps \<Rightarrow> absorb_capability_list caps s | _ \<Rightarrow> s)"

definition next_tag :: "imap_lib \<Rightarrow> ('c session, tag sync_result) eff" where
  "next_tag lib s =
     (let s' = s\<lparr>se_tag_counter := se_tag_counter s + 1\<rparr>
      in Some (map_err (\<lambda>e. Protocol (lit ''tag build: '' @ e))
                 (tag_try_from lib (lit ''K'' @ dec_of (se_tag_counter s'))), s'))"

definition send_command :: "'c client_ops \<Rightarrow> tag \<Rightarrow> command_body \<Rightarrow> ('c session, handle) eff" where
  "send_command cl t body s =
     (let (h, c) = enqueue_command cl \<lparr>cmd_tag = t, cmd_body = body\<rparr> (se_client s)
      in Some (h, s\<lparr>se_client := c\<rparr>))"

text \<open>\<open>tokio::time::timeout(secs, ...)\<close>: the deadline of a wait that starts in \<open>s\<close>.\<close>

definition after_secs :: "nat \<Rightarrow> 'c session \<Rightarrow> nat option" where
  "after_secs secs s = Some (tr_now (se_transport s) + secs * 1000)"

section \<open>The greeting\<close>

definition no_elapse :: "('c, 'a, 'r) handler" where
  "no_elapse a s = (Inr a, s)" \<comment> \<open>not reached: the wait has no deadline\<close>

fun greeting_event :: "event \<Rightarrow> ('c, unit, unit) handler" where
  "greeting_event (Ev_GreetingReceived (Some (Code_Capability caps))) a s =
     (Inl (Inr ()), absorb_capability_list caps s)"
| "greeting_event _ a s = (Inr a, s)"

definition drive_until_greeting :: "'c client_ops \<Rightarrow> ('c session, unit sync_result) eff" where
  "drive_until_greeting cl s = drive cl (\<lambda>_. None) no_elapse greeting_event () s"

section \<open>Commands\<close>

type_synonym command_locals = "imap_data list \<times> status list" \<comment> \<open>data, untagged\<close>

definition command_elapsed :: "nat \<Rightarrow> ('c, command_locals, command_outcome) handler" where
  "command_elapsed secs a s =
     (Inl (Inl (Transport (lit ''command timeout after '' @ dec_digits secs @ lit ''s''))), s)"

fun command_event :: "tag \<Rightarrow> handle \<Rightarrow> event \<Rightarrow> ('c, command_locals, command_outcome) handler" where
  "command_event t h (Ev_CommandRejected h' st) (data, untagged) s =
     (if h' = h
      then (Inl (Inr \<lparr>co_status = st, co_data = data, co_untagged = untagged\<rparr>), s)
      else (Inr (data, untagged), s))"
| "command_event t h (Ev_DataReceived d) (data, untagged) s =
     (Inr (data @ [d], untagged), absorb_capabilities d s)"
| "command_event t h (Ev_StatusReceived st) (data, untagged) s =
     (if status_tag st = Some t
      then (Inl (Inr \<lparr>co_status = st, co_data = data, co_untagged = untagged\<rparr>), s)
      else (Inr (data, untagged @ [st]), s))"
| "command_event t h Ev_ContinuationRequestReceived a s =
     (Inl (Inl (Protocol (lit ''continuation during plain command''))), s)"
| "command_event t h _ a s = (Inr a, s)"

definition execute ::
    "'c client_ops \<Rightarrow> imap_lib \<Rightarrow> command_body \<Rightarrow> nat \<Rightarrow> ('c session, command_outcome sync_result) eff" where
  "execute cl lib body secs =
     try_bind (next_tag lib) (\<lambda>t.
     eff_bind (send_command cl t body) (\<lambda>h.
     drive cl (after_secs secs) (command_elapsed secs) (command_event t h) ([], [])))"

definition cmd_timeout_secs :: nat where
  "cmd_timeout_secs = 60"

definition refresh_capabilities :: "'c client_ops \<Rightarrow> imap_lib \<Rightarrow> ('c session, unit sync_result) eff" where
  "refresh_capabilities cl lib =
     try_bind (execute cl lib Cmd_Capability 30) (\<lambda>o'.
     eff_lift (if is_ok o' then Inr ()
       else Inl (Protocol (lit ''CAPABILITY failed: '' @ status_summary lib o'))))"

definition uid_fetch ::
    "'c client_ops \<Rightarrow> imap_lib \<Rightarrow> rstr \<Rightarrow> fetch_items \<Rightarrow> ('c session, command_outcome sync_result) eff" where
  "uid_fetch cl lib uid_range items =
     try_bind (eff_lift (map_err
         (\<lambda>e. Protocol (lit ''bad uid range '' @ dbg_str lib uid_range @ lit '': '' @ e))
         (seq_try_from lib uid_range))) (\<lambda>sq.
     execute cl lib (Cmd_Fetch sq items True None) cmd_timeout_secs)"

definition fetch_envelopes ::
    "'c client_ops \<Rightarrow> imap_lib \<Rightarrow> rstr \<Rightarrow> ('c session, command_outcome sync_result) eff" where
  "fetch_envelopes cl lib uid_range = uid_fetch cl lib uid_range FI_All"

definition fetch_raw ::
    "'c client_ops \<Rightarrow> imap_lib \<Rightarrow> u32 \<Rightarrow> ('c session, command_outcome sync_result) eff" where
  "fetch_raw cl lib uid = uid_fetch cl lib (dec_of uid) FI_Rfc822"

definition logout :: "'c client_ops \<Rightarrow> imap_lib \<Rightarrow> ('c session, unit) eff" where
  "logout cl lib = eff_bind (execute cl lib Cmd_Logout 10) (\<lambda>_. eff_return ())"

section \<open>Authentication\<close>

fun auth_mechanism_of :: "sasl_mechanism \<Rightarrow> auth_mechanism" where
  "auth_mechanism_of SM_Plain = AM_Plain"
| "auth_mechanism_of SM_Login = AM_Login"
| "auth_mechanism_of SM_ScramSha256 = AM_ScramSha256"
| "auth_mechanism_of SM_Xoauth2 = AM_XOAuth2"

fun continuation_request_data :: "imap_lib \<Rightarrow> continuation \<Rightarrow> u8 list" where
  "continuation_request_data lib (Ccr_Base64 b64) = option_or [] (base64_decode lib b64)"
| "continuation_request_data lib Ccr_Basic = []"

definition auth_elapsed :: "('c, 'q, unit) handler" where
  "auth_elapsed q s = (Inl (Inl (Transport (lit ''auth timeout''))), s)"

fun auth_event ::
    "'c client_ops \<Rightarrow> imap_lib \<Rightarrow> 'q sasl_ops \<Rightarrow> event \<Rightarrow> ('c, 'q, unit) handler" where
  "auth_event cl lib ops (Ev_AuthenticateContinuation c) q s =
     (case respond ops (continuation_request_data lib c) q of
        (Inl e, q') \<Rightarrow> (Inl (Inl (Sasl e)), s)
      | (Inr answer, q') \<Rightarrow>
          let (accepted, c') = set_authenticate_data cl answer (se_client s);
              s' = s\<lparr>se_client := c'\<rparr>
          in if accepted then (Inr q', s')
             else (Inl (Inl (Protocol (lit ''auth continuation out of sync''))), s'))"
| "auth_event cl lib ops (Ev_AuthenticateStatusReceived st) q s =
     (Inl (if status_ok st then Inr () else Inl CredentialsRejected), s)"
| "auth_event cl lib ops (Ev_DataReceived d) q s = (Inr q, absorb_capabilities d s)"
| "auth_event cl lib ops _ q s = (Inr q, s)"

definition run_authenticate ::
    "'c client_ops \<Rightarrow> imap_lib \<Rightarrow> 'q sasl_ops \<Rightarrow> command_body \<Rightarrow> 'q \<Rightarrow> ('c session, unit sync_result) eff" where
  "run_authenticate cl lib ops body q =
     try_bind (next_tag lib) (\<lambda>t.
     eff_bind (send_command cl t body) (\<lambda>_.
     drive cl (after_secs 30) auth_elapsed (auth_event cl lib ops) q))"

text \<open>The first preferred mechanism that the server advertises.\<close>

definition chosen_mechanism :: "'q connect_params \<Rightarrow> 'c session \<Rightarrow> sasl_mechanism option" where
  "chosen_mechanism p s =
     find (\<lambda>m. has_capability (lit ''AUTH='' @ mechanism_name m) s) (cp_mechanisms p)"

definition login ::
    "'c client_ops \<Rightarrow> imap_lib \<Rightarrow> 'q connect_params \<Rightarrow> ('c session, unit sync_result) eff" where
  "login cl lib p =
     try_bind (eff_lift (map_err (\<lambda>e. Protocol (lit ''username: '' @ e))
         (astring_try_from lib (cp_username p)))) (\<lambda>username.
     try_bind (eff_lift (map_err (\<lambda>e. Protocol (lit ''password: '' @ e))
         (astring_try_from lib (expose (cp_secret p))))) (\<lambda>password.
     try_bind (execute cl lib (Cmd_Login username password) 30) (\<lambda>o'.
     eff_lift (if is_ok o' then Inr () else Inl CredentialsRejected))))"

definition authenticate ::
    "'c client_ops \<Rightarrow> imap_lib \<Rightarrow> 'q connect_params \<Rightarrow> ('c session, unit sync_result) eff" where
  "authenticate cl lib p s =
     (case chosen_mechanism p s of
        Some m \<Rightarrow>
          (let (ir, q) = initial_response (cp_sasl_ops p)
                 (cp_sasl_factory p m (cp_username p) (cp_secret p))
           in run_authenticate cl lib (cp_sasl_ops p)
                (Cmd_Authenticate (auth_mechanism_of m) ir) q s)
      | None \<Rightarrow> login cl lib p s)"

section \<open>IDLE\<close>

type_synonym idle_locals = "unsolicited list \<times> bool \<times> bool" \<comment> \<open>unsolicited, accepted, done sent\<close>

definition send_idle_done :: "'c client_ops \<Rightarrow> unsolicited list \<Rightarrow> bool \<Rightarrow> 'c session \<Rightarrow>
    (unsolicited list sync_result + idle_locals) \<times> 'c session" where
  "send_idle_done cl us accepted s =
     (let (ok, c) = set_idle_done cl (se_client s); s' = s\<lparr>se_client := c\<rparr>
      in if ok then (Inr (us, accepted, True), s')
         else (Inl (Inl (Protocol (lit ''idle done out of sync''))), s'))"

definition idle_elapsed :: "'c client_ops \<Rightarrow> ('c, idle_locals, unsolicited list) handler" where
  "idle_elapsed cl a s =
     (case a of (us, accepted, done_sent) \<Rightarrow>
        if \<not> accepted then (Inl (Inr us), s)
        else if \<not> done_sent then send_idle_done cl us accepted s
        else (Inl (Inl (Transport (lit ''no status after IDLE DONE''))), s))"

fun idle_event ::
    "'c client_ops \<Rightarrow> imap_lib \<Rightarrow> event \<Rightarrow> ('c, idle_locals, unsolicited list) handler" where
  "idle_event cl lib Ev_IdleAccepted (us, accepted, done_sent) s = (Inr (us, True, done_sent), s)"
| "idle_event cl lib Ev_IdleDoneSent (us, accepted, done_sent) s = (Inr (us, accepted, True), s)"
| "idle_event cl lib (Ev_IdleRejected st) a s =
     (Inl (Inl (Protocol (lit ''IDLE rejected: '' @ dbg_status lib st))), s)"
| "idle_event cl lib (Ev_DataReceived d) (us, accepted, done_sent) s =
     (let us' = us @ from_data lib d
      in if accepted \<and> \<not> done_sent \<and> us' \<noteq> [] then send_idle_done cl us' accepted s
         else (Inr (us', accepted, done_sent), s))"
| "idle_event cl lib (Ev_StatusReceived st) (us, accepted, done_sent) s =
     (if accepted then (Inl (Inr us), s) else (Inr (us, accepted, done_sent), s))"
| "idle_event cl lib _ a s = (Inr a, s)"

text \<open>\<open>max_wait\<close> is in milliseconds; the deadline is fixed when the IDLE command is queued.\<close>

definition idle :: "'c client_ops \<Rightarrow> imap_lib \<Rightarrow> nat \<Rightarrow> ('c session, unsolicited list sync_result) eff" where
  "idle cl lib max_wait =
     try_bind (next_tag lib) (\<lambda>t.
     eff_bind (send_command cl t Cmd_Idle) (\<lambda>_.
     eff_bind (eff_get (\<lambda>s. tr_now (se_transport s) + max_wait)) (\<lambda>deadline.
     drive cl (\<lambda>s. Some (tr_now (se_transport s) + (deadline - tr_now (se_transport s))))
       (idle_elapsed cl) (idle_event cl lib) ([], False, False))))"

section \<open>Connecting\<close>

definition tls_connect :: "'q connect_params \<Rightarrow> transport \<Rightarrow> transport sync_result option" where
  "tls_connect p tcp =
     (case cp_server_name p (cp_host p) of
        Inl e \<Rightarrow> Some (Inl (Tls e))
      | Inr name \<Rightarrow> map_option (map_err Tls) (cp_tls p name tcp))"

text \<open>Entering a session built on a fresh connection, and leaving with it.\<close>

definition in_session ::
    "'c session \<Rightarrow> ('c session, unit sync_result) eff \<Rightarrow> 'c session sync_result option" where
  "in_session s m =
     map_option (\<lambda>(r, s'). case r of Inl e \<Rightarrow> Inl e | Inr _ \<Rightarrow> Inr s') (m s)"

definition starttls_refused :: sync_error where
  "starttls_refused = CapabilityMissing (lit ''STARTTLS refused by server'')"

definition start_tls ::
    "'c client_ops \<Rightarrow> imap_lib \<Rightarrow> 'q connect_params \<Rightarrow> ('c session, unit sync_result) eff" where
  "start_tls cl lib p =
     try_bind (drive_until_greeting cl) (\<lambda>_.
     try_bind (execute cl lib Cmd_StartTLS 30) (\<lambda>o'.
     if \<not> is_ok o' then eff_lift (Inl starttls_refused)
     else (\<lambda>s.
       if tr_tls (se_transport s)
       then Some (Inl (Protocol (lit ''expected plain transport'')), s)
       else case tls_connect p (se_transport s) of
              None \<Rightarrow> None
            | Some (Inl e) \<Rightarrow> Some (Inl e, s)
            | Some (Inr t) \<Rightarrow> drive_until_greeting cl (s\<lparr>se_transport := t\<lparr>tr_tls := True\<rparr>\<rparr>))))"

definition connect_transport ::
    "'c client_ops \<Rightarrow> imap_lib \<Rightarrow> tcp_result \<Rightarrow> 'q connect_params \<Rightarrow> 'c session sync_result option" where
  "connect_transport cl lib tcp p =
     (case tcp of
        Tcp_Elapsed \<Rightarrow>
          Some (Inl (Transport (lit ''connect timeout '' @ cp_host p @ lit '':'' @ dec_of (cp_port p))))
      | Tcp_Err e \<Rightarrow> Some (Inl (Transport e))
      | Tcp_Ok t \<Rightarrow>
          (case cp_security p of
             Sec_Tls \<Rightarrow>
               (case tls_connect p t of
                  None \<Rightarrow> None
                | Some (Inl e) \<Rightarrow> Some (Inl e)
                | Some (Inr t') \<Rightarrow>
                    in_session (from_transport cl (t'\<lparr>tr_tls := True\<rparr>)) (drive_until_greeting cl))
           | Sec_Insecure \<Rightarrow>
               in_session (from_transport cl (t\<lparr>tr_tls := False\<rparr>)) (drive_until_greeting cl)
           | Sec_StartTls \<Rightarrow>
               in_session (from_transport cl (t\<lparr>tr_tls := False\<rparr>)) (start_tls cl lib p)))"

definition connect_and_authenticate ::
    "'c client_ops \<Rightarrow> imap_lib \<Rightarrow> tcp_result \<Rightarrow> 'q connect_params \<Rightarrow> 'c session sync_result option" where
  "connect_and_authenticate cl lib tcp p =
     (case connect_transport cl lib tcp p of
        None \<Rightarrow> None
      | Some (Inl e) \<Rightarrow> Some (Inl e)
      | Some (Inr s) \<Rightarrow>
          in_session s (try_bind (authenticate cl lib p) (\<lambda>_. refresh_capabilities cl lib)))"

end
