(* ===== verification/Script_Client.thy ===== *)
theory Script_Client
  imports Session
begin

text \<open>
  A client that answers from a script, used to instantiate the parameters of the session in the
  concrete runs of this development: \<open>client_next\<close> hands out the queued answers and asks for input
  when there is none, each input releases the next batch of answers, and commands are recorded.
\<close>

record script_state =
  sc_queue :: "client_next list"
  sc_batches :: "client_next list list"
  sc_commands :: "command list"

definition script_next :: "script_state \<Rightarrow> client_next \<times> script_state" where
  "script_next c =
     (case sc_queue c of
        [] \<Rightarrow> (Next_NeedMoreInput, c)
      | n # q \<Rightarrow> (n, c\<lparr>sc_queue := q\<rparr>))"

definition script_input :: "u8 list \<Rightarrow> script_state \<Rightarrow> script_state" where
  "script_input bs c =
     (case sc_batches c of
        [] \<Rightarrow> c
      | b # bs' \<Rightarrow> c\<lparr>sc_queue := sc_queue c @ b, sc_batches := bs'\<rparr>)"

text \<open>Accepting DONE queues the line itself and the event that it is sent.\<close>

definition script_done :: "script_state \<Rightarrow> bool \<times> script_state" where
  "script_done c =
     (True, c\<lparr>sc_queue := sc_queue c @ [Next_Output [68, 79, 78, 69, 13, 10], Next_Event Ev_IdleDoneSent]\<rparr>)"

definition script_client :: "client_next list list \<Rightarrow> script_state client_ops" where
  "script_client batches =
     \<lparr>client_new = \<lparr>sc_queue = [], sc_batches = batches, sc_commands = []\<rparr>,
      client_next = script_next, enqueue_input = script_input,
      enqueue_command = (\<lambda>cmd c. (length (sc_commands c), c\<lparr>sc_commands := sc_commands c @ [cmd]\<rparr>)),
      set_authenticate_data = (\<lambda>bs c. (True, c)), set_idle_done = script_done\<rparr>"

definition script_work :: "script_state \<Rightarrow> nat" where
  "script_work c = length (sc_queue c)"

text \<open>Functions of the crates that accept every text; no base64, an empty Debug form.\<close>

definition plain_lib :: imap_lib where
  "plain_lib =
     \<lparr>dbg_status = (\<lambda>_. []), dbg_data = (\<lambda>_. []), dbg_str = (\<lambda>s. s), seq_iter = (\<lambda>_. []),
      seq_try_from = (\<lambda>s. Inr (SequenceSet s)),
      mailbox_try_from = (\<lambda>s. Inr (MB_Other (AAtom s))), astring_try_from = (\<lambda>s. Inr (AAtom s)),
      literal_try_from = Inr, tag_try_from = Inr, base64_decode = (\<lambda>_. None)\<rparr>"

lemma script_progress: "client_progress (script_client b) script_work"
  by (auto simp: client_progress_def script_client_def script_next_def script_work_def split: list.splits)

text \<open>A connection on which one byte arrives at each of the given times.\<close>

definition ticks :: "nat list \<Rightarrow> transport" where
  "ticks ts = \<lparr>tr_tls = False, tr_now = 0, tr_in = map (\<lambda>t. In_Bytes t [0]) ts, tr_out = [], tr_write_errs = []\<rparr>"

definition ok_body :: status_body where
  "ok_body = \<lparr>sb_kind = SK_Ok, sb_code = None\<rparr>"

definition fresh_session :: "client_next list list \<Rightarrow> nat list \<Rightarrow> script_state session" where
  "fresh_session batches ts = from_transport (script_client batches) (ticks ts)"

text \<open>The text of the first tag, and the equations by which a run is evaluated.\<close>

lemma dec_of_1: "dec_of (1 :: u64) = [49]" "dec_of (2 :: u64) = [50]"
  by (simp_all add: dec_of_def dec_digits.simps)

lemmas run_simps =
  execute_def try_bind_def eff_bind_def next_tag_def send_command_def after_secs_def
  from_transport_def drive.simps pump.simps round_def script_client_def script_next_def
  script_input_def script_done_def plain_lib_def transport_read_def futures_write_def ticks_def read_chunk_def
  fresh_session_def status_tag_def ok_body_def dec_of_1 lit_def status_ok_def is_ok_def
  absorb_capabilities_def absorb_capability_list_def

text \<open>A \<open>CAPABILITY\<close> command answered in two arrivals.\<close>

definition demo_script :: "client_next list list" where
  "demo_script =
     [[Next_Output [1], Next_Event (Ev_DataReceived (Data_Capability [lit ''IDLE'']))],
      [Next_Event (Ev_DataReceived (Data_Exists 3)),
       Next_Event (Ev_StatusReceived (St_Tagged (lit ''K1'') ok_body))]]"

lemma demo_run:
  "\<exists>s'. execute (script_client demo_script) plain_lib Cmd_Capability 30 (fresh_session demo_script [5, 9])
     = Some (Inr \<lparr>co_status = St_Tagged (lit ''K1'') ok_body,
         co_data = [Data_Capability [lit ''IDLE''], Data_Exists 3], co_untagged = []\<rparr>, s')"
  by (simp add: run_simps demo_script_def)

end
