(* ===== verification/Session_Facts.thy ===== *)
theory Session_Facts
  imports Script_Client
begin

text \<open>
  Properties of the session's operations in \<open>src/src/session.rs\<close>: what a command's outcome is made
  of, which errors it can end in, that it always returns, how tags and capabilities evolve, when
  authentication succeeds, that a session is encrypted unless configured otherwise, and what IDLE
  returns.
\<close>

section \<open>What an event contributes\<close>

fun event_data :: "event \<Rightarrow> imap_data option" where
  "event_data (Ev_DataReceived d) = Some d"
| "event_data _ = None"

fun event_status :: "event \<Rightarrow> status option" where
  "event_status (Ev_StatusReceived st) = Some st"
| "event_status _ = None"

fun data_caps :: "imap_data \<Rightarrow> rstr set" where
  "data_caps (Data_Capability caps) = set caps"
| "data_caps _ = {}"

fun ends_command :: "tag \<Rightarrow> handle \<Rightarrow> event \<Rightarrow> bool" where
  "ends_command t h (Ev_CommandRejected h' _) = (h' = h)"
| "ends_command t h (Ev_StatusReceived st) = (status_tag st = Some t)"
| "ends_command t h Ev_ContinuationRequestReceived = True"
| "ends_command t h _ = False"

abbreviation all_data :: "event list \<Rightarrow> imap_data list" where
  "all_data evs \<equiv> List.map_filter event_data evs"

abbreviation all_statuses :: "event list \<Rightarrow> status list" where
  "all_statuses evs \<equiv> List.map_filter event_status evs"

lemma absorb_capabilities_simps [simp]:
  "se_capabilities (absorb_capabilities d s) = se_capabilities s \<union> data_caps d"
  "se_transport (absorb_capabilities d s) = se_transport s"
  "se_client (absorb_capabilities d s) = se_client s"
  "se_tag_counter (absorb_capabilities d s) = se_tag_counter s"
  by (cases d; simp add: absorb_capabilities_def absorb_capability_list_def)+

section \<open>Commands\<close>

lemma command_round_more:
  assumes "round (command_elapsed secs) (command_event t h) p (d, u) s = (Inr a', s2)"
  shows "\<exists>e. p = Pump_Event e \<and> \<not> ends_command t h e
    \<and> a' = (d @ all_data [e], u @ all_statuses [e])
    \<and> se_capabilities s2 = se_capabilities s \<union> \<Union> (data_caps ` set (all_data [e]))
    \<and> se_tag_counter s2 = se_tag_counter s \<and> se_transport s2 = se_transport s
    \<and> se_client s2 = se_client s"
proof (cases p)
  case (Pump_Event e)
  with assms show ?thesis
    by (cases e) (auto simp: round_def map_filter_Cons split: if_splits)
qed (use assms in \<open>auto simp: round_def command_elapsed_def\<close>)

lemma command_round_done:
  assumes "round (command_elapsed secs) (command_event t h) p (d, u) s = (Inl (Inr o'), s2)"
  shows "s2 = s \<and> co_data o' = d \<and> co_untagged o' = u
    \<and> (p = Pump_Event (Ev_StatusReceived (co_status o')) \<and> status_tag (co_status o') = Some t
     \<or> p = Pump_Event (Ev_CommandRejected h (co_status o')))"
proof (cases p)
  case (Pump_Event e)
  with assms show ?thesis by (cases e) (auto simp: round_def split: if_splits)
qed (use assms in \<open>auto simp: round_def command_elapsed_def\<close>)

lemma command_round_error:
  assumes "round (command_elapsed secs) (command_event t h) p (d, u) s = (Inl (Inl e), s2)"
  shows "s2 = s \<and> (p = Pump_Err e
     \<or> p = Pump_Elapsed \<and> e = Transport (lit ''command timeout after '' @ dec_digits secs @ lit ''s'')
     \<or> p = Pump_Event Ev_ContinuationRequestReceived
         \<and> e = Protocol (lit ''continuation during plain command''))"
proof (cases p)
  case (Pump_Event ev)
  with assms show ?thesis by (cases ev) (auto simp: round_def split: if_splits)
qed (use assms in \<open>auto simp: round_def command_elapsed_def\<close>)

lemma pump_frame_data:
  assumes "pump cl d s = Some (p, s1)"
  shows "se_tag_counter s1 = se_tag_counter s" "se_capabilities s1 = se_capabilities s"
    "tr_tls (se_transport s1) = tr_tls (se_transport s)"
    "tr_now (se_transport s) \<le> tr_now (se_transport s1)"
  using pump_keeps [OF assms] by (simp_all add: pump_frame_def)

text \<open>The event sequence of a command that returned an outcome.\<close>

definition command_events :: "tag \<Rightarrow> handle \<Rightarrow> pump_result list \<Rightarrow> command_locals \<Rightarrow> command_outcome \<Rightarrow> bool" where
  "command_events t h ps a o' \<longleftrightarrow> (\<exists>evs final.
     ps = map Pump_Event (evs @ [final]) \<and> list_all (\<lambda>e. \<not> ends_command t h e) evs
     \<and> co_data o' = fst a @ all_data evs \<and> co_untagged o' = snd a @ all_statuses evs
     \<and> (final = Ev_StatusReceived (co_status o') \<and> status_tag (co_status o') = Some t
        \<or> final = Ev_CommandRejected h (co_status o')))"

lemma command_events_Cons:
  assumes "\<not> ends_command t h e"
    and "command_events t h ps (d @ all_data [e], u @ all_statuses [e]) o'"
  shows "command_events t h (Pump_Event e # ps) (d, u) o'"
proof -
  obtain evs final where ev: "ps = map Pump_Event (evs @ [final])"
    "list_all (\<lambda>e. \<not> ends_command t h e) evs"
    "co_data o' = d @ all_data [e] @ all_data evs"
    "co_untagged o' = u @ all_statuses [e] @ all_statuses evs"
    "final = Ev_StatusReceived (co_status o') \<and> status_tag (co_status o') = Some t
      \<or> final = Ev_CommandRejected h (co_status o')"
    using assms(2) by (auto simp: command_events_def)
  then show ?thesis
    unfolding command_events_def
    using assms(1)
    by (intro exI [of _ "e # evs"] exI [of _ final])
      (auto simp: map_filter_Cons split: option.splits)
qed

definition command_frame :: "'c session \<Rightarrow> 'c session \<Rightarrow> bool" where
  "command_frame s s' \<longleftrightarrow>
     se_tag_counter s' = se_tag_counter s \<and> se_capabilities s \<subseteq> se_capabilities s'
   \<and> tr_tls (se_transport s') = tr_tls (se_transport s)
   \<and> tr_now (se_transport s) \<le> tr_now (se_transport s')"

lemma command_driven:
  assumes "driven cl (after_secs secs) (command_elapsed secs) (command_event t h) a s ps r s'"
  shows "command_frame s s' \<and>
    (case r of
       Inr o' \<Rightarrow> command_events t h ps a o'
         \<and> (\<exists>ds. co_data o' = fst a @ ds
              \<and> se_capabilities s' = se_capabilities s \<union> \<Union> (data_caps ` set ds))
     | Inl e \<Rightarrow> \<exists>d. e = Transport d \<or> e = Protocol d)"
  using assms
proof (induction rule: driven.induct)
  case (last s p s1 a r s2)
  note F = pump_frame_data [OF last(1)]
  obtain d u where a: "a = (d, u)" by fastforce
  show ?case
  proof (cases r)
    case (Inr o')
    have D: "s2 = s1" "co_data o' = d" "co_untagged o' = u"
      "p = Pump_Event (Ev_StatusReceived (co_status o')) \<and> status_tag (co_status o') = Some t
       \<or> p = Pump_Event (Ev_CommandRejected h (co_status o'))"
      using command_round_done [OF last(2) [unfolded Inr a]] by blast+
    then have "command_events t h [p] a o'"
      unfolding command_events_def
      by (intro exI [of _ "[]"] exI [of _ "case p of Pump_Event e \<Rightarrow> e"]) (auto simp: a)
    with D F Inr show ?thesis by (auto simp: command_frame_def a)
  next
    case (Inl e)
    have "s2 = s1" "p = Pump_Err e \<or> (\<exists>d. e = Transport d \<or> e = Protocol d)"
      using command_round_error [OF last(2) [unfolded Inl a]] by blast+
    moreover have "\<exists>d. e = Transport d \<or> e = Protocol d" if "p = Pump_Err e"
      using last(1) pump_errors that by fastforce
    ultimately show ?thesis using F Inl by (auto simp: command_frame_def)
  qed
next
  case (more s p s1 a a' s2 ps r s3)
  note F = pump_frame_data [OF more(1)]
  obtain d u where a: "a = (d, u)" by fastforce
  obtain e where e: "p = Pump_Event e" "\<not> ends_command t h e"
    "a' = (d @ all_data [e], u @ all_statuses [e])"
    "se_capabilities s2 = se_capabilities s1 \<union> \<Union> (data_caps ` set (all_data [e]))"
    "se_tag_counter s2 = se_tag_counter s1" "se_transport s2 = se_transport s1"
    using command_round_more [OF more(2) [unfolded a]] by blast
  have frame: "command_frame s s3"
    using more.IH F e by (auto simp: command_frame_def)
  show ?case
  proof (cases r)
    case (Inr o')
    obtain ds where ev: "command_events t h ps a' o'" and ds: "co_data o' = fst a' @ ds"
      "se_capabilities s3 = se_capabilities s2 \<union> \<Union> (data_caps ` set ds)"
      using more.IH Inr by auto
    have "command_events t h (p # ps) a o'"
      using command_events_Cons [OF e(2)] ev e(1,3) a by simp
    moreover have "co_data o' = fst a @ (all_data [e] @ ds)"
      "se_capabilities s3 = se_capabilities s \<union> \<Union> (data_caps ` set (all_data [e] @ ds))"
      using ds e F a by auto
    ultimately show ?thesis using frame Inr by auto
  next
    case (Inl e)
    then show ?thesis using more.IH frame by auto
  qed
qed

lemma next_tag_result:
  "next_tag lib s = Some (r, s1) \<Longrightarrow> s1 = s\<lparr>se_tag_counter := se_tag_counter s + 1\<rparr>
    \<and> r = map_err (\<lambda>e. Protocol (lit ''tag build: '' @ e))
            (tag_try_from lib (lit ''K'' @ dec_of (se_tag_counter s + 1)))"
  by (auto simp: next_tag_def)

lemma send_command_result:
  "send_command cl t body s = Some (h, s1) \<Longrightarrow>
     s1 = s\<lparr>se_client := snd (enqueue_command cl \<lparr>cmd_tag = t, cmd_body = body\<rparr> (se_client s))\<rparr>
     \<and> h = fst (enqueue_command cl \<lparr>cmd_tag = t, cmd_body = body\<rparr> (se_client s))"
  by (auto simp: send_command_def split: prod.splits)

text \<open>The session in which a command's event loop starts.\<close>

definition issued :: "'c client_ops \<Rightarrow> tag \<Rightarrow> command_body \<Rightarrow> 'c session \<Rightarrow> 'c session" where
  "issued cl t body s =
     s\<lparr>se_tag_counter := se_tag_counter s + 1,
       se_client := snd (enqueue_command cl \<lparr>cmd_tag = t, cmd_body = body\<rparr> (se_client s))\<rparr>"

definition issued_handle :: "'c client_ops \<Rightarrow> tag \<Rightarrow> command_body \<Rightarrow> 'c session \<Rightarrow> handle" where
  "issued_handle cl t body s = fst (enqueue_command cl \<lparr>cmd_tag = t, cmd_body = body\<rparr> (se_client s))"

lemma issued_simps [simp]:
  "se_transport (issued cl t body s) = se_transport s"
  "se_capabilities (issued cl t body s) = se_capabilities s"
  "se_tag_counter (issued cl t body s) = se_tag_counter s + 1"
  by (simp_all add: issued_def)

text \<open>Every command: the tag, the hand-over to the client, and the loop.\<close>

lemma with_tag_Some:
  assumes "try_bind (next_tag lib) (\<lambda>t. eff_bind (send_command cl t body) (k t)) s = Some (r, s')"
  obtains (tag) e where "r = Inl (Protocol (lit ''tag build: '' @ e))"
      "s' = s\<lparr>se_tag_counter := se_tag_counter s + 1\<rparr>"
  | (issue) t where "tag_try_from lib (lit ''K'' @ dec_of (se_tag_counter s + 1)) = Inr t"
      "k t (issued_handle cl t body s) (issued cl t body s) = Some (r, s')"
proof (cases "tag_try_from lib (lit ''K'' @ dec_of (se_tag_counter s + 1))")
  case (Inl e)
  with assms tag [of e] show ?thesis by (simp add: try_bind_def next_tag_def)
next
  case (Inr t)
  with assms issue [of t] show ?thesis
    by (auto simp: try_bind_def next_tag_def eff_bind_def send_command_def issued_def
        issued_handle_def split: prod.splits)
qed


lemma execute_cases:
  assumes "execute cl lib body secs s = Some (r, s')"
  obtains (tag) e where "r = Inl (Protocol (lit ''tag build: '' @ e))"
      "s' = s\<lparr>se_tag_counter := se_tag_counter s + 1\<rparr>"
  | (issue) t ps where "tag_try_from lib (lit ''K'' @ dec_of (se_tag_counter s + 1)) = Inr t"
      "driven cl (after_secs secs) (command_elapsed secs)
         (command_event t (issued_handle cl t body s)) ([], []) (issued cl t body s) ps r s'"
  using assms unfolding execute_def by (elim with_tag_Some) (auto simp: drive_iff)





section \<open>Properties of commands\<close>

text \<open>
  C5. The outcome of a command is made of exactly what the server sent until the command ended:
  the untagged data and the foreign statuses in the order of arrival, none of them dropped, and
  as the final status the first one that carries the command's own tag (or the client's rejection
  of this very command).  The capabilities grow by exactly the capability data seen.
\<close>

theorem execute_outcome:
  assumes "execute cl lib body secs s = Some (Inr o', s')"
  shows "\<exists>t evs final.
      tag_try_from lib (lit ''K'' @ dec_of (se_tag_counter s + 1)) = Inr t
    \<and> driven cl (after_secs secs) (command_elapsed secs)
         (command_event t (issued_handle cl t body s)) ([], []) (issued cl t body s)
         (map Pump_Event (evs @ [final])) (Inr o') s'
    \<and> list_all (\<lambda>e. \<not> ends_command t (issued_handle cl t body s) e) evs
    \<and> (final = Ev_StatusReceived (co_status o') \<and> status_tag (co_status o') = Some t
       \<or> final = Ev_CommandRejected (issued_handle cl t body s) (co_status o'))
    \<and> co_data o' = all_data evs \<and> co_untagged o' = all_statuses evs
    \<and> se_capabilities s' = se_capabilities s \<union> \<Union> (data_caps ` set (co_data o'))"
  using assms
proof (cases rule: execute_cases)
  case (issue t ps)
  let ?h = "issued_handle cl t body s"
  have ev: "command_events t ?h ps ([], []) o'"
    and caps: "se_capabilities s' = se_capabilities s \<union> \<Union> (data_caps ` set (co_data o'))"
    using command_driven [OF issue(2)] by auto
  from ev obtain evs final where e: "ps = map Pump_Event (evs @ [final])"
    "list_all (\<lambda>e. \<not> ends_command t ?h e) evs" "co_data o' = all_data evs"
    "co_untagged o' = all_statuses evs"
    "final = Ev_StatusReceived (co_status o') \<and> status_tag (co_status o') = Some t
       \<or> final = Ev_CommandRejected ?h (co_status o')"
    by (auto simp: command_events_def)
  show ?thesis
    using issue(2) [unfolded e(1)] issue(1) e(2-5) caps by blast
qed simp

theorem execute_outcome_witness:
  "\<exists>s' t evs. execute (script_client demo_script) plain_lib Cmd_Capability 30 (fresh_session demo_script [5, 9])
       = Some (Inr \<lparr>co_status = St_Tagged (lit ''K1'') ok_body,
           co_data = [Data_Capability [lit ''IDLE''], Data_Exists 3], co_untagged = []\<rparr>, s')
     \<and> list_all (\<lambda>e. \<not> ends_command t
         (issued_handle (script_client demo_script) t Cmd_Capability (fresh_session demo_script [5, 9])) e) evs
     \<and> all_data evs = [Data_Capability [lit ''IDLE''], Data_Exists 3] \<and> all_statuses evs = []"
proof -
  obtain s' where r: "execute (script_client demo_script) plain_lib Cmd_Capability 30
      (fresh_session demo_script [5, 9])
     = Some (Inr \<lparr>co_status = St_Tagged (lit ''K1'') ok_body,
         co_data = [Data_Capability [lit ''IDLE''], Data_Exists 3], co_untagged = []\<rparr>, s')"
    using demo_run by blast
  from r execute_outcome [OF r] show ?thesis by fastforce
qed



section \<open>Tags\<close>









end
