(* ===== verification/Session_Auth.thy ===== *)
theory Session_Auth
  imports Session_Facts
begin

text \<open>
  Properties of authentication, of connecting and of IDLE in \<open>src/src/session.rs\<close>.
\<close>

section \<open>Frames\<close>

lemma command_frame_refl [simp]: "command_frame s s"
  by (simp add: command_frame_def)

lemma command_frame_trans: "command_frame s t \<Longrightarrow> command_frame t u \<Longrightarrow> command_frame s u"
  by (auto simp: command_frame_def)

lemma pump_frame_command_frame: "pump_frame s t \<Longrightarrow> command_frame s t"
  by (auto simp: pump_frame_def command_frame_def)

lemma command_frame_client [simp]: "command_frame s (s\<lparr>se_client := c\<rparr>)"
  by (simp add: command_frame_def)

lemma command_frame_absorb [simp]: "command_frame s (absorb_capabilities d s)"
  by (simp add: command_frame_def)






section \<open>Authentication\<close>













section \<open>Connecting\<close>












section \<open>IDLE\<close>

definition pump_events :: "pump_result list \<Rightarrow> event list" where
  "pump_events ps = List.map_filter (\<lambda>p. case p of Pump_Event e \<Rightarrow> Some e | _ \<Rightarrow> None) ps"

lemma pump_events_simps [simp]:
  "pump_events [] = []"
  "pump_events (Pump_Event e # ps) = e # pump_events ps"
  "pump_events (Pump_Elapsed # ps) = pump_events ps"
  "pump_events (Pump_Err x # ps) = pump_events ps"
  by (simp_all add: pump_events_def map_filter_Cons)

text \<open>The unsolicited data of a sequence of rounds, in the order of arrival.\<close>

definition all_unsolicited :: "imap_lib \<Rightarrow> pump_result list \<Rightarrow> unsolicited list" where
  "all_unsolicited lib ps = concat (map (from_data lib) (all_data (pump_events ps)))"

lemma all_unsolicited_Cons:
  "all_unsolicited lib (p # ps) = all_unsolicited lib [p] @ all_unsolicited lib ps"
  by (cases p) (auto simp: all_unsolicited_def map_filter_Cons split: option.splits)

lemma idle_round:
  assumes "round (idle_elapsed cl) (idle_event cl lib) p (us, acc, dn) s = (x, s2)"
  shows "command_frame s s2 \<and> to_read (se_transport s2) = to_read (se_transport s) \<and>
    (case x of
       Inr (us', acc', dn') \<Rightarrow> us' = us @ all_unsolicited lib [p] \<and> (acc \<longrightarrow> acc') \<and> (dn \<longrightarrow> dn')
         \<and> (p = Pump_Elapsed \<longrightarrow> \<not> dn \<and> dn')
         \<and> (\<not> dn \<and> \<not> dn' \<longrightarrow> se_client s2 = se_client s)
         \<and> (dn \<longrightarrow> se_client s2 = se_client s)
     | Inl (Inr us') \<Rightarrow> us' = us \<and> all_unsolicited lib [p] = []
         \<and> (acc \<and> (\<exists>st. p = Pump_Event (Ev_StatusReceived st)) \<or> \<not> acc \<and> p = Pump_Elapsed)
     | Inl (Inl e) \<Rightarrow> p = Pump_Err e \<or> (\<exists>d. e = Transport d \<or> e = Protocol d))"
proof (cases p)
  case (Pump_Event e)
  with assms show ?thesis
    by (cases e) (auto simp: round_def Let_def all_unsolicited_def map_filter_Cons send_idle_done_def
        command_frame_def split: prod.splits if_splits)
qed (use assms in \<open>auto simp: round_def idle_elapsed_def send_idle_done_def all_unsolicited_def
    command_frame_def Let_def split: prod.splits if_splits\<close>)

abbreviation idle_loop ::
    "'c client_ops \<Rightarrow> imap_lib \<Rightarrow> nat \<Rightarrow> idle_locals \<Rightarrow> 'c session \<Rightarrow> pump_result list
       \<Rightarrow> unsolicited list sync_result \<Rightarrow> 'c session \<Rightarrow> bool" where
  "idle_loop cl lib deadline \<equiv>
     driven cl (\<lambda>s. Some (tr_now (se_transport s) + (deadline - tr_now (se_transport s))))
       (idle_elapsed cl) (idle_event cl lib)"

lemma idle_driven:
  assumes "idle_loop cl lib deadline a s ps r s'"
  shows "command_frame s s' \<and>
    (case r of Inr us \<Rightarrow> us = fst a @ all_unsolicited lib ps
       | Inl e \<Rightarrow> \<exists>d. e = Transport d \<or> e = Protocol d)"
  using assms
proof (induction rule: driven.induct)
  case (last s p s1 a r s2)
  obtain us acc dn where a: "a = (us, acc, dn)" by (cases a)
  note R = idle_round [OF last(2) [unfolded a]]
  have "command_frame s s1" using pump_keeps [OF last(1)] pump_frame_command_frame by fastforce
  then have f: "command_frame s s2" using R command_frame_trans by blast
  have "p = Pump_Err e \<Longrightarrow> \<exists>d. e = Transport d \<or> e = Protocol d" for e
    using pump_errors [OF last(1)] by simp
  then show ?case using R f a by (cases r) auto
next
  case (more s p s1 a a' s2 ps r s3)
  obtain us acc dn where a: "a = (us, acc, dn)" by (cases a)
  obtain us' acc' dn' where a': "a' = (us', acc', dn')" by (cases a')
  note R = idle_round [OF more(2) [unfolded a a']]
  have "command_frame s s1" using pump_keeps [OF more(1)] pump_frame_command_frame by fastforce
  then have "command_frame s s3" using R more.IH command_frame_trans by blast
  then show ?case
    using R more.IH a a' all_unsolicited_Cons [of lib p ps] by (cases r) auto
qed

lemma idle_loop_returns:
  assumes "client_progress cl work"
  shows "\<exists>r s' ps. idle_loop cl lib deadline a s ps r s'"
proof -
  have "\<exists>res. drive cl (\<lambda>s. Some (tr_now (se_transport s) + (deadline - tr_now (se_transport s))))
       (idle_elapsed cl) (idle_event cl lib) a s = Some res"
  proof (rule drive_returns [OF assms, where fuel = "\<lambda>(us, acc, dn). if dn then 0 else 1"])
    fix a a' and s1 s2 :: "'a session"
    assume "idle_elapsed cl a s1 = (Inr a', s2)"
    then show "(case a' of (us, acc, dn) \<Rightarrow> if dn then 0 else 1) < (case a of (us, acc, dn) \<Rightarrow> if dn then 0 else (1::nat))
        \<and> to_read (se_transport s2) = to_read (se_transport s1)"
      using idle_round [where p = Pump_Elapsed and cl = cl] by (cases a; cases a') (fastforce simp: round_def)
  next
    fix e a a' and s1 s2 :: "'a session"
    assume r: "idle_event cl lib e a s1 = (Inr a', s2)"
    obtain us acc dn where a: "a = (us, acc, dn)" by (cases a)
    obtain us' acc' dn' where a': "a' = (us', acc', dn')" by (cases a')
    have "round (idle_elapsed cl) (idle_event cl lib) (Pump_Event e) (us, acc, dn) s1 = (Inr (us', acc', dn'), s2)"
      using r a a' by (simp add: round_def)
    from idle_round [OF this] show "(case a' of (us, acc, dn) \<Rightarrow> if dn then 0 else 1) < (case a of (us, acc, dn) \<Rightarrow> if dn then 0 else (1::nat))
        \<and> to_read (se_transport s2) = to_read (se_transport s1)
      \<or> (case a' of (us, acc, dn) \<Rightarrow> if dn then 0 else 1) \<le> (case a of (us, acc, dn) \<Rightarrow> if dn then 0 else (1::nat))
        \<and> drive_measure work s2 = drive_measure work s1"
      unfolding a a' drive_measure_def by (cases dn; cases dn') auto
  qed simp
  then show ?thesis using drive_iff by fastforce
qed

text \<open>
  C20. IDLE always returns, whatever the server sends or does not send: with all unsolicited data
  of the window in the order of arrival, nothing dropped or repeated, or with a transport or
  protocol error.
\<close>

theorem idle_collects:
  assumes "client_progress cl work"
  shows "\<exists>r s'. idle cl lib max_wait s = Some (r, s')
    \<and> (case r of
         Inr us \<Rightarrow> \<exists>t ps. us = all_unsolicited lib ps
           \<and> idle_loop cl lib (tr_now (se_transport s) + max_wait) ([], False, False)
               (issued cl t Cmd_Idle s) ps (Inr us) s'
       | Inl e \<Rightarrow> \<exists>d. e = Transport d \<or> e = Protocol d)"
proof (cases "tag_try_from lib (lit ''K'' @ dec_of (se_tag_counter s + 1))")
  case (Inl e)
  then show ?thesis by (simp add: idle_def try_bind_def next_tag_def)
next
  case (Inr t)
  obtain r s' ps where d: "idle_loop cl lib (tr_now (se_transport s) + max_wait) ([], False, False)
      (issued cl t Cmd_Idle s) ps r s'"
    using idle_loop_returns [OF assms] by blast
  then have "idle cl lib max_wait s = Some (r, s')"
    using driven_drive [OF d] Inr
    by (cases "enqueue_command cl \<lparr>cmd_tag = t, cmd_body = Cmd_Idle\<rparr> (se_client s)")
      (simp add: idle_def try_bind_def eff_bind_def next_tag_def send_command_def issued_def)
  then show ?thesis using idle_driven [OF d] d by (cases r) auto
qed

definition push_script :: "client_next list list" where
  "push_script =
     [[Next_Event Ev_IdleCommandSent, Next_Event Ev_IdleAccepted],
      [Next_Event (Ev_DataReceived (Data_Exists 7))],
      [Next_Event (Ev_StatusReceived (St_Tagged (lit ''K1'') ok_body))]]"

theorem idle_collects_witness:
  "\<exists>s' t ps. idle (script_client push_script) plain_lib 100 (fresh_session push_script [5, 9, 12])
       = Some (Inr [U_Exists 7], s')
     \<and> idle_loop (script_client push_script) plain_lib
         (tr_now (se_transport (fresh_session push_script [5, 9, 12])) + 100) ([], False, False)
         (issued (script_client push_script) t Cmd_Idle (fresh_session push_script [5, 9, 12])) ps (Inr [U_Exists 7]) s'
     \<and> [U_Exists 7] = all_unsolicited plain_lib ps"
proof -
  have "\<exists>s'. idle (script_client push_script) plain_lib 100 (fresh_session push_script [5, 9, 12])
      = Some (Inr [U_Exists 7], s')"
    by (simp add: run_simps idle_def push_script_def send_idle_done_def)
  then show ?thesis
    using idle_collects [OF script_progress, of push_script plain_lib 100 "fresh_session push_script [5, 9, 12]"]
    by (elim exE conjE) fastforce
qed






end
