(* ===== verification/Imap_Convert.thy ===== *)
theory Imap_Convert
  imports Session Sanitize Utf8
begin

text \<open>
  The conversions of \<open>src/src/sync.rs\<close>: protocol strings to texts, fetched flags to the crate's
  flags, folder roles, the metadata of a SELECT, and the header block that stands for a message
  whose body has not been fetched.
\<close>

section \<open>Protocol strings\<close>

fun istring_to_string :: "istring \<Rightarrow> rstr" where
  "istring_to_string (Quoted q) = q"
| "istring_to_string (QuotedUtf8 q) = q"
| "istring_to_string (Literal bs) = from_utf8_lossy bs"

fun astring_to_string :: "astring \<Rightarrow> rstr" where
  "astring_to_string (AAtom a) = a"
| "astring_to_string (AString i) = istring_to_string i"

fun nstring_to_string :: "nstring \<Rightarrow> rstr" where
  "nstring_to_string (NString None) = []"
| "nstring_to_string (NString (Some i)) = istring_to_string i"

fun nstring_bytes :: "nstring \<Rightarrow> u8 list option" where
  "nstring_bytes (NString None) = None"
| "nstring_bytes (NString (Some i)) = Some (utf8_encode (istring_to_string i))"

fun datetime_to_unix_ms :: "imap_datetime \<Rightarrow> i64" where
  "datetime_to_unix_ms (DateTime ms) = ms"

definition mailbox_name :: "mailbox \<Rightarrow> rstr" where
  "mailbox_name m = (case m of MB_Inbox \<Rightarrow> lit ''INBOX'' | MB_Other a \<Rightarrow> astring_to_string a)"

section \<open>Flags, bounds and commands\<close>

fun flag_from_fetch :: "flag_fetch \<Rightarrow> flag option" where
  "flag_from_fetch (FF_Flag IF_Seen) = Some Seen"
| "flag_from_fetch (FF_Flag IF_Answered) = Some Answered"
| "flag_from_fetch (FF_Flag IF_Flagged) = Some Flagged"
| "flag_from_fetch (FF_Flag IF_Deleted) = Some Deleted"
| "flag_from_fetch (FF_Flag IF_Draft) = Some Draft"
| "flag_from_fetch _ = None"

definition flags_from_fetch :: "flag_fetch list \<Rightarrow> flag list" where
  "flags_from_fetch fl = List.map_filter flag_from_fetch fl"

definition saturating_pred :: "u32 \<Rightarrow> u32" where
  "saturating_pred n = (if n = 0 then 0 else n - 1)"

definition next_bound :: "u32 \<Rightarrow> u32" where
  "next_bound uid_next = max (saturating_pred uid_next) 1"

text \<open>\<open>uid_next.saturating_add(1)\<close> for the first UID after a stored one.\<close>

definition saturating_succ :: "'a::len word \<Rightarrow> 'a word" where
  "saturating_succ m = (if m = - 1 then - 1 else m + 1)"

text \<open>
  \<open>list_command\<close>: the wildcard is the literal \<open>*\<close>, the reference the empty mailbox name, or
  INBOX where the crate refuses that name.
\<close>

definition list_command :: "imap_lib \<Rightarrow> command_body" where
  "list_command lib = Cmd_List (unwrap_or MB_Inbox (mailbox_try_from lib [])) (lit ''*'')"

section \<open>Folder roles\<close>

definition path_sep :: "rchar \<Rightarrow> bool" where
  "path_sep c \<longleftrightarrow> c = 47 \<or> c = 46"

text \<open>The name that is matched, and its last path component; \<open>uc\<close> is the Unicode lower-casing.\<close>

definition role_name :: "(rstr \<Rightarrow> rstr) \<Rightarrow> rstr \<Rightarrow> rstr" where
  "role_name uc remote_name = to_lowercase uc (trim_end (sanitize_terminal_text remote_name))"

definition role_from :: "(rstr \<Rightarrow> rstr) \<Rightarrow> rstr \<Rightarrow> rstr list \<Rightarrow> folder_role option" where
  "role_from uc remote_name attributes =
     (let attr_blob = to_lowercase uc (join (lit '' '') attributes);
          name = role_name uc remote_name;
          last = rsplit_first path_sep name
      in if contains attr_blob (lit ''sent'') \<or> last = lit ''sent'' \<or> starts_with last (lit ''sent messages'')
         then Some Sent
         else if contains attr_blob (lit ''drafts'') \<or> last = lit ''drafts'' then Some Drafts
         else if contains attr_blob (lit ''trash'') \<or> last = lit ''trash'' \<or> last = lit ''deleted messages''
         then Some Trash
         else if contains attr_blob (lit ''junk'') \<or> last = lit ''junk'' \<or> last = lit ''spam'' then Some Junk
         else if contains attr_blob (lit ''archive'') \<or> last = lit ''archive'' \<or> last = lit ''all mail''
         then Some Archive
         else if last = lit ''inbox'' \<or> name = [] then Some Inbox
         else None)"

section \<open>SELECT\<close>

record select_info =
  si_uid_validity :: u32
  si_uid_next :: u32
  si_highest_modseq :: u64
  si_exists :: u32

definition select_info_default :: select_info where
  "select_info_default =
     \<lparr>si_uid_validity = 0, si_uid_next = 0, si_highest_modseq = 0, si_exists = 0\<rparr>"

definition status_code :: "status \<Rightarrow> code option" where
  "status_code st =
     (case st of St_Untagged b \<Rightarrow> sb_code b | St_Tagged _ b \<Rightarrow> sb_code b | St_Bye \<Rightarrow> None)"

definition note_data :: "imap_data \<Rightarrow> select_info \<Rightarrow> select_info" where
  "note_data d info = (case d of Data_Exists n \<Rightarrow> info\<lparr>si_exists := n\<rparr> | _ \<Rightarrow> info)"

definition note_status :: "status \<Rightarrow> select_info \<Rightarrow> select_info" where
  "note_status st info =
     (case status_code st of
        Some (Code_UidValidity v) \<Rightarrow> info\<lparr>si_uid_validity := v\<rparr>
      | Some (Code_UidNext v) \<Rightarrow> info\<lparr>si_uid_next := v\<rparr>
      | Some (Code_HighestModSeq v) \<Rightarrow> info\<lparr>si_highest_modseq := v\<rparr>
      | _ \<Rightarrow> info)"

definition select_info_of :: "command_outcome \<Rightarrow> select_info" where
  "select_info_of o' =
     fold note_status (co_untagged o' @ [co_status o'])
       (fold note_data (co_data o') select_info_default)"

section \<open>The header block of an envelope\<close>

abbreviation crlf :: rstr where
  "crlf \<equiv> [13, 10]"

definition fmt_addr :: "imap_address \<Rightarrow> rstr" where
  "fmt_addr a =
     (let mb = nstring_to_string (ia_mailbox a); host = nstring_to_string (ia_host a);
          n = nstring_to_string (ia_name a)
      in if n = [] then mb @ lit ''@'' @ host
         else n @ lit '' <'' @ mb @ lit ''@'' @ host @ lit ''>'')"

definition fmt_addrs :: "imap_address list \<Rightarrow> rstr" where
  "fmt_addrs as = join (lit '', '') (map fmt_addr as)"

definition envelope_to_header :: "envelope \<Rightarrow> u32 \<Rightarrow> rstr" where
  "envelope_to_header env uid =
     lit ''From: '' @ fmt_addrs (env_from env) @ crlf @
     lit ''To: '' @ fmt_addrs (env_to env) @ crlf @
     lit ''Subject: '' @ nstring_to_string (env_subject env) @ crlf @
     lit ''Message-ID: '' @ nstring_to_string (env_message_id env) @ crlf @
     lit ''In-Reply-To: '' @ nstring_to_string (env_in_reply_to env) @ crlf @
     lit ''Date: '' @ crlf @
     lit ''X-Sync-UID: '' @ dec_of uid @ crlf @ crlf"

end
