(* ===== verification/Imap_Convert_Facts.thy ===== *)
theory Imap_Convert_Facts
  imports Imap_Convert
begin

text \<open>
  Properties of the conversions of \<open>src/src/sync.rs\<close>: folder roles, SELECT metadata, header blocks
  and the bytes of message bodies.
\<close>

section \<open>Folder roles\<close>

lemma sanitize_idem [simp]: "sanitize_terminal_text (sanitize_terminal_text s) = sanitize_terminal_text s"
  by (rule sanitize_clean_id) (use sanitize_no_hazard in blast)

lemma sanitize_drop_esc: "sanitize_terminal_text (filter (\<lambda>c. c \<noteq> 0x1b) s) = sanitize_terminal_text s"
  by (simp add: sanitize_filter_map)

lemma dropWhile_rev_append:
  "dropWhile P (rev t) \<noteq> [] \<Longrightarrow> rev (dropWhile P (rev (s @ t))) = s @ rev (dropWhile P (rev t))"
  by (auto simp: dropWhile_append)

lemma trim_end_append: "trim_end t \<noteq> [] \<Longrightarrow> trim_end (s @ t) = s @ trim_end t"
  using dropWhile_rev_append [of white_space t s] by (simp add: trim_end_def)

lemma set_trim_end: "set (trim_end t) \<subseteq> set t"
  by (auto simp: trim_end_def dest: set_dropWhileD)

lemma sanitize_ascii: "list_all ascii s \<Longrightarrow> list_all ascii (sanitize_terminal_text s)"
  by (auto simp: sanitize_filter_map list_all_iff ascii_def)

lemma sanitize_set: "set (sanitize_terminal_text s) \<subseteq> insert 32 (set s)"
  by (auto simp: sanitize_filter_map)

lemma to_ascii_lowercase_sep [simp]: "path_sep (to_ascii_lowercase c) = path_sep c"
  by (auto simp: path_sep_def to_ascii_lowercase_def)

text \<open>The last component of a nested ASCII name, and the name itself being non-empty.\<close>

lemma role_name_nested:
  assumes "list_all ascii parent" "list_all ascii name" "path_sep c"
    and "list_all (\<lambda>x. \<not> path_sep x) name" and "trim_end (sanitize_terminal_text name) \<noteq> []"
  shows "rsplit_first path_sep (role_name uc (parent @ c # name)) = rsplit_first path_sep (role_name uc name)"
    and "role_name uc (parent @ c # name) \<noteq> []" and "role_name uc name \<noteq> []"
proof -
  let ?n = "trim_end (sanitize_terminal_text name)"
  have c: "ascii c" "sanitize_terminal_text [c] = [c]"
    using assms(3) by (auto simp: path_sep_def ascii_def)
  have split: "sanitize_terminal_text (parent @ c # name) =
      (sanitize_terminal_text parent @ [c]) @ sanitize_terminal_text name"
    using c(2) sanitize_append [of parent "[c] @ name"] sanitize_append [of "[c]" name] by simp
  have trim: "trim_end (sanitize_terminal_text (parent @ c # name)) = sanitize_terminal_text parent @ c # ?n"
    unfolding split trim_end_append [OF assms(5)] by simp
  have an: "list_all ascii ?n"
    using set_trim_end sanitize_ascii [OF assms(2)] by (fastforce simp: list_all_iff)
  have ap: "list_all ascii (sanitize_terminal_text parent)"
    using sanitize_ascii [OF assms(1)] .
  have nosep: "\<forall>x \<in> set (map to_ascii_lowercase ?n). \<not> path_sep x"
    using set_trim_end [of "sanitize_terminal_text name"] sanitize_set [of name] assms(4)
    by (fastforce simp: list_all_iff path_sep_def to_ascii_lowercase_def)
  have r1: "role_name uc (parent @ c # name) =
      map to_ascii_lowercase (sanitize_terminal_text parent) @ to_ascii_lowercase c # map to_ascii_lowercase ?n"
    unfolding role_name_def trim using an ap c(1) by (simp add: to_lowercase_def)
  have r2: "role_name uc name = map to_ascii_lowercase ?n"
    unfolding role_name_def using an by (simp add: to_lowercase_def)
  show "rsplit_first path_sep (role_name uc (parent @ c # name)) = rsplit_first path_sep (role_name uc name)"
    unfolding r1 r2 using nosep assms(3) by (simp add: rsplit_first_split rsplit_first_whole)
  show "role_name uc (parent @ c # name) \<noteq> []" by (simp add: r1)
  show "role_name uc name \<noteq> []" using assms(5) by (simp add: r2)
qed

text \<open>
  C29. The role of a folder does not depend on escape characters or other terminal hazards in its
  name, and for an ASCII name it is decided by the attributes and the last path component alone,
  wherever the folder is nested.  (So an ESC inside \<open>Sent\<close> does not keep the name from being taken
  for the role.)
\<close>

theorem role_from_invariant:
  assumes "list_all ascii parent" "list_all ascii name" "path_sep c"
    and "list_all (\<lambda>x. \<not> path_sep x) name" and "trim_end (sanitize_terminal_text name) \<noteq> []"
  shows "role_from uc (parent @ c # name) attrs = role_from uc name attrs
    \<and> role_from uc (sanitize_terminal_text any) attrs = role_from uc any attrs
    \<and> role_from uc (filter (\<lambda>x. x \<noteq> 0x1b) any) attrs = role_from uc any attrs"
proof -
  have s: "role_name uc (sanitize_terminal_text any) = role_name uc any"
    "role_name uc (filter (\<lambda>x. x \<noteq> 0x1b) any) = role_name uc any"
    by (simp_all add: role_name_def sanitize_drop_esc)
  show ?thesis
    unfolding role_from_def Let_def s using role_name_nested [OF assms, of uc] by simp
qed

theorem role_from_invariant_witness:
  "role_from (\<lambda>s. s) (lit ''Deep/Nested/Trash'') [] = Some Trash
   \<and> role_from (\<lambda>s. s) (lit ''Se'' @ 0x1b # lit ''nt'') [] = Some Sent"
proof -
  have n: "role_from (\<lambda>s. s) (lit ''Trash'') [] = Some Trash"
    "role_from (\<lambda>s. s) (lit ''Sent'') [] = Some Sent"
    by (simp_all add: role_from_def role_name_def lit_def trim_end_def white_space_def
        to_lowercase_def ascii_def to_ascii_lowercase_def rsplit_first_def path_sep_def starts_with_def)
  have a: "list_all ascii (lit ''Deep/Nested'')" "list_all ascii (lit ''Trash'')"
    "path_sep 47" "list_all (\<lambda>x. \<not> path_sep x) (lit ''Trash'')"
    "trim_end (sanitize_terminal_text (lit ''Trash'')) \<noteq> []"
    by (simp_all add: lit_def ascii_def path_sep_def trim_end_def white_space_def)
  show ?thesis
    using role_from_invariant [OF a, of "\<lambda>s. s" "[]" "lit ''Se'' @ 0x1b # lit ''nt''"] n
    by (simp add: lit_def)
qed

section \<open>SELECT\<close>

fun code_uid_validity :: "code \<Rightarrow> u32 option" where
  "code_uid_validity (Code_UidValidity v) = Some v"
| "code_uid_validity _ = None"

fun code_uid_next :: "code \<Rightarrow> u32 option" where
  "code_uid_next (Code_UidNext v) = Some v"
| "code_uid_next _ = None"

fun code_highest_modseq :: "code \<Rightarrow> u64 option" where
  "code_highest_modseq (Code_HighestModSeq v) = Some v"
| "code_highest_modseq _ = None"

fun data_exists :: "imap_data \<Rightarrow> u32 option" where
  "data_exists (Data_Exists n) = Some n"
| "data_exists _ = None"

definition last_or :: "'a \<Rightarrow> 'a list \<Rightarrow> 'a" where
  "last_or d xs = (if xs = [] then d else last xs)"

definition outcome_codes :: "command_outcome \<Rightarrow> code list" where
  "outcome_codes o' = List.map_filter status_code (co_untagged o' @ [co_status o'])"

lemma last_or_snoc [simp]: "last_or d (xs @ [x]) = x" "last_or d [] = d"
  by (simp_all add: last_or_def)

lemma fold_note_data:
  "fold note_data ds info = info\<lparr>si_exists := last_or (si_exists info) (List.map_filter data_exists ds)\<rparr>"
proof (induction ds rule: rev_induct)
  case (snoc d ds)
  then show ?case by (cases d) (simp_all add: note_data_def map_filter_snoc)
qed (simp add: List.map_filter_def)

lemma fold_note_status:
  "fold note_status sts info =
     info\<lparr>si_uid_validity := last_or (si_uid_validity info)
            (List.map_filter code_uid_validity (List.map_filter status_code sts)),
          si_uid_next := last_or (si_uid_next info)
            (List.map_filter code_uid_next (List.map_filter status_code sts)),
          si_highest_modseq := last_or (si_highest_modseq info)
            (List.map_filter code_highest_modseq (List.map_filter status_code sts))\<rparr>"
proof (induction sts rule: rev_induct)
  case (snoc st sts)
  show ?case
  proof (cases "status_code st")
    case (Some c)
    with snoc show ?thesis by (cases c) (simp_all add: note_status_def map_filter_snoc)
  qed (use snoc in \<open>simp add: note_status_def map_filter_snoc\<close>)
qed (simp add: List.map_filter_def)

text \<open>
  C37. What is read off a SELECT: of every kind of response code the last one given, the untagged
  statuses before the tagged one, and of the EXISTS responses the last; zero for what the server
  left out.
\<close>

theorem select_info_last:
  "select_info_of o' =
     \<lparr>si_uid_validity = last_or 0 (List.map_filter code_uid_validity (outcome_codes o')),
      si_uid_next = last_or 0 (List.map_filter code_uid_next (outcome_codes o')),
      si_highest_modseq = last_or 0 (List.map_filter code_highest_modseq (outcome_codes o')),
      si_exists = last_or 0 (List.map_filter data_exists (co_data o'))\<rparr>"
  unfolding select_info_of_def fold_note_status fold_note_data outcome_codes_def
  by (simp add: select_info_default_def)

section \<open>Header blocks\<close>

fun split_crlf :: "rstr \<Rightarrow> rstr list" where
  "split_crlf [] = [[]]"
| "split_crlf (c # cs) =
     (if c = 13 \<and> (case cs of d # _ \<Rightarrow> d = 10 | [] \<Rightarrow> False)
      then [] # split_crlf (tl cs)
      else (case split_crlf cs of [] \<Rightarrow> [[c]] | l # ls \<Rightarrow> (c # l) # ls))"

lemma split_crlf_line: "13 \<notin> set l \<Longrightarrow> split_crlf (l @ crlf @ r) = l # split_crlf r"
proof (induction l)
  case (Cons c l)
  then show ?case by (simp add: split: list.splits)
qed simp

definition header_fields :: "envelope \<Rightarrow> rstr list" where
  "header_fields env =
     [fmt_addrs (env_from env), fmt_addrs (env_to env), nstring_to_string (env_subject env),
      nstring_to_string (env_message_id env), nstring_to_string (env_in_reply_to env)]"

lemma dec_of_no_cr: "13 \<notin> set (dec_of w)"
  using dec_digits_is_digit [of "unat w"] by (auto simp: dec_of_def list_all_iff is_digit_def)

lemma lit_no_cr: "CHR 0x0D \<notin> set s \<Longrightarrow> 13 \<notin> set (lit s)"
proof
  assume "CHR 0x0D \<notin> set s" "13 \<in> set (lit s)"
  then obtain c where "c \<in> set s" "of_char c = (13::nat)" by (auto simp: lit_def)
  moreover have "of_char (CHR 0x0D) = (13::nat)" by simp
  ultimately have "c = CHR 0x0D" using inj_of_char [where ?'a = nat] by (metis injD)
  then show False using \<open>c \<in> set s\<close> \<open>CHR 0x0D \<notin> set s\<close> by simp
qed

text \<open>One header field is one line.\<close>

lemma header_line:
  "13 \<notin> set b \<Longrightarrow> CHR 0x0D \<notin> set a \<Longrightarrow> split_crlf (lit a @ b @ 13 # 10 # r) = (lit a @ b) # split_crlf r"
  "CHR 0x0D \<notin> set a \<Longrightarrow> split_crlf (lit a @ 13 # 10 # r) = lit a # split_crlf r"
  using split_crlf_line [of "lit a @ b" r] split_crlf_line [of "lit a" r] lit_no_cr [of a] by simp_all

text \<open>
  C38. The header block that stands for an envelope has one line per field: if no field contains a
  carriage return, the block splits at the line ends into exactly the five fields, an empty date,
  the UID and the empty line, so each field can be read back.
\<close>

theorem envelope_header_lines:
  assumes "list_all (\<lambda>f. 13 \<notin> set f) (header_fields env)"
  shows "split_crlf (envelope_to_header env uid) =
    [lit ''From: '' @ fmt_addrs (env_from env), lit ''To: '' @ fmt_addrs (env_to env),
     lit ''Subject: '' @ nstring_to_string (env_subject env),
     lit ''Message-ID: '' @ nstring_to_string (env_message_id env),
     lit ''In-Reply-To: '' @ nstring_to_string (env_in_reply_to env),
     lit ''Date: '', lit ''X-Sync-UID: '' @ dec_of uid, [], []]"
  using assms unfolding envelope_to_header_def header_fields_def
  by (simp add: header_line dec_of_no_cr)

definition plain_envelope :: "nstring \<Rightarrow> envelope" where
  "plain_envelope subject =
     \<lparr>env_subject = subject,
      env_from = [\<lparr>ia_name = NString None, ia_mailbox = NString (Some (Quoted (lit ''a''))),
                   ia_host = NString (Some (Quoted (lit ''b'')))\<rparr>],
      env_to = [], env_in_reply_to = NString None, env_message_id = NString None\<rparr>"

theorem envelope_header_lines_witness:
  "split_crlf (envelope_to_header (plain_envelope (NString (Some (Quoted (lit ''Hi''))))) 42) ! 2
     = lit ''Subject: Hi''"
  by (subst envelope_header_lines)
    (simp_all add: header_fields_def plain_envelope_def fmt_addrs_def fmt_addr_def lit_def)

text \<open>
  C39. A subject that the server sends as a literal may contain a line end, and then the rest of
  it is a header line of its own, whatever it says: the block that the parser gets has a forged
  field in front of the genuine \<open>Message-ID\<close> and \<open>X-Sync-UID\<close>.
\<close>

theorem envelope_header_injection:
  assumes "env_subject env = NString (Some (Literal (utf8_encode (x @ crlf @ forged))))"
    and "list_all scalar (x @ forged)" and "13 \<notin> set (x @ forged)"
    and "list_all (\<lambda>f. 13 \<notin> set f) (header_fields (env\<lparr>env_subject := NString None\<rparr>))"
  shows "split_crlf (envelope_to_header env uid) =
    [lit ''From: '' @ fmt_addrs (env_from env), lit ''To: '' @ fmt_addrs (env_to env),
     lit ''Subject: '' @ x, forged,
     lit ''Message-ID: '' @ nstring_to_string (env_message_id env),
     lit ''In-Reply-To: '' @ nstring_to_string (env_in_reply_to env),
     lit ''Date: '', lit ''X-Sync-UID: '' @ dec_of uid, [], []]"
proof -
  have "from_utf8_lossy (utf8_encode (x @ crlf @ forged)) = x @ crlf @ forged"
    by (rule from_utf8_lossy_encode) (use assms(2) in \<open>simp add: scalar_def\<close>)
  then have sub: "nstring_to_string (env_subject env) = x @ crlf @ forged"
    by (simp add: assms(1))
  have "13 \<notin> set forged" using assms(3) by simp
  from split_crlf_line [OF this] show ?thesis
    using assms(3,4) unfolding envelope_to_header_def header_fields_def sub
    by (simp add: header_line dec_of_no_cr)
qed

theorem envelope_header_injection_witness:
  "split_crlf (envelope_to_header (plain_envelope
      (NString (Some (Literal (utf8_encode (lit ''x'' @ crlf @ lit ''X-Sync-UID: 9'')))))) 42) ! 3
     = lit ''X-Sync-UID: 9''"
  by (subst envelope_header_injection [where x = "lit ''x''" and forged = "lit ''X-Sync-UID: 9''"])
    (simp_all add: header_fields_def plain_envelope_def fmt_addrs_def fmt_addr_def lit_def scalar_def)

section \<open>Bodies\<close>

text \<open>
  C40. A fetched body reaches the content store byte for byte exactly if it is well-formed UTF-8;
  in any other charset the stored bytes differ from the message's.
\<close>

theorem body_bytes_kept:
  "nstring_bytes (NString (Some (Literal bs))) = Some bs
     \<longleftrightarrow> (\<exists>s. list_all scalar s \<and> utf8_encode s = bs)"
proof
  assume "nstring_bytes (NString (Some (Literal bs))) = Some bs"
  then have "utf8_encode (from_utf8_lossy bs) = bs" by simp
  then show "\<exists>s. list_all scalar s \<and> utf8_encode s = bs" using from_utf8_lossy_scalar by blast
next
  assume "\<exists>s. list_all scalar s \<and> utf8_encode s = bs"
  then show "nstring_bytes (NString (Some (Literal bs))) = Some bs"
    using from_utf8_lossy_encode by auto
qed

end
