(* ===== verification/Engine.thy ===== *)
theory Engine
  imports Store Event Session
begin

text \<open>
  What the engines share: the state of the world around them and their elementary effects.  The
  state holds the host's store, the bus, how many clock readings, observations of the cancellation
  token and connection attempts or HTTP requests there have been (the readings themselves are
  parameters, given by their number), the waits of the reconnect loop and the SMTP submissions.
\<close>

text \<open>A message handed to the SMTP relay: MAIL FROM, RCPT TO and the message.\<close>

type_synonym delivery = "rstr \<times> rstr list \<times> u8 list"

record 's engine =
  en_store :: 's
  en_bus :: bus
  en_clock :: nat \<comment> \<open>clock readings so far\<close>
  en_looks :: nat \<comment> \<open>observations of the cancellation token so far\<close>
  en_connects :: nat \<comment> \<open>TCP connects or HTTP requests so far\<close>
  en_waits :: "nat list" \<comment> \<open>reconnect waits in milliseconds\<close>
  en_mails :: "(delivery \<times> bool) list" \<comment> \<open>SMTP submissions so far, and whether accepted\<close>

text \<open>A cycle works on the engine and the IMAP session it has opened.\<close>

type_synonym ('s, 'c) world = "'s engine \<times> 'c session"

definition run_store :: "('s \<Rightarrow> 'a \<times> 's) \<Rightarrow> ('s engine, 'a) eff" where
  "run_store f e = (let (r, s) = f (en_store e) in Some (r, e\<lparr>en_store := s\<rparr>))"

text \<open>Sending with the result looked at, and with the result ignored.\<close>

definition send_event :: "engine_event \<Rightarrow> ('s engine, bool) eff" where
  "send_event ev e = (let (ok, b) = bus_send ev (en_bus e) in Some (ok, e\<lparr>en_bus := b\<rparr>))"

definition push_event :: "engine_event \<Rightarrow> ('s engine, unit) eff" where
  "push_event ev e = Some ((), e\<lparr>en_bus := bus_push ev (en_bus e)\<rparr>)"

definition read_clock :: "(nat \<Rightarrow> i64) \<Rightarrow> ('s engine, i64) eff" where
  "read_clock clock e = Some (clock (en_clock e), e\<lparr>en_clock := Suc (en_clock e)\<rparr>)"

text \<open>
  One observation of the token: \<open>is_cancelled()\<close>, or which branch of a \<open>select!\<close> with a sleep
  is taken.
\<close>

definition is_cancelled :: "(nat \<Rightarrow> bool) \<Rightarrow> ('s engine, bool) eff" where
  "is_cancelled cancel e = Some (cancel (en_looks e), e\<lparr>en_looks := Suc (en_looks e)\<rparr>)"

definition on_engine :: "('s engine, 'a) eff \<Rightarrow> (('s, 'c) world, 'a) eff" where
  "on_engine m = (\<lambda>(e, s). case m e of None \<Rightarrow> None | Some (a, e') \<Rightarrow> Some (a, (e', s)))"

definition on_session :: "('c session, 'a) eff \<Rightarrow> (('s, 'c) world, 'a) eff" where
  "on_session m = (\<lambda>(e, s). case m s of None \<Rightarrow> None | Some (a, s') \<Rightarrow> Some (a, (e, s')))"

text \<open>A result that is ignored (\<open>let _ = ...\<close>).\<close>

definition ignoring :: "('st, 'a) eff \<Rightarrow> ('st, unit) eff" where
  "ignoring m = eff_bind m (\<lambda>_. eff_return ())"

text \<open>A conditional effect.\<close>

definition eff_when :: "bool \<Rightarrow> ('st, unit) eff \<Rightarrow> ('st, unit) eff" where
  "eff_when b m = (if b then m else eff_return ())"

text \<open>A \<open>for\<close> loop.\<close>

fun eff_each :: "('a \<Rightarrow> ('st, unit) eff) \<Rightarrow> 'a list \<Rightarrow> ('st, unit) eff" where
  "eff_each m [] = eff_return ()"
| "eff_each m (x # xs) = eff_bind (m x) (\<lambda>_. eff_each m xs)"

text \<open>\<open>emit_state\<close>, the same in both engines.\<close>

definition emit_state ::
    "('s, 'p) mail_store_ops \<Rightarrow> account_id \<Rightarrow> connection_state \<Rightarrow> ('s engine, unit) eff" where
  "emit_state ops account st =
     eff_bind (ignoring (run_store (set_account_state ops account st))) (\<lambda>_.
     push_event (AccountConnection account st))"

text \<open>\<open>list_stored_folders\<close>, the same in both engines.\<close>

fun get_folders :: "('s, 'p) mail_store_ops \<Rightarrow> folder_summary list \<Rightarrow> ('s engine, folder_row list) eff" where
  "get_folders ops [] = eff_return []"
| "get_folders ops (f # fs) =
     eff_bind (run_store (get_folder ops (fs_id f))) (\<lambda>r.
     eff_bind (get_folders ops fs) (\<lambda>rows.
     eff_return (case r of Inr row \<Rightarrow> row # rows | Inl _ \<Rightarrow> rows)))"

definition list_stored_folders ::
    "('s, 'p) mail_store_ops \<Rightarrow> account_id \<Rightarrow> ('s engine, folder_row list) eff" where
  "list_stored_folders ops account =
     eff_bind (run_store (list_folders ops account)) (\<lambda>r.
     case r of Inl _ \<Rightarrow> eff_return [] | Inr fs \<Rightarrow> get_folders ops fs)"

section \<open>Running the effects\<close>

lemma effect_simps [simp]:
  "push_event ev e = Some ((), e\<lparr>en_bus := bus_push ev (en_bus e)\<rparr>)"
  "read_clock clock e = Some (clock (en_clock e), e\<lparr>en_clock := Suc (en_clock e)\<rparr>)"
  "is_cancelled cancel e = Some (cancel (en_looks e), e\<lparr>en_looks := Suc (en_looks e)\<rparr>)"
  by (simp_all add: push_event_def read_clock_def is_cancelled_def)

lemma run_store_Some:
  "run_store f e = Some (r, e') \<longleftrightarrow> e' = e\<lparr>en_store := snd (f (en_store e))\<rparr> \<and> r = fst (f (en_store e))"
  by (auto simp: run_store_def split: prod.splits)

lemma on_engine_Some:
  "on_engine m w = Some (a, w') \<longleftrightarrow> (\<exists>e'. m (fst w) = Some (a, e') \<and> w' = (e', snd w))"
  by (cases w) (auto simp: on_engine_def split: option.splits)

lemma on_session_Some:
  "on_session m w = Some (a, w') \<longleftrightarrow> (\<exists>s'. m (snd w) = Some (a, s') \<and> w' = (fst w, s'))"
  by (cases w) (auto simp: on_session_def split: option.splits)

lemma ignoring_Some: "ignoring m s = Some (u, t) \<longleftrightarrow> (\<exists>a. m s = Some (a, t))"
  by (auto simp: ignoring_def eff_bind_Some)

lemma eff_each_rel:
  assumes "eff_each m xs s = Some (u, t)"
    and "\<And>x s t. x \<in> set xs \<Longrightarrow> m x s = Some ((), t) \<Longrightarrow> P s t"
    and "\<And>s. P s s" and "\<And>x y z. P x y \<Longrightarrow> P y z \<Longrightarrow> P x z"
  shows "P s t"
  using assms(1,2)
proof (induction xs arbitrary: s)
  case (Cons x xs)
  then obtain s' where s': "m x s = Some ((), s')" "eff_each m xs s' = Some (u, t)"
    by (auto simp: eff_bind_Some)
  have "P s s'" using s'(1) by (intro Cons.prems(2)) auto
  moreover have "P s' t" by (rule Cons.IH [OF s'(2)]) (use Cons.prems(2) in auto)
  ultimately show ?case by (rule assms(4))
qed (use assms(3) in auto)

section \<open>Endless loops\<close>

text \<open>
  A \<open>loop\<close> with local variables: a round either leaves the loop with a result or goes on with new
  locals.  \<open>None\<close> is a loop, or an awaited operation in it, that never ends.
\<close>

partial_function (option) eff_loop ::
    "('a \<Rightarrow> ('st, 'r + 'a) eff) \<Rightarrow> 'a \<Rightarrow> 'st \<Rightarrow> ('r \<times> 'st) option" where
  "eff_loop m a s =
     (case m a s of
        None \<Rightarrow> None
      | Some (Inl r, s') \<Rightarrow> Some (r, s')
      | Some (Inr a', s') \<Rightarrow> eff_loop m a' s')"

text \<open>The rule for loops: an invariant that every round keeps and that gives the claim on exit.\<close>

lemma eff_loop_rule:
  fixes m :: "'a \<Rightarrow> ('st, 'r + 'a) eff"
  assumes run: "eff_loop m a s = Some (r, t)"
    and start: "I a s"
    and step: "\<And>a s a' s'. I a s \<Longrightarrow> m a s = Some (Inr a', s') \<Longrightarrow> I a' s'"
    and exit: "\<And>a s r s'. I a s \<Longrightarrow> m a s = Some (Inl r, s') \<Longrightarrow> Q r s'"
  shows "Q r t"
proof -
  have main: "\<forall>I Q. I a s \<longrightarrow> (\<forall>a s a' s'. I a s \<longrightarrow> m a s = Some (Inr a', s') \<longrightarrow> I a' s')
      \<longrightarrow> (\<forall>a s r s'. I a s \<longrightarrow> m a s = Some (Inl r, s') \<longrightarrow> Q r s') \<longrightarrow> Q (fst (r, t)) (snd (r, t))"
  proof (rule eff_loop.raw_induct [where P = "\<lambda>m a s res. \<forall>I Q. I a s
      \<longrightarrow> (\<forall>a s a' s'. I a s \<longrightarrow> m a s = Some (Inr a', s') \<longrightarrow> I a' s')
      \<longrightarrow> (\<forall>a s r s'. I a s \<longrightarrow> m a s = Some (Inl r, s') \<longrightarrow> Q r s') \<longrightarrow> Q (fst res) (snd res)",
      OF _ run], goal_cases)
    case (1 f m a s res)
    show ?case
    proof (intro allI impI)
      fix I :: "'a \<Rightarrow> 'st \<Rightarrow> bool" and Q :: "'r \<Rightarrow> 'st \<Rightarrow> bool"
      assume I: "I a s"
        and st: "\<forall>a s a' s'. I a s \<longrightarrow> m a s = Some (Inr a', s') \<longrightarrow> I a' s'"
        and ex: "\<forall>a s r s'. I a s \<longrightarrow> m a s = Some (Inl r, s') \<longrightarrow> Q r s'"
      from 1(2) obtain x s' where x: "m a s = Some (x, s')" by (auto split: option.splits)
      show "Q (fst res) (snd res)"
      proof (cases x)
        case (Inl r)
        with x 1(2) ex I show ?thesis by auto
      next
        case (Inr a')
        with x 1(2) have "f m a' s' = Some res" "I a' s'" using st I by auto
        from 1(1) [OF this(1)] this(2) st ex show ?thesis by blast
      qed
    qed
  qed
  have "\<forall>a s a' s'. I a s \<longrightarrow> m a s = Some (Inr a', s') \<longrightarrow> I a' s'" using step by blast
  moreover have "\<forall>a s r s'. I a s \<longrightarrow> m a s = Some (Inl r, s') \<longrightarrow> Q r s'" using exit by blast
  ultimately show ?thesis
    using main [THEN spec [of _ I], THEN spec [of _ Q]] start by simp
qed

section \<open>What an operation keeps\<close>

text \<open>
  \<open>keeps P m\<close>: whenever \<open>m\<close> returns, the states before and after are related by \<open>P\<close>.  For a
  preorder \<open>P\<close> this is compositional, and the rules are collected in \<open>keeps_intros\<close>.
\<close>

named_theorems keeps_intros

definition keeps :: "('st \<Rightarrow> 'st \<Rightarrow> bool) \<Rightarrow> ('st, 'a) eff \<Rightarrow> bool" where
  "keeps P m \<longleftrightarrow> (\<forall>s a s'. m s = Some (a, s') \<longrightarrow> P s s')"

definition keeps_order :: "('st \<Rightarrow> 'st \<Rightarrow> bool) \<Rightarrow> bool" where
  "keeps_order P \<longleftrightarrow> (\<forall>s. P s s) \<and> (\<forall>s t u. P s t \<longrightarrow> P t u \<longrightarrow> P s u)"

lemma keepsI: "(\<And>s a s'. m s = Some (a, s') \<Longrightarrow> P s s') \<Longrightarrow> keeps P m"
  by (auto simp: keeps_def)

lemma keepsD: "keeps P m \<Longrightarrow> m s = Some (a, s') \<Longrightarrow> P s s'"
  by (auto simp: keeps_def)

lemma keeps_order_refl: "keeps_order P \<Longrightarrow> P s s"
  by (simp add: keeps_order_def)

lemma keeps_order_trans: "keeps_order P \<Longrightarrow> P s t \<Longrightarrow> P t u \<Longrightarrow> P s u"
  unfolding keeps_order_def by blast

lemma keeps_return [keeps_intros]: "keeps_order P \<Longrightarrow> keeps P (eff_return a)"
  and keeps_lift [keeps_intros]: "keeps_order P \<Longrightarrow> keeps P (eff_lift r)"
  and keeps_get [keeps_intros]: "keeps_order P \<Longrightarrow> keeps P (eff_get f)"
  by (auto simp: keeps_def keeps_order_def)

lemma keeps_bind_val:
  assumes "keeps_order P" and "\<And>s a s'. m s = Some (a, s') \<Longrightarrow> P s s' \<and> V a"
    and "\<And>a. V a \<Longrightarrow> keeps P (k a)"
  shows "keeps P (eff_bind m k)"
proof (rule keepsI)
  fix s b t
  assume "eff_bind m k s = Some (b, t)"
  then obtain a s' where "m s = Some (a, s')" "k a s' = Some (b, t)" by (auto simp: eff_bind_Some)
  then show "P s t"
    using assms(2,3) keepsD [of P "k a" s' b t] keeps_order_trans [OF assms(1), of s s' t] by blast
qed

lemma keeps_bind [keeps_intros]:
  "keeps_order P \<Longrightarrow> keeps P m \<Longrightarrow> (\<And>a. keeps P (k a)) \<Longrightarrow> keeps P (eff_bind m k)"
  by (rule keeps_bind_val [where V = "\<lambda>_. True"]) (simp_all add: keepsD)

lemma keeps_try_bind [keeps_intros]:
  assumes "keeps_order P" "keeps P m" "\<And>a. keeps P (k a)"
  shows "keeps P (try_bind m k)"
proof (rule keepsI)
  fix s b t
  assume "try_bind m k s = Some (b, t)"
  then consider e where "m s = Some (Inl e, t)" | a s' where "m s = Some (Inr a, s')" "k a s' = Some (b, t)"
    by (auto simp: try_bind_Some)
  then show "P s t"
  proof cases
    case 1
    then show ?thesis by (rule keepsD [OF assms(2)])
  next
    case 2
    then have "P s s'" "P s' t" by (auto intro: keepsD [OF assms(2)] keepsD [OF assms(3)])
    then show ?thesis by (rule keeps_order_trans [OF assms(1)])
  qed
qed

lemma keeps_if [keeps_intros]: "keeps P m \<Longrightarrow> keeps P n \<Longrightarrow> keeps P (if b then m else n)"
  by simp

lemma keeps_case_sum [keeps_intros]:
  "(\<And>e. keeps P (m e)) \<Longrightarrow> (\<And>a. keeps P (n a)) \<Longrightarrow> keeps P (case r of Inl e \<Rightarrow> m e | Inr a \<Rightarrow> n a)"
  by (cases r) auto

lemma keeps_case_option [keeps_intros]:
  "keeps P m \<Longrightarrow> (\<And>a. keeps P (n a)) \<Longrightarrow> keeps P (case r of None \<Rightarrow> m | Some a \<Rightarrow> n a)"
  by (cases r) auto

lemma keeps_let [keeps_intros]: "(\<And>x. keeps P (m x)) \<Longrightarrow> keeps P (let x = a in m x)"
  by simp

lemma keeps_ignoring [keeps_intros]: "keeps_order P \<Longrightarrow> keeps P m \<Longrightarrow> keeps P (ignoring m)"
  unfolding ignoring_def by (intro keeps_intros)

lemma keeps_when [keeps_intros]: "keeps_order P \<Longrightarrow> keeps P m \<Longrightarrow> keeps P (eff_when b m)"
  unfolding eff_when_def by (intro keeps_intros)

lemma keeps_each [keeps_intros]:
  "keeps_order P \<Longrightarrow> (\<And>x. keeps P (m x)) \<Longrightarrow> keeps P (eff_each m xs)"
  by (induction xs) (auto intro: keeps_intros)

lemma keeps_loop [keeps_intros]:
  assumes "keeps_order P" "\<And>a. keeps P (m a)"
  shows "keeps P (eff_loop m a)"
proof (rule keepsI)
  fix s r t
  assume "eff_loop m a s = Some (r, t)"
  then show "P s t"
  proof (rule eff_loop_rule [where I = "\<lambda>_. P s" and Q = "\<lambda>_. P s"])
    show "P s s" by (rule keeps_order_refl [OF assms(1)])
  next
    fix a u a' u'
    assume "P s u" "m a u = Some (Inr a', u')"
    then show "P s u'" using keepsD [OF assms(2)] keeps_order_trans [OF assms(1)] by blast
  next
    fix a u r u'
    assume "P s u" "m a u = Some (Inl r, u')"
    then show "P s u'" using keepsD [OF assms(2)] keeps_order_trans [OF assms(1)] by blast
  qed
qed

text \<open>Relations on the store, and on the event log, lifted to the states of the engines.\<close>

definition on_stores :: "('s \<Rightarrow> 's \<Rightarrow> bool) \<Rightarrow> 's engine \<Rightarrow> 's engine \<Rightarrow> bool" where
  "on_stores R e e' \<longleftrightarrow> R (en_store e) (en_store e')"

definition on_engines :: "('s engine \<Rightarrow> 's engine \<Rightarrow> bool) \<Rightarrow> ('s, 'c) world \<Rightarrow> ('s, 'c) world \<Rightarrow> bool" where
  "on_engines P w w' \<longleftrightarrow> P (fst w) (fst w')"

lemma keeps_order_lift [keeps_intros]:
  "keeps_order R \<Longrightarrow> keeps_order (on_stores R)"
  "keeps_order P \<Longrightarrow> keeps_order (on_engines P)"
  unfolding keeps_order_def on_stores_def on_engines_def by blast+

lemma keeps_on_engine [keeps_intros]: "keeps P m \<Longrightarrow> keeps (on_engines P) (on_engine m)"
  by (auto simp: keeps_def on_engine_Some on_engines_def)

lemma keeps_on_session [keeps_intros]: "keeps_order P \<Longrightarrow> keeps (on_engines P) (on_session m)"
  by (auto simp: keeps_def on_session_Some on_engines_def keeps_order_def)

lemma keeps_run_store: "(\<And>s. R s (snd (f s))) \<Longrightarrow> keeps (on_stores R) (run_store f)"
  by (auto simp: keeps_def run_store_Some on_stores_def)

lemma keeps_stores_rest [keeps_intros]:
  assumes "keeps_order R"
  shows "keeps (on_stores R) (push_event ev)" "keeps (on_stores R) (send_event ev)"
    "keeps (on_stores R) (read_clock c)" "keeps (on_stores R) (is_cancelled d)"
  using assms by (auto simp: keeps_def on_stores_def keeps_order_def send_event_def split: prod.splits)

end
