(* ===== verification/Sync.thy ===== *)
theory Sync
  imports Engine Imap_Convert Config
begin

text \<open>
  \<open>src/src/sync.rs\<close>: the IMAP sync engine of one account.  \<open>sync_service\<close> holds the fields of
  \<open>SyncService\<close> and the outside world: the store's operations, the host's parser, the clock's
  readings, the client and the functions of the crates, the network, and the observations of the
  cancellation token.
\<close>

record ('s, 'p, 'c, 'q) sync_service =
  sv_account :: account_id
  sv_params :: "'q connect_params"
  sv_storage :: "('s, 'p) mail_store_ops"
  sv_parse :: "u8 list \<Rightarrow> 'p"
  sv_config :: sync_config
  sv_clock :: "nat \<Rightarrow> i64"
  sv_client :: "'c client_ops"
  sv_lib :: imap_lib
  sv_unicode :: "rstr \<Rightarrow> rstr"
  sv_net :: "nat \<Rightarrow> tcp_result"
  sv_cancel :: "nat \<Rightarrow> bool"

section \<open>Decision points of the configuration\<close>

definition should_poll :: "('s, 'p, 'c, 'q) sync_service \<Rightarrow> bool \<Rightarrow> bool" where
  "should_poll sv idle_supported \<longleftrightarrow>
     \<not> idle_supported
   \<or> list_ex (\<lambda>h. eq_ignore_ascii_case h (cp_host (sv_params sv))) (idle_poll_only_hosts (sv_config sv))"

text \<open>Durations in milliseconds; the product of the minutes wraps as a \<open>u64\<close>.\<close>

definition idle_timeout :: "('s, 'p, 'c, 'q) sync_service \<Rightarrow> duration" where
  "idle_timeout sv = unat (60 * idle_timeout_mins (sv_config sv)) * 1000"

definition poll_interval :: "('s, 'p, 'c, 'q) sync_service \<Rightarrow> duration" where
  "poll_interval sv = unat (poll_interval_secs (sv_config sv)) * 1000"

definition prefetch_limit :: "('s, 'p, 'c, 'q) sync_service \<Rightarrow> u64" where
  "prefetch_limit sv = body_prefetch_recent (sv_config sv)"

section \<open>Hierarchy\<close>

definition listed_folder :: "('s, 'p, 'c, 'q) sync_service \<Rightarrow> imap_data \<Rightarrow> new_folder option" where
  "listed_folder sv d =
     (case d of
        Data_List mb items delim \<Rightarrow>
          let remote_name = mailbox_name mb
          in Some \<lparr>nf_account = sv_account sv, nf_remote_name = remote_name, nf_attributes = items,
               nf_role = role_from (sv_unicode sv) remote_name items,
               nf_delimiter = (case delim of None \<Rightarrow> lit ''/'' | Some c \<Rightarrow> [c]),
               nf_uid_validity = 0, nf_highest_modseq = 0\<rparr>
      | _ \<Rightarrow> None)"

definition sync_hierarchy ::
    "('s, 'p, 'c, 'q) sync_service \<Rightarrow> (('s, 'c) world, folder_row list sync_result) eff" where
  "sync_hierarchy sv =
     try_bind (on_session (execute (sv_client sv) (sv_lib sv) (list_command (sv_lib sv)) 60)) (\<lambda>out.
     if \<not> is_ok out
     then eff_lift (Inl (Protocol (lit ''LIST failed: '' @ status_summary (sv_lib sv) out)))
     else
       eff_bind (eff_each (\<lambda>nf. ignoring (on_engine (run_store (upsert_folder (sv_storage sv) nf))))
           (List.map_filter (listed_folder sv) (co_data out))) (\<lambda>_.
       eff_bind (on_engine (list_stored_folders (sv_storage sv) (sv_account sv))) (\<lambda>rows.
       eff_return (Inr rows))))"

section \<open>Ingesting fetched envelopes\<close>

record fetch_scan =
  sc_uid :: "u32 option"
  sc_flags :: "flag list"
  sc_date :: i64
  sc_size :: u64
  sc_envelope :: "envelope option"

fun scan_fetch :: "message_data_item \<Rightarrow> fetch_scan \<Rightarrow> fetch_scan" where
  "scan_fetch (MDI_Uid u) a = a\<lparr>sc_uid := Some u\<rparr>"
| "scan_fetch (MDI_Flags fl) a = a\<lparr>sc_flags := flags_from_fetch fl\<rparr>"
| "scan_fetch (MDI_InternalDate d) a = a\<lparr>sc_date := datetime_to_unix_ms d\<rparr>"
| "scan_fetch (MDI_Rfc822Size sz) a = a\<lparr>sc_size := ucast sz\<rparr>"
| "scan_fetch (MDI_Envelope env) a = a\<lparr>sc_envelope := Some env\<rparr>"
| "scan_fetch _ a = a"

definition fetched_message ::
    "('s, 'p, 'c, 'q) sync_service \<Rightarrow> folder_row \<Rightarrow> i64 \<Rightarrow> message_data_item list \<Rightarrow> 'p ingest_message option" where
  "fetched_message sv folder now items =
     (let a = fold scan_fetch items
           \<lparr>sc_uid = None, sc_flags = [], sc_date = now, sc_size = 0, sc_envelope = None\<rparr>
      in case (sc_uid a, sc_envelope a) of
           (Some uid, Some env) \<Rightarrow>
             Some \<lparr>im_folder = fr_id folder, im_uid = uid, im_internal_date = sc_date a,
               im_flags = sc_flags a,
               im_parsed = sv_parse sv (utf8_encode (envelope_to_header env uid)),
               im_raw_blob = None, im_raw_size = sc_size a\<rparr>
         | _ \<Rightarrow> None)"

text \<open>The clock is read for every FETCH response.\<close>

fun fetched_messages ::
    "('s, 'p, 'c, 'q) sync_service \<Rightarrow> folder_row \<Rightarrow> imap_data list \<Rightarrow> ('s engine, 'p ingest_message list) eff" where
  "fetched_messages sv folder [] = eff_return []"
| "fetched_messages sv folder (Data_Fetch _ items # ds) =
     eff_bind (read_clock (sv_clock sv)) (\<lambda>now.
     eff_bind (fetched_messages sv folder ds) (\<lambda>ms.
     eff_return (case fetched_message sv folder now items of None \<Rightarrow> ms | Some m \<Rightarrow> m # ms)))"
| "fetched_messages sv folder (_ # ds) = fetched_messages sv folder ds"

definition u32_of_nat :: "nat \<Rightarrow> u32" where
  "u32_of_nat n = (if n < 2 ^ 32 then of_nat n else - 1)"

definition mail_arrived :: "account_id \<Rightarrow> folder_id \<Rightarrow> nat \<Rightarrow> folder_summary option \<Rightarrow> engine_event" where
  "mail_arrived account folder new summary =
     MailArrived account folder
       \<lparr>fd_new = u32_of_nat new,
        fd_total = (case summary of None \<Rightarrow> 0 | Some s \<Rightarrow> fs_total s),
        fd_unread = (case summary of None \<Rightarrow> 0 | Some s \<Rightarrow> fs_unread s)\<rparr>"

text \<open>The batch's ingestion and its event, the same in both engines.\<close>

definition ingest_and_report ::
    "('s, 'p) mail_store_ops \<Rightarrow> account_id \<Rightarrow> folder_id \<Rightarrow> 'p ingest_message list \<Rightarrow>
     ('s engine, unit sync_result) eff" where
  "ingest_and_report ops account folder messages =
     (if messages = [] then eff_return (Inr ())
      else
        try_bind (eff_bind (run_store (ingest_batch ops messages)) (\<lambda>r. eff_lift (map_err Store_Error r))) (\<lambda>stats.
        if is_inserted stats = 0 then eff_return (Inr ())
        else
          eff_bind (run_store (list_folders ops account)) (\<lambda>r.
          eff_bind (push_event (mail_arrived account folder (length messages)
              (find (\<lambda>f. fs_id f = folder) (unwrap_or [] r)))) (\<lambda>_.
          eff_return (Inr ())))))"

definition ingest_fetch_data ::
    "('s, 'p, 'c, 'q) sync_service \<Rightarrow> folder_row \<Rightarrow> command_outcome \<Rightarrow> ('s engine, unit sync_result) eff" where
  "ingest_fetch_data sv folder out =
     eff_bind (fetched_messages sv folder (co_data out)) (\<lambda>messages.
     ingest_and_report (sv_storage sv) (sv_account sv) (fr_id folder) messages)"

definition fetch_and_ingest ::
    "('s, 'p, 'c, 'q) sync_service \<Rightarrow> folder_row \<Rightarrow> u32 \<Rightarrow> u32 \<Rightarrow> (('s, 'c) world, unit sync_result) eff" where
  "fetch_and_ingest sv folder start uid_next =
     (let bound = next_bound uid_next
      in if bound < start then eff_return (Inr ())
         else
           let range = dec_of start @ lit '':'' @ dec_of bound
           in try_bind (on_session (fetch_envelopes (sv_client sv) (sv_lib sv) range)) (\<lambda>out.
              if \<not> is_ok out
              then eff_lift (Inl (Protocol (lit ''UID FETCH '' @ range @ lit '' failed: ''
                     @ status_summary (sv_lib sv) out)))
              else on_engine (ingest_fetch_data sv folder out)))"

section \<open>The flag pass\<close>

text \<open>
  \<open>message_by_uid\<close>: pages of 500 in UID order, until the UID is found or the listing ends.
\<close>

definition page_limit :: u64 where
  "page_limit = 500"

definition page_step ::
    "('s, 'p) mail_store_ops \<Rightarrow> folder_id \<Rightarrow> u32 \<Rightarrow> u64 \<Rightarrow> ('s engine, message_id option + u64) eff" where
  "page_step ops folder uid offset =
     eff_bind (run_store (list_messages ops folder \<lparr>w_offset = offset, w_limit = page_limit\<rparr>
         \<lparr>ss_field = SF_Uid, ss_dir = SD_Asc\<rparr>)) (\<lambda>r.
     eff_return (case r of
         Inl _ \<Rightarrow> Inl None
       | Inr page \<Rightarrow>
           if mp_items page = [] then Inl None
           else case find (\<lambda>m. ms_uid m = uid) (mp_items page) of
                  Some m \<Rightarrow> Inl (Some (ms_id m))
                | None \<Rightarrow>
                    let offset' = offset + of_nat (length (mp_items page))
                    in if mp_total page \<le> offset' then Inl None else Inr offset'))"

definition message_by_uid ::
    "('s, 'p) mail_store_ops \<Rightarrow> folder_id \<Rightarrow> u32 \<Rightarrow> ('s engine, message_id option) eff" where
  "message_by_uid ops folder uid = eff_loop (page_step ops folder uid) 0"

text \<open>The UIDs of the flag changes in the data of a FETCH.\<close>

definition changed_uids :: "imap_lib \<Rightarrow> imap_data list \<Rightarrow> u32 list" where
  "changed_uids lib ds =
     List.map_filter (\<lambda>u. case u of U_FetchFlags uid _ \<Rightarrow> Some uid | _ \<Rightarrow> None)
       (concat (map (from_data lib) ds))"

fun messages_by_uids ::
    "('s, 'p) mail_store_ops \<Rightarrow> folder_id \<Rightarrow> u32 list \<Rightarrow> ('s engine, message_id list) eff" where
  "messages_by_uids ops folder [] = eff_return []"
| "messages_by_uids ops folder (u # us) =
     eff_bind (message_by_uid ops folder u) (\<lambda>r.
     eff_bind (messages_by_uids ops folder us) (\<lambda>ids.
     eff_return (case r of None \<Rightarrow> ids | Some i \<Rightarrow> i # ids)))"

text \<open>\<open>NonZeroU64::try_from(n).unwrap_or(NonZeroU64::MIN)\<close>.\<close>

definition nonzero_or_min :: "u64 \<Rightarrow> u64" where
  "nonzero_or_min n = (if n = 0 then 1 else n)"

definition flag_changes ::
    "('s, 'p, 'c, 'q) sync_service \<Rightarrow> folder_row \<Rightarrow> select_info \<Rightarrow> command_outcome \<Rightarrow> ('s engine, unit) eff" where
  "flag_changes sv folder info out =
     eff_bind (messages_by_uids (sv_storage sv) (fr_id folder) (changed_uids (sv_lib sv) (co_data out))) (\<lambda>changed.
     eff_bind (eff_when (changed \<noteq> []) (push_event (FlagsChanged changed))) (\<lambda>_.
     eff_when (fr_highest_modseq folder < si_highest_modseq info)
       (ignoring (run_store (update_sync_cursors (sv_storage sv) (fr_id folder) 0
          (Some (si_highest_modseq info)))))))"

definition flag_pass ::
    "('s, 'p, 'c, 'q) sync_service \<Rightarrow> folder_row \<Rightarrow> select_info \<Rightarrow> (('s, 'c) world, unit sync_result) eff" where
  "flag_pass sv folder info =
     eff_bind (on_session (eff_get (has_capability (lit ''CONDSTORE'')))) (\<lambda>condstore.
     if condstore \<and> 0 < fr_highest_modseq folder
     then
       try_bind (eff_lift (map_err (\<lambda>e. Protocol (lit ''seq: '' @ e))
           (seq_try_from (sv_lib sv) (lit ''1:*'')))) (\<lambda>sq.
       eff_bind (on_session (execute (sv_client sv) (sv_lib sv)
           (Cmd_Fetch sq FI_Flags True
             (Some (nonzero_or_min (saturating_succ (fr_highest_modseq folder))))) 120)) (\<lambda>r.
       eff_bind (case r of
           Inr out \<Rightarrow> eff_when (is_ok out) (on_engine (flag_changes sv folder info out))
         | Inl _ \<Rightarrow> eff_return ()) (\<lambda>_.
       eff_return (Inr ()))))
     else eff_return (Inr ()))"

section \<open>Prefetching bodies\<close>

fun raw_item :: "message_data_item \<Rightarrow> u8 list option" where
  "raw_item (MDI_Rfc822 n) = nstring_bytes n"
| "raw_item (MDI_BodyExt n) = nstring_bytes n"
| "raw_item _ = None"

definition raw_body :: "imap_data list \<Rightarrow> u8 list option" where
  "raw_body ds = find_map (\<lambda>d. case d of Data_Fetch _ items \<Rightarrow> find_map raw_item items | _ \<Rightarrow> None) ds"

definition store_body ::
    "('s, 'p, 'c, 'q) sync_service \<Rightarrow> folder_row \<Rightarrow> message_summary \<Rightarrow> u8 list \<Rightarrow> ('s engine, unit) eff" where
  "store_body sv folder m raw =
     eff_bind (run_store (write_blob (sv_storage sv) raw)) (\<lambda>r.
     case r of
       Inl _ \<Rightarrow> eff_return ()
     | Inr hash \<Rightarrow>
         ignoring (run_store (ingest_batch (sv_storage sv)
           [\<lparr>im_folder = fr_id folder, im_uid = ms_uid m, im_internal_date = ms_internal_date m,
             im_flags = ms_flags m, im_parsed = sv_parse sv raw, im_raw_blob = Some hash,
             im_raw_size = of_nat (length raw)\<rparr>])))"

definition prefetch_one ::
    "('s, 'p, 'c, 'q) sync_service \<Rightarrow> folder_row \<Rightarrow> message_summary \<Rightarrow> (('s, 'c) world, unit) eff" where
  "prefetch_one sv folder m =
     eff_bind (on_session (fetch_raw (sv_client sv) (sv_lib sv) (ms_uid m))) (\<lambda>r.
     case Option.bind (sum_ok r) (\<lambda>out. raw_body (co_data out)) of
       None \<Rightarrow> eff_return ()
     | Some raw \<Rightarrow> on_engine (store_body sv folder m raw))"

definition prefetch_recent ::
    "('s, 'p, 'c, 'q) sync_service \<Rightarrow> folder_row \<Rightarrow> (('s, 'c) world, unit sync_result) eff" where
  "prefetch_recent sv folder =
     eff_bind (on_engine (run_store (list_messages (sv_storage sv) (fr_id folder)
         \<lparr>w_offset = 0, w_limit = prefetch_limit sv\<rparr> \<lparr>ss_field = SF_Date, ss_dir = SD_Desc\<rparr>))) (\<lambda>r.
     eff_bind (eff_each (prefetch_one sv folder) (mp_items (unwrap_or message_page_default r))) (\<lambda>_.
     eff_return (Inr ())))"

section \<open>One folder\<close>

definition u32_of_u64 :: "u64 \<Rightarrow> u32" where
  "u32_of_u64 n = (if n < 2 ^ 32 then ucast n else - 1)"

text \<open>The cursors after a SELECT: reconciliation when UIDVALIDITY has changed, else an update.\<close>

definition uid_validity_changed :: "folder_row \<Rightarrow> select_info \<Rightarrow> bool" where
  "uid_validity_changed folder info \<longleftrightarrow>
     fr_uid_validity folder \<noteq> 0 \<and> si_uid_validity info \<noteq> 0
   \<and> fr_uid_validity folder \<noteq> si_uid_validity info"

definition reconcile ::
    "('s, 'p) mail_store_ops \<Rightarrow> folder_row \<Rightarrow> select_info \<Rightarrow> ('s engine, unit) eff" where
  "reconcile ops folder info =
     (let set_cursors = (\<lambda>q. ignoring (run_store
            (update_sync_cursors ops (fr_id folder) (si_uid_validity info) (Some q))))
      in if uid_validity_changed folder info
         then
           eff_bind (run_store (purge_folder ops (fr_id folder))) (\<lambda>r.
           eff_bind (set_cursors 0) (\<lambda>_.
           eff_bind (push_event (MessagesChanged (fr_id folder) 0 (u32_of_u64 (unwrap_or 0 r)))) (\<lambda>_.
           set_cursors (si_highest_modseq info))))
         else if si_uid_validity info \<noteq> 0 then set_cursors (si_highest_modseq info)
         else eff_return ())"

definition delta_fetch ::
    "('s, 'p, 'c, 'q) sync_service \<Rightarrow> folder_row \<Rightarrow> select_info \<Rightarrow> (('s, 'c) world, unit sync_result) eff" where
  "delta_fetch sv folder info =
     eff_bind (on_engine (run_store (max_uid (sv_storage sv) (fr_id folder)))) (\<lambda>r.
     let start = (case unwrap_or None r of None \<Rightarrow> 1 | Some m \<Rightarrow> saturating_succ m)
     in if 0 < si_exists info \<and> start \<le> next_bound (si_uid_next info)
        then fetch_and_ingest sv folder start (si_uid_next info)
        else eff_return (Inr ()))"

definition sync_selected ::
    "('s, 'p, 'c, 'q) sync_service \<Rightarrow> folder_row \<Rightarrow> select_info \<Rightarrow> (('s, 'c) world, unit sync_result) eff" where
  "sync_selected sv folder info =
     eff_bind (on_engine (reconcile (sv_storage sv) folder info)) (\<lambda>_.
     try_bind (delta_fetch sv folder info) (\<lambda>_.
     try_bind (flag_pass sv folder info) (\<lambda>_.
     prefetch_recent sv folder)))"

definition sync_folder ::
    "('s, 'p, 'c, 'q) sync_service \<Rightarrow> folder_row \<Rightarrow> (('s, 'c) world, unit sync_result) eff" where
  "sync_folder sv folder =
     try_bind (eff_lift (map_err (\<lambda>e. Protocol (lit ''mailbox name: '' @ e))
         (mailbox_try_from (sv_lib sv) (fr_remote_name folder)))) (\<lambda>mb.
     try_bind (on_session (execute (sv_client sv) (sv_lib sv) (Cmd_Select mb) 60)) (\<lambda>out.
     if is_ok out then sync_selected sv folder (select_info_of out)
     else eff_return (Inr ())))"

end
