(* ===== verification/Reconnect.thy ===== *)
theory Reconnect
  imports Engine
begin

text \<open>
  The loop around the cycles of a sync engine, which \<open>src/src/sync.rs\<close> and \<open>src/src/jmap_sync.rs\<close>
  share word for word: reconnecting with a growing wait until the token is cancelled, and reporting
  the connection states.  The locale \<open>reconnecting\<close> holds what the loop needs of a cycle and what
  follows from it.
\<close>

section \<open>The reconnect loop\<close>

definition sleep_for :: "nat \<Rightarrow> ('s engine, unit) eff" where
  "sleep_for ms = eff_modify (\<lambda>e. e\<lparr>en_waits := en_waits e @ [ms]\<rparr>)"

definition first_backoff :: nat where
  "first_backoff = 250"

text \<open>
  Doubling with a cap of 300 seconds.  \<open>Duration::mul_f64(2.0)\<close> is exact here: every wait is a
  multiple of 250 ms below 300 s.
\<close>

definition next_backoff :: "nat \<Rightarrow> nat" where
  "next_backoff b = min (2 * b) 300000"

definition reconnect_round ::
    "(nat \<Rightarrow> bool) \<Rightarrow> ('s, 'p) mail_store_ops \<Rightarrow> account_id \<Rightarrow> ('s engine, unit sync_result) eff \<Rightarrow>
     nat \<Rightarrow> ('s engine, unit + nat) eff" where
  "reconnect_round cancel ops account cycle backoff =
     eff_bind (is_cancelled cancel) (\<lambda>cancelled.
     if cancelled then eff_return (Inl ())
     else
       eff_bind cycle (\<lambda>r.
       case r of
         Inr _ \<Rightarrow> eff_return (Inr first_backoff)
       | Inl e \<Rightarrow>
           eff_bind (emit_state ops account Disconnected) (\<lambda>_.
           eff_bind (is_cancelled cancel) (\<lambda>cancelled.
           if cancelled then eff_return (Inl ())
           else eff_bind (sleep_for backoff) (\<lambda>_. eff_return (Inr (next_backoff backoff)))))))"

definition reconnect ::
    "(nat \<Rightarrow> bool) \<Rightarrow> ('s, 'p) mail_store_ops \<Rightarrow> account_id \<Rightarrow> ('s engine, unit sync_result) eff \<Rightarrow>
     ('s engine, unit) eff" where
  "reconnect cancel ops account cycle = eff_loop (reconnect_round cancel ops account cycle) first_backoff"

section \<open>Looking at the token and waiting\<close>

text \<open>Only the reconnect loop waits; observations of the token are counted.\<close>

definition steady :: "'s engine \<Rightarrow> 's engine \<Rightarrow> bool" where
  "steady e e' \<longleftrightarrow> en_looks e \<le> en_looks e' \<and> en_waits e' = en_waits e"

lemma steady_order [keeps_intros]: "keeps_order steady"
  by (auto simp: keeps_order_def steady_def)

lemma steady_effects [keeps_intros]:
  "keeps steady (run_store f)" "keeps steady (push_event ev)" "keeps steady (send_event ev)"
  "keeps steady (read_clock c)" "keeps steady (is_cancelled d)"
  by (auto simp: keeps_def steady_def run_store_Some send_event_def split: prod.splits)

lemma emit_state_steady [keeps_intros]: "keeps steady (emit_state ops a st)"
  unfolding emit_state_def by (intro keeps_intros)

text \<open>Between the two states the token was seen cancelled.\<close>

definition saw_cancel :: "(nat \<Rightarrow> bool) \<Rightarrow> 's engine \<Rightarrow> 's engine \<Rightarrow> bool" where
  "saw_cancel cancel e e' \<longleftrightarrow> (\<exists>n \<ge> en_looks e. n < en_looks e' \<and> cancel n)"

lemma saw_cancel_later: "saw_cancel c e e1 \<Longrightarrow> steady e1 e2 \<Longrightarrow> saw_cancel c e e2"
  and saw_cancel_earlier: "steady e e1 \<Longrightarrow> saw_cancel c e1 e2 \<Longrightarrow> saw_cancel c e e2"
  unfolding saw_cancel_def steady_def by (meson less_le_trans le_trans)+

section \<open>The state machine\<close>

inductive conn_step :: "connection_state \<Rightarrow> connection_state \<Rightarrow> bool" where
  dial: "conn_step Disconnected Connecting"
| authenticated: "conn_step Connecting Authenticating"
| synchronise: "conn_step Authenticating Syncing"
| watch: "conn_step Syncing Idle"
| wake: "conn_step Idle Syncing"
| poll: "conn_step Syncing Syncing"
| lost: "s \<in> {Connecting, Syncing, Idle} \<Longrightarrow> conn_step s Disconnected"

inductive_simps conn_step_simps [simp]:
  "conn_step Disconnected s" "conn_step Connecting s" "conn_step Authenticating s"
  "conn_step Syncing s" "conn_step Idle s"

inductive_cases conn_step_to_idle: "conn_step s Idle"

text \<open>The reported states, in order, that lead from one state to another.\<close>

fun conn_path :: "connection_state \<Rightarrow> connection_state list \<Rightarrow> connection_state \<Rightarrow> bool" where
  "conn_path s [] t \<longleftrightarrow> s = t"
| "conn_path s (x # xs) t \<longleftrightarrow> conn_step s x \<and> conn_path x xs t"

lemma conn_path_append: "conn_path s xs t \<Longrightarrow> conn_path t ys u \<Longrightarrow> conn_path s (xs @ ys) u"
  by (induction xs arbitrary: s) auto

definition states_of :: "account_id \<Rightarrow> engine_event list \<Rightarrow> connection_state list" where
  "states_of a evs = List.map_filter
     (\<lambda>ev. case ev of AccountConnection b s \<Rightarrow> if b = a then Some s else None | _ \<Rightarrow> None) evs"

lemma states_of_simps [simp]:
  "states_of a [] = []" "states_of a (xs @ ys) = states_of a xs @ states_of a ys"
  "states_of a [AccountConnection a s] = [s]"
  "states_of a [MailArrived b f d] = []" "states_of a [MessagesChanged f n m] = []"
  "states_of a [FlagsChanged ms] = []" "states_of a [FolderTreeChanged b] = []"
  by (simp_all add: states_of_def map_filter_append map_filter_Cons)

section \<open>Operations that report no state\<close>

text \<open>\<open>moves a s t e e'\<close>: on an open bus, the events sent in between lead from \<open>s\<close> to \<open>t\<close>.\<close>

definition moves :: "account_id \<Rightarrow> connection_state \<Rightarrow> connection_state \<Rightarrow> 's engine \<Rightarrow> 's engine \<Rightarrow> bool" where
  "moves a s t e e' \<longleftrightarrow> (bus_open (en_bus e) \<longrightarrow> bus_open (en_bus e')
     \<and> (\<exists>evs. bus_sent (en_bus e') = bus_sent (en_bus e) @ evs \<and> conn_path s (states_of a evs) t))"

definition quiet :: "account_id \<Rightarrow> 's engine \<Rightarrow> 's engine \<Rightarrow> bool" where
  "quiet a e e' \<longleftrightarrow> (bus_open (en_bus e) \<longrightarrow> bus_open (en_bus e')
     \<and> (\<exists>evs. bus_sent (en_bus e') = bus_sent (en_bus e) @ evs \<and> states_of a evs = []))"

lemma moves_trans: "moves a s t e e1 \<Longrightarrow> moves a t u e1 e2 \<Longrightarrow> moves a s u e e2"
  unfolding moves_def by (auto intro: conn_path_append)

lemma quiet_moves: "quiet a e e' \<Longrightarrow> moves a s s e e'"
  unfolding moves_def quiet_def by force

lemma quiet_order [keeps_intros]: "keeps_order (quiet a)"
  unfolding keeps_order_def quiet_def by (auto intro: exI [of _ "[]"])

lemma quiet_effects [keeps_intros]:
  "keeps (quiet a) (run_store f)" "keeps (quiet a) (read_clock c)" "keeps (quiet a) (is_cancelled d)"
  "keeps (quiet a) (sleep_for n)"
  by (auto simp: keeps_def quiet_def run_store_Some sleep_for_def eff_modify_def)

lemma quiet_push [keeps_intros]:
  "states_of a [ev] = [] \<Longrightarrow> keeps (quiet a) (push_event ev)"
  "states_of a [ev] = [] \<Longrightarrow> keeps (quiet a) (send_event ev)"
  by (auto simp: keeps_def quiet_def send_event_def bus_push_def bus_send_def bus_open_def split: option.splits)

lemma try_bind_bind: "try_bind m k = eff_bind m (\<lambda>r. case r of Inl e \<Rightarrow> eff_return (Inl e) | Inr a \<Rightarrow> k a)"
  by (rule ext) (simp add: try_bind_def eff_bind_def split: option.splits sum.splits)

lemma emit_state_moves:
  assumes "emit_state ops a st e = Some (u, e')" "conn_step s st"
  shows "moves a s st e e'"
  using assms
  by (auto simp: emit_state_def eff_bind_Some ignoring_Some run_store_Some moves_def
      intro!: exI [of _ "[AccountConnection a st]"])

section \<open>What the loop needs of a cycle\<close>

text \<open>The wait before the \<open>i\<close>-th reconnect.\<close>

definition wait_ms :: "nat \<Rightarrow> nat" where
  "wait_ms i = min (250 * 2 ^ i) 300000"

lemma wait_ms_steps: "first_backoff = wait_ms 0" "next_backoff (wait_ms i) = wait_ms (Suc i)"
  by (auto simp: wait_ms_def first_backoff_def next_backoff_def min_def)

locale reconnecting =
  fixes cancel :: "nat \<Rightarrow> bool"
    and ops :: "('s, 'p) mail_store_ops"
    and account :: account_id
    and cycle :: "('s engine, unit sync_result) eff"
  assumes cycle_steady: "keeps steady cycle"
    and cycle_ok: "cycle e = Some (Inr (), e') \<Longrightarrow> saw_cancel cancel e e'"
begin

lemma round_Some:
  assumes "reconnect_round cancel ops account cycle b e = Some (x, e')"
  obtains (stop) "x = Inl ()" "saw_cancel (cancel) e e'" "steady e e'"
  | (clean) "x = Inr first_backoff" "\<not> cancel (en_looks e)" "steady e e'" "saw_cancel (cancel) e e'"
  | (failed) "x = Inr (next_backoff b)" "\<not> cancel (en_looks e)"
      "en_looks e \<le> en_looks e'" "en_waits e' = en_waits e @ [b]"
proof (cases "cancel (en_looks e)")
  case True
  with assms show ?thesis
    by (intro stop) (auto simp: reconnect_round_def eff_bind_def saw_cancel_def steady_def)
next
  case False
  let ?e = "e\<lparr>en_looks := Suc (en_looks e)\<rparr>"
  obtain r e1 where cyc: "cycle ?e = Some (r, e1)"
    and rest: "(case r of Inr _ \<Rightarrow> eff_return (Inr first_backoff)
       | Inl er \<Rightarrow> eff_bind (emit_state ops account Disconnected) (\<lambda>_.
           eff_bind (is_cancelled (cancel)) (\<lambda>cancelled.
           if cancelled then eff_return (Inl ())
           else eff_bind (sleep_for b) (\<lambda>_. eff_return (Inr (next_backoff b)))))) e1 = Some (x, e')"
    using assms False by (auto simp: reconnect_round_def eff_bind_Some)
  have st1: "steady e e1" using keepsD [OF cycle_steady cyc] by (simp add: steady_def)
  show ?thesis
  proof (cases r)
    case (Inr u)
    then have "saw_cancel (cancel) e e1"
      using saw_cancel_earlier [of e ?e] cycle_ok [of ?e e1] cyc by (simp add: steady_def)
    with Inr rest False st1 show ?thesis by (intro clean) auto
  next
    case (Inl er)
    obtain e2 where e2: "emit_state ops account Disconnected e1 = Some ((), e2)"
      using Inl rest by (auto simp: eff_bind_Some)
    have st2: "steady e1 e2" by (rule keepsD [OF emit_state_steady e2])
    show ?thesis
    proof (cases "cancel (en_looks e2)")
      case True
      with Inl rest e2 st1 st2 show ?thesis
        by (intro stop) (auto simp: eff_bind_def saw_cancel_def steady_def intro!: exI [of _ "en_looks e2"])
    next
      case neg: False
      with Inl rest e2 st1 st2 False show ?thesis
        by (intro failed) (auto simp: eff_bind_def sleep_for_def eff_modify_def steady_def)
    qed
  qed
qed

lemma loop_saw_cancel:
  assumes "reconnect cancel ops account cycle e = Some ((), e')"
  shows "saw_cancel (cancel) e e'"
  using assms unfolding reconnect_def
proof (rule eff_loop_rule [where I = "\<lambda>_ e1. en_looks e \<le> en_looks e1" and Q = "\<lambda>_. saw_cancel (cancel) e"])
  fix b e1 b' e2
  assume "en_looks e \<le> en_looks e1" "reconnect_round cancel ops account cycle b e1 = Some (Inr b', e2)"
  then show "en_looks e \<le> en_looks e2"
    by (elim round_Some) (auto simp: steady_def)
next
  fix b e1 u e2
  assume "en_looks e \<le> en_looks e1" "reconnect_round cancel ops account cycle b e1 = Some (Inl u, e2)"
  then show "saw_cancel (cancel) e e2"
    by (elim round_Some) (auto simp: saw_cancel_def intro: le_trans)
qed simp

lemma loop_waits:
  fixes e :: "'s engine"
  assumes "\<And>n m. n \<le> m \<Longrightarrow> cancel n \<Longrightarrow> cancel m" and "reconnect cancel ops account cycle e = Some ((), e')"
  shows "\<exists>n. en_waits e' = en_waits e @ map (\<lambda>i. min (250 * 2 ^ i) 300000) [0..<n]"
proof -
  let ?ws = "\<lambda>n. en_waits e @ map wait_ms [0..<n]"
  define I :: "nat \<Rightarrow> 's engine \<Rightarrow> bool" where "I b e1 \<longleftrightarrow> (\<exists>n. en_waits e1 = ?ws n \<and> (b = wait_ms n \<or> cancel (en_looks e1)))" for b e1
  have "\<exists>n. en_waits e' = ?ws n"
    using assms(2) unfolding reconnect_def
  proof (rule eff_loop_rule [where I = I and Q = "\<lambda>_ e'. \<exists>n. en_waits e' = ?ws n"])
    show "I first_backoff e" unfolding I_def by (intro exI [of _ 0]) (simp add: wait_ms_steps)
  next
    fix b e1 b' e2
    assume I: "I b e1" and r: "reconnect_round cancel ops account cycle b e1 = Some (Inr b', e2)"
    from r show "I b' e2"
    proof (cases rule: round_Some)
      case clean
      then have "cancel (en_looks e2)" unfolding saw_cancel_def using assms(1) less_imp_le by blast
      with I clean(3) show ?thesis by (auto simp: I_def steady_def)
    next
      case failed
      then obtain n where "en_waits e1 = ?ws n" "b = wait_ms n" using I by (auto simp: I_def)
      with failed show ?thesis
        unfolding I_def by (intro exI [of _ "Suc n"]) (simp add: wait_ms_steps)
    qed simp
  next
    fix b e1 u e2
    assume I: "I b e1" and r: "reconnect_round cancel ops account cycle b e1 = Some (Inl u, e2)"
    from r show "\<exists>n. en_waits e2 = ?ws n"
      by (cases rule: round_Some) (use I in \<open>auto simp: I_def steady_def\<close>)
  qed
  moreover have "wait_ms = (\<lambda>i. min (250 * 2 ^ i) 300000)" by (rule ext) (rule wait_ms_def)
  ultimately show ?thesis by simp
qed

end

lemma emit_disconnected:
  assumes "emit_state ops a Disconnected e1 = Some (u, e2)" "t \<in> {Connecting, Syncing, Idle}" "moves a s t e e1"
  shows "moves a s Disconnected e e2"
  using moves_trans [OF assms(3) emit_state_moves [OF assms(1)]] conn_step.lost [OF assms(2)] by blast

text \<open>A cycle that moreover reports states along the state machine.\<close>

locale reporting = reconnecting cancel ops account cycle
  for cancel :: "nat \<Rightarrow> bool"
    and ops :: "('s, 'p) mail_store_ops"
    and account :: account_id
    and cycle :: "('s engine, unit sync_result) eff" +
  assumes cycle_moves: "cycle e = Some (r, e') \<Longrightarrow>
      \<exists>t \<in> {Connecting, Syncing, Idle}. moves account Disconnected t e e'"
begin

lemma round_moves:
  assumes "reconnect_round cancel ops account cycle b e = Some (x, e')"
  shows "\<exists>t. moves account Disconnected t e e'
    \<and> (t = Disconnected \<or> x = Inl () \<or> saw_cancel cancel e e')"
proof -
  let ?a = account and ?e = "e\<lparr>en_looks := Suc (en_looks e)\<rparr>"
  have look: "moves ?a s s e1 (e1\<lparr>en_looks := n, en_waits := ws\<rparr>)" "moves ?a s s e1 (e1\<lparr>en_looks := n\<rparr>)" for s e1 n ws
    by (auto simp: moves_def intro!: exI [of _ "[]"])
  show ?thesis
  proof (cases "cancel (en_looks e)")
    case True
    with assms have "x = Inl ()" "e' = ?e" by (auto simp: reconnect_round_def eff_bind_def)
    then show ?thesis using look(2) by blast
  next
    case False
    obtain r e1 where cyc: "cycle ?e = Some (r, e1)"
      and rest: "(case r of Inr _ \<Rightarrow> eff_return (Inr first_backoff)
         | Inl er \<Rightarrow> eff_bind (emit_state ops ?a Disconnected) (\<lambda>_.
             eff_bind (is_cancelled cancel) (\<lambda>cancelled.
             if cancelled then eff_return (Inl ())
             else eff_bind (sleep_for b) (\<lambda>_. eff_return (Inr (next_backoff b)))))) e1 = Some (x, e')"
      using assms False by (auto simp: reconnect_round_def eff_bind_Some)
    obtain t where t: "t \<in> {Connecting, Syncing, Idle}" "moves ?a Disconnected t e e1"
      using cycle_moves [OF cyc] moves_trans [OF look(2)] by blast
    show ?thesis
    proof (cases r)
      case (Inr u)
      then have "saw_cancel cancel e e1"
        using saw_cancel_earlier [of e ?e] cycle_ok [of ?e e1] cyc by (simp add: steady_def)
      moreover have "e' = e1" using Inr rest by simp
      ultimately show ?thesis using t(2) by blast
    next
      case (Inl er)
      obtain e2 where e2: "emit_state ops ?a Disconnected e1 = Some ((), e2)"
        and tail: "e' = e2\<lparr>en_looks := Suc (en_looks e2)\<rparr>
          \<or> e' = e2\<lparr>en_looks := Suc (en_looks e2), en_waits := en_waits e2 @ [b]\<rparr>"
        using Inl rest by (auto simp: eff_bind_Some sleep_for_def eff_modify_def split: if_splits)
      have "moves ?a Disconnected Disconnected e e2" by (rule emit_disconnected [OF e2 t])
      then show ?thesis using tail look moves_trans by blast
    qed
  qed
qed

lemma loop_states_path:
  fixes e :: "'s engine"
  assumes "\<And>n m. n \<le> m \<Longrightarrow> cancel n \<Longrightarrow> cancel m" and "bus_open (en_bus e)"
    and "reconnect cancel ops account cycle e = Some ((), e')"
  shows "\<exists>evs t. bus_sent (en_bus e') = bus_sent (en_bus e) @ evs
    \<and> conn_path Disconnected (states_of account evs) t"
proof -
  let ?a = account
  define I :: "nat \<Rightarrow> 's engine \<Rightarrow> bool" where "I b e1 \<longleftrightarrow>
    (\<exists>t. moves ?a Disconnected t e e1 \<and> (t = Disconnected \<or> cancel (en_looks e1)))" for b e1
  have step: "\<exists>t. moves ?a Disconnected t e e2 \<and> (x = Inl () \<or> t = Disconnected \<or> cancel (en_looks e2))"
    if I: "I b e1" and r: "reconnect_round cancel ops account cycle b e1 = Some (x, e2)" for b e1 x e2
  proof (cases "cancel (en_looks e1)")
    case True
    with r have "x = Inl ()" "e2 = e1\<lparr>en_looks := Suc (en_looks e1)\<rparr>" by (auto simp: reconnect_round_def eff_bind_def)
    with I show ?thesis by (auto simp: I_def moves_def)
  next
    case False
    then have e1: "moves ?a Disconnected Disconnected e e1" using I by (auto simp: I_def)
    obtain t where t: "moves ?a Disconnected t e1 e2"
      "t = Disconnected \<or> x = Inl () \<or> saw_cancel cancel e1 e2" using round_moves [OF r] by blast
    moreover have "saw_cancel cancel e1 e2 \<Longrightarrow> cancel (en_looks e2)"
      unfolding saw_cancel_def using assms(1) less_imp_le by blast
    ultimately show ?thesis using moves_trans [OF e1] by blast
  qed
  have "\<exists>t. moves ?a Disconnected t e e'"
    using assms(3) unfolding reconnect_def
  proof (rule eff_loop_rule [where I = I and Q = "\<lambda>_ e'. \<exists>t. moves ?a Disconnected t e e'"])
    show "I first_backoff e" by (auto simp: I_def moves_def intro!: exI [of _ "[]"] exI [of _ Disconnected])
    show "I b' e2" if "I b e1" "reconnect_round cancel ops account cycle b e1 = Some (Inr b', e2)" for b e1 b' e2
      using step [OF that] by (simp add: I_def)
    show "\<exists>t. moves ?a Disconnected t e e2" if "I b e1" "reconnect_round cancel ops account cycle b e1 = Some (Inl u, e2)" for b e1 u e2
      using step [OF that] by blast
  qed
  with assms(2) show ?thesis unfolding moves_def by blast
qed

end

end
