(* ===== verification/Sync_Run.thy ===== *)
theory Sync_Run
  imports Sync Reconnect
begin

text \<open>
  The state machine of \<open>src/src/sync.rs\<close>: one cycle (connect, hierarchy, delta pass, then polling
  or IDLE until cancellation or an error) and the reconnect loop around it.
\<close>

section \<open>Passes over the folders\<close>

text \<open>The folders in order, until the token is found cancelled (\<open>True\<close>) or an error ends it.\<close>

fun sync_each :: "('s, 'p, 'c, 'q) sync_service \<Rightarrow> folder_row list \<Rightarrow> (('s, 'c) world, bool sync_result) eff" where
  "sync_each sv [] = eff_return (Inr False)"
| "sync_each sv (f # fs) =
     eff_bind (on_engine (is_cancelled (sv_cancel sv))) (\<lambda>cancelled.
     if cancelled then eff_return (Inr True)
     else try_bind (sync_folder sv f) (\<lambda>_. sync_each sv fs))"

definition enter_state ::
    "('s, 'p, 'c, 'q) sync_service \<Rightarrow> connection_state \<Rightarrow> (('s, 'c) world, unit) eff" where
  "enter_state sv st = on_engine (emit_state (sv_storage sv) (sv_account sv) st)"

definition sync_stored :: "('s, 'p, 'c, 'q) sync_service \<Rightarrow> (('s, 'c) world, bool sync_result) eff" where
  "sync_stored sv =
     eff_bind (enter_state sv Syncing) (\<lambda>_.
     eff_bind (on_engine (list_stored_folders (sv_storage sv) (sv_account sv))) (\<lambda>folders.
     sync_each sv folders))"

text \<open>A round of a loop of the cycle: \<open>Inl\<close> ends the cycle with the given result.\<close>

type_synonym ('s, 'c) cycle_round = "(('s, 'c) world, unit sync_result + unit) eff"

definition leave :: "('s, 'p, 'c, 'q) sync_service \<Rightarrow> ('s, 'c) cycle_round" where
  "leave sv =
     eff_bind (on_session (logout (sv_client sv) (sv_lib sv))) (\<lambda>_. eff_return (Inl (Inr ())))"

definition after_pass ::
    "('s, 'p, 'c, 'q) sync_service \<Rightarrow> ('s, 'c) cycle_round \<Rightarrow> ('s, 'c) cycle_round" where
  "after_pass sv k =
     eff_bind (sync_stored sv) (\<lambda>r.
     case r of
       Inl e \<Rightarrow> eff_return (Inl (Inl e))
     | Inr cancelled \<Rightarrow> if cancelled then leave sv else k)"

section \<open>Polling and IDLE\<close>

definition poll_round :: "('s, 'p, 'c, 'q) sync_service \<Rightarrow> ('s, 'c) cycle_round" where
  "poll_round sv =
     eff_bind (on_engine (is_cancelled (sv_cancel sv))) (\<lambda>cancelled.
     if cancelled then leave sv else after_pass sv (eff_return (Inr ())))"

definition idle_round :: "('s, 'p, 'c, 'q) sync_service \<Rightarrow> ('s, 'c) cycle_round" where
  "idle_round sv =
     eff_bind (on_engine (is_cancelled (sv_cancel sv))) (\<lambda>cancelled.
     if cancelled then leave sv
     else
       eff_bind (on_session (idle (sv_client sv) (sv_lib sv) (idle_timeout sv))) (\<lambda>r.
       case r of
         Inl e \<Rightarrow> eff_return (Inl (Inl e))
       | Inr woke \<Rightarrow>
           eff_bind (on_engine (is_cancelled (sv_cancel sv))) (\<lambda>cancelled.
           if cancelled then leave sv
           else if woke = [] then eff_return (Inr ())
           else after_pass sv
             (eff_bind (enter_state sv Idle) (\<lambda>_. eff_return (Inr ()))))))"

section \<open>The cycle\<close>

definition cycle_body :: "('s, 'p, 'c, 'q) sync_service \<Rightarrow> (('s, 'c) world, unit sync_result) eff" where
  "cycle_body sv =
     eff_bind (enter_state sv Authenticating) (\<lambda>_.
     eff_bind (enter_state sv Syncing) (\<lambda>_.
     try_bind (sync_hierarchy sv) (\<lambda>folders.
     eff_bind (on_engine (send_event (FolderTreeChanged (sv_account sv)))) (\<lambda>sent.
     if \<not> sent then eff_return (Inl (Protocol (lit ''bus closed'')))
     else
       try_bind (sync_each sv folders) (\<lambda>cancelled.
       if cancelled then eff_return (Inr ())
       else
         eff_bind (on_session (eff_get (has_capability (lit ''IDLE'')))) (\<lambda>idle_supported.
         if should_poll sv idle_supported then eff_loop (\<lambda>_. poll_round sv) ()
         else eff_bind (enter_state sv Idle) (\<lambda>_. eff_loop (\<lambda>_. idle_round sv) ())))))))"

text \<open>Opening the session of a cycle; the session is dropped when the cycle ends.\<close>

definition with_session ::
    "('s, 'p, 'c, 'q) sync_service \<Rightarrow> (('s, 'c) world, unit sync_result) eff \<Rightarrow> ('s engine, unit sync_result) eff" where
  "with_session sv body e =
     (let e' = e\<lparr>en_connects := Suc (en_connects e)\<rparr>
      in case connect_and_authenticate (sv_client sv) (sv_lib sv) (sv_net sv (en_connects e)) (sv_params sv) of
           None \<Rightarrow> None
         | Some (Inl err) \<Rightarrow> Some (Inl err, e')
         | Some (Inr s) \<Rightarrow> map_option (\<lambda>(r, w). (r, fst w)) (body (e', s)))"

definition run_one_cycle :: "('s, 'p, 'c, 'q) sync_service \<Rightarrow> ('s engine, unit sync_result) eff" where
  "run_one_cycle sv =
     eff_bind (emit_state (sv_storage sv) (sv_account sv) Connecting) (\<lambda>_.
     with_session sv (cycle_body sv))"

section \<open>The reconnect loop\<close>

definition run :: "('s, 'p, 'c, 'q) sync_service \<Rightarrow> ('s engine, unit) eff" where
  "run sv = reconnect (sv_cancel sv) (sv_storage sv) (sv_account sv) (run_one_cycle sv)"

end
