(* ===== verification/Sync_Store.thy ===== *)
theory Sync_Store
  imports Sync_Run Mock_Store
begin

text \<open>
  What the IMAP engine does to the host's store (\<open>src/src/sync.rs\<close> against the contract of
  \<open>src/src/store.rs\<close>): a folder pass touches no other folder, removes messages only on a changed
  UIDVALIDITY, asks the server for UIDs above the stored ones only, and files every envelope it is
  given.  The lemmas are proved for any store that meets the contract and applied to the in-memory
  store of \<open>src/tests/common/mod.rs\<close>.
\<close>

section \<open>Relations on the store\<close>

text \<open>Other folders are left alone; nothing is removed from folder \<open>f\<close>.\<close>

definition isolated ::
    "('s \<Rightarrow> bool) \<Rightarrow> ('s \<Rightarrow> folder_id \<Rightarrow> u32 set) \<Rightarrow> ('s \<Rightarrow> folder_id \<Rightarrow> (u32 \<times> u64) option) \<Rightarrow> folder_id
       \<Rightarrow> 's \<Rightarrow> 's \<Rightarrow> bool" where
  "isolated invar uids cursors f s s' \<longleftrightarrow>
     (invar s \<longrightarrow> invar s' \<and> (\<forall>g. g \<noteq> f \<longrightarrow> uids s' g = uids s g \<and> cursors s' g = cursors s g))"

definition growing :: "('s \<Rightarrow> bool) \<Rightarrow> ('s \<Rightarrow> folder_id \<Rightarrow> u32 set) \<Rightarrow> folder_id \<Rightarrow> 's \<Rightarrow> 's \<Rightarrow> bool" where
  "growing invar uids f s s' \<longleftrightarrow> (invar s \<longrightarrow> invar s' \<and> uids s f \<subseteq> uids s' f)"

lemma store_orders [keeps_intros]:
  "keeps_order (isolated invar uids cursors f)" "keeps_order (growing invar uids f)"
  by (auto simp: keeps_order_def isolated_def growing_def)

text \<open>
  The steps of a folder pass, for any preorder that the store operations they use keep: reads,
  cursor updates of the folder with values in \<open>C\<close>, and ingestion into the folder.
\<close>

definition pass_rel ::
    "('s, 'p) mail_store_ops \<Rightarrow> folder_id \<Rightarrow> (u32 \<times> u64 option) set \<Rightarrow> ('s \<Rightarrow> 's \<Rightarrow> bool) \<Rightarrow> bool" where
  "pass_rel ops f C R \<longleftrightarrow> keeps_order R
     \<and> (\<forall>w o' s. R s (snd (list_messages ops f w o' s)))
     \<and> (\<forall>a s. R s (snd (list_folders ops a s)))
     \<and> (\<forall>bs s. R s (snd (write_blob ops bs s)))
     \<and> (\<forall>s. R s (snd (max_uid ops f s)))
     \<and> (\<forall>v q s. (v, q) \<in> C \<longrightarrow> R s (snd (update_sync_cursors ops f v q s)))
     \<and> (\<forall>b s. list_all (\<lambda>m. im_folder m = f) b \<longrightarrow> R s (snd (ingest_batch ops b s)))"

abbreviation pass_order ::
    "('s, 'p) mail_store_ops \<Rightarrow> folder_id \<Rightarrow> ('s \<Rightarrow> 's \<Rightarrow> bool) \<Rightarrow> bool" where
  "pass_order ops f R \<equiv> pass_rel ops f UNIV R"

lemma pass_relD:
  assumes "pass_rel ops f C R"
  shows "keeps_order R"
    "keeps (on_stores R) (run_store (list_messages ops f w o'))"
    "keeps (on_stores R) (run_store (list_folders ops a))"
    "keeps (on_stores R) (run_store (write_blob ops bs))"
    "keeps (on_stores R) (run_store (max_uid ops f))"
    "(v, q) \<in> C \<Longrightarrow> keeps (on_stores R) (run_store (update_sync_cursors ops f v q))"
    "list_all (\<lambda>m. im_folder m = f) b \<Longrightarrow> keeps (on_stores R) (run_store (ingest_batch ops b))"
  using assms by (auto simp: pass_rel_def intro!: keeps_run_store)

lemmas pass_orderD = pass_relD [where C = UNIV, simplified]

lemma fetched_messages_folder:
  "fetched_messages sv folder ds e = Some (ms, e') \<Longrightarrow>
     en_store e' = en_store e \<and> list_all (\<lambda>m. im_folder m = fr_id folder) ms"
proof (induction sv folder ds arbitrary: e ms rule: fetched_messages.induct)
  case (2 sv folder n items ds)
  then obtain ms' where "fetched_messages sv folder ds (e\<lparr>en_clock := Suc (en_clock e)\<rparr>) = Some (ms', e')"
    and ms: "ms = (case fetched_message sv folder (sv_clock sv (en_clock e)) items of
        None \<Rightarrow> ms' | Some m \<Rightarrow> m # ms')"
    by (auto simp: eff_bind_Some)
  then show ?case
    using "2.IH" by (fastforce simp: fetched_message_def Let_def split: option.splits)
qed (auto simp: eff_bind_Some)

lemma ingest_and_report_keeps:
  assumes "pass_rel ops f C R" "list_all (\<lambda>m. im_folder m = f) ms"
  shows "keeps (on_stores R) (ingest_and_report ops account f ms)"
  unfolding ingest_and_report_def
  by (intro keeps_intros pass_relD [OF assms(1)] assms(2))

lemma delta_keeps:
  assumes "pass_rel (sv_storage sv) (fr_id folder) C R"
  shows "keeps (on_stores R) (ingest_fetch_data sv folder out)"
    "keeps (on_engines (on_stores R)) (delta_fetch sv folder info)"
proof -
  note D = pass_relD [OF assms]
  note [keeps_intros] = D(1)
  show ing: "keeps (on_stores R) (ingest_fetch_data sv folder out)" for out
    unfolding ingest_fetch_data_def
    by (rule keeps_bind_val [where V = "list_all (\<lambda>m. im_folder m = fr_id folder)"])
      (auto intro!: keeps_intros ingest_and_report_keeps [OF assms] keeps_order_refl [OF D(1)]
        dest!: fetched_messages_folder simp: on_stores_def)
  show "keeps (on_engines (on_stores R)) (delta_fetch sv folder info)"
    unfolding delta_fetch_def fetch_and_ingest_def by (intro keeps_intros D ing)
qed

text \<open>The flag pass writes one pair of cursors at most.\<close>

definition flag_cursors :: "folder_row \<Rightarrow> select_info \<Rightarrow> (u32 \<times> u64 option) set" where
  "flag_cursors folder info =
     (if 0 < fr_highest_modseq folder \<and> fr_highest_modseq folder < si_highest_modseq info
      then {(0, Some (si_highest_modseq info))} else {})"

lemma flag_and_prefetch_keep:
  assumes "pass_rel (sv_storage sv) (fr_id folder) C R" and "flag_cursors folder info \<subseteq> C"
  shows "keeps (on_engines (on_stores R)) (flag_pass sv folder info)"
    "keeps (on_engines (on_stores R)) (prefetch_recent sv folder)"
proof -
  note D = pass_relD [OF assms(1)]
  note [keeps_intros] = D(1)
  have look: "keeps (on_stores R) (message_by_uid (sv_storage sv) (fr_id folder) u)" for u
    unfolding message_by_uid_def page_step_def by (intro keeps_intros D)
  have looks: "keeps (on_stores R) (messages_by_uids (sv_storage sv) (fr_id folder) us)" for us
    by (induction us; unfold messages_by_uids.simps; intro keeps_intros look)
  have changes: "keeps (on_stores R) (flag_changes sv folder info out)" if "0 < fr_highest_modseq folder" for out
    using that assms(2) unfolding flag_changes_def
    by (cases "fr_highest_modseq folder < si_highest_modseq info")
      (auto intro!: keeps_intros D looks simp: flag_cursors_def eff_when_def)
  show "keeps (on_engines (on_stores R)) (flag_pass sv folder info)"
    unfolding flag_pass_def
    by (cases "0 < fr_highest_modseq folder") (auto intro!: keeps_intros changes)
  show "keeps (on_engines (on_stores R)) (prefetch_recent sv folder)"
    unfolding prefetch_recent_def prefetch_one_def store_body_def
    by (intro keeps_intros D) simp
qed

text \<open>Everything behind the reconciliation.\<close>

lemma after_reconcile_keeps:
  assumes "pass_rel (sv_storage sv) (fr_id folder) C R" and "flag_cursors folder info \<subseteq> C"
  shows "keeps (on_engines (on_stores R))
    (try_bind (delta_fetch sv folder info) (\<lambda>_. try_bind (flag_pass sv folder info) (\<lambda>_. prefetch_recent sv folder)))"
  by (intro keeps_intros delta_keeps [OF assms(1)] flag_and_prefetch_keep [OF assms] pass_relD(1) [OF assms(1)])

lemma reconcile_keeps:
  assumes "pass_order ops (fr_id folder) R"
    and "uid_validity_changed folder info \<Longrightarrow> keeps (on_stores R) (run_store (purge_folder ops (fr_id folder)))"
  shows "keeps (on_stores R) (reconcile ops folder info)"
proof -
  note D = pass_orderD [OF assms(1)]
  show ?thesis
    unfolding reconcile_def Let_def
    by (cases "uid_validity_changed folder info") (auto intro!: keeps_intros D assms(2))
qed

lemma sync_selected_keeps:
  assumes "pass_order (sv_storage sv) (fr_id folder) R"
    and "uid_validity_changed folder info \<Longrightarrow>
      keeps (on_stores R) (run_store (purge_folder (sv_storage sv) (fr_id folder)))"
  shows "keeps (on_engines (on_stores R)) (sync_selected sv folder info)"
  unfolding sync_selected_def
  by (intro keeps_intros after_reconcile_keeps [OF assms(1) subset_UNIV] reconcile_keeps [OF assms]
      pass_orderD(1) [OF assms(1)])

text \<open>The UIDs of the envelopes in the data of a FETCH: the messages that are to be filed.\<close>

definition enveloped_uid :: "imap_data \<Rightarrow> u32 option" where
  "enveloped_uid d =
     (case d of
        Data_Fetch _ items \<Rightarrow>
          (let a = fold scan_fetch items
             \<lparr>sc_uid = None, sc_flags = [], sc_date = 0, sc_size = 0, sc_envelope = None\<rparr>
           in if sc_envelope a = None then None else sc_uid a)
      | _ \<Rightarrow> None)"

lemma fold_scan_fetch_date:
  "sc_uid (fold scan_fetch items a) = sc_uid (fold scan_fetch items (a\<lparr>sc_date := d\<rparr>))
   \<and> sc_envelope (fold scan_fetch items a) = sc_envelope (fold scan_fetch items (a\<lparr>sc_date := d\<rparr>))"
proof (induction items arbitrary: a d)
  case (Cons i items)
  show ?case
  proof (cases i)
    case (MDI_InternalDate t)
    then show ?thesis using Cons [of "a\<lparr>sc_date := datetime_to_unix_ms t\<rparr>" "datetime_to_unix_ms t"] by (cases a) simp
  next
    case (MDI_Uid u)
    then show ?thesis using Cons [of "a\<lparr>sc_uid := Some u\<rparr>" d] by (cases a) simp
  next
    case (MDI_Flags fl)
    then show ?thesis using Cons [of "a\<lparr>sc_flags := flags_from_fetch fl\<rparr>" d] by (cases a) simp
  next
    case (MDI_Rfc822Size n)
    then show ?thesis using Cons [of "a\<lparr>sc_size := ucast n\<rparr>" d] by (cases a) simp
  next
    case (MDI_Envelope env)
    then show ?thesis using Cons [of "a\<lparr>sc_envelope := Some env\<rparr>" d] by (cases a) simp
  qed (use Cons [of a d] in simp_all)
qed simp

lemma fetched_message_uid:
  "map_option im_uid (fetched_message sv folder now items) = enveloped_uid (Data_Fetch n items)"
  using fold_scan_fetch_date [of items
      "\<lparr>sc_uid = None, sc_flags = [], sc_date = 0, sc_size = 0, sc_envelope = None\<rparr>" now]
  by (auto simp: fetched_message_def enveloped_uid_def Let_def split: option.splits)

lemma fetched_messages_uids:
  "fetched_messages sv folder ds e = Some (ms, e') \<Longrightarrow>
     map im_uid ms = List.map_filter enveloped_uid ds"
proof (induction sv folder ds arbitrary: e ms rule: fetched_messages.induct)
  case (2 sv folder n items ds)
  then obtain ms' where m: "fetched_messages sv folder ds (e\<lparr>en_clock := Suc (en_clock e)\<rparr>) = Some (ms', e')"
    and ms: "ms = (case fetched_message sv folder (sv_clock sv (en_clock e)) items of
        None \<Rightarrow> ms' | Some m \<Rightarrow> m # ms')"
    by (auto simp: eff_bind_Some)
  have "map im_uid ms' = List.map_filter enveloped_uid ds" using "2.IH" m by blast
  then show ?case
    using ms fetched_message_uid [of sv folder "sv_clock sv (en_clock e)" items n, symmetric]
    by (auto simp: map_filter_Cons split: option.splits)
qed (auto simp: eff_bind_Some map_filter_Cons enveloped_uid_def)

section \<open>Client lemmas of the contract\<close>

context mail_store
begin

lemma cursors_steps:
  "isolated invar uids cursors f s (snd (update_sync_cursors ops f v q s))"
  "growing invar uids f s (snd (update_sync_cursors ops f v q s))"
proof -
  have "invar s \<longrightarrow> invar s' \<and> uids s' = uids s \<and> (\<forall>g. g \<noteq> f \<longrightarrow> cursors s' g = cursors s g)"
    if "update_sync_cursors ops f v q s = (r, s')" for r s'
    using that cursors_ok [of s f v q s'] cursors_err [of s f v q _ s'] by (cases r) auto
  from this [OF surjective_pairing]
  show "isolated invar uids cursors f s (snd (update_sync_cursors ops f v q s))"
    "growing invar uids f s (snd (update_sync_cursors ops f v q s))"
    by (simp_all add: isolated_def growing_def)
qed

lemma max_uid_steps:
  "isolated invar uids cursors f s (snd (max_uid ops f s))"
  "growing invar uids f s (snd (max_uid ops f s))"
proof -
  have "invar s \<longrightarrow> invar s' \<and> uids s' = uids s \<and> cursors s' = cursors s"
    if "max_uid ops f s = (r, s')" for r s'
    using that max_uid_ok [of s f _ s'] max_uid_err [of s f _ s'] by (cases r) auto
  from this [OF surjective_pairing]
  show "isolated invar uids cursors f s (snd (max_uid ops f s))"
    "growing invar uids f s (snd (max_uid ops f s))"
    by (simp_all add: isolated_def growing_def)
qed

lemma ingest_steps:
  "list_all (\<lambda>m. im_folder m = f) b \<Longrightarrow> isolated invar uids cursors f s (snd (ingest_batch ops b s))"
  "growing invar uids f s (snd (ingest_batch ops b s))"
proof -
  have "invar s \<longrightarrow> invar s' \<and> cursors s' = cursors s \<and>
      (uids s' = uids s \<or> (\<forall>f. uids s' f = uids s f \<union> {im_uid m | m. m \<in> set b \<and> im_folder m = f}))"
    if "ingest_batch ops b s = (r, s')" for r s'
    using that ingest_ok [of s b _ s'] ingest_err [of s b _ s'] by (cases r) auto
  note I = this [OF surjective_pairing]
  show "isolated invar uids cursors f s (snd (ingest_batch ops b s))" if "list_all (\<lambda>m. im_folder m = f) b"
    using I that by (auto simp: isolated_def list_all_iff)
  show "growing invar uids f s (snd (ingest_batch ops b s))"
    using I by (auto simp: growing_def)
qed

lemma pass_isolated: "pass_order ops f (isolated invar uids cursors f)"
  unfolding pass_rel_def
  by (intro conjI allI impI keeps_intros cursors_steps max_uid_steps ingest_steps)
    (auto simp: isolated_def reads_pure)

lemma pass_growing: "pass_order ops f (growing invar uids f)"
  unfolding pass_rel_def
  by (intro conjI allI impI keeps_intros cursors_steps max_uid_steps ingest_steps)
    (auto simp: growing_def reads_pure)

lemma purge_isolated: "keeps (on_stores (isolated invar uids cursors f)) (run_store (purge_folder ops f))"
proof (rule keeps_run_store)
  fix s
  have "invar s \<longrightarrow> invar s' \<and> cursors s' = cursors s \<and> (\<forall>g. g \<noteq> f \<longrightarrow> uids s' g = uids s g)"
    if "purge_folder ops f s = (r, s')" for r s'
    using that purge_ok [of s f _ s'] purge_err [of s f _ s'] by (cases r) auto
  from this [OF surjective_pairing]
  show "isolated invar uids cursors f s (snd (purge_folder ops f s))" by (simp add: isolated_def)
qed

lemma sync_folder_isolated:
  assumes "sv_storage sv = ops" and "sync_folder sv folder w = Some (r, w')"
  shows "isolated invar uids cursors (fr_id folder) (en_store (fst w)) (en_store (fst w'))"
proof -
  have "keeps (on_engines (on_stores (isolated invar uids cursors (fr_id folder)))) (sync_folder sv folder)"
    unfolding sync_folder_def
    by (intro keeps_intros sync_selected_keeps) (simp_all add: assms(1) pass_isolated purge_isolated)
  from keepsD [OF this assms(2)] show ?thesis by (simp add: on_engines_def on_stores_def)
qed

lemma sync_folder_grows:
  assumes "sv_storage sv = ops" and "sync_folder sv folder w = Some (r, w')"
    and "\<And>mb out s. execute (sv_client sv) (sv_lib sv) (Cmd_Select mb) 60 (snd w) = Some (Inr out, s) \<Longrightarrow>
           is_ok out \<Longrightarrow> \<not> uid_validity_changed folder (select_info_of out)"
  shows "growing invar uids (fr_id folder) (en_store (fst w)) (en_store (fst w'))"
proof -
  let ?P = "on_engines (on_stores (growing invar uids (fr_id folder)))"
  have sel: "keeps ?P (sync_selected sv folder info)" if "\<not> uid_validity_changed folder info" for info
    using that by (intro sync_selected_keeps) (simp_all add: assms(1) pass_growing)
  have refl: "?P x x" for x by (rule keeps_order_refl) (intro keeps_intros)
  have "?P w w'"
  proof (cases "mailbox_try_from (sv_lib sv) (fr_remote_name folder)")
    case (Inl e)
    with assms(2) have "w' = w" by (auto simp: sync_folder_def try_bind_def)
    with refl show ?thesis by simp
  next
    case (Inr mb)
    with assms(2) obtain x s where
      ex: "execute (sv_client sv) (sv_lib sv) (Cmd_Select mb) 60 (snd w) = Some (x, s)"
      and rest: "x = Inl e \<Longrightarrow> w' = (fst w, s)"
        "x = Inr out \<Longrightarrow> (if is_ok out then sync_selected sv folder (select_info_of out)
            else eff_return (Inr ())) (fst w, s) = Some (r, w')" for e out
      by (auto simp: sync_folder_def try_bind_Some on_session_Some)
    have s: "?P w (fst w, s)" using refl [of w] by (simp add: on_engines_def)
    show ?thesis
    proof (cases x)
      case (Inl e)
      with rest s show ?thesis by simp
    next
      case (Inr out)
      show ?thesis
      proof (cases "is_ok out")
        case True
        have "\<not> uid_validity_changed folder (select_info_of out)"
          using assms(3) ex Inr True by blast
        moreover have "sync_selected sv folder (select_info_of out) (fst w, s) = Some (r, w')"
          using rest(2) [OF Inr] True by simp
        ultimately have "?P (fst w, s) w'" using keepsD [OF sel] by blast
        then show ?thesis by (simp add: on_engines_def)
      next
        case False
        with rest(2) [OF Inr] s show ?thesis by simp
      qed
    qed
  qed
  then show ?thesis by (simp add: on_engines_def on_stores_def)
qed

text \<open>A reconciliation without storage failures leaves the folder empty, with the new cursors.\<close>

lemma reconcile_resets:
  assumes inv: "invar (en_store e)" and ch: "uid_validity_changed folder info"
    and ex: "cursors (en_store e) (fr_id folder) \<noteq> None"
    and run: "reconcile ops folder info e = Some (u, e')"
    and purge: "\<And>s. is_Inr (fst (purge_folder ops (fr_id folder) s))"
    and upd: "\<And>v q s. cursors s (fr_id folder) \<noteq> None \<Longrightarrow> is_Inr (fst (update_sync_cursors ops (fr_id folder) v q s))"
  shows "uids (en_store e') (fr_id folder) = {}
    \<and> cursors (en_store e') (fr_id folder) = Some (si_uid_validity info, si_highest_modseq info)"
proof -
  let ?f = "fr_id folder" and ?s = "en_store e"
  obtain n s1 where p: "purge_folder ops ?f ?s = (Inr n, s1)"
    using purge [of ?s] by (cases "purge_folder ops ?f ?s"; cases "fst (purge_folder ops ?f ?s)") auto
  note P = purge_ok [OF inv p]
  have step: "\<exists>s'. update_sync_cursors ops ?f v (Some q) s = (Inr (), s') \<and> invar s' \<and> uids s' = uids s
      \<and> cursors s' ?f = Some (v, q)" if "invar s" "cursors s ?f \<noteq> None" for v q s
    using upd [OF that(2), of v "Some q"] cursors_ok [OF that(1), of ?f v "Some q"]
    by (cases "update_sync_cursors ops ?f v (Some q) s"; cases "fst (update_sync_cursors ops ?f v (Some q) s)") auto
  obtain s2 where s2: "update_sync_cursors ops ?f (si_uid_validity info) (Some 0) s1 = (Inr (), s2)"
    "invar s2" "uids s2 = uids s1" "cursors s2 ?f = Some (si_uid_validity info, 0)"
    using step [of s1] P ex by auto
  obtain s3 where s3: "update_sync_cursors ops ?f (si_uid_validity info) (Some (si_highest_modseq info)) s2 = (Inr (), s3)"
    "uids s3 = uids s2" "cursors s3 ?f = Some (si_uid_validity info, si_highest_modseq info)"
    using step [of s2] s2 by auto
  have "en_store e' = s3"
    using run ch p s2(1) s3(1)
    by (auto simp: reconcile_def eff_bind_Some ignoring_Some run_store_Some Let_def)
  with P s2 s3 show ?thesis by simp
qed

end

lemma saturating_less: "M \<noteq> - 1 \<Longrightarrow> M < M + 1" for M :: u32
proof -
  assume a: "M \<noteq> - 1"
  have "unat M \<noteq> 2 ^ LENGTH(32) - 1"
  proof
    assume u: "unat M = 2 ^ LENGTH(32) - 1"
    have "M = of_nat (unat M)" by simp
    then have "M = of_nat (2 ^ LENGTH(32) - 1)" unfolding u .
    then show False using a by simp
  qed
  moreover have "unat M < 2 ^ LENGTH(32)" by (rule unsigned_less)
  ultimately have "unat M + 1 < 2 ^ LENGTH(32)" by simp
  then show ?thesis by (simp add: word_less_nat_alt unat_word_ariths)
qed

context mail_store
begin

text \<open>The delta fetch starts above every stored UID.\<close>

lemma delta_start:
  assumes "invar s" "max_uid ops f s = (Inr m, s1)"
    and "start = (case m of None \<Rightarrow> 1 | Some u \<Rightarrow> saturating_succ u)"
  shows "\<forall>u \<in> uids s f. u < start \<or> start = - 1"
proof (cases "uids s f = {}")
  case False
  then have m: "m = Some (Max (uids s f))" and fin: "finite (uids s f)"
    using max_uid_ok [OF assms(1,2)] by auto
  have "u < start" if u: "u \<in> uids s f" and "start \<noteq> - 1" for u
  proof -
    have "Max (uids s f) \<noteq> - 1" "start = Max (uids s f) + 1"
      using that(2) m assms(3) by (auto simp: saturating_succ_def split: if_splits)
    then have "Max (uids s f) < start" by (simp add: saturating_less)
    then show ?thesis using Max_ge [OF fin u] by (rule le_less_trans [rotated])
  qed
  then show ?thesis by blast
qed simp

text \<open>A batch that is filed adds exactly its UIDs.\<close>

lemma report_complete:
  assumes inv: "invar (en_store e)" and f: "list_all (\<lambda>m. im_folder m = f) ms"
    and run: "ingest_and_report ops account f ms e = Some (Inr (), e')"
  shows "invar (en_store e') \<and> uids (en_store e') f = uids (en_store e) f \<union> im_uid ` set ms"
proof (cases "ms = []")
  case True
  with run inv show ?thesis by (simp add: ingest_and_report_def)
next
  case False
  obtain st s2 where b: "ingest_batch ops ms (en_store e) = (Inr st, s2)"
    using run False
    by (cases "ingest_batch ops ms (en_store e)"; cases "fst (ingest_batch ops ms (en_store e))")
      (auto simp: ingest_and_report_def try_bind_Some eff_bind_Some run_store_Some)
  note I = ingest_ok [OF inv b]
  have "en_store e' = s2 \<or> en_store e' = snd (list_folders ops account s2)"
    using run False b
    by (auto simp: ingest_and_report_def try_bind_Some eff_bind_Some run_store_Some split: if_splits)
  then have "invar (en_store e')" "uids (en_store e') = uids s2" using I reads_pure(1) by auto
  then show ?thesis using I f by (auto simp: list_all_iff)
qed

text \<open>The ingestion of a FETCH adds exactly the enveloped UIDs.\<close>

lemma report_covers_ingest:
  assumes sv: "sv_storage sv = ops" and inv: "invar (en_store e)"
    and run: "ingest_fetch_data sv folder out e = Some (Inr (), e')"
  shows "uids (en_store e') (fr_id folder) =
    uids (en_store e) (fr_id folder) \<union> set (List.map_filter enveloped_uid (co_data out))"
proof -
  obtain ms e1 where ms: "fetched_messages sv folder (co_data out) e = Some (ms, e1)"
    and rep: "ingest_and_report ops (sv_account sv) (fr_id folder) ms e1 = Some (Inr (), e')"
    using run sv by (auto simp: ingest_fetch_data_def eff_bind_Some)
  note F = fetched_messages_folder [OF ms] and U = fetched_messages_uids [OF ms]
  have "set (List.map_filter enveloped_uid (co_data out)) = im_uid ` set ms"
    by (simp flip: U)
  then show ?thesis using report_complete [OF _ _ rep] inv F by simp
qed

end

end
