(* ===== verification/Sync_Demo.thy ===== *)
theory Sync_Demo
  imports Sync_Store Script_Client
begin

text \<open>
  A concrete account for the runs that show the hypotheses of the properties can hold: the
  in-memory store with two folders and three messages, a scripted client, and folder passes
  evaluated by the simplifier.
\<close>

definition demo_env :: mock_env where
  "demo_env = \<lparr>me_uuid = (\<lambda>n. of_nat (100 + n)), me_hyphenated = (\<lambda>_. []), me_hash = (\<lambda>_. 0)\<rparr>"

definition demo_row :: "folder_id \<Rightarrow> u32 \<Rightarrow> u64 \<Rightarrow> folder_row" where
  "demo_row f v q =
     \<lparr>fr_id = f, fr_account = AccountId 1, fr_remote_name = lit ''A'', fr_attributes = [],
      fr_role = None, fr_delimiter = lit ''/'', fr_uid_validity = v, fr_highest_modseq = q\<rparr>"

definition demo_message :: "uuid \<Rightarrow> folder_id \<Rightarrow> u32 \<Rightarrow> mock_message" where
  "demo_message i f u =
     \<lparr>mm_id = MessageId i, mm_folder = f, mm_uid = u, mm_internal_date = 0, mm_flags = []\<rparr>"

text \<open>Folder 1 with UIDVALIDITY 5 and the UIDs 3 and 9; folder 2 with UID 4.\<close>

definition demo_store :: mock_state where
  "demo_store =
     \<lparr>mk_folders = [demo_row (FolderId 1) 5 7, demo_row (FolderId 2) 6 8],
      mk_messages = [demo_message 11 (FolderId 1) 9, demo_message 12 (FolderId 2) 4,
        demo_message 13 (FolderId 1) 3],
      mk_blobs = [], mk_outbox = [], mk_account_states = [], mk_ingest_inserted = 0,
      mk_drawn = 0\<rparr>"

definition demo_params :: "unit connect_params" where
  "demo_params =
     \<lparr>cp_host = lit ''h'', cp_port = 993, cp_security = Sec_Tls, cp_username = [], cp_secret = SecretString [],
      cp_mechanisms = [], cp_tls = (\<lambda>_ t. Some (Inr t)), cp_server_name = Inr,
      cp_sasl_factory = (\<lambda>_ _ _. ()),
      cp_sasl_ops = \<lparr>initial_response = (\<lambda>q. (None, q)), respond = (\<lambda>_ q. (Inl [], q))\<rparr>\<rparr>"

definition demo_service ::
    "client_next list list \<Rightarrow> (mock_state, unit, script_state, unit) sync_service" where
  "demo_service script =
     \<lparr>sv_account = AccountId 1, sv_params = demo_params, sv_storage = mock_ops demo_env,
      sv_parse = (\<lambda>_. ()), sv_config = sync_config_default\<lparr>body_prefetch_recent := 0\<rparr>, sv_clock = (\<lambda>_. 0),
      sv_client = script_client script, sv_lib = plain_lib, sv_unicode = (\<lambda>s. s),
      sv_net = (\<lambda>_. Tcp_Elapsed), sv_cancel = (\<lambda>_. True)\<rparr>"

lemma demo_service_fields [simp]:
  "sv_storage (demo_service b) = mock_ops demo_env" "sv_client (demo_service b) = script_client b"
  "sv_lib (demo_service b) = plain_lib" "prefetch_limit (demo_service b) = 0"
  by (simp_all add: demo_service_def prefetch_limit_def)

lemma demo_row_fields [simp]:
  "fr_id (demo_row f v q) = f" "fr_uid_validity (demo_row f v q) = v"
  "fr_highest_modseq (demo_row f v q) = q"
  by (simp_all add: demo_row_def)

lemma mock_uids_eval:
  "mock_uids s f = set (map mm_uid (filter (\<lambda>m. mm_folder m = f) (mk_messages s)))"
  by (auto simp: mock_uids_def)

lemma mock_listing_limit_0:
  "w_limit w = 0 \<Longrightarrow> mp_items (unwrap_or d (fst (mock_list_messages f w o' s))) = []
     \<and> snd (mock_list_messages f w o' s) = s"
  by (simp add: mock_list_messages_def Let_def)

definition demo_engine :: "mock_state engine" where
  "demo_engine =
     \<lparr>en_store = demo_store, en_bus = \<lparr>bus_sent = [], bus_room = None\<rparr>, en_clock = 0, en_looks = 0,
      en_connects = 0, en_waits = [], en_mails = []\<rparr>"

text \<open>A SELECT that is answered with the given UIDVALIDITY and no messages.\<close>

definition select_script :: "u32 \<Rightarrow> client_next list list" where
  "select_script v =
     [[Next_Event (Ev_StatusReceived (St_Untagged \<lparr>sb_kind = SK_Ok, sb_code = Some (Code_UidValidity v)\<rparr>)),
       Next_Event (Ev_StatusReceived (St_Tagged (lit ''K1'') ok_body))]]"

definition select_world :: "u32 \<Rightarrow> (mock_state, script_state) world" where
  "select_world v = (demo_engine, fresh_session (select_script v) [5])"

lemma select_run:
  "\<exists>s. execute (script_client (select_script v)) plain_lib (Cmd_Select mb) 60 (fresh_session (select_script v) [5])
     = Some (Inr \<lparr>co_status = St_Tagged (lit ''K1'') ok_body, co_data = [],
         co_untagged = [St_Untagged \<lparr>sb_kind = SK_Ok, sb_code = Some (Code_UidValidity v)\<rparr>]\<rparr>, s)
     \<and> se_capabilities s = {}"
  by (simp add: run_simps select_script_def)

end
