(* ===== verification/Sync_Facts.thy ===== *)
theory Sync_Facts
  imports Sync_Demo
begin

text \<open>
  The properties of a folder pass (\<open>sync_folder\<close> of \<open>src/src/sync.rs\<close>), stated for the in-memory
  store through the interpretation \<open>mock\<close> of the storage contract.
\<close>

section \<open>A pass over the demo folder\<close>

text \<open>The state of the demo store after the purge of folder 1.\<close>

definition purged_store :: "u32 \<Rightarrow> mock_state" where
  "purged_store v = demo_store\<lparr>mk_folders := [demo_row (FolderId 1) v 0, demo_row (FolderId 2) 6 8],
     mk_messages := [demo_message 12 (FolderId 2) 4]\<rparr>"

definition select_outcome :: "u32 \<Rightarrow> command_outcome" where
  "select_outcome v = \<lparr>co_status = St_Tagged (lit ''K1'') ok_body, co_data = [],
     co_untagged = [St_Untagged \<lparr>sb_kind = SK_Ok, sb_code = Some (Code_UidValidity v)\<rparr>]\<rparr>"

definition select_info_demo :: "u32 \<Rightarrow> select_info" where
  "select_info_demo v = select_info_default\<lparr>si_uid_validity := v\<rparr>"

lemma select_info_demo_exists [simp]: "si_exists (select_info_demo v) = 0"
  by (simp add: select_info_demo_def select_info_default_def)

lemma select_outcome_info: "select_info_of (select_outcome v) = select_info_demo v" "is_ok (select_outcome v)"
  by (simp_all add: select_info_demo_def select_outcome_def select_info_of_def note_status_def status_code_def
      ok_body_def is_ok_def status_ok_def)

lemma reconcile_run:
  assumes "v \<noteq> 0"
  shows "\<exists>e. reconcile (mock_ops demo_env) (demo_row (FolderId 1) 5 7) (select_info_demo v) demo_engine
     = Some ((), e) \<and> en_store e = (if v = 5
         then demo_store\<lparr>mk_folders := [demo_row (FolderId 1) 5 0, demo_row (FolderId 2) 6 8]\<rparr>
         else purged_store v)"
  using assms
  by (simp add: reconcile_def uid_validity_changed_def select_info_demo_def eff_bind_def ignoring_def
      run_store_def mock_purge_folder_def mock_update_sync_cursors_def demo_engine_def demo_store_def
      demo_row_def demo_message_def purged_store_def select_info_default_def Let_def)

lemma select_pass_run:
  assumes "v \<noteq> 0"
  shows "\<exists>e s. sync_folder (demo_service (select_script v)) (demo_row (FolderId 1) 5 7) (select_world v)
     = Some (Inr (), (e, s)) \<and> en_store e = (if v = 5
         then demo_store\<lparr>mk_folders := [demo_row (FolderId 1) 5 0, demo_row (FolderId 2) 6 8]\<rparr>
         else purged_store v)"
proof -
  obtain s where s: "execute (script_client (select_script v)) plain_lib (Cmd_Select (MB_Other (AAtom (lit ''A'')))) 60
      (fresh_session (select_script v) [5]) = Some (Inr (select_outcome v), s)" "se_capabilities s = {}"
    using select_run [of v] unfolding select_outcome_def by blast
  obtain e where e: "reconcile (mock_ops demo_env :: (mock_state, unit) mail_store_ops)
      (demo_row (FolderId 1) 5 7) (select_info_demo v) demo_engine = Some ((), e)"
    and st: "en_store e = (if v = 5
         then demo_store\<lparr>mk_folders := [demo_row (FolderId 1) 5 0, demo_row (FolderId 2) 6 8]\<rparr>
         else purged_store v)"
    using reconcile_run [OF assms] by blast
  have name: "mailbox_try_from plain_lib (fr_remote_name (demo_row (FolderId 1) 5 7)) = Inr (MB_Other (AAtom (lit ''A'')))"
    by (simp add: plain_lib_def demo_row_def)
  obtain p where list: "mock_list_messages (FolderId 1) \<lparr>w_offset = 0, w_limit = 0\<rparr>
      \<lparr>ss_field = SF_Date, ss_dir = SD_Desc\<rparr> (en_store e) = (p, en_store e)"
    "mp_items (unwrap_or message_page_default p) = []"
    using mock_listing_limit_0 [of "\<lparr>w_offset = 0, w_limit = 0\<rparr>" message_page_default]
    by (metis surjective_pairing window.select_convs(2))
  have "sync_selected (demo_service (select_script v)) (demo_row (FolderId 1) 5 7) (select_info_demo v)
      (demo_engine, s) = Some (Inr (), (e, s))"
    using e s(2) list
    by (simp add: sync_selected_def delta_fetch_def flag_pass_def prefetch_recent_def on_engine_def on_session_def
        eff_bind_def try_bind_def run_store_def eff_get_def has_capability_def
        mock_max_uid_def Let_def)
  then show ?thesis
    using st s name
    by (simp add: sync_folder_def select_world_def try_bind_def eff_lift_def on_session_def select_outcome_info)
qed

text \<open>The reconciliation in the in-memory store, whose operations do not fail for a known folder.\<close>

lemma reconcile_afresh:
  assumes "uid_validity_changed folder info" and "mock_cursors (en_store e) (fr_id folder) \<noteq> None"
  shows "\<exists>e'. reconcile (mock_ops env :: (mock_state, 'p) mail_store_ops) folder info e = Some ((), e')
    \<and> mock_uids (en_store e') (fr_id folder) = {}
    \<and> mock_cursors (en_store e') (fr_id folder) = Some (si_uid_validity info, si_highest_modseq info)"
proof -
  have "\<exists>e'. reconcile (mock_ops env :: (mock_state, 'p) mail_store_ops) folder info e = Some ((), e')"
    using assms(1) by (simp add: reconcile_def Let_def eff_bind_def ignoring_def run_store_def case_prod_unfold)
  then obtain e' where run: "reconcile (mock_ops env :: (mock_state, 'p) mail_store_ops) folder info e = Some ((), e')" by blast
  have "mock_uids (en_store e') (fr_id folder) = {}
    \<and> mock_cursors (en_store e') (fr_id folder) = Some (si_uid_validity info, si_highest_modseq info)"
  proof (rule mock.reconcile_resets [OF _ assms run])
    show "is_Inr (fst (purge_folder (mock_ops env) (fr_id folder) s))" for s
      by (simp add: mock_purge_folder_def Let_def)
    show "is_Inr (fst (update_sync_cursors (mock_ops env) (fr_id folder) v q s))"
      if "mock_cursors s (fr_id folder) \<noteq> None" for v q s
      using that by (cases "find (\<lambda>r. fr_id r = fr_id folder) (mk_folders s)")
        (simp_all add: mock_update_sync_cursors_def mock_cursors_def)
  qed simp
  with run show ?thesis by blast
qed

section \<open>The properties\<close>

text \<open>
  C11. A folder pass never touches another folder: whatever the server sends and wherever the pass
  fails, the messages and the cursors of every other folder are as before.
\<close>

theorem folder_pass_isolated:
  assumes "sv_storage sv = mock_ops env" and "sync_folder sv folder w = Some (r, w')"
    and "g \<noteq> fr_id folder"
  shows "mock_uids (en_store (fst w')) g = mock_uids (en_store (fst w)) g
    \<and> mock_cursors (en_store (fst w')) g = mock_cursors (en_store (fst w)) g"
  using mock.sync_folder_isolated [OF assms(1,2)] assms(3) by (simp add: isolated_def)

theorem folder_pass_isolated_witness:
  "mock_uids (purged_store 8) (FolderId 2) = {4} \<and> mock_cursors (purged_store 8) (FolderId 2) = Some (6, 8)"
proof -
  obtain e s where run: "sync_folder (demo_service (select_script 8)) (demo_row (FolderId 1) 5 7) (select_world 8)
     = Some (Inr (), (e, s))" "en_store e = purged_store 8"
    using select_pass_run [of 8] by auto
  have "mock_uids demo_store (FolderId 2) = {4}" "mock_cursors demo_store (FolderId 2) = Some (6, 8)"
    by (auto simp: mock_uids_eval mock_cursors_def demo_store_def demo_message_def demo_row_def)
  then show ?thesis
    using folder_pass_isolated [OF _ run(1), of demo_env "FolderId 2"] run(2)
    by (simp add: select_world_def demo_engine_def)
qed

text \<open>
  C10. A folder pass loses no message unless UIDVALIDITY has changed: if the answer to SELECT does
  not report another non-zero UIDVALIDITY than the stored one, every stored message is still there
  after the pass, also when the pass fails half way.
\<close>

theorem folder_pass_keeps_messages:
  assumes "sv_storage sv = mock_ops env" and "sync_folder sv folder w = Some (r, w')"
    and "\<And>mb out s. execute (sv_client sv) (sv_lib sv) (Cmd_Select mb) 60 (snd w) = Some (Inr out, s) \<Longrightarrow>
           is_ok out \<Longrightarrow> \<not> uid_validity_changed folder (select_info_of out)"
  shows "mock_uids (en_store (fst w)) (fr_id folder) \<subseteq> mock_uids (en_store (fst w')) (fr_id folder)"
  using mock.sync_folder_grows [OF assms(1,2)] assms(3) by (simp add: growing_def)

theorem folder_pass_keeps_messages_witness:
  "\<exists>e s. sync_folder (demo_service (select_script 5)) (demo_row (FolderId 1) 5 7) (select_world 5)
     = Some (Inr (), (e, s)) \<and> {3, 9} \<subseteq> mock_uids (en_store e) (FolderId 1)"
proof -
  obtain e s where run: "sync_folder (demo_service (select_script 5)) (demo_row (FolderId 1) 5 7) (select_world 5)
     = Some (Inr (), (e, s))"
    using select_pass_run [of 5] by auto
  have same: "\<not> uid_validity_changed (demo_row (FolderId 1) 5 7) (select_info_of out)"
    if "execute (script_client (select_script 5)) plain_lib (Cmd_Select mb) 60 (fresh_session (select_script 5) [5])
      = Some (Inr out, s')" for mb out s'
    using that select_run [of 5 mb] select_outcome_info(1) [of 5]
    by (auto simp: select_outcome_def uid_validity_changed_def select_info_demo_def)
  have "mock_uids demo_store (FolderId 1) = {3, 9}"
    by (auto simp: mock_uids_eval demo_store_def demo_message_def)
  then show ?thesis
    using folder_pass_keeps_messages [OF _ run, of demo_env] same run
    by (auto simp: select_world_def demo_engine_def)
qed



text \<open>
  C12. Everything the server sends for a delta fetch is filed: after a successful ingestion the
  folder holds exactly the UIDs it held before and those of the FETCH responses that carry both a
  UID and an envelope.
\<close>

theorem ingest_complete:
  assumes "sv_storage sv = mock_ops env" and "ingest_fetch_data sv folder out e = Some (Inr (), e')"
  shows "mock_uids (en_store e') (fr_id folder) =
    mock_uids (en_store e) (fr_id folder) \<union> set (List.map_filter enveloped_uid (co_data out))"
  using mock.report_covers_ingest [OF assms(1) _ assms(2)] by simp

text \<open>Three FETCH responses, one of them without an envelope.\<close>

definition demo_envelope :: envelope where
  "demo_envelope = \<lparr>env_subject = NString None, env_from = [], env_to = [], env_in_reply_to = NString None,
     env_message_id = NString None\<rparr>"

definition demo_fetch :: command_outcome where
  "demo_fetch = \<lparr>co_status = St_Tagged (lit ''K1'') ok_body,
     co_data = [Data_Fetch 1 [MDI_Uid 10, MDI_Envelope demo_envelope], Data_Fetch 2 [MDI_Uid 11],
       Data_Exists 3, Data_Fetch 3 [MDI_Envelope demo_envelope, MDI_Uid 12]],
     co_untagged = []\<rparr>"

theorem ingest_complete_witness:
  "\<exists>e'. ingest_fetch_data (demo_service []) (demo_row (FolderId 1) 5 7) demo_fetch demo_engine = Some (Inr (), e')
    \<and> mock_uids (en_store e') (FolderId 1) = {9, 3} \<union> {10, 12}"
proof -
  have "\<exists>e'. ingest_fetch_data (demo_service []) (demo_row (FolderId 1) 5 7) demo_fetch demo_engine
      = Some (Inr (), e')"
    by (simp add: ingest_fetch_data_def demo_fetch_def eff_bind_def try_bind_def eff_lift_def fetched_message_def
        ingest_and_report_def run_store_def mock_list_folders_def mock_ingest_batch_def Let_def split: prod.splits)
  then obtain e' where run: "ingest_fetch_data (demo_service []) (demo_row (FolderId 1) 5 7) demo_fetch demo_engine
      = Some (Inr (), e')" by blast
  have "mock_uids (en_store demo_engine) (FolderId 1) = {9, 3}"
    by (auto simp: mock_uids_eval demo_engine_def demo_store_def demo_message_def)
  moreover have "set (List.map_filter enveloped_uid (co_data demo_fetch)) = {10, 12}"
    by (simp add: demo_fetch_def map_filter_Cons enveloped_uid_def)
  ultimately show ?thesis
    using ingest_complete [OF _ run, of demo_env] run by auto
qed

end
