(* ===== verification/Sync_Mirror.thy ===== *)
theory Sync_Mirror
  imports Sync_Facts
begin

text \<open>
  The folder pass of \<open>src/src/sync.rs\<close> as a refinement: seen through the UIDs and the cursors of its
  folder, \<open>sync_folder\<close> is a step of an abstract mirror, which is reset, grows, and moves its cursors.
\<close>

section \<open>The abstract mirror\<close>












section \<open>The simulation\<close>

text \<open>The folder grows, and its cursors stay or become one of the pairs \<open>C\<close>.\<close>

definition mirrors ::
    "('s \<Rightarrow> bool) \<Rightarrow> ('s \<Rightarrow> folder_id \<Rightarrow> u32 set) \<Rightarrow> ('s \<Rightarrow> folder_id \<Rightarrow> (u32 \<times> u64) option) \<Rightarrow> folder_id
       \<Rightarrow> (u32 \<times> u64 option) set \<Rightarrow> 's \<Rightarrow> 's \<Rightarrow> bool" where
  "mirrors invar uids cursors f C s s' \<longleftrightarrow> (invar s \<longrightarrow> invar s' \<and> uids s f \<subseteq> uids s' f
     \<and> (cursors s' f = cursors s f \<or> (\<exists>v q. (v, Some q) \<in> C \<and> cursors s' f = Some (v, q))))"

lemma mirrors_order [keeps_intros]: "keeps_order (mirrors invar uids cursors f C)"
  unfolding keeps_order_def mirrors_def by (intro conjI allI impI) (blast | metis subset_trans)+

context mail_store
begin

lemma cursors_mirrors:
  assumes "(v, Some q) \<in> C"
  shows "mirrors invar uids cursors f C s (snd (update_sync_cursors ops f v (Some q) s))"
proof -
  have "mirrors invar uids cursors f C s s'" if "update_sync_cursors ops f v (Some q) s = (r, s')" for r s'
    using that assms cursors_ok [of s f v "Some q" s'] cursors_err [of s f v "Some q" _ s']
    by (cases r) (auto simp: mirrors_def)
  from this [OF surjective_pairing] show ?thesis .
qed

lemma pass_mirrors:
  assumes "\<And>v q. (v, q) \<in> C \<Longrightarrow> q \<noteq> None"
  shows "pass_rel ops f C (mirrors invar uids cursors f C)"
proof -
  let ?R = "mirrors invar uids cursors f C"
  have quiet: "?R s s'" if "invar s \<longrightarrow> invar s' \<and> uids s' = uids s \<and> cursors s' = cursors s" for s s'
    using that by (auto simp: mirrors_def)
  have max: "?R s (snd (max_uid ops f s))" for s
  proof -
    have "?R s s'" if "max_uid ops f s = (r, s')" for r s'
      using that max_uid_ok [of s f _ s'] max_uid_err [of s f _ s'] by (cases r) (auto simp: mirrors_def)
    from this [OF surjective_pairing] show ?thesis .
  qed
  have batch: "?R s (snd (ingest_batch ops b s))" for b s
  proof -
    have "?R s s'" if "ingest_batch ops b s = (r, s')" for r s'
      using that ingest_ok [of s b _ s'] ingest_err [of s b _ s'] by (cases r) (auto simp: mirrors_def)
    from this [OF surjective_pairing] show ?thesis .
  qed
  have cur: "?R s (snd (update_sync_cursors ops f v q s))" if "(v, q) \<in> C" for v q s
    using cursors_mirrors that assms [OF that] by (cases q) auto
  show ?thesis
    unfolding pass_rel_def
    by (intro conjI allI impI mirrors_order max batch cur) (auto intro!: quiet simp: reads_pure)
qed

text \<open>Everything behind the reconciliation.\<close>

lemma rest_mirrors:
  assumes "sv_storage sv = ops"
    and "try_bind (delta_fetch sv folder info) (\<lambda>_. try_bind (flag_pass sv folder info)
        (\<lambda>_. prefetch_recent sv folder)) w = Some (r, w')"
  shows "mirrors invar uids cursors (fr_id folder) (flag_cursors folder info) (en_store (fst w)) (en_store (fst w'))"
proof -
  have "pass_rel (sv_storage sv) (fr_id folder) (flag_cursors folder info)
      (mirrors invar uids cursors (fr_id folder) (flag_cursors folder info))"
    unfolding assms(1) by (rule pass_mirrors) (auto simp: flag_cursors_def split: if_splits)
  from keepsD [OF after_reconcile_keeps [OF this subset_refl] assms(2)] show ?thesis
    by (simp add: on_engines_def on_stores_def)
qed

end



section \<open>The UIDs of a pass\<close>




text \<open>The rest of a pass leaves the UIDs alone: the prefetched bodies are of messages that are held.\<close>

definition still :: "folder_id \<Rightarrow> mock_state \<Rightarrow> mock_state \<Rightarrow> bool" where
  "still f s s' \<longleftrightarrow> mock_uids s' f = mock_uids s f"

lemma still_order [keeps_intros]: "keeps_order (still f)"
  by (simp add: keeps_order_def still_def)





section \<open>Property\<close>



end
