(* ===== verification/Sync_Complete.thy ===== *)
theory Sync_Complete
  imports Sync_Mirror
begin

text \<open>
  Synchronisation reaches its aim: against a server that keeps to IMAP's rules, a folder pass that
  succeeds brings in every message of the mailbox (\<open>sync_folder\<close> of \<open>src/src/sync.rs\<close>).
\<close>

section \<open>A server that keeps to the rules\<close>






section \<open>Property\<close>









end
