(* ===== verification/Smtp.thy ===== *)
theory Smtp
  imports Engine
begin

text \<open>
  \<open>src/src/smtp.rs\<close>: submission of raw messages.  The \<open>lettre\<close> crate is the parameter \<open>smtp_lib\<close>:
  whether a relay can be set up for a host, the parsing of addresses (an address is represented by
  its text), the validation of an envelope, and the relay's answer to the \<open>n\<close>-th submission.  A
  submission always ends, since the transport has a timeout.
\<close>

datatype smtp_security = Smtp_ImplicitTls | Smtp_StartTls | Smtp_Insecure

record smtp_params =
  sp_host :: rstr
  sp_port :: u16
  sp_username :: rstr
  sp_secret :: secret_string
  sp_oauth2 :: bool
  sp_security :: smtp_security

datatype smtp_mechanism = Xoauth2 | Plain_Mechanism | Login_Mechanism

record smtp_transport =
  st_security :: smtp_security
  st_host :: rstr
  st_port :: u16
  st_timeout_secs :: nat
  st_username :: rstr
  st_password :: rstr
  st_mechanisms :: "smtp_mechanism list"

record smtp_failure =
  sf_permanent :: bool
  sf_transient :: bool
  sf_status :: "rstr option"
  sf_text :: rstr

record smtp_lib =
  sl_relay :: "smtp_security \<Rightarrow> rstr \<Rightarrow> rstr + unit"
  sl_address :: "rstr \<Rightarrow> rstr + rstr"
  sl_envelope :: "rstr \<Rightarrow> rstr list \<Rightarrow> rstr + unit"
  sl_send :: "nat \<Rightarrow> smtp_transport \<Rightarrow> delivery \<Rightarrow> smtp_failure + unit"
  sl_dbg_str :: "rstr \<Rightarrow> rstr"

definition tls_err :: "rstr \<Rightarrow> rstr \<Rightarrow> sync_error" where
  "tls_err host e = Tls (lit ''smtp relay '' @ host @ lit '': '' @ e)"

text \<open>The cleartext builder cannot fail.\<close>

definition build_transport :: "smtp_lib \<Rightarrow> smtp_params \<Rightarrow> smtp_transport sync_result" where
  "build_transport lib p =
     (case (case sp_security p of
              Smtp_Insecure \<Rightarrow> Inr ()
            | sec \<Rightarrow> map_err (tls_err (sp_host p)) (sl_relay lib sec (sp_host p))) of
        Inl e \<Rightarrow> Inl e
      | Inr _ \<Rightarrow>
          Inr \<lparr>st_security = sp_security p, st_host = sp_host p, st_port = sp_port p, st_timeout_secs = 60,
            st_username = sp_username p, st_password = expose (sp_secret p),
            st_mechanisms = (if sp_oauth2 p then [Xoauth2] else [Plain_Mechanism, Login_Mechanism])\<rparr>)"

text \<open>\<open>str::parse::<u16>\<close>.\<close>

definition parse_u16 :: "rstr \<Rightarrow> u16 option" where
  "parse_u16 s = Option.bind (parse_u64 s) (\<lambda>w. if w < 2 ^ 16 then Some (ucast w) else None)"

definition map_smtp_error :: "smtp_failure \<Rightarrow> sync_error" where
  "map_smtp_error f =
     (if sf_permanent f then MessageRejected (sf_text f)
      else if sf_transient f
      then SmtpTransient (case sf_status f of None \<Rightarrow> 450 | Some s \<Rightarrow> option_or 450 (parse_u16 s))
      else Transport (sf_text f))"

text \<open>One submission, which the relay accepts or not.\<close>

definition send_raw ::
    "smtp_lib \<Rightarrow> smtp_transport \<Rightarrow> delivery \<Rightarrow> ('s engine, smtp_failure + unit) eff" where
  "send_raw lib t d e =
     (let r = sl_send lib (length (en_mails e)) t d
      in Some (r, e\<lparr>en_mails := en_mails e @ [(d, is_Inr r)]\<rparr>))"

definition submit_envelope ::
    "smtp_lib \<Rightarrow> smtp_params \<Rightarrow> rstr \<Rightarrow> rstr list \<Rightarrow> u8 list \<Rightarrow> ('s engine, unit sync_result) eff" where
  "submit_envelope lib p envelope_from recipients raw =
     try_bind (eff_lift (build_transport lib p)) (\<lambda>transport.
     try_bind (eff_lift (map_err
         (\<lambda>e. DraftInvalid (lit ''envelope from '' @ sl_dbg_str lib envelope_from @ lit '': '' @ e))
         (sl_address lib envelope_from))) (\<lambda>from_addr.
     let to_addrs = List.map_filter (\<lambda>r. sum_ok (sl_address lib r)) recipients
     in try_bind (eff_lift (map_err (\<lambda>e. DraftInvalid (lit ''envelope: '' @ e))
          (sl_envelope lib from_addr to_addrs))) (\<lambda>_.
        eff_bind (send_raw lib transport (from_addr, to_addrs, raw)) (\<lambda>r.
        eff_return (map_err map_smtp_error r)))))"

end
