(* ===== verification/Outbox.thy ===== *)
theory Outbox
  imports Smtp Backoff
begin

text \<open>
  \<open>src/src/outbox_service.rs\<close>: the outbox.  Outside the sources are the host's store and clock, the
  SMTP crate, the IMAP client and network of the Sent copy, the UUIDs, and at the \<open>n\<close>-th observation
  the cancellation token and the host's online gate.
\<close>

record ('s, 'p, 'c, 'q) outbox_service =
  ob_storage :: "('s, 'p) mail_store_ops"
  ob_smtp :: smtp_params
  ob_smtp_lib :: smtp_lib
  ob_imap :: "'q connect_params"
  ob_client :: "'c client_ops"
  ob_lib :: imap_lib
  ob_net :: "nat \<Rightarrow> tcp_result"
  ob_clock :: "nat \<Rightarrow> i64"
  ob_uuid :: "nat \<Rightarrow> uuid"
  ob_online :: "nat \<Rightarrow> bool"
  ob_cancel :: "nat \<Rightarrow> bool"

datatype send_outcome = Out_Sent | Out_Transient rstr | Out_Permanent rstr

section \<open>The copy in the Sent folder\<close>

definition append_session ::
    "'c client_ops \<Rightarrow> imap_lib \<Rightarrow> u8 list \<Rightarrow> ('c session, unit sync_result) eff" where
  "append_session cl lib raw =
     try_bind (eff_lift (map_err (\<lambda>e. Protocol (lit ''sent mailbox: '' @ e))
         (mailbox_try_from lib (lit ''Sent'')))) (\<lambda>mailbox.
     try_bind (eff_lift (map_err (\<lambda>e. Protocol (lit ''append literal: '' @ e))
         (literal_try_from lib raw))) (\<lambda>literal.
     try_bind (execute cl lib (Cmd_Append mailbox [] literal) 60) (\<lambda>_.
     eff_bind (logout cl lib) (\<lambda>_.
     eff_return (Inr ())))))"

definition append_to_sent ::
    "('s, 'p, 'c, 'q) outbox_service \<Rightarrow> u8 list \<Rightarrow> ('s engine, unit sync_result) eff" where
  "append_to_sent sv raw e =
     (let e' = e\<lparr>en_connects := Suc (en_connects e)\<rparr>
      in case connect_and_authenticate (ob_client sv) (ob_lib sv) (ob_net sv (en_connects e)) (ob_imap sv) of
           None \<Rightarrow> None
         | Some (Inl err) \<Rightarrow> Some (Inl err, e')
         | Some (Inr s) \<Rightarrow> map_option (\<lambda>(r, _). (r, e')) (append_session (ob_client sv) (ob_lib sv) raw s))"

section \<open>Sending one entry\<close>

definition recipients_of :: "outbox_row \<Rightarrow> rstr list" where
  "recipients_of row =
     dedup (map addr_email (oe_to (or_envelope row) @ oe_cc (or_envelope row) @ oe_bcc (or_envelope row)))"

fun outcome_of :: "sync_error \<Rightarrow> send_outcome" where
  "outcome_of (SmtpTransient code) = Out_Transient (lit ''smtp '' @ dec_of code)"
| "outcome_of (Transport detail) = Out_Transient detail"
| "outcome_of (Tls detail) = Out_Transient detail"
| "outcome_of e = Out_Permanent (sync_error_display e)"

definition try_send ::
    "('s, 'p, 'c, 'q) outbox_service \<Rightarrow> outbox_row \<Rightarrow> ('s engine, send_outcome) eff" where
  "try_send sv row =
     eff_bind (run_store (read_blob (ob_storage sv) (or_raw_blob row))) (\<lambda>r.
     case r of
       Inl e \<Rightarrow> eff_return (Out_Permanent (lit ''raw blob unavailable: '' @ store_error_display e))
     | Inr raw \<Rightarrow>
         eff_bind (submit_envelope (ob_smtp_lib sv) (ob_smtp sv) (addr_email (oe_from (or_envelope row)))
             (recipients_of row) raw) (\<lambda>sent.
         case sent of
           Inr _ \<Rightarrow> eff_bind (ignoring (append_to_sent sv raw)) (\<lambda>_. eff_return Out_Sent)
         | Inl e \<Rightarrow> eff_return (outcome_of e)))"

text \<open>The marker is drawn right after a submission: its UUID goes by the number of submissions.\<close>

definition sent_marker :: "('s, 'p, 'c, 'q) outbox_service \<Rightarrow> 's engine \<Rightarrow> message_id" where
  "sent_marker sv e = MessageId (ob_uuid sv (length (en_mails e)))"

text \<open>A wait as \<open>i64\<close> milliseconds.\<close>

definition millis_i64 :: "nat \<Rightarrow> i64" where
  "millis_i64 n = (if n < 2 ^ 63 then of_nat n else 0)"

text \<open>
  The arithmetic wraps, as in a release build; in a debug build the increment of a retry counter of
  \<open>2 ^ 32 - 1\<close>, or a clock near the end of the range, is a panic.
\<close>

definition mark_transient ::
    "('s, 'p, 'c, 'q) outbox_service \<Rightarrow> outbox_row \<Rightarrow> rstr \<Rightarrow> ('s engine, unit) eff" where
  "mark_transient sv row detail =
     (let retry = or_retry_count row + 1
      in eff_bind (read_clock (ob_clock sv)) (\<lambda>now.
         eff_bind (ignoring (run_store (outbox_mark_retry (ob_storage sv) (or_id row) retry
             (now + millis_i64 (backoff_for retry)) detail))) (\<lambda>_.
         eff_bind (push_event (OutboxRetry (or_id row) retry (backoff_for retry) detail)) (\<lambda>_.
         eff_when (max_retry_attempts \<le> retry)
           (push_event (MailFailed (or_id row) (RetryExhausted retry) True))))))"

text \<open>What becomes of an entry after the attempt to send it.\<close>

definition settle_row ::
    "('s, 'p, 'c, 'q) outbox_service \<Rightarrow> outbox_row \<Rightarrow> send_outcome \<Rightarrow> ('s engine, unit) eff" where
  "settle_row sv row outcome =
     (case outcome of
       Out_Sent \<Rightarrow>
         eff_bind (read_clock (ob_clock sv)) (\<lambda>now.
         eff_bind (ignoring (run_store (outbox_mark_sent (ob_storage sv) (or_id row) now))) (\<lambda>_.
         eff_bind (eff_get (sent_marker sv)) (\<lambda>marker.
         push_event (MailSent (or_id row) marker))))
     | Out_Transient detail \<Rightarrow> mark_transient sv row detail
     | Out_Permanent detail \<Rightarrow> push_event (MailFailed (or_id row) (MessageRejected detail) True))"

definition flush_row ::
    "('s, 'p, 'c, 'q) outbox_service \<Rightarrow> outbox_row \<Rightarrow> ('s engine, unit) eff" where
  "flush_row sv row = eff_bind (try_send sv row) (settle_row sv row)"

definition flush_once :: "('s, 'p, 'c, 'q) outbox_service \<Rightarrow> ('s engine, unit sync_result) eff" where
  "flush_once sv =
     try_bind (eff_bind (run_store (outbox_due (ob_storage sv))) (\<lambda>r. eff_lift (map_err Store_Error r))) (\<lambda>due.
     eff_bind (eff_each (flush_row sv) due) (\<lambda>_.
     eff_return (Inr ())))"

section \<open>The flush loop\<close>

text \<open>One turn of the loop: the token is cancelled, or the ticker fires.\<close>

definition outbox_round :: "('s, 'p, 'c, 'q) outbox_service \<Rightarrow> ('s engine, unit + unit) eff" where
  "outbox_round sv =
     eff_bind (is_cancelled (ob_cancel sv)) (\<lambda>cancelled.
     if cancelled
     then eff_bind (ignoring (flush_once sv)) (\<lambda>_. eff_return (Inl ()))
     else
       eff_bind (eff_get (\<lambda>e. ob_online sv (en_looks e))) (\<lambda>online.
       eff_bind (eff_when online (ignoring (flush_once sv))) (\<lambda>_.
       eff_return (Inr ()))))"

definition outbox_run :: "('s, 'p, 'c, 'q) outbox_service \<Rightarrow> ('s engine, unit) eff" where
  "outbox_run sv = eff_loop (\<lambda>_. outbox_round sv) ()"

end
