(* ===== verification/Outbox_Facts.thy ===== *)
theory Outbox_Facts
  imports Outbox Sync_Demo
begin

text \<open>
  The outbox against its contract with the store (\<open>src/src/outbox_service.rs\<close>, \<open>src/src/smtp.rs\<close>):
  an entry leaves the outbox only when the relay has accepted it, what is retried and what is given
  up, and where the service departs from its comments.
\<close>

section \<open>Submissions and the log\<close>

text \<open>The addresses of an entry that the SMTP crate accepts.\<close>

definition rcpt_to :: "smtp_lib \<Rightarrow> outbox_row \<Rightarrow> rstr list" where
  "rcpt_to lib row = List.map_filter (\<lambda>r. sum_ok (sl_address lib r)) (recipients_of row)"

definition mail_from :: "outbox_row \<Rightarrow> rstr" where
  "mail_from row = addr_email (oe_from (or_envelope row))"

text \<open>The relay has accepted the entry's message for its envelope.\<close>

definition accepted :: "smtp_lib \<Rightarrow> (blob_hash \<Rightarrow> u8 list option) \<Rightarrow> (delivery \<times> bool) list \<Rightarrow> outbox_row \<Rightarrow> bool" where
  "accepted lib blobs mails row \<longleftrightarrow>
     (\<exists>raw from. blobs (or_raw_blob row) = Some raw \<and> sl_address lib (mail_from row) = Inr from
        \<and> ((from, rcpt_to lib row, raw), True) \<in> set mails)"

lemma submit_envelope_Some:
  assumes "submit_envelope lib p from rcpts raw e = Some (r, e')"
  shows "en_store e' = en_store e \<and> en_bus e' = en_bus e \<and> (\<exists>new. en_mails e' = en_mails e @ new
    \<and> (r = Inr () \<longrightarrow> (\<exists>f. sl_address lib from = Inr f
         \<and> ((f, List.map_filter (\<lambda>r. sum_ok (sl_address lib r)) rcpts, raw), True) \<in> set new)))"
proof -
  have inr: "is_Inr y" if "map_err g y = Inr ()" for y :: "smtp_failure + unit" and g :: "smtp_failure \<Rightarrow> sync_error"
    using that by (cases y) auto
  have lift: "x = Inr f" if "map_err g x = Inr f" for x :: "rstr + rstr" and g :: "rstr \<Rightarrow> sync_error" and f
    using that by (cases x) auto
  from assms show ?thesis
    by (auto simp: submit_envelope_def try_bind_Some eff_bind_Some eff_lift_def send_raw_def Let_def dest: inr lift)
qed

lemma append_to_sent_Some:
  "append_to_sent sv raw e = Some (r, e') \<Longrightarrow> e' = e\<lparr>en_connects := Suc (en_connects e)\<rparr>"
  by (auto simp: append_to_sent_def Let_def split: option.splits sum.splits)

lemma try_send_Some:
  assumes "try_send sv row e = Some (out, e')"
  shows "en_store e' = snd (read_blob (ob_storage sv) (or_raw_blob row) (en_store e)) \<and> en_bus e' = en_bus e
    \<and> (\<exists>new. en_mails e' = en_mails e @ new
      \<and> (out = Out_Sent \<longrightarrow> (\<exists>raw from. fst (read_blob (ob_storage sv) (or_raw_blob row) (en_store e)) = Inr raw
         \<and> sl_address (ob_smtp_lib sv) (mail_from row) = Inr from
         \<and> ((from, rcpt_to (ob_smtp_lib sv) row, raw), True) \<in> set new)))"
proof -
  let ?e1 = "e\<lparr>en_store := snd (read_blob (ob_storage sv) (or_raw_blob row) (en_store e))\<rparr>"
  have not_sent: "outcome_of er \<noteq> Out_Sent" for er by (cases er) auto
  show ?thesis
  proof (cases "fst (read_blob (ob_storage sv) (or_raw_blob row) (en_store e))")
    case (Inl er)
    with assms show ?thesis by (auto simp: try_send_def eff_bind_Some run_store_Some)
  next
    case (Inr raw)
    with assms obtain r e2 where
      sub: "submit_envelope (ob_smtp_lib sv) (ob_smtp sv) (addr_email (oe_from (or_envelope row)))
          (recipients_of row) raw ?e1 = Some (r, e2)"
      and rest: "(case r of
           Inr _ \<Rightarrow> eff_bind (ignoring (append_to_sent sv raw)) (\<lambda>_. eff_return Out_Sent)
         | Inl e \<Rightarrow> eff_return (outcome_of e)) e2 = Some (out, e')"
      by (auto simp: try_send_def eff_bind_Some run_store_Some)
    note S = submit_envelope_Some [OF sub]
    show ?thesis
    proof (cases r)
      case (Inl er)
      with rest S not_sent Inr show ?thesis by auto
    next
      case (Inr u)
      then have "e' = e2\<lparr>en_connects := Suc (en_connects e2)\<rparr>"
        using rest append_to_sent_Some by (auto simp: eff_bind_Some ignoring_Some)
      with S Inr \<open>fst _ = Inr raw\<close> show ?thesis
        unfolding rcpt_to_def mail_from_def by auto
    qed
  qed
qed

section \<open>Leaving the outbox\<close>

text \<open>
  What holds between the states before and after a part of a flush, for a set \<open>R\<close> of due rows: the
  log grows, no entry is new and ids stay unique, and an entry that is gone belongs to a row that
  was accepted in between.
\<close>

definition leaves :: "smtp_lib \<Rightarrow> outbox_row set \<Rightarrow> (blob_hash \<Rightarrow> u8 list option)
    \<Rightarrow> ('s \<Rightarrow> outbox_row list) \<Rightarrow> ('s \<Rightarrow> blob_hash \<Rightarrow> u8 list option) \<Rightarrow> 's engine \<Rightarrow> 's engine \<Rightarrow> bool" where
  "leaves lib R B entries blobs e e' \<longleftrightarrow> (blobs (en_store e) = B \<longrightarrow> blobs (en_store e') = B
     \<and> row_core ` set (entries (en_store e')) \<subseteq> row_core ` set (entries (en_store e))
     \<and> (distinct (map or_id (entries (en_store e))) \<longrightarrow> distinct (map or_id (entries (en_store e'))))
     \<and> (\<exists>new. en_mails e' = en_mails e @ new
        \<and> (\<forall>i \<in> or_id ` set (entries (en_store e)) - or_id ` set (entries (en_store e')).
             \<exists>row \<in> R. or_id row = i \<and> accepted lib B new row)))"

lemma accepted_mono: "accepted lib B mails row \<Longrightarrow> set mails \<subseteq> set mails' \<Longrightarrow> accepted lib B mails' row"
  unfolding accepted_def by blast

lemma leaves_order [keeps_intros]: "keeps_order (leaves lib R B entries blobs)"
proof -
  have "leaves lib R B entries blobs s u"
    if st: "leaves lib R B entries blobs s t" and tu: "leaves lib R B entries blobs t u" for s t u
    unfolding leaves_def
  proof
    assume B: "blobs (en_store s) = B"
    let ?I = "\<lambda>e. or_id ` set (entries (en_store e))"
    let ?C = "\<lambda>e. row_core ` set (entries (en_store e))" and ?D = "\<lambda>e. distinct (map or_id (entries (en_store e)))"
    obtain n1 where n1: "blobs (en_store t) = B" "?C t \<subseteq> ?C s" "?D s \<longrightarrow> ?D t" "en_mails t = en_mails s @ n1"
      "\<forall>i \<in> ?I s - ?I t. \<exists>row \<in> R. or_id row = i \<and> accepted lib B n1 row"
      using st B unfolding leaves_def by blast
    obtain n2 where n2: "blobs (en_store u) = B" "?C u \<subseteq> ?C t" "?D t \<longrightarrow> ?D u" "en_mails u = en_mails t @ n2"
      "\<forall>i \<in> ?I t - ?I u. \<exists>row \<in> R. or_id row = i \<and> accepted lib B n2 row"
      using tu n1(1) unfolding leaves_def by blast
    have "\<exists>row \<in> R. or_id row = i \<and> accepted lib B (n1 @ n2) row" if "i \<in> ?I s - ?I u" for i
    proof (cases "i \<in> ?I t")
      case True
      have "i \<notin> ?I u" using that by simp
      from bspec [OF n2(5) DiffI [OF True this]]
      obtain row where row: "row \<in> R" "or_id row = i" "accepted lib B n2 row" by blast
      have "accepted lib B (n1 @ n2) row" by (rule accepted_mono [OF row(3)]) simp
      with row(1,2) show ?thesis by blast
    next
      case False
      from bspec [OF n1(5) DiffI [OF DiffD1 [OF that] False]]
      obtain row where row: "row \<in> R" "or_id row = i" "accepted lib B n1 row" by blast
      have "accepted lib B (n1 @ n2) row" by (rule accepted_mono [OF row(3)]) simp
      with row(1,2) show ?thesis by blast
    qed
    then have "\<exists>new. en_mails u = en_mails s @ new
        \<and> (\<forall>i \<in> ?I s - ?I u. \<exists>row \<in> R. or_id row = i \<and> accepted lib B new row)"
      using n1(4) n2(4) by (intro exI [of _ "n1 @ n2"] conjI ballI) simp_all
    then show "blobs (en_store u) = B \<and> ?C u \<subseteq> ?C s \<and> (?D s \<longrightarrow> ?D u) \<and> (\<exists>new. en_mails u = en_mails s @ new
        \<and> (\<forall>i \<in> ?I s - ?I u. \<exists>row \<in> R. or_id row = i \<and> accepted lib B new row))"
      using n1(2,3) n2(1,2,3) subset_trans [OF n2(2) n1(2)] by blast
  qed
  moreover have "leaves lib R B entries blobs s s" for s by (simp add: leaves_def)
  ultimately show ?thesis unfolding keeps_order_def by blast
qed

lemma leaves_quiet [keeps_intros]:
  "keeps (leaves lib R B entries blobs) (push_event ev)" "keeps (leaves lib R B entries blobs) (read_clock c)"
  by (auto simp: keeps_def leaves_def)

context outbox_store
begin

lemma try_send_box:
  assumes "ob_storage sv = ops" and "try_send sv row e = Some (out, e')"
  shows "entries (en_store e') = entries (en_store e) \<and> blobs (en_store e') = blobs (en_store e)
    \<and> (\<exists>new. en_mails e' = en_mails e @ new
      \<and> (out = Out_Sent \<longrightarrow> accepted (ob_smtp_lib sv) (blobs (en_store e)) new row))"
proof -
  note T = try_send_Some [OF assms(2), unfolded assms(1)]
  obtain b s1 where rd: "read_blob ops (or_raw_blob row) (en_store e) = (b, s1)" by (rule prod.exhaust)
  note Rd = read [OF rd]
  obtain new where new: "en_mails e' = en_mails e @ new" "out = Out_Sent \<longrightarrow> (\<exists>raw from. b = Inr raw
      \<and> sl_address (ob_smtp_lib sv) (mail_from row) = Inr from \<and> ((from, rcpt_to (ob_smtp_lib sv) row, raw), True) \<in> set new)"
    using T rd by auto
  then have "out = Out_Sent \<longrightarrow> accepted (ob_smtp_lib sv) (blobs (en_store e)) new row"
    using Rd unfolding accepted_def by blast
  with T rd Rd new(1) show ?thesis by simp
qed

lemma mark_transient_box:
  assumes "ob_storage sv = ops" and "mark_transient sv row detail e = Some (u, e')"
  shows "blobs (en_store e') = blobs (en_store e) \<and> en_mails e' = en_mails e
    \<and> map row_core (entries (en_store e')) = map row_core (entries (en_store e))"
proof -
  obtain n tm where "en_store e' = snd (outbox_mark_retry ops (or_id row) n tm detail (en_store e))" "en_mails e' = en_mails e"
    using assms by (auto simp: mark_transient_def Let_def eff_bind_Some ignoring_Some run_store_Some eff_when_def split: if_splits)
  with mark_retry [OF surjective_pairing, of "or_id row" n tm detail "en_store e"] show ?thesis by simp
qed

lemma settle_row_box:
  assumes "ob_storage sv = ops" and "settle_row sv row out e = Some (u, e')"
  shows "blobs (en_store e') = blobs (en_store e) \<and> en_mails e' = en_mails e
    \<and> (map row_core (entries (en_store e')) = map row_core (entries (en_store e))
      \<or> out = Out_Sent \<and> entries (en_store e') = filter (\<lambda>q. or_id q \<noteq> or_id row) (entries (en_store e)))"
proof (cases out)
  case Out_Sent
  then obtain now where "en_store e' = snd (outbox_mark_sent ops (or_id row) now (en_store e))" "en_mails e' = en_mails e"
    using assms by (auto simp: settle_row_def eff_bind_Some ignoring_Some run_store_Some)
  with Out_Sent mark_sent [OF surjective_pairing, of "or_id row" now "en_store e"] show ?thesis by (auto split: if_splits)
next
  case (Out_Transient detail)
  with assms(2) mark_transient_box [OF assms(1), of row detail e u e'] show ?thesis by (simp add: settle_row_def)
next
  case (Out_Permanent detail)
  with assms(2) show ?thesis by (auto simp: settle_row_def)
qed

lemma flush_row_leaves:
  assumes "ob_storage sv = ops" "row \<in> R"
  shows "keeps (leaves (ob_smtp_lib sv) R B entries blobs) (flush_row sv row)"
proof (rule keepsI)
  fix e u e'
  assume "flush_row sv row e = Some (u, e')"
  then obtain out e1 where t: "try_send sv row e = Some (out, e1)" and r: "settle_row sv row out e1 = Some (u, e')"
    by (auto simp: flush_row_def eff_bind_Some)
  note T = try_send_box [OF assms(1) t] and S = settle_row_box [OF assms(1) r]
  from T obtain new where new: "en_mails e1 = en_mails e @ new"
    "out = Out_Sent \<longrightarrow> accepted (ob_smtp_lib sv) (blobs (en_store e)) new row" by blast
  from S show "leaves (ob_smtp_lib sv) R B entries blobs e e'"
  proof (elim conjE disjE)
    assume core: "map row_core (entries (en_store e')) = map row_core (entries (en_store e1))"
    then have ids: "map or_id (entries (en_store e')) = map or_id (entries (en_store e))"
      using map_row_core_ids [OF core] T by simp
    have "or_id ` set (entries (en_store e')) = or_id ` set (entries (en_store e))"
      using arg_cong [OF ids, of set] by simp
    with ids arg_cong [OF core, of set] S T new(1) show ?thesis by (simp add: leaves_def)
  next
    assume "out = Out_Sent" and gone: "entries (en_store e') = filter (\<lambda>q. or_id q \<noteq> or_id row) (entries (en_store e1))"
    with new(2) assms(2) have "\<exists>row \<in> R. or_id row = i \<and> accepted (ob_smtp_lib sv) (blobs (en_store e)) new row"
      if "i \<in> or_id ` set (entries (en_store e)) - or_id ` set (entries (en_store e'))" for i
      using that T by auto
    with gone S T new(1) show ?thesis by (auto simp: leaves_def distinct_map_filter)
  qed
qed

lemma flush_once_leaves:
  assumes "ob_storage sv = ops" and "flush_once sv e = Some (r, e')"
  shows "leaves (ob_smtp_lib sv) (set (entries (en_store e))) (blobs (en_store e)) entries blobs e e'"
proof -
  let ?P = "leaves (ob_smtp_lib sv) (set (entries (en_store e))) (blobs (en_store e)) entries blobs"
  obtain d s1 where due': "outbox_due ops (en_store e) = (d, s1)" by (rule prod.exhaust)
  note D = due [OF due']
  have e1: "?P e (e\<lparr>en_store := s1\<rparr>)" using D by (simp add: leaves_def)
  show ?thesis
  proof (cases d)
    case (Inl er)
    with assms due' e1 show ?thesis
      by (auto simp: flush_once_def try_bind_Some eff_bind_Some eff_lift_def run_store_Some)
  next
    case (Inr rows)
    then have "eff_each (flush_row sv) rows (e\<lparr>en_store := s1\<rparr>) = Some ((), e')"
      using assms due' by (auto simp: flush_once_def try_bind_Some eff_bind_Some eff_lift_def run_store_Some)
    then have "?P (e\<lparr>en_store := s1\<rparr>) e'"
    proof (rule eff_each_rel)
      show "?P a b" if "row \<in> set rows" "flush_row sv row a = Some ((), b)" for row a b
        using keepsD [OF flush_row_leaves [OF assms(1)] that(2)] that(1) D Inr by blast
    qed (use keeps_order_refl [OF leaves_order] keeps_order_trans [OF leaves_order] in blast)+
    then show ?thesis by (rule keeps_order_trans [OF leaves_order e1])
  qed
qed

end

end
