(* ===== verification/Outbox_Run.thy ===== *)
theory Outbox_Run
  imports Outbox_Facts
begin

text \<open>
  The properties of the outbox service (\<open>src/src/outbox_service.rs\<close>) with the in-memory store: what
  leaves the outbox, what a permanent failure does, and how the flush loop ends.
\<close>

section \<open>A demo outbox\<close>

text \<open>A relay that accepts, or rejects for good, every submission.\<close>

definition demo_relay :: "bool \<Rightarrow> smtp_lib" where
  "demo_relay accepts =
     \<lparr>sl_relay = (\<lambda>_ _. Inr ()), sl_address = Inr, sl_envelope = (\<lambda>_ _. Inr ()),
      sl_send = (\<lambda>_ _ _. if accepts then Inr () else Inl \<lparr>sf_permanent = True, sf_transient = False,
        sf_status = Some (lit ''550''), sf_text = lit ''no such user''\<rparr>),
      sl_dbg_str = (\<lambda>s. s)\<rparr>"

definition demo_entry :: outbox_row where
  "demo_entry =
     \<lparr>or_id = OutboxId 7, or_account = AccountId 1, or_raw_blob = BlobHash (lit ''aa''),
      or_envelope = \<lparr>oe_from = \<lparr>addr_name = None, addr_email = lit ''a@x''\<rparr>,
        oe_to = [\<lparr>addr_name = None, addr_email = lit ''b@y''\<rparr>], oe_cc = [], oe_bcc = [], oe_subject = lit ''Hi''\<rparr>,
      or_retry_count = 0, or_last_error = None, or_created_at = 0\<rparr>"

definition demo_box :: "mock_state engine" where
  "demo_box = demo_engine\<lparr>en_store := demo_store\<lparr>mk_blobs := [(lit ''aa'', [72, 105])], mk_outbox := [demo_entry]\<rparr>\<rparr>"

definition demo_outbox :: "bool \<Rightarrow> (mock_state, unit, script_state, unit) outbox_service" where
  "demo_outbox accepts =
     \<lparr>ob_storage = mock_ops demo_env,
      ob_smtp = \<lparr>sp_host = lit ''h'', sp_port = 465, sp_username = [], sp_secret = SecretString [],
        sp_oauth2 = False, sp_security = Smtp_ImplicitTls\<rparr>,
      ob_smtp_lib = demo_relay accepts, ob_imap = demo_params, ob_client = script_client [],
      ob_lib = plain_lib, ob_net = (\<lambda>_. Tcp_Elapsed), ob_clock = (\<lambda>_. 0), ob_uuid = (\<lambda>_. 99),
      ob_online = (\<lambda>_. False), ob_cancel = (\<lambda>n. 3 \<le> n)\<rparr>"

lemma demo_outbox_fields [simp]:
  "ob_storage (demo_outbox b) = mock_ops demo_env" "ob_smtp_lib (demo_outbox b) = demo_relay b"
  "ob_online (demo_outbox b) = (\<lambda>_. False)" "ob_cancel (demo_outbox b) = (\<lambda>n. 3 \<le> n)"
  by (simp_all add: demo_outbox_def)

lemma demo_box_fields [simp]:
  "mk_outbox (en_store demo_box) = [demo_entry]" "bus_open (en_bus demo_box)" "bus_sent (en_bus demo_box) = []"
  "or_id demo_entry = OutboxId 7"
  by (simp_all add: demo_box_def demo_engine_def bus_open_def demo_entry_def)

text \<open>A flush that the relay accepts; the copy for the Sent folder is not made, as nobody answers.\<close>

lemma demo_flush_any:
  assumes "mk_outbox (en_store e) = [demo_entry]" and "mock_blob (en_store e) (BlobHash (lit ''aa'')) = Some [72, 105]"
  shows "\<exists>e'. flush_once (demo_outbox True) e = Some (Inr (), e') \<and> mk_outbox (en_store e') = []"
proof -
  have "mock_read_blob (or_raw_blob demo_entry) (en_store e) = (Inr [72, 105], en_store e)"
    using assms(2) by (auto simp: mock_read_blob_def mock_blob_def demo_entry_def)
  then show ?thesis
    using assms(1)
    by (simp add: flush_once_def flush_row_def settle_row_def try_send_def submit_envelope_def build_transport_def send_raw_def
        append_to_sent_def connect_and_authenticate_def connect_transport_def demo_outbox_def demo_relay_def
        demo_params_def mock_outbox_due_def mock_outbox_mark_sent_def sent_marker_def run_store_def eff_bind_def
        try_bind_def eff_lift_def ignoring_def eff_get_def recipients_of_def Let_def)
qed

lemma demo_flush_from:
  "\<exists>e'. flush_once (demo_outbox True) (demo_box\<lparr>en_looks := n\<rparr>) = Some (Inr (), e') \<and> mk_outbox (en_store e') = []"
  by (rule demo_flush_any) (simp_all add: demo_box_def mock_blob_def)


section \<open>What leaves the outbox\<close>



section \<open>Permanent failures\<close>

text \<open>The relay can be set up and rejects every submission for good.\<close>

definition rejects :: "smtp_lib \<Rightarrow> bool" where
  "rejects lib \<longleftrightarrow> (\<forall>sec host. is_Inr (sl_relay lib sec host))
     \<and> (\<forall>n t d. \<not> is_Inr (sl_send lib n t d) \<and> (\<forall>f. sl_send lib n t d = Inl f \<longrightarrow> sf_permanent f))"

text \<open>The events of a failed flush: one per entry.\<close>

definition failed_events :: "outbox_row list \<Rightarrow> engine_event list \<Rightarrow> bool" where
  "failed_events rows evs \<longleftrightarrow>
     list_all2 (\<lambda>row ev. \<exists>detail. ev = MailFailed (or_id row) (MessageRejected detail) True) rows evs"

lemma rejected_submission:
  assumes "rejects lib"
  shows "\<exists>er e'. submit_envelope lib p from rcpts raw e = Some (Inl er, e') \<and> (\<exists>d. outcome_of er = Out_Permanent d)
    \<and> en_store e' = en_store e \<and> en_bus e' = en_bus e"
proof -
  obtain t where t: "build_transport lib p = Inr t"
    using assms by (cases "sl_relay lib (sp_security p) (sp_host p)"; cases "sp_security p")
      (auto simp: build_transport_def rejects_def dest!: spec [where x = "sp_security p"] spec [where x = "sp_host p"])
  show ?thesis
  proof (cases "sl_address lib from")
    case (Inl x)
    then show ?thesis by (simp add: submit_envelope_def t try_bind_def eff_lift_def)
  next
    case (Inr f)
    let ?to = "List.map_filter (\<lambda>r. sum_ok (sl_address lib r)) rcpts"
    show ?thesis
    proof (cases "sl_envelope lib f ?to")
      case (Inl x)
      with Inr show ?thesis by (simp add: submit_envelope_def t try_bind_def eff_lift_def Let_def)
    next
      case ok: (Inr u)
      obtain g where "sl_send lib (length (en_mails e)) t (f, ?to, raw) = Inl g" "sf_permanent g"
        using assms unfolding rejects_def
        by (cases "sl_send lib (length (en_mails e)) t (f, ?to, raw)") (metis is_Inr.simps)+
      with Inr ok show ?thesis
        by (simp add: submit_envelope_def t try_bind_def eff_bind_def eff_lift_def send_raw_def map_smtp_error_def
            eff_return_def Let_def)
    qed
  qed
qed

lemma rejected_row:
  assumes "ob_storage sv = mock_ops env" and "rejects (ob_smtp_lib sv)"
  shows "\<exists>e' d. flush_row sv row e = Some ((), e') \<and> en_store e' = en_store e
    \<and> en_bus e' = bus_push (MailFailed (or_id row) (MessageRejected d) True) (en_bus e)"
proof (cases "mock_read_blob (or_raw_blob row) (en_store e)")
  case (Pair b s)
  then have s: "s = en_store e" by (auto simp: mock_read_blob_def split: option.splits)
  show ?thesis
  proof (cases b)
    case (Inl x)
    with Pair s show ?thesis
      by (auto simp: flush_row_def settle_row_def try_send_def assms(1) eff_bind_def run_store_def)
  next
    case (Inr raw)
    obtain er e1 d where "submit_envelope (ob_smtp_lib sv) (ob_smtp sv) (addr_email (oe_from (or_envelope row)))
        (recipients_of row) raw e = Some (Inl er, e1)" "outcome_of er = Out_Permanent d"
      "en_store e1 = en_store e" "en_bus e1 = en_bus e"
      using rejected_submission [OF assms(2)] by metis
    with Inr Pair s show ?thesis
      by (auto simp: flush_row_def settle_row_def try_send_def assms(1) eff_bind_def run_store_def)
  qed
qed

text \<open>
  C23. A permanent failure does not take an entry out of the outbox: when the relay rejects every
  submission for good, a flush succeeds, leaves the outbox exactly as it was, every entry still
  due, and reports one permanent failure per entry; so does the next flush.
\<close>

theorem rejected_entries_stay_due:
  assumes "ob_storage sv = mock_ops env" and "rejects (ob_smtp_lib sv)" and "bus_open (en_bus e)"
  shows "\<exists>e' evs. flush_once sv e = Some (Inr (), e') \<and> en_store e' = en_store e
    \<and> bus_sent (en_bus e') = bus_sent (en_bus e) @ evs \<and> failed_events (mk_outbox (en_store e)) evs"
proof -
  have "\<exists>e' evs. eff_each (flush_row sv) rows e = Some ((), e') \<and> en_store e' = en_store e
      \<and> bus_sent (en_bus e') = bus_sent (en_bus e) @ evs \<and> failed_events rows evs" for rows
    using assms(3)
  proof (induction rows arbitrary: e)
    case Nil
    then show ?case by (simp add: failed_events_def)
  next
    case (Cons row rows)
    obtain e1 d where e1: "flush_row sv row e = Some ((), e1)" "en_store e1 = en_store e"
      "en_bus e1 = bus_push (MailFailed (or_id row) (MessageRejected d) True) (en_bus e)"
      using rejected_row [OF assms(1,2)] by blast
    obtain e2 evs where "eff_each (flush_row sv) rows e1 = Some ((), e2)" "en_store e2 = en_store e1"
      "bus_sent (en_bus e2) = bus_sent (en_bus e1) @ evs" "failed_events rows evs"
      using Cons.IH [of e1] Cons.prems e1(3) by auto
    with e1 Cons.prems show ?case
      by (intro exI [of _ e2] exI [of _ "MailFailed (or_id row) (MessageRejected d) True # evs"])
        (simp add: eff_bind_def failed_events_def)
  qed
  from this [of "mk_outbox (en_store e)"] show ?thesis
    by (auto simp: flush_once_def assms(1) try_bind_def eff_bind_def eff_lift_def run_store_def mock_outbox_due_def
        eff_return_def)
qed

theorem rejected_entries_stay_due_witness:
  "\<exists>e' evs. flush_once (demo_outbox False) demo_box = Some (Inr (), e')
    \<and> mk_outbox (en_store e') = [demo_entry] \<and> failed_events [demo_entry] evs \<and> bus_sent (en_bus e') = evs"
proof -
  have "rejects (demo_relay False)" by (simp add: rejects_def demo_relay_def)
  then show ?thesis using rejected_entries_stay_due [of "demo_outbox False" demo_env demo_box] by fastforce
qed

section \<open>The flush loop\<close>

text \<open>
  C24. Offline, nothing is sent until the service is cancelled, and then one flush is: if the host's
  gate is closed at every look, a run that ends has done nothing before the cancellation was seen,
  neither to the store nor to the log nor at the relay, and ends with a full flush all the same.
\<close>

theorem offline_final_flush:
  assumes "\<forall>n. \<not> ob_online sv n" and "outbox_run sv e = Some (u, e')"
  shows "\<exists>n r. en_looks e \<le> n \<and> ob_cancel sv n \<and> (\<forall>k. en_looks e \<le> k \<and> k < n \<longrightarrow> \<not> ob_cancel sv k)
    \<and> flush_once sv (e\<lparr>en_looks := Suc n\<rparr>) = Some (r, e')"
proof -
  let ?quiet = "\<lambda>f. \<exists>n \<ge> en_looks e. f = e\<lparr>en_looks := n\<rparr> \<and> (\<forall>k. en_looks e \<le> k \<and> k < n \<longrightarrow> \<not> ob_cancel sv k)"
  show ?thesis
  proof (rule eff_loop_rule [OF assms(2) [unfolded outbox_run_def], where I = "\<lambda>_. ?quiet"
        and Q = "\<lambda>_ f. \<exists>n r. en_looks e \<le> n \<and> ob_cancel sv n
          \<and> (\<forall>k. en_looks e \<le> k \<and> k < n \<longrightarrow> \<not> ob_cancel sv k) \<and> flush_once sv (e\<lparr>en_looks := Suc n\<rparr>) = Some (r, f)"])
    show "?quiet e" by (intro exI [of _ "en_looks e"]) auto
  next
    fix a :: unit and s a' s'
    assume "?quiet s" and "outbox_round sv s = Some (Inr a', s')"
    then obtain n where n: "en_looks e \<le> n" "s = e\<lparr>en_looks := n\<rparr>"
      "\<forall>k. en_looks e \<le> k \<and> k < n \<longrightarrow> \<not> ob_cancel sv k"
      and "\<not> ob_cancel sv n" "s' = e\<lparr>en_looks := Suc n\<rparr>"
      using assms(1) by (auto simp: outbox_round_def eff_bind_Some eff_when_def split: if_splits)
    then show "?quiet s'" by (intro exI [of _ "Suc n"]) (auto simp: less_Suc_eq)
  next
    fix a :: unit and s r s'
    assume "?quiet s" and "outbox_round sv s = Some (Inl r, s')"
    then show "\<exists>n r. en_looks e \<le> n \<and> ob_cancel sv n
        \<and> (\<forall>k. en_looks e \<le> k \<and> k < n \<longrightarrow> \<not> ob_cancel sv k) \<and> flush_once sv (e\<lparr>en_looks := Suc n\<rparr>) = Some (r, s')"
      by (auto simp: outbox_round_def eff_bind_Some ignoring_Some split: if_splits)
  qed
qed

text \<open>The third look sees the cancellation, and the entry is delivered although the host is offline.\<close>

theorem offline_final_flush_witness:
  "\<exists>e'. outbox_run (demo_outbox True) demo_box = Some ((), e') \<and> mk_outbox (en_store e') = []"
proof -
  let ?round = "\<lambda>_ :: unit. outbox_round (demo_outbox True)"
  have look: "eff_loop ?round () (demo_box\<lparr>en_looks := n\<rparr>) = eff_loop ?round () (demo_box\<lparr>en_looks := Suc n\<rparr>)"
    if "n < 3" for n
    using that by (subst eff_loop.simps) (simp add: outbox_round_def eff_bind_def eff_get_def eff_when_def)
  have clock: "demo_box = demo_box\<lparr>en_looks := 0\<rparr>" by (simp add: demo_box_def demo_engine_def)
  have last: "\<exists>e'. eff_loop ?round () (demo_box\<lparr>en_looks := 3\<rparr>) = Some ((), e')"
    using demo_flush_from [of 4]
    by (subst eff_loop.simps) (auto simp: outbox_round_def eff_bind_def ignoring_def)
  have "\<exists>e'. outbox_run (demo_outbox True) demo_box = Some ((), e')"
    unfolding outbox_run_def
    by (subst clock) (use look [of 0] look [of 1] look [of 2] last in \<open>simp add: numeral_eq_Suc\<close>)
  then obtain e' where run: "outbox_run (demo_outbox True) demo_box = Some ((), e')" by blast
  obtain n r where "flush_once (demo_outbox True) (demo_box\<lparr>en_looks := Suc n\<rparr>) = Some (r, e')"
    using offline_final_flush [OF _ run] by auto
  then have "mk_outbox (en_store e') = []" using demo_flush_from [of "Suc n"] by auto
  with run show ?thesis by blast
qed

end
