(* ===== verification/Jmap.thy ===== *)
theory Jmap
  imports Engine
begin

text \<open>
  \<open>src/src/jmap.rs\<close>: the JMAP client.  The HTTP client and the derived (de)serialisers are outside
  the sources: \<open>http_ops\<close> answers the \<open>n\<close>-th request of the process, and a response carries what
  reading its body gives at each of the two types the client asks for.  A JSON value is what the
  \<open>serde_json\<close> crate's \<open>Value\<close> can be; the entries of an object have distinct keys.
\<close>

section \<open>JSON values\<close>

datatype json =
    J_Null
  | J_Bool bool
  | J_U64 u64
  | J_Number rstr \<comment> \<open>a number that is no \<open>u64\<close>, by its text\<close>
  | J_String rstr
  | J_Array "json list"
  | J_Object "(rstr \<times> json) list"

fun as_array :: "json \<Rightarrow> json list option" where
  "as_array (J_Array xs) = Some xs"
| "as_array _ = None"

fun as_object :: "json \<Rightarrow> (rstr \<times> json) list option" where
  "as_object (J_Object es) = Some es"
| "as_object _ = None"

fun as_str :: "json \<Rightarrow> rstr option" where
  "as_str (J_String s) = Some s"
| "as_str _ = None"

fun as_u64 :: "json \<Rightarrow> u64 option" where
  "as_u64 (J_U64 n) = Some n"
| "as_u64 _ = None"

definition json_get :: "rstr \<Rightarrow> json \<Rightarrow> json option" where
  "json_get k j = Option.bind (as_object j) (\<lambda>es. map_of es k)"

definition get_str :: "rstr \<Rightarrow> json \<Rightarrow> rstr option" where
  "get_str k j = Option.bind (json_get k j) as_str"

section \<open>Sessions, requests and responses\<close>

record jmap_mail_capability =
  mc_max_mailbox_name_length :: "u64 option"

record jmap_account =
  ja_name :: rstr
  ja_is_read_only :: bool
  ja_mail :: "jmap_mail_capability option"

record jmap_session =
  jn_api_url :: rstr
  jn_download_url :: rstr
  jn_upload_url :: rstr
  jn_accounts :: "(rstr \<times> jmap_account) list"
  jn_primary_accounts :: "(rstr \<times> rstr) list"

record jmap_request =
  jq_using :: "rstr list"
  jq_method_calls :: "json list"
  jq_since_state :: "rstr option"

record jmap_response =
  jr_method_responses :: "json list"
  jr_new_state :: "rstr option"

datatype http_request =
    Http_Get rstr rstr \<comment> \<open>URL, Authorization\<close>
  | Http_Post rstr rstr jmap_request

record http_response =
  hr_success :: bool
  hr_status :: rstr
  hr_session :: "rstr + jmap_session"
  hr_calls :: "rstr + jmap_response"

type_synonym http_ops = "nat \<Rightarrow> http_request \<Rightarrow> rstr + http_response"

record jmap_client =
  jc_api_url :: rstr
  jc_auth_header :: rstr

section \<open>The client\<close>

text \<open>One request; it always ends, since the HTTP client is built with a timeout.\<close>

definition http_send :: "http_ops \<Rightarrow> http_request \<Rightarrow> ('s engine, http_response sync_result) eff" where
  "http_send http req e =
     Some (map_err Transport (http (en_connects e) req), e\<lparr>en_connects := Suc (en_connects e)\<rparr>)"

definition bearer :: "secret_string \<Rightarrow> rstr" where
  "bearer token = lit ''Bearer '' @ expose token"

definition discover ::
    "http_ops \<Rightarrow> rstr \<Rightarrow> secret_string \<Rightarrow> ('s engine, jmap_client sync_result) eff" where
  "discover http host token =
     try_bind (http_send http (Http_Get (lit ''https://'' @ host @ lit ''/.well-known/jmap'') (bearer token)))
       (\<lambda>resp. eff_lift (
          if \<not> hr_success resp
          then Inl (Transport (lit ''session discovery returned '' @ hr_status resp))
          else case hr_session resp of
                 Inl e \<Rightarrow> Inl (Transport (lit ''session parse: '' @ e))
               | Inr session \<Rightarrow>
                   Inr \<lparr>jc_api_url = jn_api_url session, jc_auth_header = bearer token\<rparr>))"

definition call ::
    "http_ops \<Rightarrow> jmap_client \<Rightarrow> rstr list \<Rightarrow> json list \<Rightarrow> rstr option \<Rightarrow> ('s engine, jmap_response sync_result) eff" where
  "call http client using_caps method_calls since_state =
     try_bind (http_send http (Http_Post (jc_api_url client) (jc_auth_header client)
         \<lparr>jq_using = using_caps, jq_method_calls = method_calls, jq_since_state = since_state\<rparr>))
       (\<lambda>resp. eff_lift (
          if \<not> hr_success resp
          then Inl (Transport (lit ''JMAP API returned '' @ hr_status resp))
          else map_err (\<lambda>e. Transport (lit ''JMAP response parse: '' @ e)) (hr_calls resp)))"

definition jmap_caps :: "rstr list" where
  "jmap_caps = [lit ''urn:ietf:params:jmap:core'', lit ''urn:ietf:params:jmap:mail'']"

definition mailbox_get_call :: json where
  "mailbox_get_call =
     J_Array [J_String (lit ''Mailbox/get''),
       J_Object [(lit ''accountId'', J_Null), (lit ''ids'', J_Null)], J_String (lit ''c1'')]"

definition get_mailboxes :: "http_ops \<Rightarrow> jmap_client \<Rightarrow> ('s engine, jmap_response sync_result) eff" where
  "get_mailboxes http client = call http client jmap_caps [mailbox_get_call] None"

text \<open>The name of the first mailbox as a JSON value, null when there is none.\<close>

definition first_or_null :: "rstr list \<Rightarrow> json" where
  "first_or_null ids = (case ids of [] \<Rightarrow> J_Null | i # _ \<Rightarrow> J_String i)"

definition email_query_call :: "rstr list \<Rightarrow> u32 \<Rightarrow> json" where
  "email_query_call mailbox_ids limit =
     J_Array [J_String (lit ''Email/query''),
       J_Object [(lit ''accountId'', J_Null),
         (lit ''filter'', J_Object [(lit ''inMailbox'', first_or_null mailbox_ids)]),
         (lit ''limit'', J_U64 (ucast limit)),
         (lit ''sort'', J_Array [J_Object [(lit ''property'', J_String (lit ''receivedAt'')),
            (lit ''isAscending'', J_Bool False)]])],
       J_String (lit ''q1'')]"

definition email_get_call :: json where
  "email_get_call =
     J_Array [J_String (lit ''Email/get''),
       J_Object [(lit ''accountId'', J_Null),
         (lit ''#ids'', J_Object [(lit ''resultOf'', J_String (lit ''q1'')),
            (lit ''name'', J_String (lit ''Email/query'')), (lit ''path'', J_String (lit ''/ids''))]),
         (lit ''properties'', J_Array (map (\<lambda>s. J_String (lit s))
            [''id'', ''blobId'', ''threadId'', ''mailboxIds'', ''from'', ''to'', ''cc'', ''bcc'',
             ''subject'', ''receivedAt'', ''size'', ''keywords'', ''header:Message-ID:asMessageIds'',
             ''header:In-Reply-To:asMessageIds'', ''preview'']))],
       J_String (lit ''g1'')]"

definition query_emails ::
    "http_ops \<Rightarrow> jmap_client \<Rightarrow> rstr list \<Rightarrow> rstr option \<Rightarrow> u32 \<Rightarrow> ('s engine, jmap_response sync_result) eff" where
  "query_emails http client mailbox_ids since_state limit =
     call http client jmap_caps [email_query_call mailbox_ids limit, email_get_call] since_state"

section \<open>Running the client\<close>

lemma http_send_Some:
  "http_send http req e = Some (r, e') \<longleftrightarrow>
     r = map_err Transport (http (en_connects e) req) \<and> e' = e\<lparr>en_connects := Suc (en_connects e)\<rparr>"
  by (auto simp: http_send_def)

text \<open>A call sends exactly one request, and its outcome is that request's.\<close>

lemma call_eq:
  "call http client us cs st e =
     (let r = http (en_connects e) (Http_Post (jc_api_url client) (jc_auth_header client)
          \<lparr>jq_using = us, jq_method_calls = cs, jq_since_state = st\<rparr>)
      in Some (case r of
           Inl d \<Rightarrow> Inl (Transport d)
         | Inr resp \<Rightarrow>
             if \<not> hr_success resp then Inl (Transport (lit ''JMAP API returned '' @ hr_status resp))
             else map_err (\<lambda>e. Transport (lit ''JMAP response parse: '' @ e)) (hr_calls resp),
         e\<lparr>en_connects := Suc (en_connects e)\<rparr>))"
  by (simp add: call_def try_bind_def http_send_def eff_lift_def Let_def split: sum.splits)

end
