(* ===== verification/Jmap_Sync.thy ===== *)
theory Jmap_Sync
  imports Jmap Sync Reconnect
begin

text \<open>
  \<open>src/src/jmap_sync.rs\<close>: the JMAP sync engine of one account.  Outside the sources are the HTTP
  client, the host's store, parser and clock, the standard library's hasher on a text, the
  RFC 3339 reader of \<open>chrono\<close> and the observations of the cancellation token.
\<close>

record ('s, 'p) jmap_service =
  js_account :: account_id
  js_host :: rstr
  js_token :: secret_string
  js_storage :: "('s, 'p) mail_store_ops"
  js_parse :: "u8 list \<Rightarrow> 'p"
  js_clock :: "nat \<Rightarrow> i64"
  js_http :: http_ops
  js_http_client :: "rstr + unit"
  js_unicode :: "rstr \<Rightarrow> rstr"
  js_hash :: "rstr \<Rightarrow> u64"
  js_rfc3339 :: "rstr \<Rightarrow> i64 option"
  js_cancel :: "nat \<Rightarrow> bool"

section \<open>Reading responses\<close>

text \<open>The \<open>list\<close> of the first response to the method; \<open>Inr None\<close>: there is none.\<close>

fun method_list :: "rstr \<Rightarrow> json list \<Rightarrow> json list option sync_result" where
  "method_list name [] = Inr None"
| "method_list name (item # items) =
     (case as_array item of
        None \<Rightarrow> Inl (Protocol (name @ lit '': not an array''))
      | Some arr \<Rightarrow>
          if length arr < 2 then method_list name items
          else if option_or [] (as_str (arr ! 0)) \<noteq> name then method_list name items
          else case Option.bind (json_get (lit ''list'') (arr ! 1)) as_array of
                 None \<Rightarrow> Inl (Protocol (name @ lit '': missing list''))
               | Some l \<Rightarrow> Inr (Some l))"

record parsed_mailbox =
  pm_name :: rstr
  pm_role :: "rstr option"
  pm_id :: rstr

definition attributes :: "parsed_mailbox \<Rightarrow> rstr list" where
  "attributes mb = (case pm_role mb of None \<Rightarrow> [] | Some r \<Rightarrow> [lit ''role:'' @ r])"

definition parsed_mailbox_of :: "json \<Rightarrow> parsed_mailbox" where
  "parsed_mailbox_of m =
     \<lparr>pm_name = option_or [] (get_str (lit ''name'') m), pm_role = get_str (lit ''role'') m,
      pm_id = option_or [] (get_str (lit ''id'') m)\<rparr>"

definition parse_mailbox_get :: "jmap_response \<Rightarrow> parsed_mailbox list sync_result" where
  "parse_mailbox_get resp =
     (case method_list (lit ''Mailbox/get'') (jr_method_responses resp) of
        Inl e \<Rightarrow> Inl e
      | Inr None \<Rightarrow> Inl (Protocol (lit ''Mailbox/get: no method response found''))
      | Inr (Some l) \<Rightarrow> Inr (map parsed_mailbox_of l))"

record parsed_address =
  pa_name :: "rstr option"
  pa_email :: rstr

record parsed_email =
  pe_id :: rstr
  pe_subject :: "rstr option"
  pe_from :: "parsed_address list"
  pe_to :: "parsed_address list"
  pe_received_at :: "rstr option"
  pe_size :: "u64 option"
  pe_keywords :: "rstr list"
  pe_mailbox_ids :: "rstr list"

definition parsed_address_of :: "json \<Rightarrow> parsed_address option" where
  "parsed_address_of a =
     map_option (\<lambda>email. \<lparr>pa_name = get_str (lit ''name'') a, pa_email = email\<rparr>) (get_str (lit ''email'') a)"

definition parse_address_list :: "json option \<Rightarrow> parsed_address list" where
  "parse_address_list v =
     (case Option.bind v as_array of
        None \<Rightarrow> []
      | Some arr \<Rightarrow> List.map_filter parsed_address_of arr)"

definition object_keys :: "json option \<Rightarrow> rstr list" where
  "object_keys v = (case Option.bind v as_object of None \<Rightarrow> [] | Some es \<Rightarrow> map fst es)"

definition parsed_email_of :: "json \<Rightarrow> parsed_email" where
  "parsed_email_of m =
     \<lparr>pe_id = option_or [] (get_str (lit ''id'') m), pe_subject = get_str (lit ''subject'') m,
      pe_from = parse_address_list (json_get (lit ''from'') m),
      pe_to = parse_address_list (json_get (lit ''to'') m),
      pe_received_at = get_str (lit ''receivedAt'') m,
      pe_size = Option.bind (json_get (lit ''size'') m) as_u64,
      pe_keywords = object_keys (json_get (lit ''keywords'') m),
      pe_mailbox_ids = object_keys (json_get (lit ''mailboxIds'') m)\<rparr>"

definition parse_email_get :: "jmap_response \<Rightarrow> parsed_email list sync_result" where
  "parse_email_get resp =
     (case method_list (lit ''Email/get'') (jr_method_responses resp) of
        Inl e \<Rightarrow> Inl e
      | Inr None \<Rightarrow> Inr []
      | Inr (Some l) \<Rightarrow> Inr (map parsed_email_of l))"

section \<open>One email\<close>

definition jmap_id_hash :: "(rstr \<Rightarrow> u64) \<Rightarrow> parsed_email \<Rightarrow> u32" where
  "jmap_id_hash hash em =
     (let h = hash (pe_id em) mod 0xFFFFFFFF + 1
      in if h < 2 ^ 32 then ucast h else 1)"

definition received_at_ms ::
    "('s, 'p) jmap_service \<Rightarrow> parsed_email \<Rightarrow> ('s engine, i64) eff" where
  "received_at_ms sv em =
     (case Option.bind (pe_received_at em) (js_rfc3339 sv) of
        Some ms \<Rightarrow> eff_return ms
      | None \<Rightarrow> read_clock (js_clock sv))"

definition email_flags :: "parsed_email \<Rightarrow> flag list" where
  "email_flags em =
     (if lit ''$seen'' \<in> set (pe_keywords em) then [Seen] else []) @
     (if lit ''$answered'' \<in> set (pe_keywords em) then [Answered] else []) @
     (if lit ''$flagged'' \<in> set (pe_keywords em) then [Flagged] else []) @
     (if lit ''$draft'' \<in> set (pe_keywords em) then [Draft] else [])"

definition format_address :: "parsed_address \<Rightarrow> rstr" where
  "format_address a =
     (case pa_name a of
        Some n \<Rightarrow> if n \<noteq> [] then n @ lit '' <'' @ pa_email a @ lit ''>'' else pa_email a
      | None \<Rightarrow> pa_email a)"

definition to_header :: "parsed_email \<Rightarrow> u32 \<Rightarrow> rstr" where
  "to_header em uid =
     lit ''From: '' @ join (lit '', '') (map format_address (pe_from em)) @ crlf @
     lit ''To: '' @ join (lit '', '') (map format_address (pe_to em)) @ crlf @
     lit ''Subject: '' @ option_or [] (pe_subject em) @ crlf @
     lit ''X-Sync-UID: '' @ dec_of uid @ crlf @ crlf"

text \<open>\<open>role_from_jmap\<close>: only the name is looked at.\<close>

definition role_from_jmap :: "(rstr \<Rightarrow> rstr) \<Rightarrow> rstr \<Rightarrow> folder_role option" where
  "role_from_jmap uc name =
     (let normalized = to_lowercase uc (trim_end (sanitize_terminal_text name));
          last = rsplit_first path_sep normalized
      in if last = lit ''inbox'' \<or> normalized = [] then Some Inbox
         else if last = lit ''sent'' \<or> starts_with last (lit ''sent messages'') then Some Sent
         else if last = lit ''drafts'' then Some Drafts
         else if last = lit ''trash'' \<or> last = lit ''deleted messages'' then Some Trash
         else if last = lit ''junk'' \<or> last = lit ''spam'' then Some Junk
         else if last = lit ''archive'' \<or> last = lit ''all mail'' then Some Archive
         else None)"

section \<open>Ingesting\<close>

definition jmap_message ::
    "('s, 'p) jmap_service \<Rightarrow> folder_row \<Rightarrow> parsed_email \<Rightarrow> i64 \<Rightarrow> 'p ingest_message" where
  "jmap_message sv folder em date =
     (let uid = jmap_id_hash (js_hash sv) em
      in \<lparr>im_folder = fr_id folder, im_uid = uid, im_internal_date = date, im_flags = email_flags em,
          im_parsed = js_parse sv (utf8_encode (to_header em uid)), im_raw_blob = None,
          im_raw_size = option_or 0 (pe_size em)\<rparr>)"

fun jmap_messages ::
    "('s, 'p) jmap_service \<Rightarrow> folder_row \<Rightarrow> parsed_email list \<Rightarrow> ('s engine, 'p ingest_message list) eff" where
  "jmap_messages sv folder [] = eff_return []"
| "jmap_messages sv folder (em # ems) =
     eff_bind (received_at_ms sv em) (\<lambda>date.
     eff_bind (jmap_messages sv folder ems) (\<lambda>ms.
     eff_return (jmap_message sv folder em date # ms)))"

text \<open>The cursor that a new state token leaves, if it reads as a number.\<close>

definition store_state ::
    "('s, 'p) mail_store_ops \<Rightarrow> folder_row \<Rightarrow> rstr option \<Rightarrow> ('s engine, unit) eff" where
  "store_state ops folder new_state =
     (case Option.bind new_state parse_u64 of
        None \<Rightarrow> eff_return ()
      | Some cursor \<Rightarrow> ignoring (run_store (update_sync_cursors ops (fr_id folder) 0 (Some cursor))))"

definition ingest_email_response ::
    "('s, 'p) jmap_service \<Rightarrow> folder_row \<Rightarrow> jmap_response \<Rightarrow> ('s engine, unit sync_result) eff" where
  "ingest_email_response sv folder resp =
     try_bind (eff_lift (parse_email_get resp)) (\<lambda>emails.
     if emails = [] then eff_return (Inr ())
     else
       eff_bind (jmap_messages sv folder emails) (\<lambda>messages.
       try_bind (ingest_and_report (js_storage sv) (js_account sv) (fr_id folder) messages) (\<lambda>_.
       eff_bind (store_state (js_storage sv) folder (jr_new_state resp)) (\<lambda>_.
       eff_return (Inr ())))))"

section \<open>Folders\<close>

definition jmap_folder :: "('s, 'p) jmap_service \<Rightarrow> parsed_mailbox \<Rightarrow> new_folder" where
  "jmap_folder sv mb =
     \<lparr>nf_account = js_account sv, nf_remote_name = pm_name mb, nf_attributes = attributes mb,
      nf_role = role_from_jmap (js_unicode sv) (pm_name mb), nf_delimiter = lit ''/'',
      nf_uid_validity = 0, nf_highest_modseq = 0\<rparr>"

definition jmap_hierarchy ::
    "('s, 'p) jmap_service \<Rightarrow> jmap_client \<Rightarrow> ('s engine, folder_row list sync_result) eff" where
  "jmap_hierarchy sv client =
     try_bind (get_mailboxes (js_http sv) client) (\<lambda>resp.
     try_bind (eff_lift (parse_mailbox_get resp)) (\<lambda>mailboxes.
     eff_bind (eff_each (\<lambda>mb. ignoring (run_store (upsert_folder (js_storage sv) (jmap_folder sv mb)))) mailboxes) (\<lambda>_.
     eff_bind (list_stored_folders (js_storage sv) (js_account sv)) (\<lambda>rows.
     eff_return (Inr rows)))))"

definition since_state_of :: "folder_row \<Rightarrow> rstr option" where
  "since_state_of folder =
     (if 0 < fr_highest_modseq folder then Some (dec_of (fr_highest_modseq folder)) else None)"

definition jmap_sync_folder ::
    "('s, 'p) jmap_service \<Rightarrow> jmap_client \<Rightarrow> folder_row \<Rightarrow> ('s engine, unit sync_result) eff" where
  "jmap_sync_folder sv client folder =
     try_bind (query_emails (js_http sv) client [fr_remote_name folder] (since_state_of folder) 256) (\<lambda>resp.
     ingest_email_response sv folder resp)"

section \<open>The cycle\<close>

text \<open>The pass over the folders: \<open>Inr True\<close> when the token is seen cancelled.\<close>

fun jmap_each ::
    "('s, 'p) jmap_service \<Rightarrow> jmap_client \<Rightarrow> folder_row list \<Rightarrow> ('s engine, bool sync_result) eff" where
  "jmap_each sv client [] = eff_return (Inr False)"
| "jmap_each sv client (f # fs) =
     eff_bind (is_cancelled (js_cancel sv)) (\<lambda>cancelled.
     if cancelled then eff_return (Inr True)
     else try_bind (jmap_sync_folder sv client f) (\<lambda>_. jmap_each sv client fs))"

definition jmap_poll ::
    "('s, 'p) jmap_service \<Rightarrow> jmap_client \<Rightarrow> ('s engine, unit sync_result + unit) eff" where
  "jmap_poll sv client =
     eff_bind (is_cancelled (js_cancel sv)) (\<lambda>cancelled.
     if cancelled then eff_return (Inl (Inr ()))
     else
       eff_bind (emit_state (js_storage sv) (js_account sv) Syncing) (\<lambda>_.
       eff_bind (list_stored_folders (js_storage sv) (js_account sv)) (\<lambda>folders.
       eff_bind (jmap_each sv client folders) (\<lambda>r.
       eff_return (case r of
           Inl e \<Rightarrow> Inl (Inl e)
         | Inr c \<Rightarrow> if c then Inl (Inr ()) else Inr ())))))"

text \<open>The part of the cycle behind the session discovery.\<close>

definition jmap_session_body ::
    "('s, 'p) jmap_service \<Rightarrow> jmap_client \<Rightarrow> ('s engine, unit sync_result) eff" where
  "jmap_session_body sv client =
     eff_bind (emit_state (js_storage sv) (js_account sv) Authenticating) (\<lambda>_.
     eff_bind (emit_state (js_storage sv) (js_account sv) Syncing) (\<lambda>_.
     try_bind (jmap_hierarchy sv client) (\<lambda>folders.
     eff_bind (send_event (FolderTreeChanged (js_account sv))) (\<lambda>sent.
     if \<not> sent then eff_return (Inl (Protocol (lit ''bus closed'')))
     else
       try_bind (jmap_each sv client folders) (\<lambda>cancelled.
       if cancelled then eff_return (Inr ())
       else eff_loop (\<lambda>_. jmap_poll sv client) ())))))"

definition jmap_one_cycle :: "('s, 'p) jmap_service \<Rightarrow> ('s engine, unit sync_result) eff" where
  "jmap_one_cycle sv =
     eff_bind (emit_state (js_storage sv) (js_account sv) Connecting) (\<lambda>_.
     try_bind (eff_lift (map_err (\<lambda>e. Protocol (lit ''http client: '' @ e)) (js_http_client sv))) (\<lambda>_.
     try_bind (discover (js_http sv) (js_host sv) (js_token sv)) (\<lambda>client.
     jmap_session_body sv client)))"

definition jmap_run :: "('s, 'p) jmap_service \<Rightarrow> ('s engine, unit) eff" where
  "jmap_run sv = reconnect (js_cancel sv) (js_storage sv) (js_account sv) (jmap_one_cycle sv)"

end
