(* ===== verification/Jmap_Facts.thy ===== *)
theory Jmap_Facts
  imports Jmap_Sync Sync_Demo
begin

text \<open>
  The JMAP engine against its vocabulary and the host's store (\<open>src/src/jmap_sync.rs\<close>): reading
  responses, folder roles, UIDs made from email ids, state tokens, and what a folder pass does to the
  store.
\<close>

section \<open>Reading responses\<close>

lemma method_list_skip:
  assumes "list_all (\<lambda>item. \<exists>arr. as_array item = Some arr
      \<and> (length arr < 2 \<or> option_or [] (as_str (arr ! 0)) \<noteq> name)) pre"
  shows "method_list name (pre @ items) = method_list name items"
  using assms by (induction pre) auto

lemma method_list_hit:
  assumes "2 \<le> length arr" "as_str (arr ! 0) = Some name"
  shows "method_list name (J_Array arr # items) =
    (case Option.bind (json_get (lit ''list'') (arr ! 1)) as_array of
       None \<Rightarrow> Inl (Protocol (name @ lit '': missing list'')) | Some l \<Rightarrow> Inr (Some l))"
  using assms by simp

text \<open>
  An \<open>Email/get\<close> answer is found behind the answers to other methods: every entry of its list
  becomes one email, in order, whatever the entries hold, and nothing that follows it is looked at.
\<close>

lemma email_get_found:
  assumes "list_all (\<lambda>item. \<exists>arr. item = J_Array arr \<and> 2 \<le> length arr
      \<and> (\<exists>m. arr ! 0 = J_String m \<and> m \<noteq> lit ''Email/get'')) pre"
  shows "parse_email_get
      \<lparr>jr_method_responses = pre @ J_Array (J_String (lit ''Email/get'') # J_Object es # rest) # post,
       jr_new_state = st\<rparr> =
    (case map_of es (lit ''list'') of
       Some (J_Array l) \<Rightarrow> Inr (map parsed_email_of l)
     | _ \<Rightarrow> Inl (Protocol (lit ''Email/get: missing list'')))"
proof -
  have "list_all (\<lambda>item. \<exists>arr. as_array item = Some arr
      \<and> (length arr < 2 \<or> option_or [] (as_str (arr ! 0)) \<noteq> lit ''Email/get'')) pre"
    using assms by (rule list.pred_mono_strong) auto
  from method_list_skip [OF this] show ?thesis
    by (simp add: parse_email_get_def method_list_hit json_get_def lit_append [symmetric]
        split: option.splits json.splits)
qed

section \<open>Roles\<close>

text \<open>
  C28. Both engines give a folder the same role by its name: \<open>role_from_jmap\<close> is the IMAP engine's
  \<open>role_from\<close> without attributes, although the two test the names in different orders.
\<close>

theorem roles_agree: "role_from_jmap uc name = role_from uc name []"
proof -
  let ?n = "role_name uc name" and ?l = "rsplit_first path_sep (role_name uc name)"
  have attrs: "to_lowercase uc (join (lit '' '') []) = []" by (simp add: to_lowercase_def)
  have name: "to_lowercase uc (trim_end (sanitize_terminal_text name)) = ?n" by (simp add: role_name_def)
  have no_sent: "\<not> starts_with (lit ''inbox'') (lit ''sent messages'')" "\<not> starts_with [] (lit ''sent messages'')"
    by (simp_all add: starts_with_def lit_def)
  consider "?n = []" | "?l = lit ''inbox''" | "?n \<noteq> []" "?l \<noteq> lit ''inbox''" by blast
  then show ?thesis
  proof cases
    case 1
    then show ?thesis unfolding role_from_jmap_def role_from_def Let_def name attrs by (simp add: no_sent)
  next
    case 2
    then show ?thesis unfolding role_from_jmap_def role_from_def Let_def name attrs by (simp add: no_sent)
  next
    case 3
    then show ?thesis unfolding role_from_jmap_def role_from_def Let_def name attrs by simp
  qed
qed

section \<open>UIDs\<close>

text \<open>
  The UID made from a JMAP id depends on the id alone, is a valid IMAP UID (never 0), and is one
  more than the hash modulo \<open>2 ^ 32 - 1\<close>: the fallback of the conversion is never taken.
\<close>

lemma jmap_uid_valid:
  "jmap_id_hash hash em \<noteq> 0 \<and> unat (jmap_id_hash hash em) = unat (hash (pe_id em)) mod (2 ^ 32 - 1) + 1"
proof -
  let ?m = "unat (hash (pe_id em)) mod (2 ^ 32 - 1)"
  have m: "?m < 2 ^ 32 - 1" by (rule mod_less_divisor) simp
  have u: "unat (hash (pe_id em) mod 0xFFFFFFFF) = ?m" by (simp add: unat_mod)
  have h: "unat (hash (pe_id em) mod 0xFFFFFFFF + 1) = ?m + 1"
    using m by (simp add: unat_word_ariths u)
  then have "hash (pe_id em) mod 0xFFFFFFFF + 1 < 2 ^ 32"
    using m by (simp add: word_less_nat_alt)
  then have "jmap_id_hash hash em = ucast (hash (pe_id em) mod 0xFFFFFFFF + 1)"
    by (simp add: jmap_id_hash_def Let_def)
  moreover have "unat (ucast (hash (pe_id em) mod 0xFFFFFFFF + 1) :: u32) = ?m + 1"
    using m by (simp add: unsigned_ucast_eq take_bit_nat_eq_self h)
  ultimately have "unat (jmap_id_hash hash em) = ?m + 1" by simp
  then show ?thesis by (auto simp: unat_eq_0 [symmetric])
qed

section \<open>State tokens\<close>

text \<open>
  C30. A state token survives the trip through the store exactly as a number: a token that reads as
  a \<open>u64\<close> is sent back as its decimal form, so a positive canonical decimal comes back unchanged;
  the token 0 is never sent back, and a token that is no number leaves the stored one in place.
\<close>

theorem state_token_roundtrip:
  assumes "find (\<lambda>r. fr_id r = fr_id folder) (mk_folders (en_store e)) = Some row0"
  shows "\<exists>e' row. store_state (mock_ops env :: (mock_state, 'p) mail_store_ops) folder (Some s) e = Some ((), e')
    \<and> mock_get_folder env (fr_id folder) (en_store e') = (Inr row, en_store e')
    \<and> since_state_of row = (case parse_u64 s of
          None \<Rightarrow> since_state_of row0
        | Some w \<Rightarrow> if w = 0 then None else Some (dec_of w))
    \<and> (\<forall>w :: u64. w \<noteq> 0 \<and> s = dec_of w \<longrightarrow> since_state_of row = Some s)"
proof (cases "parse_u64 s")
  case None
  then have "s \<noteq> dec_of w" for w :: u64 using parse_u64_dec_of [of w] by auto
  with None assms show ?thesis by (simp add: store_state_def mock_get_folder_def eff_return_def)
next
  case (Some w)
  define r where "r = mock_update_sync_cursors env (fr_id folder) 0 (Some w) (en_store e)"
  have ok: "r = (Inr (), snd r)" using assms by (simp add: r_def mock_update_sync_cursors_def)
  then have "mock_cursors (snd r) (fr_id folder) = Some (0, w)"
    using mock_cursors_update [of env "fr_id folder" 0 "Some w" "en_store e" "Inr ()" "snd r"]
    by (auto simp: r_def)
  then obtain row where row: "find (\<lambda>r. fr_id r = fr_id folder) (mk_folders (snd r)) = Some row"
    "fr_highest_modseq row = w" by (auto simp: mock_cursors_def)
  have same: "v = w" if "s = dec_of v" for v using that Some parse_u64_dec_of [of v] by simp
  have run: "store_state (mock_ops env :: (mock_state, 'p) mail_store_ops) folder (Some s) e
      = Some ((), e\<lparr>en_store := snd r\<rparr>)"
    using Some by (simp add: store_state_def ignoring_def eff_bind_def run_store_def r_def case_prod_unfold Let_def)
  have "since_state_of row = (if w = 0 then None else Some (dec_of w))"
    using row(2) word_neq_0_conv by (auto simp: since_state_of_def)
  with run row(1) Some same show ?thesis
    by (intro exI [of _ "e\<lparr>en_store := snd r\<rparr>"] exI [of _ row]) (auto simp: mock_get_folder_def)
qed

theorem state_token_roundtrip_witness:
  "\<exists>e' row. store_state (mock_ops demo_env :: (mock_state, unit) mail_store_ops) (demo_row (FolderId 1) 0 0)
      (Some (dec_of (99 :: u64))) demo_engine = Some ((), e')
    \<and> mock_get_folder demo_env (FolderId 1) (en_store e') = (Inr row, en_store e')
    \<and> since_state_of row = Some (dec_of (99 :: u64))"
proof -
  have "find (\<lambda>r. fr_id r = fr_id (demo_row (FolderId 1) 0 0)) (mk_folders (en_store demo_engine))
      = Some (demo_row (FolderId 1) 5 7)"
    by (simp add: demo_engine_def demo_store_def)
  from state_token_roundtrip [OF this, of demo_env "dec_of (99 :: u64)"] show ?thesis
    by (auto simp: parse_u64_dec_of)
qed

text \<open>
  A delta without emails does not advance the token: when the \<open>Email/get\<close> answer is empty or
  absent, the pass ends before the new state is looked at, and nothing has changed.
\<close>

lemma empty_delta_keeps_token:
  assumes "parse_email_get resp = Inr []"
  shows "ingest_email_response sv folder (resp\<lparr>jr_new_state := st\<rparr>) e = Some (Inr (), e)"
proof -
  have "parse_email_get (resp\<lparr>jr_new_state := st\<rparr>) = Inr []"
    using assms by (simp add: parse_email_get_def)
  then show ?thesis by (simp add: ingest_email_response_def try_bind_def eff_lift_def eff_return_def)
qed

end
