(* ===== verification/Cycle_Logic.thy ===== *)
theory Cycle_Logic
  imports Reconnect
begin

text \<open>
  Two small logics for the cycles of the engines, generic in the state an operation works on (the
  engine alone, or the engine and a session) by a view \<open>v\<close> of the engine in it: \<open>tells\<close>, for what a
  result says about the token, and \<open>conducts\<close>, for the connection states reported on the way.
\<close>

definition via :: "('st \<Rightarrow> 's engine) \<Rightarrow> ('s engine \<Rightarrow> 's engine \<Rightarrow> bool) \<Rightarrow> 'st \<Rightarrow> 'st \<Rightarrow> bool" where
  "via v P w w' \<longleftrightarrow> P (v w) (v w')"

lemma via_self: "via (\<lambda>e. e) P = P"
  by (intro ext) (simp add: via_def)

lemma on_engines_via: "on_engines P = via fst P"
  by (intro ext) (simp add: via_def on_engines_def)

section \<open>Results that show a cancelled token\<close>

text \<open>\<open>tells v c P m\<close>: a result of \<open>m\<close> with property \<open>P\<close> shows that the token was seen cancelled.\<close>

definition tells :: "('st \<Rightarrow> 's engine) \<Rightarrow> (nat \<Rightarrow> bool) \<Rightarrow> ('r \<Rightarrow> bool) \<Rightarrow> ('st, 'r) eff \<Rightarrow> bool" where
  "tells v c P m \<longleftrightarrow> (\<forall>w r w'. m w = Some (r, w') \<longrightarrow> P r \<longrightarrow> saw_cancel c (v w) (v w'))"

lemma tellsD: "tells v c P m \<Longrightarrow> m w = Some (r, w') \<Longrightarrow> P r \<Longrightarrow> saw_cancel c (v w) (v w')"
  unfolding tells_def by blast

lemma view_tells_bind:
  assumes "keeps (via v steady) m" "\<And>a. tells v c P (k a)"
  shows "tells v c P (eff_bind m k)"
  unfolding tells_def
proof (intro allI impI)
  fix w r w'
  assume "eff_bind m k w = Some (r, w')" and P: "P r"
  then obtain a w1 where run: "m w = Some (a, w1)" "k a w1 = Some (r, w')"
    by (auto simp: eff_bind_Some)
  have "steady (v w) (v w1)" using keepsD [OF assms(1) run(1)] by (simp add: via_def)
  then show "saw_cancel c (v w) (v w')"
    by (rule saw_cancel_earlier [OF _ tellsD [OF assms(2) run(2) P]])
qed

lemma view_tells_bind_val:
  assumes "tells v c V m" "keeps (via v steady) m" "\<And>a. keeps (via v steady) (k a)"
    and "\<And>a. \<not> V a \<Longrightarrow> tells v c P (k a)"
  shows "tells v c P (eff_bind m k)"
  unfolding tells_def
proof (intro allI impI)
  fix w r w'
  assume "eff_bind m k w = Some (r, w')" and P: "P r"
  then obtain a w1 where run: "m w = Some (a, w1)" "k a w1 = Some (r, w')"
    by (auto simp: eff_bind_Some)
  have st: "steady (v w) (v w1)" "steady (v w1) (v w')"
    using keepsD [OF assms(2) run(1)] keepsD [OF assms(3) run(2)] by (simp_all add: via_def)
  show "saw_cancel c (v w) (v w')"
  proof (cases "V a")
    case True
    from saw_cancel_later [OF tellsD [OF assms(1) run(1) True] st(2)] show ?thesis .
  next
    case False
    from saw_cancel_earlier [OF st(1) tellsD [OF assms(4) [OF False] run(2) P]] show ?thesis .
  qed
qed

lemma tells_never: "(\<And>w r w'. m w = Some (r, w') \<Longrightarrow> \<not> P r) \<Longrightarrow> tells v c P m"
  unfolding tells_def by blast

lemma tells_return: "\<not> P a \<Longrightarrow> tells v c P (eff_return a)"
  by (simp add: tells_def)

lemma view_tells_try_bind:
  assumes "keeps (via v steady) m" "\<And>e. \<not> P (Inl e)" "\<And>a. tells v c P (k a)"
  shows "tells v c P (try_bind m k)"
  unfolding try_bind_bind
proof (rule view_tells_bind [OF assms(1)])
  show "tells v c P (case r of Inl e \<Rightarrow> eff_return (Inl e) | Inr a \<Rightarrow> k a)" for r
    by (cases r) (simp_all add: assms(2,3) tells_return)
qed

lemma view_tells_cancelled:
  assumes "tells v c (\<lambda>b. b) look" "keeps (via v steady) look"
    and "keeps (via v steady) m" "keeps (via v steady) k" "tells v c P k"
  shows "tells v c P (eff_bind look (\<lambda>b. if b then m else k))"
  by (rule view_tells_bind_val [OF assms(1,2)]) (auto intro: assms)

lemma view_tells_loop:
  assumes "\<And>a. keeps (via v steady) (m a)"
    and "\<And>a. tells v c (\<lambda>r. \<exists>x. r = Inl x \<and> P x) (m a)"
  shows "tells v c P (eff_loop m a)"
  unfolding tells_def
proof (intro allI impI)
  fix w r w'
  assume run: "eff_loop m a w = Some (r, w')" and P: "P r"
  have "P r \<longrightarrow> saw_cancel c (v w) (v w')"
  proof (rule eff_loop_rule [OF run, where I = "\<lambda>_ u. steady (v w) (v u)"])
    show "steady (v w) (v w)" by (simp add: steady_def)
    show "steady (v w) (v u')" if "steady (v w) (v u)" "m b u = Some (Inr b', u')" for b u b' u'
      using that keepsD [OF assms(1) that(2)] by (simp add: steady_def via_def)
    show "P r \<longrightarrow> saw_cancel c (v w) (v u')" if "steady (v w) (v u)" "m b u = Some (Inl r, u')" for b u r u'
      using saw_cancel_earlier [OF that(1)] tellsD [OF assms(2) that(2)] by blast
  qed
  then show "saw_cancel c (v w) (v w')" using P by blast
qed

section \<open>Operations that report states\<close>

text \<open>
  \<open>conducts v a S m T\<close>: from a state in \<open>S\<close>, a run of \<open>m\<close> with result \<open>r\<close> moves to one in \<open>T r\<close>.
\<close>

definition conducts ::
    "('st \<Rightarrow> 's engine) \<Rightarrow> account_id \<Rightarrow> connection_state set \<Rightarrow> ('st, 'r) eff
       \<Rightarrow> ('r \<Rightarrow> connection_state set) \<Rightarrow> bool" where
  "conducts v a S m T \<longleftrightarrow> (\<forall>w r w'. m w = Some (r, w') \<longrightarrow> (\<forall>s \<in> S. \<exists>t \<in> T r. moves a s t (v w) (v w')))"

lemma conductsI:
  "(\<And>w r w' s. m w = Some (r, w') \<Longrightarrow> s \<in> S \<Longrightarrow> \<exists>t \<in> T r. moves a s t (v w) (v w')) \<Longrightarrow> conducts v a S m T"
  unfolding conducts_def by blast

lemma conductsD:
  "conducts v a S m T \<Longrightarrow> m w = Some (r, w') \<Longrightarrow> s \<in> S \<Longrightarrow> \<exists>t \<in> T r. moves a s t (v w) (v w')"
  unfolding conducts_def by blast

lemma view_conducts_quiet:
  assumes "keeps (via v (quiet a)) m"
  shows "conducts v a S m (\<lambda>_. S)"
proof (rule conductsI)
  fix w r w' s
  assume "m w = Some (r, w')" "s \<in> S"
  then show "\<exists>t \<in> S. moves a s t (v w) (v w')"
    using quiet_moves keepsD [OF assms] unfolding via_def by blast
qed

lemma conducts_mono: "conducts v a S m T \<Longrightarrow> S' \<subseteq> S \<Longrightarrow> (\<And>r. T r \<subseteq> T' r) \<Longrightarrow> conducts v a S' m T'"
  unfolding conducts_def by blast

lemma conducts_return: "S \<subseteq> T r \<Longrightarrow> conducts v a S (eff_return r) T"
  by (rule conductsI) (auto simp: moves_def intro!: bexI [of _ "_ :: connection_state"] exI [of _ "[]"])

lemma conducts_bind:
  assumes "conducts v a S m T" and "\<And>r. conducts v a (T r) (k r) U"
  shows "conducts v a S (eff_bind m k) U"
proof (rule conductsI)
  fix w r w' s
  assume "eff_bind m k w = Some (r, w')" and s: "s \<in> S"
  then obtain x w1 where run: "m w = Some (x, w1)" "k x w1 = Some (r, w')" by (auto simp: eff_bind_Some)
  obtain t where t: "t \<in> T x" "moves a s t (v w) (v w1)" using conductsD [OF assms(1) run(1) s] by blast
  obtain u where "u \<in> U r" "moves a t u (v w1) (v w')" using conductsD [OF assms(2) run(2) t(1)] by blast
  with t show "\<exists>u \<in> U r. moves a s u (v w) (v w')" using moves_trans by blast
qed

lemma conducts_try_bind:
  assumes "conducts v a S m T" and "\<And>r. conducts v a (T (Inr r)) (k r) U" and "\<And>e. T (Inl e) \<subseteq> U (Inl e)"
  shows "conducts v a S (try_bind m k) U"
  unfolding try_bind_bind
proof (rule conducts_bind [OF assms(1)])
  show "conducts v a (T r) (case r of Inl e \<Rightarrow> eff_return (Inl e) | Inr b \<Rightarrow> k b) U" for r
    by (cases r) (use assms(2,3) in \<open>auto intro: conducts_return simp del: eff_simps\<close>)
qed

lemma conducts_loop:
  assumes "\<And>x. conducts v a S (m x) (\<lambda>r. case r of Inl y \<Rightarrow> T y | Inr _ \<Rightarrow> S)"
  shows "conducts v a S (eff_loop m x) T"
proof (rule conductsI)
  fix w r w' s
  assume run: "eff_loop m x w = Some (r, w')" and s: "s \<in> S"
  show "\<exists>t \<in> T r. moves a s t (v w) (v w')"
  proof (rule eff_loop_rule [OF run, where I = "\<lambda>_ w1. \<exists>t \<in> S. moves a s t (v w) (v w1)"
        and Q = "\<lambda>r w'. \<exists>t \<in> T r. moves a s t (v w) (v w')"])
    show "\<exists>t \<in> S. moves a s t (v w) (v w)"
      using s by (auto simp: moves_def intro!: bexI [of _ s] exI [of _ "[]"])
    show "\<exists>t \<in> S. moves a s t (v w) (v w2)"
      if "\<exists>t \<in> S. moves a s t (v w) (v w1)" "m b w1 = Some (Inr b', w2)" for b w1 b' w2
      using that(1) conductsD [OF assms that(2)] moves_trans by fastforce
    show "\<exists>t \<in> T y. moves a s t (v w) (v w2)"
      if "\<exists>t \<in> S. moves a s t (v w) (v w1)" "m b w1 = Some (Inl y, w2)" for b w1 y w2
      using that(1) conductsD [OF assms that(2)] moves_trans by fastforce
  qed
qed

lemma view_conducts_skip:
  assumes "keeps (via v (quiet a)) m" "\<And>r. conducts v a S (k r) T"
  shows "conducts v a S (eff_bind m k) T"
  by (rule conducts_bind [OF view_conducts_quiet [OF assms(1)] assms(2)])

lemma view_conducts_cancelled:
  assumes "keeps (via v (quiet a)) look" "conducts v a S m T" "conducts v a S k T"
  shows "conducts v a S (eff_bind look (\<lambda>b. if b then m else k)) T"
proof (rule view_conducts_skip [OF assms(1)])
  show "conducts v a S (if b then m else k) T" for b by (cases b) (simp_all add: assms)
qed

section \<open>The rules for a cycle with a session\<close>

lemma tells_look: "tells fst c (\<lambda>b. b) (on_engine (is_cancelled c))"
  by (auto simp: tells_def on_engine_Some saw_cancel_def)

lemmas tells_bind = view_tells_bind [where v = "fst :: ('s, 'c) world \<Rightarrow> 's engine", folded on_engines_via]
  and tells_bind_val = view_tells_bind_val [where v = "fst :: ('s, 'c) world \<Rightarrow> 's engine", folded on_engines_via]
  and tells_try_bind = view_tells_try_bind [where v = "fst :: ('s, 'c) world \<Rightarrow> 's engine", folded on_engines_via]
  and tells_loop = view_tells_loop [where v = "fst :: ('s, 'c) world \<Rightarrow> 's engine", folded on_engines_via]
  and session_tells_cancelled = view_tells_cancelled [where v = "fst :: ('s, 'c) world \<Rightarrow> 's engine", folded on_engines_via]
  and session_conducts_cancelled = view_conducts_cancelled [where v = "fst :: ('s, 'c) world \<Rightarrow> 's engine", folded on_engines_via]

lemma tells_cancelled:
  assumes "keeps (on_engines steady) m" "keeps (on_engines steady) k" "tells fst c P k"
  shows "tells fst c P (eff_bind (on_engine (is_cancelled c)) (\<lambda>b. if b then m else k))"
  by (rule session_tells_cancelled [OF tells_look _ assms]) (intro keeps_intros)

lemmas conducts_quiet = view_conducts_quiet [where v = "fst :: ('s, 'c) world \<Rightarrow> 's engine", folded on_engines_via]
  and conducts_skip = view_conducts_skip [where v = "fst :: ('s, 'c) world \<Rightarrow> 's engine", folded on_engines_via]

lemma conducts_look:
  assumes "conducts fst a S m T" "conducts fst a S k T"
  shows "conducts fst a S (eff_bind (on_engine (is_cancelled c)) (\<lambda>b. if b then m else k)) T"
  by (rule session_conducts_cancelled [OF _ assms]) (intro keeps_intros)

section \<open>The rules for a cycle on the engine alone\<close>

lemma engine_tells_look: "tells (\<lambda>e. e) c (\<lambda>b. b) (is_cancelled c)"
  by (auto simp: tells_def saw_cancel_def)

lemmas engine_tells_bind = view_tells_bind [where v = "\<lambda>e. e", unfolded via_self]
  and engine_tells_bind_val = view_tells_bind_val [where v = "\<lambda>e. e", unfolded via_self]
  and engine_tells_try_bind = view_tells_try_bind [where v = "\<lambda>e. e", unfolded via_self]
  and engine_tells_loop = view_tells_loop [where v = "\<lambda>e. e", unfolded via_self]

lemma engine_tells_cancelled:
  assumes "keeps steady m" "keeps steady k" "tells (\<lambda>e. e) c P k"
  shows "tells (\<lambda>e. e) c P (eff_bind (is_cancelled c) (\<lambda>b. if b then m else k))"
  by (rule view_tells_cancelled [where v = "\<lambda>e. e", unfolded via_self, OF engine_tells_look _ assms])
    (intro keeps_intros)

lemmas engine_conducts_quiet = view_conducts_quiet [where v = "\<lambda>e. e", unfolded via_self]
  and engine_conducts_skip = view_conducts_skip [where v = "\<lambda>e. e", unfolded via_self]

lemma engine_conducts_look:
  assumes "conducts (\<lambda>e. e) a S m T" "conducts (\<lambda>e. e) a S k T"
  shows "conducts (\<lambda>e. e) a S (eff_bind (is_cancelled c) (\<lambda>b. if b then m else k)) T"
  by (rule view_conducts_cancelled [where v = "\<lambda>e. e", unfolded via_self, OF _ assms]) (intro keeps_intros)

lemma engine_conducts_emit:
  assumes "\<And>s. s \<in> S \<Longrightarrow> conn_step s st"
  shows "conducts (\<lambda>e. e) a S (emit_state ops a st) (\<lambda>_. {st})"
  by (rule conductsI) (auto dest: emit_state_moves [OF _ assms])

end
