(* ===== verification/Engine_Parts.thy ===== *)
theory Engine_Parts
  imports Sync_Run Jmap_Sync
begin

text \<open>
  What the parts of a cycle do to the engine's state, for both engines at once: a relation that the
  elementary effects keep is kept by a folder pass, the folder listing and, if it is also kept by
  the report of a connection state, by a whole cycle.
\<close>

lemma http_keeps:
  assumes "keeps_order P" "\<And>e n. P e (e\<lparr>en_connects := n\<rparr>)"
  shows "keeps P (get_mailboxes h client)" "keeps P (query_emails h client ids st n)"
    "keeps P (discover h host token)"
proof -
  have "keeps P (http_send h req)" for req
    by (rule keepsI) (simp add: http_send_Some assms(2))
  then show "keeps P (get_mailboxes h client)" "keeps P (query_emails h client ids st n)"
    "keeps P (discover h host token)"
    unfolding get_mailboxes_def query_emails_def call_def discover_def
    by (intro keeps_intros assms(1); assumption)+
qed

locale engine_parts =
  fixes P :: "'s engine \<Rightarrow> 's engine \<Rightarrow> bool"
    and ops :: "('s, 'p) mail_store_ops"
  assumes order: "keeps_order P"
    and clock: "keeps P (read_clock c)"
    and token: "keeps P (is_cancelled d)"
    and connects: "P e (e\<lparr>en_connects := n\<rparr>)"
    and push: "(\<And>a st. ev \<noteq> AccountConnection a st) \<Longrightarrow> keeps P (push_event ev)"
    and send: "(\<And>a st. ev \<noteq> AccountConnection a st) \<Longrightarrow> keeps P (send_event ev)"
    and upsert: "keeps P (run_store (upsert_folder ops nf))"
    and listing: "keeps P (run_store (list_folders ops ac))"
    and lookup: "keeps P (run_store (get_folder ops f))"
    and batch: "keeps P (run_store (ingest_batch ops b))"
    and window: "keeps P (run_store (list_messages ops f w srt))"
    and purge: "keeps P (run_store (purge_folder ops f))"
    and cursor: "keeps P (run_store (update_sync_cursors ops f v q))"
    and largest: "keeps P (run_store (max_uid ops f))"
    and blob: "keeps P (run_store (write_blob ops bs))"
begin

lemmas basics = order clock token upsert listing lookup batch window purge cursor largest blob

lemma stored: "keeps P (list_stored_folders ops a)"
proof -
  have "keeps P (get_folders ops fs)" for fs
    by (induction fs; unfold get_folders.simps; intro keeps_intros basics)
  then show ?thesis unfolding list_stored_folders_def by (intro keeps_intros basics)
qed

lemma report: "keeps P (ingest_and_report ops a f ms)"
  unfolding ingest_and_report_def mail_arrived_def by (intro keeps_intros basics push) simp

section \<open>IMAP\<close>

lemma fetched: "keeps P (fetched_messages sv folder ds)"
  by (induction sv folder ds rule: fetched_messages.induct)
    (auto intro!: keeps_intros basics simp del: eff_simps effect_simps)

lemma lookups: "keeps P (messages_by_uids ops f us)"
  by (induction us; unfold messages_by_uids.simps message_by_uid_def page_step_def; intro keeps_intros basics)

lemma imap_pass: "sv_storage sv = ops \<Longrightarrow> keeps (on_engines P) (sync_folder sv folder)"
  unfolding sync_folder_def sync_selected_def reconcile_def Let_def delta_fetch_def fetch_and_ingest_def
    flag_pass_def flag_changes_def prefetch_recent_def prefetch_one_def store_body_def ingest_fetch_data_def
  by (simp only:) (intro keeps_intros basics fetched report lookups push; simp)

lemma imap_each: "sv_storage sv = ops \<Longrightarrow> keeps (on_engines P) (sync_each sv fs)"
  by (induction fs; unfold sync_each.simps; intro keeps_intros basics imap_pass; assumption)

lemma imap_folders: "sv_storage sv = ops \<Longrightarrow> keeps (on_engines P) (sync_hierarchy sv)"
  unfolding sync_hierarchy_def by (simp only:) (intro keeps_intros basics stored)

lemma imap_leave: "keeps (on_engines P) (leave sv)"
  unfolding leave_def by (intro keeps_intros basics)

section \<open>JMAP\<close>

lemmas http = http_keeps [OF order connects]

lemma jmap_read: "keeps P (jmap_messages sv folder ems)"
  by (induction ems; unfold jmap_messages.simps received_at_ms_def; intro keeps_intros basics)

lemma jmap_pass: "js_storage sv = ops \<Longrightarrow> keeps P (jmap_sync_folder sv client folder)"
  unfolding jmap_sync_folder_def ingest_email_response_def store_state_def
  by (simp only:) (intro keeps_intros basics http jmap_read report)

lemma jmap_passes: "js_storage sv = ops \<Longrightarrow> keeps P (jmap_each sv client fs)"
  by (induction fs; unfold jmap_each.simps; intro keeps_intros basics jmap_pass; assumption)

lemma jmap_folders: "js_storage sv = ops \<Longrightarrow> keeps P (jmap_hierarchy sv client)"
  unfolding jmap_hierarchy_def by (simp only:) (intro keeps_intros basics http stored)

end

section \<open>Whole cycles\<close>

locale engine_cycles = engine_parts +
  assumes states: "keeps P (emit_state ops ac st)"
begin

lemma imap_state: "sv_storage sv = ops \<Longrightarrow> keeps (on_engines P) (enter_state sv st)"
  unfolding enter_state_def by (simp only:) (intro keeps_intros states)

lemma imap_after_pass:
  "sv_storage sv = ops \<Longrightarrow> keeps (on_engines P) k \<Longrightarrow> keeps (on_engines P) (after_pass sv k)"
  unfolding after_pass_def sync_stored_def
  by (intro keeps_intros basics imap_state imap_each imap_leave; (simp only:)?) (intro keeps_intros stored)

lemma imap_rounds:
  assumes "sv_storage sv = ops"
  shows "keeps (on_engines P) (poll_round sv)" "keeps (on_engines P) (idle_round sv)"
  unfolding poll_round_def idle_round_def
  by (intro keeps_intros basics imap_leave imap_after_pass imap_state assms)+

lemma imap_body: "sv_storage sv = ops \<Longrightarrow> keeps (on_engines P) (cycle_body sv)"
  unfolding cycle_body_def
  by (intro keeps_intros basics imap_state imap_folders imap_each imap_rounds send; simp)

lemma imap_session:
  assumes "keeps (on_engines P) body"
  shows "keeps P (with_session sv body)"
proof (rule keepsI)
  fix e r e'
  assume "with_session sv body e = Some (r, e')"
  moreover have "P (e\<lparr>en_connects := Suc (en_connects e)\<rparr>) (fst w)"
    if "body (e\<lparr>en_connects := Suc (en_connects e)\<rparr>, s) = Some (a, w)" for s a w
    using keepsD [OF assms that] by (simp add: on_engines_def)
  ultimately show "P e e'"
    using connects [of e "Suc (en_connects e)"] keeps_order_trans [OF order]
    by (auto simp: with_session_def Let_def split: option.splits sum.splits)
qed

lemma imap_cycle: "sv_storage sv = ops \<Longrightarrow> keeps P (run_one_cycle sv)"
  unfolding run_one_cycle_def by (intro keeps_intros order imap_session imap_body) (simp_all add: states)

lemma jmap_round: "js_storage sv = ops \<Longrightarrow> keeps P (jmap_poll sv client)"
  unfolding jmap_poll_def by (simp only:) (intro keeps_intros basics states stored jmap_passes; simp)

lemma jmap_cycle: "js_storage sv = ops \<Longrightarrow> keeps P (jmap_one_cycle sv)"
  unfolding jmap_one_cycle_def jmap_session_body_def
  by (simp only:) (intro keeps_intros basics states http jmap_folders jmap_passes jmap_round send; simp)

end

end
