(* ===== verification/Sync_Run_Facts.thy ===== *)
theory Sync_Run_Facts
  imports Sync_Demo Cycle_Logic Engine_Parts
begin

text \<open>
  The reconnect loop and the cycle (\<open>run\<close>, \<open>run_one_cycle\<close> of \<open>src/src/sync.rs\<close>): what ends a
  cycle, which waits lie between cycles, and the path of the reported connection states.
\<close>

interpretation steady: engine_cycles steady ops for ops
  by unfold_locales (auto intro: keeps_intros simp: steady_def)

lemmas steady_parts [keeps_intros] = steady.stored steady.report steady.imap_pass [OF refl]
  steady.imap_folders [OF refl] steady.imap_each [OF refl] steady.imap_leave steady.imap_state [OF refl]
  steady.imap_after_pass [OF refl] steady.imap_rounds [OF refl] steady.http steady.jmap_pass [OF refl] steady.jmap_folders [OF refl]
  steady.jmap_passes [OF refl] steady.jmap_round [OF refl]

section \<open>What ends a cycle\<close>

lemma sync_each_tells: "tells fst (sv_cancel sv) (\<lambda>r. r = Inr True) (sync_each sv fs)"
proof (induction fs)
  case (Cons f fs)
  then show ?case
    unfolding sync_each.simps by (intro tells_cancelled tells_try_bind keeps_intros) simp_all
qed (simp add: tells_def)

lemma after_pass_tells:
  assumes "keeps (on_engines steady) k" "tells fst (sv_cancel sv) P k" "\<And>e. \<not> P (Inl (Inl e))"
  shows "tells fst (sv_cancel sv) P (after_pass sv k)"
  unfolding after_pass_def sync_stored_def
proof (rule tells_bind_val [where V = "\<lambda>r. r = Inr True"], goal_cases)
  case 1
  show ?case by (intro tells_bind sync_each_tells keeps_intros)
next
  case 2
  show ?case by (intro keeps_intros)
next
  case 3
  show ?case by (intro keeps_intros assms(1))
next
  case (4 r)
  then show ?case by (cases r) (simp_all add: assms tells_return)
qed

lemma rounds_tell:
  "tells fst (sv_cancel sv) (\<lambda>r. \<exists>x. r = Inl x \<and> x = Inr ()) (poll_round sv)"
  "tells fst (sv_cancel sv) (\<lambda>r. \<exists>x. r = Inl x \<and> x = Inr ()) (idle_round sv)"
proof -
  let ?P = "\<lambda>r. \<exists>x. r = Inl x \<and> x = Inr ()"
  show "tells fst (sv_cancel sv) ?P (poll_round sv)"
    unfolding poll_round_def by (intro tells_cancelled after_pass_tells tells_return keeps_intros) simp_all
  have pass: "tells fst (sv_cancel sv) ?P (after_pass sv
      (eff_bind (enter_state sv Idle) (\<lambda>_. eff_return (Inr ()))))"
    by (intro after_pass_tells tells_bind tells_return keeps_intros) simp_all
  show "tells fst (sv_cancel sv) ?P (idle_round sv)"
    unfolding idle_round_def
  proof (rule tells_cancelled, goal_cases)
    case 3
    show ?case
    proof (rule tells_bind, goal_cases)
      case (2 r)
      show ?case
      proof (cases r)
        case (Inr woke)
        show ?thesis
          unfolding Inr sum.case
          by (rule tells_cancelled; cases "woke = []") (use pass in \<open>auto intro!: keeps_intros tells_return simp del: eff_simps\<close>)
      qed (simp add: tells_return)
    qed (intro keeps_intros)
  qed (intro keeps_intros)+
qed

text \<open>The part of the cycle behind the delta pass.\<close>

lemma watch_tells:
  "tells fst (sv_cancel sv) (\<lambda>r. r = Inr ()) (eff_bind (on_session (eff_get c)) (\<lambda>idle_supported.
     if should_poll sv idle_supported then eff_loop (\<lambda>_. poll_round sv) ()
     else eff_bind (enter_state sv Idle) (\<lambda>_. eff_loop (\<lambda>_. idle_round sv) ())))"
proof (rule tells_bind, goal_cases)
  case (2 b)
  show ?case
    by (cases "should_poll sv b")
      (auto intro!: tells_loop rounds_tell [simplified] tells_bind keeps_intros)
qed (intro keeps_intros)

lemma delta_tells:
  assumes "keeps (on_engines steady) k" "tells fst (sv_cancel sv) (\<lambda>r. r = Inr ()) k"
  shows "tells fst (sv_cancel sv) (\<lambda>r. r = Inr ()) (try_bind (sync_each sv folders) (\<lambda>cancelled.
    if cancelled then eff_return (Inr ()) else k))"
  unfolding try_bind_bind
proof (rule tells_bind_val [OF sync_each_tells], goal_cases)
  case (3 r)
  with assms(2) show ?case by (cases r) (simp_all add: tells_return)
qed (auto intro!: keeps_intros assms(1))

lemma cycle_body_tells: "tells fst (sv_cancel sv) (\<lambda>r. r = Inr ()) (cycle_body sv)"
proof -
  have "tells fst (sv_cancel sv) (\<lambda>r. r = Inr ())
      (if \<not> sent then eff_return (Inl (Protocol (lit ''bus closed'')))
       else try_bind (sync_each sv folders) (\<lambda>cancelled. if cancelled then eff_return (Inr ())
         else eff_bind (on_session (eff_get (has_capability (lit ''IDLE'')))) (\<lambda>idle_supported.
           if should_poll sv idle_supported then eff_loop (\<lambda>_. poll_round sv) ()
           else eff_bind (enter_state sv Idle) (\<lambda>_. eff_loop (\<lambda>_. idle_round sv) ()))))" for sent folders
    using delta_tells [OF _ watch_tells] by (cases sent) (auto intro!: keeps_intros tells_return simp del: eff_simps)
  then show ?thesis
    unfolding cycle_body_def by (intro tells_bind tells_try_bind keeps_intros) simp_all
qed

lemma run_one_cycle_tells:
  assumes "run_one_cycle sv e = Some (Inr (), e')"
  shows "saw_cancel (sv_cancel sv) e e'"
proof -
  obtain e1 where e1: "emit_state (sv_storage sv) (sv_account sv) Connecting e = Some ((), e1)"
    and run: "with_session sv (cycle_body sv) e1 = Some (Inr (), e')"
    using assms by (auto simp: run_one_cycle_def eff_bind_Some)
  from run obtain s w where body: "cycle_body sv (e1\<lparr>en_connects := Suc (en_connects e1)\<rparr>, s) = Some (Inr (), w)"
    and e': "e' = fst w"
    by (auto simp: with_session_def Let_def split: option.splits sum.splits)
  have "saw_cancel (sv_cancel sv) e1 e'"
    using tellsD [OF cycle_body_tells body] e' by (simp add: saw_cancel_def)
  then show ?thesis by (rule saw_cancel_earlier [OF keepsD [OF emit_state_steady e1]])
qed

section \<open>The reconnect loop\<close>

interpretation imap: reconnecting "sv_cancel sv" "sv_storage sv" "sv_account sv" "run_one_cycle sv" for sv
  by unfold_locales (auto intro: steady.imap_cycle [OF refl] run_one_cycle_tells)

text \<open>
  C15. Cancellation is the only way out: a cycle that ends without an error, and the reconnect loop
  when it returns at all, have seen the token cancelled; in particular no successful cycle, and
  neither a lost connection nor a closed event bus, ever ends the loop.
\<close>

theorem only_cancellation_ends:
  "(run_one_cycle sv e = Some (Inr (), e1) \<longrightarrow> (\<exists>n \<ge> en_looks e. n < en_looks e1 \<and> sv_cancel sv n))
   \<and> (run sv e = Some ((), e2) \<longrightarrow> (\<exists>n \<ge> en_looks e. n < en_looks e2 \<and> sv_cancel sv n))"
  using run_one_cycle_tells [of sv e e1] imap.loop_saw_cancel [of sv e e2]
  unfolding saw_cancel_def run_def by blast

text \<open>
  C16. The backoff is never reset: with a token that stays cancelled, the waits of a whole run of
  the loop are 250 ms, 500 ms, 1 s, \<open>...\<close>, doubling up to 300 s, however long the sessions between
  the failures lasted.
\<close>

theorem reconnect_waits:
  fixes e :: "'s engine"
  assumes "\<And>n m. n \<le> m \<Longrightarrow> sv_cancel sv n \<Longrightarrow> sv_cancel sv m" and "run sv e = Some ((), e')"
  shows "\<exists>n. en_waits e' = en_waits e @ map (\<lambda>i. min (250 * 2 ^ i) 300000) [0..<n]"
  using assms unfolding run_def by (rule imap.loop_waits)

section \<open>A run without a network\<close>

text \<open>A cycle that always fails, with a token that is cancelled at the seventh observation.\<close>

lemma emit_state_run:
  "\<exists>e'. emit_state ops a st e = Some ((), e') \<and> en_looks e' = en_looks e \<and> en_waits e' = en_waits e"
  by (simp add: emit_state_def eff_bind_def ignoring_def run_store_def case_prod_unfold Let_def)

lemma failing_round:
  assumes "\<And>e. \<exists>er e'. cycle e = Some (Inl er, e') \<and> en_looks e' = en_looks e \<and> en_waits e' = en_waits e"
    and "en_looks e < 5"
  shows "\<exists>e'. reconnect_round (\<lambda>n. 6 \<le> n) ops a cycle b e = Some (Inr (next_backoff b), e')
    \<and> en_looks e' = en_looks e + 2 \<and> en_waits e' = en_waits e @ [b]"
proof -
  let ?e = "e\<lparr>en_looks := Suc (en_looks e)\<rparr>"
  obtain er e1 where c: "cycle ?e = Some (Inl er, e1)"
    "en_looks e1 = Suc (en_looks e)" "en_waits e1 = en_waits e"
    using assms(1) [of ?e] by auto
  obtain e2 where s: "emit_state ops a Disconnected e1 = Some ((), e2)"
    "en_looks e2 = Suc (en_looks e)" "en_waits e2 = en_waits e"
    using emit_state_run [of ops a Disconnected e1] c by auto
  show ?thesis
    using assms(2) c(1) s by (simp add: reconnect_round_def eff_bind_def sleep_for_def eff_modify_def)
qed

lemma failing_run:
  assumes "\<And>e. \<exists>er e'. cycle e = Some (Inl er, e') \<and> en_looks e' = en_looks e \<and> en_waits e' = en_waits e"
  shows "\<exists>e'. reconnect (\<lambda>n. 6 \<le> n) ops a cycle demo_engine = Some ((), e') \<and> en_waits e' = [250, 500, 1000]"
proof -
  let ?round = "reconnect_round (\<lambda>n. 6 \<le> n) ops a cycle"
  note round = failing_round [OF assms, of _ ops a]
  have step: "?round b e = Some (Inr b', e') \<Longrightarrow> eff_loop ?round b e = eff_loop ?round b' e'" for b b' e e'
    by (subst eff_loop.simps) simp
  have "en_looks demo_engine = 0" "en_waits demo_engine = []" by (simp_all add: demo_engine_def)
  then obtain e1 where e1: "?round 250 demo_engine = Some (Inr 500, e1)" "en_looks e1 = 2" "en_waits e1 = [250]"
    using round [of demo_engine 250] by (auto simp: next_backoff_def)
  obtain e2 where e2: "?round 500 e1 = Some (Inr 1000, e2)" "en_looks e2 = 4" "en_waits e2 = [250, 500]"
    using round [of e1 500] e1(2,3) by (auto simp: next_backoff_def)
  obtain e3 where r3: "?round 1000 e2 = Some (Inr 2000, e3)"
    and e3: "en_looks e3 = 6" "en_waits e3 = [250, 500, 1000]"
    using round [of e2 1000] e2(2,3) by (auto simp: next_backoff_def)
  have "?round 2000 e3 = Some (Inl (), e3\<lparr>en_looks := 7\<rparr>)"
    using e3 by (simp add: reconnect_round_def eff_bind_def)
  then have "eff_loop ?round 2000 e3 = Some ((), e3\<lparr>en_looks := 7\<rparr>)"
    by (subst eff_loop.simps) simp
  then have "reconnect (\<lambda>n. 6 \<le> n) ops a cycle demo_engine = Some ((), e3\<lparr>en_looks := 7\<rparr>)"
    using step [OF e1(1)] step [OF e2(1)] step [OF r3] by (simp add: reconnect_def first_backoff_def)
  with e3 show ?thesis by simp
qed

definition offline_service :: "(mock_state, unit, script_state, unit) sync_service" where
  "offline_service = (demo_service [])\<lparr>sv_net := (\<lambda>_. Tcp_Elapsed), sv_cancel := (\<lambda>n. 6 \<le> n)\<rparr>"

lemma offline_cycle:
  "\<exists>er e'. run_one_cycle offline_service e = Some (Inl er, e') \<and> en_looks e' = en_looks e
     \<and> en_waits e' = en_waits e"
proof -
  obtain e1 where "emit_state (mock_ops demo_env :: (mock_state, unit) mail_store_ops) (AccountId 1) Connecting e
      = Some ((), e1)" "en_looks e1 = en_looks e" "en_waits e1 = en_waits e"
    using emit_state_run by blast
  then show ?thesis
    by (simp add: run_one_cycle_def eff_bind_def with_session_def offline_service_def demo_service_def
        connect_and_authenticate_def connect_transport_def)
qed

lemma offline_run:
  "\<exists>e'. run offline_service demo_engine = Some ((), e') \<and> en_waits e' = [250, 500, 1000]"
proof -
  have "sv_cancel offline_service = (\<lambda>n. 6 \<le> n)" by (simp add: offline_service_def)
  then show ?thesis unfolding run_def using failing_run [OF offline_cycle] by simp
qed

theorem only_cancellation_ends_witness:
  "\<exists>e'. run offline_service demo_engine = Some ((), e') \<and> (\<exists>n < en_looks e'. sv_cancel offline_service n)"
proof -
  obtain e' where run: "run offline_service demo_engine = Some ((), e')" using offline_run by blast
  then have "\<exists>n \<ge> en_looks demo_engine. n < en_looks e' \<and> sv_cancel offline_service n"
    using only_cancellation_ends by blast
  with run show ?thesis by blast
qed

theorem reconnect_waits_witness:
  "\<exists>e' n. run offline_service demo_engine = Some ((), e')
    \<and> [250 :: nat, 500, 1000] = map (\<lambda>i. min (250 * 2 ^ i) 300000) [0..<n]"
proof -
  obtain e' where run: "run offline_service demo_engine = Some ((), e')" "en_waits e' = [250, 500, 1000]"
    using offline_run by blast
  have "\<exists>n. en_waits e' = en_waits demo_engine @ map (\<lambda>i. min (250 * 2 ^ i) 300000) [0..<n]"
  proof (rule reconnect_waits [OF _ run(1)])
    show "sv_cancel offline_service m" if "n \<le> m" "sv_cancel offline_service n" for n m
      using that by (simp add: offline_service_def)
  qed
  then obtain n where "en_waits e' = en_waits demo_engine @ map (\<lambda>i. min (250 * 2 ^ i) 300000) [0..<n]" by blast
  then have "[250 :: nat, 500, 1000] = map (\<lambda>i. min (250 * 2 ^ i) 300000) [0..<n]"
    using run(2) by (simp add: demo_engine_def)
  with run(1) show ?thesis by (intro exI conjI)
qed

end
