(* ===== verification/Conn_States.thy ===== *)
theory Conn_States
  imports Sync_Run_Facts
begin

text \<open>
  The connection states that the IMAP service reports (\<open>run_one_cycle\<close>, \<open>run\<close> of \<open>src/src/sync.rs\<close>): a
  run follows the state machine \<open>conn_step\<close> of the theory \<open>Reconnect\<close>.
\<close>

section \<open>Operations that report no state\<close>

interpretation quiet: engine_parts "quiet a" ops for a ops
proof
  have silent: "states_of a [ev] = []" if "\<And>b st. ev \<noteq> AccountConnection b st" for a ev
    using that by (cases ev) (auto simp: states_of_def map_filter_Cons)
  show "keeps (quiet a) (push_event ev)" "keeps (quiet a) (send_event ev)"
    if "\<And>b st. ev \<noteq> AccountConnection b st" for a ev
    using silent [of ev a] that by (auto intro: quiet_push)
qed (auto intro: keeps_intros simp: quiet_def)

lemmas quiet_parts [keeps_intros] = quiet.stored quiet.report quiet.imap_pass [OF refl]
  quiet.imap_folders [OF refl] quiet.imap_each [OF refl] quiet.imap_leave quiet.http
  quiet.jmap_pass [OF refl] quiet.jmap_folders [OF refl] quiet.jmap_passes [OF refl]

lemma conducts_enter:
  assumes "\<And>s. s \<in> S \<Longrightarrow> conn_step s st"
  shows "conducts fst (sv_account sv) S (enter_state sv st) (\<lambda>_. {st})"
  by (rule conductsI) (auto simp: enter_state_def on_engine_Some dest: emit_state_moves [OF _ assms])

section \<open>The cycle\<close>

lemma enter_quiet_after:
  assumes "conducts fst (sv_account sv) {st} k T" "\<And>s. s \<in> S \<Longrightarrow> conn_step s st"
  shows "conducts fst (sv_account sv) S (eff_bind (enter_state sv st) (\<lambda>_. k)) T"
  by (rule conducts_bind [OF conducts_enter [OF assms(2)]]) (use assms(1) in simp_all)

lemma conducts_leave: "S \<subseteq> T (Inl (Inr ())) \<Longrightarrow> conducts fst a S (leave sv) T"
  unfolding leave_def by (rule conducts_skip) (auto intro!: keeps_intros conducts_return simp del: eff_simps)

lemma conducts_after_pass:
  assumes "conducts fst (sv_account sv) {Syncing} k T" "\<And>x. Syncing \<in> T (Inl x)" "S \<subseteq> {Syncing, Idle}"
  shows "conducts fst (sv_account sv) S (after_pass sv k) T"
proof -
  let ?k = "\<lambda>r. case r of Inl e \<Rightarrow> eff_return (Inl (Inl e)) | Inr cancelled \<Rightarrow> if cancelled then leave sv else k"
  have "conducts fst (sv_account sv) {Syncing} (?k r) T" for r
  proof (cases r)
    case (Inl e)
    then show ?thesis using assms(2) by (auto intro: conducts_return simp del: eff_simps)
  next
    case (Inr b)
    then show ?thesis using assms(1,2) conducts_leave [of "{Syncing}" T "sv_account sv" sv] by (cases b) auto
  qed
  moreover have "conducts fst (sv_account sv) S (sync_stored sv) (\<lambda>_. {Syncing})"
    unfolding sync_stored_def using assms(3)
    by (intro enter_quiet_after conducts_quiet keeps_intros) auto
  ultimately show ?thesis unfolding after_pass_def by (intro conducts_bind [where T = "\<lambda>_. {Syncing}"])
qed

lemma rounds_conduct:
  "conducts fst (sv_account sv) {Syncing} (poll_round sv) (\<lambda>r. case r of Inl y \<Rightarrow> {Syncing, Idle} | Inr _ \<Rightarrow> {Syncing})"
  "conducts fst (sv_account sv) {Idle} (idle_round sv) (\<lambda>r. case r of Inl y \<Rightarrow> {Syncing, Idle} | Inr _ \<Rightarrow> {Idle})"
proof -
  show "conducts fst (sv_account sv) {Syncing} (poll_round sv)
      (\<lambda>r. case r of Inl y \<Rightarrow> {Syncing, Idle} | Inr _ \<Rightarrow> {Syncing})"
    unfolding poll_round_def
    by (intro conducts_look conducts_leave conducts_after_pass conducts_return) simp_all
  let ?T = "\<lambda>r. case r of Inl (y :: unit sync_result) \<Rightarrow> {Syncing, Idle} | Inr (_ :: unit) \<Rightarrow> {Idle}"
  have woke: "conducts fst (sv_account sv) {Idle} (if woke = [] then eff_return (Inr ())
      else after_pass sv (eff_bind (enter_state sv Idle) (\<lambda>_. eff_return (Inr ())))) ?T" for woke
    by (cases "woke = []")
      (auto intro!: conducts_return conducts_after_pass enter_quiet_after simp del: eff_simps)
  have idled: "conducts fst (sv_account sv) {Idle} (case r of
         Inl e \<Rightarrow> eff_return (Inl (Inl e))
       | Inr woke \<Rightarrow> eff_bind (on_engine (is_cancelled (sv_cancel sv))) (\<lambda>cancelled.
           if cancelled then leave sv
           else if woke = [] then eff_return (Inr ())
           else after_pass sv (eff_bind (enter_state sv Idle) (\<lambda>_. eff_return (Inr ()))))) ?T" for r
  proof (cases r)
    case (Inr woke')
    show ?thesis unfolding Inr sum.case by (intro conducts_look conducts_leave woke) simp_all
  qed (auto intro: conducts_return simp del: eff_simps)
  show "conducts fst (sv_account sv) {Idle} (idle_round sv) ?T"
    unfolding idle_round_def
    by (intro conducts_look conducts_leave conducts_skip [OF _ idled] keeps_intros) simp_all
qed

lemma cycle_body_conducts:
  "conducts fst (sv_account sv) {Connecting} (cycle_body sv) (\<lambda>_. {Syncing, Idle})"
proof -
  let ?a = "sv_account sv" and ?T = "\<lambda>_ :: unit sync_result. {Syncing, Idle}"
  have watch: "conducts fst ?a {Syncing} (if should_poll sv b then eff_loop (\<lambda>_. poll_round sv) ()
      else eff_bind (enter_state sv Idle) (\<lambda>_. eff_loop (\<lambda>_. idle_round sv) ())) ?T" for b
  proof (cases "should_poll sv b")
    case False
    have "conducts fst ?a {Idle} (eff_loop (\<lambda>_. idle_round sv) ()) ?T"
      by (rule conducts_loop) (rule rounds_conduct)
    then show ?thesis unfolding if_not_P [OF False] by (intro enter_quiet_after) simp_all
  qed (auto intro!: conducts_loop rounds_conduct)
  have delta: "conducts fst ?a {Syncing} (try_bind (sync_each sv folders) (\<lambda>cancelled.
      if cancelled then eff_return (Inr ())
      else eff_bind (on_session (eff_get c)) (\<lambda>b. if should_poll sv b then eff_loop (\<lambda>_. poll_round sv) ()
        else eff_bind (enter_state sv Idle) (\<lambda>_. eff_loop (\<lambda>_. idle_round sv) ())))) ?T" for folders c
  proof (rule conducts_try_bind [OF conducts_quiet])
    show "conducts fst ?a {Syncing} (if b then eff_return (Inr ())
      else eff_bind (on_session (eff_get c)) (\<lambda>b. if should_poll sv b then eff_loop (\<lambda>_. poll_round sv) ()
        else eff_bind (enter_state sv Idle) (\<lambda>_. eff_loop (\<lambda>_. idle_round sv) ()))) ?T" for b
      by (cases b) (auto intro!: conducts_return conducts_skip [OF _ watch] keeps_intros simp del: eff_simps)
  qed (auto intro: keeps_intros)
  have "conducts fst ?a {Syncing} (if \<not> sent then eff_return (Inl (Protocol (lit ''bus closed'')))
      else try_bind (sync_each sv folders) (\<lambda>cancelled. if cancelled then eff_return (Inr ())
        else eff_bind (on_session (eff_get (has_capability (lit ''IDLE'')))) (\<lambda>b.
          if should_poll sv b then eff_loop (\<lambda>_. poll_round sv) ()
          else eff_bind (enter_state sv Idle) (\<lambda>_. eff_loop (\<lambda>_. idle_round sv) ())))) ?T" for sent folders
    using delta by (cases sent) (auto intro!: conducts_return simp del: eff_simps)
  then show ?thesis
    unfolding cycle_body_def
    by (intro enter_quiet_after conducts_try_bind [OF conducts_quiet] conducts_skip keeps_intros) simp_all
qed

lemma run_one_cycle_moves:
  assumes "run_one_cycle sv e = Some (r, e')"
  shows "\<exists>t \<in> {Connecting, Syncing, Idle}. moves (sv_account sv) Disconnected t e e'"
proof -
  obtain e1 where e1: "emit_state (sv_storage sv) (sv_account sv) Connecting e = Some ((), e1)"
    and run: "with_session sv (cycle_body sv) e1 = Some (r, e')"
    using assms by (auto simp: run_one_cycle_def eff_bind_Some)
  let ?e = "e1\<lparr>en_connects := Suc (en_connects e1)\<rparr>"
  have dial: "moves (sv_account sv) Disconnected Connecting e ?e"
    using emit_state_moves [OF e1, of Disconnected] by (simp add: moves_def)
  from run consider "e' = ?e" | s w where "cycle_body sv (?e, s) = Some (r, w)" "e' = fst w"
    by (auto simp: with_session_def Let_def split: option.splits sum.splits)
  then show ?thesis
  proof cases
    case 1
    with dial show ?thesis by blast
  next
    case 2
    from conductsD [OF cycle_body_conducts 2(1)] obtain t where "t \<in> {Syncing, Idle}"
      "moves (sv_account sv) Connecting t ?e e'" using 2(2) by auto
    with moves_trans [OF dial] show ?thesis by blast
  qed
qed

section \<open>The whole run\<close>

interpretation imap_states: reporting "sv_cancel sv" "sv_storage sv" "sv_account sv" "run_one_cycle sv" for sv
  by unfold_locales (rule run_one_cycle_moves)

text \<open>
  C14. The reported connection states follow the state machine: with an open bus and a token that
  stays cancelled, the states that a whole run of the service reports for its account form a path
  of \<open>conn_step\<close> that starts at \<open>Disconnected\<close>.
\<close>

theorem conn_states_path:
  fixes e :: "'s engine"
  assumes "\<And>n m. n \<le> m \<Longrightarrow> sv_cancel sv n \<Longrightarrow> sv_cancel sv m" and "bus_open (en_bus e)"
    and "run sv e = Some ((), e')"
  shows "\<exists>evs t. bus_sent (en_bus e') = bus_sent (en_bus e) @ evs
    \<and> conn_path Disconnected (states_of (sv_account sv) evs) t"
  using assms unfolding run_def by (rule imap_states.loop_states_path)

theorem conn_states_path_witness:
  "\<exists>e' evs t. run offline_service demo_engine = Some ((), e') \<and> bus_sent (en_bus e') = evs
    \<and> conn_path Disconnected (states_of (AccountId 1) evs) t"
proof -
  obtain e' where run: "run offline_service demo_engine = Some ((), e')" using offline_run by blast
  have "\<exists>evs t. bus_sent (en_bus e') = bus_sent (en_bus demo_engine) @ evs
      \<and> conn_path Disconnected (states_of (sv_account offline_service) evs) t"
  proof (rule conn_states_path [OF _ _ run])
    show "sv_cancel offline_service m" if "n \<le> m" "sv_cancel offline_service n" for n m
      using that by (simp add: offline_service_def)
    show "bus_open (en_bus demo_engine)" by (simp add: demo_engine_def bus_open_def)
  qed
  with run show ?thesis by (auto simp: demo_engine_def offline_service_def demo_service_def)
qed

end
