(* ===== verification/Jmap_Run_Facts.thy ===== *)
theory Jmap_Run_Facts
  imports Jmap_Facts Conn_States
begin

text \<open>
  What a folder pass of the JMAP engine does to the host's store, and its reconnect loop: the
  contracts \<open>mail_store\<close> and \<open>reporting\<close> applied to \<open>src/src/jmap_sync.rs\<close>.
\<close>

section \<open>The folder pass\<close>

lemma jmap_messages_Some:
  "jmap_messages sv folder ems e = Some (ms, e') \<Longrightarrow>
     en_store e' = en_store e \<and> list_all (\<lambda>m. im_folder m = fr_id folder) ms
   \<and> map im_uid ms = map (jmap_id_hash (js_hash sv)) ems"
proof (induction ems arbitrary: e ms)
  case (Cons em ems)
  then obtain date e1 ms' where "received_at_ms sv em e = Some (date, e1)"
    "jmap_messages sv folder ems e1 = Some (ms', e')" "ms = jmap_message sv folder em date # ms'"
    by (auto simp: eff_bind_Some)
  moreover from this(1) have "en_store e1 = en_store e"
    by (auto simp: received_at_ms_def split: option.splits)
  ultimately show ?case using Cons.IH by (simp add: jmap_message_def Let_def)
qed simp

lemma http_keeps_store: "keeps_order R \<Longrightarrow> keeps (on_stores R) (query_emails http client ids st n)"
  by (rule http_keeps) (auto intro: keeps_intros simp: on_stores_def keeps_order_def)

lemma jmap_sync_folder_keeps:
  assumes "pass_order (js_storage sv) (fr_id folder) R"
  shows "keeps (on_stores R) (jmap_sync_folder sv client folder)"
proof -
  note D = pass_orderD [OF assms]
  have messages: "keeps (on_stores R) (eff_bind (jmap_messages sv folder emails) (\<lambda>ms.
      try_bind (ingest_and_report (js_storage sv) (js_account sv) (fr_id folder) ms) (\<lambda>_.
      eff_bind (store_state (js_storage sv) folder st) (\<lambda>_. eff_return (Inr ())))))" for emails st
  proof (rule keeps_bind_val [where V = "list_all (\<lambda>m. im_folder m = fr_id folder)"])
    show "on_stores R e e' \<and> list_all (\<lambda>m. im_folder m = fr_id folder) ms"
      if "jmap_messages sv folder emails e = Some (ms, e')" for e ms e'
      using jmap_messages_Some [OF that] keeps_order_refl [OF D(1)] by (simp add: on_stores_def)
    show "keeps (on_stores R) (try_bind (ingest_and_report (js_storage sv) (js_account sv) (fr_id folder) ms) (\<lambda>_.
        eff_bind (store_state (js_storage sv) folder st) (\<lambda>_. eff_return (Inr ()))))"
      if "list_all (\<lambda>m. im_folder m = fr_id folder) ms" for ms
      unfolding store_state_def by (intro keeps_intros ingest_and_report_keeps [OF assms that] D)
  qed (intro keeps_intros D)
  show ?thesis
    unfolding jmap_sync_folder_def ingest_email_response_def
    by (intro keeps_intros messages http_keeps_store D)
qed

text \<open>
  C27. A JMAP folder pass touches no other folder and removes nothing: whatever the server answers,
  and whether the pass succeeds or fails, the messages and cursors of every other folder are as
  before, and every message of the folder is still there.
\<close>

theorem jmap_pass_isolated:
  assumes "js_storage sv = mock_ops env" and "jmap_sync_folder sv client folder e = Some (r, e')"
  shows "mock_uids (en_store e) (fr_id folder) \<subseteq> mock_uids (en_store e') (fr_id folder)
    \<and> (g \<noteq> fr_id folder \<longrightarrow> mock_uids (en_store e') g = mock_uids (en_store e) g
         \<and> mock_cursors (en_store e') g = mock_cursors (en_store e) g)"
proof -
  have G: "keeps (on_stores (growing (\<lambda>_. True) mock_uids (fr_id folder))) (jmap_sync_folder sv client folder)"
    by (rule jmap_sync_folder_keeps) (simp add: assms(1) mock.pass_growing)
  have I: "keeps (on_stores (isolated (\<lambda>_. True) mock_uids mock_cursors (fr_id folder)))
      (jmap_sync_folder sv client folder)"
    by (rule jmap_sync_folder_keeps) (simp add: assms(1) mock.pass_isolated)
  show ?thesis
    using keepsD [OF G assms(2)] keepsD [OF I assms(2)] by (simp add: on_stores_def growing_def isolated_def)
qed

text \<open>
  C26. Every email of an answer is filed under the UID of its id: after a successful ingestion the
  folder holds exactly the UIDs it held before and those of the answer's emails, so that a repeated
  answer adds nothing.  These UIDs are valid IMAP UIDs, never 0, and one more than the id's hash
  modulo \<open>2 ^ 32 - 1\<close>: the fallback of the conversion is not taken.
\<close>

theorem jmap_ingest_files:
  assumes "js_storage sv = mock_ops env" and "parse_email_get resp = Inr ems"
    and "ingest_email_response sv folder resp e = Some (Inr (), e')"
  shows "mock_uids (en_store e') (fr_id folder) =
    mock_uids (en_store e) (fr_id folder) \<union> jmap_id_hash (js_hash sv) ` set ems
    \<and> 0 \<notin> jmap_id_hash (js_hash sv) ` set ems
    \<and> unat (jmap_id_hash (js_hash sv) em) = unat (js_hash sv (pe_id em)) mod (2 ^ 32 - 1) + 1"
proof (cases "ems = []")
  case True
  with assms jmap_uid_valid [of "js_hash sv" em] show ?thesis
    by (simp add: ingest_email_response_def try_bind_def eff_lift_def)
next
  case False
  obtain ms e1 e2 where ms: "jmap_messages sv folder ems e = Some (ms, e1)"
    and rep: "ingest_and_report (js_storage sv) (js_account sv) (fr_id folder) ms e1 = Some (Inr (), e2)"
    and st: "store_state (js_storage sv) folder (jr_new_state resp) e2 = Some ((), e')"
    using assms(2,3) False
    by (auto simp: ingest_email_response_def try_bind_Some eff_bind_Some eff_lift_def)
  note M = jmap_messages_Some [OF ms]
  have "im_uid ` set ms = jmap_id_hash (js_hash sv) ` set ems" using M by (metis set_map)
  then have "mock_uids (en_store e2) (fr_id folder) =
      mock_uids (en_store e) (fr_id folder) \<union> jmap_id_hash (js_hash sv) ` set ems"
    using mock.report_complete [OF _ _ rep [unfolded assms(1)]] M by simp
  moreover have "mock_uids (en_store e') = mock_uids (en_store e2)"
  proof -
    have "mock_uids (snd (mock_update_sync_cursors env f v q s)) = mock_uids s" for f v q s
      by (auto simp: mock_update_sync_cursors_def mock_uids_def fun_eq_iff split: option.splits)
    then show ?thesis
      using st assms(1) by (auto simp: store_state_def ignoring_Some run_store_Some split: option.splits)
  qed
  moreover have "0 \<notin> jmap_id_hash (js_hash sv) ` set ems" using jmap_uid_valid by fastforce
  ultimately show ?thesis using jmap_uid_valid [of "js_hash sv" em] by simp
qed

section \<open>The reconnect loop\<close>

lemma jmap_each_tells: "tells (\<lambda>e. e) (js_cancel sv) (\<lambda>r. r = Inr True) (jmap_each sv client fs)"
proof (induction fs)
  case (Cons f fs)
  then show ?case
    unfolding jmap_each.simps by (intro engine_tells_cancelled engine_tells_try_bind keeps_intros) simp_all
qed (simp add: tells_def)

lemma jmap_poll_tells:
  "tells (\<lambda>e. e) (js_cancel sv) (\<lambda>r. \<exists>x. r = Inl x \<and> x = Inr ()) (jmap_poll sv client)"
proof -
  have pass: "tells (\<lambda>e. e) (js_cancel sv) (\<lambda>r. \<exists>x. r = Inl x \<and> x = Inr ())
      (eff_bind (jmap_each sv client folders) (\<lambda>r.
        eff_return (case r of Inl e \<Rightarrow> Inl (Inl e) | Inr c \<Rightarrow> if c then Inl (Inr ()) else Inr ())))" for folders
    by (rule engine_tells_bind_val [OF jmap_each_tells])
      (auto intro!: keeps_intros tells_return split: sum.splits simp del: eff_simps)
  show ?thesis
    unfolding jmap_poll_def
    by (rule engine_tells_cancelled [OF _ _ engine_tells_bind [OF _ engine_tells_bind [OF _ pass]]])
      (intro keeps_intros)+
qed

lemma jmap_body_tells: "tells (\<lambda>e. e) (js_cancel sv) (\<lambda>r. r = Inr ()) (jmap_session_body sv client)"
proof -
  have delta: "tells (\<lambda>e. e) (js_cancel sv) (\<lambda>r. r = Inr ()) (try_bind (jmap_each sv client folders)
      (\<lambda>c. if c then eff_return (Inr ()) else eff_loop (\<lambda>_. jmap_poll sv client) ()))" for folders
    unfolding try_bind_bind
  proof (rule engine_tells_bind_val [OF jmap_each_tells], goal_cases)
    case (3 r)
    have "tells (\<lambda>e. e) (js_cancel sv) (\<lambda>r. r = Inr ()) (eff_loop (\<lambda>_. jmap_poll sv client) ())"
      by (rule engine_tells_loop) (intro keeps_intros jmap_poll_tells)+
    with 3 show ?case by (cases r) (simp_all add: tells_return)
  qed (auto intro!: keeps_intros)
  have "tells (\<lambda>e. e) (js_cancel sv) (\<lambda>r. r = Inr ()) (if \<not> sent then eff_return (Inl (Protocol (lit ''bus closed'')))
      else try_bind (jmap_each sv client folders)
        (\<lambda>c. if c then eff_return (Inr ()) else eff_loop (\<lambda>_. jmap_poll sv client) ()))" for sent folders
    using delta by (cases sent) (auto intro!: tells_return simp del: eff_simps)
  then show ?thesis
    unfolding jmap_session_body_def by (intro engine_tells_bind engine_tells_try_bind keeps_intros) simp_all
qed

lemma jmap_cycle_tells: "tells (\<lambda>e. e) (js_cancel sv) (\<lambda>r. r = Inr ()) (jmap_one_cycle sv)"
  unfolding jmap_one_cycle_def by (intro engine_tells_bind engine_tells_try_bind keeps_intros jmap_body_tells) simp_all

lemma jmap_poll_conducts:
  "conducts (\<lambda>e. e) (js_account sv) {Syncing} (jmap_poll sv client)
     (\<lambda>r. case r of Inl y \<Rightarrow> {Syncing} | Inr _ \<Rightarrow> {Syncing})"
proof -
  let ?T = "\<lambda>r. case r of Inl (y :: unit sync_result) \<Rightarrow> {Syncing} | Inr (_ :: unit) \<Rightarrow> {Syncing}"
  have T: "?T r = {Syncing}" for r by (cases r) simp_all
  show ?thesis
    unfolding jmap_poll_def T
    by (intro engine_conducts_look conducts_return conducts_bind [OF engine_conducts_emit] engine_conducts_skip keeps_intros)
      simp_all
qed

lemma jmap_body_conducts:
  "conducts (\<lambda>e. e) (js_account sv) {Connecting} (jmap_session_body sv client) (\<lambda>_. {Syncing})"
proof -
  let ?T = "\<lambda>_ :: unit sync_result. {Syncing}"
  have "conducts (\<lambda>e. e) (js_account sv) {Syncing} (eff_loop (\<lambda>_. jmap_poll sv client) ()) ?T"
    by (rule conducts_loop) (rule jmap_poll_conducts)
  then have "conducts (\<lambda>e. e) (js_account sv) {Syncing} (if c then eff_return (Inr ())
      else eff_loop (\<lambda>_. jmap_poll sv client) ()) ?T" for c
    by (cases c) (auto intro: conducts_return simp del: eff_simps)
  then have "conducts (\<lambda>e. e) (js_account sv) {Syncing} (try_bind (jmap_each sv client folders)
      (\<lambda>c. if c then eff_return (Inr ()) else eff_loop (\<lambda>_. jmap_poll sv client) ())) ?T" for folders
    by (intro conducts_try_bind [OF engine_conducts_quiet] keeps_intros) auto
  then have "conducts (\<lambda>e. e) (js_account sv) {Syncing} (if \<not> sent then eff_return (Inl (Protocol (lit ''bus closed'')))
      else try_bind (jmap_each sv client folders)
        (\<lambda>c. if c then eff_return (Inr ()) else eff_loop (\<lambda>_. jmap_poll sv client) ())) ?T" for sent folders
    by (cases sent) (auto intro: conducts_return simp del: eff_simps)
  then show ?thesis
    unfolding jmap_session_body_def
    by (intro conducts_bind [OF engine_conducts_emit] conducts_try_bind [OF engine_conducts_quiet]
        engine_conducts_skip keeps_intros) simp_all
qed

lemma jmap_cycle_conducts:
  "conducts (\<lambda>e. e) (js_account sv) {Disconnected} (jmap_one_cycle sv) (\<lambda>_. {Connecting, Syncing, Idle})"
proof -
  have "conducts (\<lambda>e. e) (js_account sv) {Connecting} (jmap_session_body sv client) (\<lambda>_. {Connecting, Syncing, Idle})" for client
    by (rule conducts_mono [OF jmap_body_conducts]) simp_all
  then show ?thesis
    unfolding jmap_one_cycle_def
    by (intro conducts_bind [OF engine_conducts_emit] conducts_try_bind [OF engine_conducts_quiet] keeps_intros) simp_all
qed

interpretation jmap: reporting "js_cancel sv" "js_storage sv" "js_account sv" "jmap_one_cycle sv" for sv
proof unfold_locales
  show "keeps steady (jmap_one_cycle sv)" for sv :: "('s, 'p) jmap_service" by (rule steady.jmap_cycle [OF refl])
  show "saw_cancel (js_cancel sv) e e'" if "jmap_one_cycle sv e = Some (Inr (), e')"
    for sv :: "('s, 'p) jmap_service" and e e' using tellsD [OF jmap_cycle_tells that] by simp
  show "\<exists>t \<in> {Connecting, Syncing, Idle}. moves (js_account sv) Disconnected t e e'"
    if "jmap_one_cycle sv e = Some (r, e')" for sv :: "('s, 'p) jmap_service" and e r e'
    using conductsD [OF jmap_cycle_conducts that] by simp
qed

text \<open>
  C25. The JMAP service keeps the promises of the reconnect loop: it returns only after the token was
  seen cancelled, its waits double from 250 ms up to 300 s and are never reset, and on an open bus
  the states it reports for its account are a path of the connection state machine.
\<close>

theorem jmap_reconnects:
  assumes "\<And>n m. n \<le> m \<Longrightarrow> js_cancel sv n \<Longrightarrow> js_cancel sv m" and "jmap_run sv e = Some ((), e')"
    and "bus_open (en_bus e)"
  shows "(\<exists>n \<ge> en_looks e. n < en_looks e' \<and> js_cancel sv n)
    \<and> (\<exists>n. en_waits e' = en_waits e @ map (\<lambda>i. min (250 * 2 ^ i) 300000) [0..<n])
    \<and> (\<exists>evs t. bus_sent (en_bus e') = bus_sent (en_bus e) @ evs
         \<and> conn_path Disconnected (states_of (js_account sv) evs) t)"
proof (intro conjI)
  note run = assms(2) [unfolded jmap_run_def]
  show "\<exists>n \<ge> en_looks e. n < en_looks e' \<and> js_cancel sv n"
    using jmap.loop_saw_cancel [OF run] unfolding saw_cancel_def .
  show "\<exists>n. en_waits e' = en_waits e @ map (\<lambda>i. min (250 * 2 ^ i) 300000) [0..<n]"
    by (rule jmap.loop_waits [OF assms(1) run])
  show "\<exists>evs t. bus_sent (en_bus e') = bus_sent (en_bus e) @ evs
      \<and> conn_path Disconnected (states_of (js_account sv) evs) t"
    by (rule jmap.loop_states_path [OF assms(1) assms(3) run])
qed

section \<open>A server that answers with one email\<close>

definition one_email :: jmap_response where
  "one_email = \<lparr>jr_method_responses = [J_Array [J_String (lit ''Email/get''),
      J_Object [(lit ''list'', J_Array [J_Object [(lit ''id'', J_String (lit ''em1''))]])], J_String (lit ''g1'')]],
     jr_new_state = Some (dec_of (12 :: u64))\<rparr>"

definition demo_jmap :: "(mock_state, unit) jmap_service" where
  "demo_jmap =
     \<lparr>js_account = AccountId 1, js_host = lit ''h'', js_token = SecretString [],
      js_storage = mock_ops demo_env, js_parse = (\<lambda>_. ()), js_clock = (\<lambda>_. 0),
      js_http = (\<lambda>_ _. Inr \<lparr>hr_success = True, hr_status = [], hr_session = Inl [], hr_calls = Inr one_email\<rparr>),
      js_http_client = Inl [], js_unicode = (\<lambda>s. s), js_hash = (\<lambda>_. 41), js_rfc3339 = (\<lambda>_. None),
      js_cancel = (\<lambda>n. 6 \<le> n)\<rparr>"

definition demo_email :: parsed_email where
  "demo_email = parsed_email_of (J_Object [(lit ''id'', J_String (lit ''em1''))])"

lemma one_email_parsed: "parse_email_get one_email = Inr [demo_email]"
  by (simp add: one_email_def parse_email_get_def method_list_hit json_get_def demo_email_def)

lemma demo_email_uid: "jmap_id_hash (js_hash demo_jmap) demo_email = 42"
  by (simp add: jmap_id_hash_def demo_jmap_def)

lemma demo_jmap_fields [simp]: "js_storage demo_jmap = mock_ops demo_env" "js_account demo_jmap = AccountId 1"
  by (simp_all add: demo_jmap_def)

lemma mock_report: "\<exists>e'. ingest_and_report (mock_ops env) a f ms e = Some (Inr (), e')"
proof (cases "ms = []")
  case False
  obtain st s2 where "mock_ingest_batch env ms (en_store e) = (Inr st, s2)"
    by (auto simp: mock_ingest_batch_def case_prod_unfold Let_def)
  with False show ?thesis
    by (cases "is_inserted st = 0")
      (simp_all add: ingest_and_report_def try_bind_def eff_bind_def eff_lift_def run_store_def
        mock_list_folders_def Let_def)
qed (simp add: ingest_and_report_def)

lemma demo_ingest:
  "\<exists>e'. ingest_email_response demo_jmap (demo_row (FolderId 1) 5 7) one_email e = Some (Inr (), e')"
proof -
  let ?row = "demo_row (FolderId 1) 5 7"
  obtain date e1 where date: "received_at_ms demo_jmap demo_email e = Some (date, e1)"
    by (auto simp: received_at_ms_def demo_jmap_def split: option.splits)
  let ?ms = "[jmap_message demo_jmap ?row demo_email date]"
  have ms: "jmap_messages demo_jmap ?row [demo_email] e = Some (?ms, e1)"
    using date by (simp add: eff_bind_def eff_return_def)
  obtain e2 where rep: "ingest_and_report (mock_ops demo_env) (AccountId 1) (FolderId 1) ?ms e1 = Some (Inr (), e2)"
    using mock_report by blast
  obtain e3 where "store_state (mock_ops demo_env :: (mock_state, unit) mail_store_ops) ?row (jr_new_state one_email) e2
      = Some ((), e3)"
    by (auto simp: one_email_def parse_u64_dec_of store_state_def ignoring_def eff_bind_def run_store_def
        Let_def case_prod_unfold)
  with ms rep show ?thesis
    by (simp add: ingest_email_response_def one_email_parsed try_bind_def eff_bind_def eff_lift_def del: jmap_messages.simps)
qed

theorem jmap_ingest_files_witness:
  "\<exists>e'. ingest_email_response demo_jmap (demo_row (FolderId 1) 5 7) one_email demo_engine = Some (Inr (), e')
    \<and> mock_uids (en_store e') (FolderId 1) = {9, 3} \<union> {42} \<and> (0 :: u32) \<notin> {42}"
proof -
  obtain e' where run: "ingest_email_response demo_jmap (demo_row (FolderId 1) 5 7) one_email demo_engine
      = Some (Inr (), e')" using demo_ingest by blast
  have "mock_uids (en_store demo_engine) (FolderId 1) = {9, 3}"
    by (auto simp: mock_uids_eval demo_engine_def demo_store_def demo_message_def)
  then show ?thesis
    using jmap_ingest_files [OF demo_jmap_fields(1) one_email_parsed run, THEN conjunct1] run
    by (intro exI conjI) (simp_all add: demo_email_uid)
qed

lemma demo_jmap_pass:
  "\<exists>e'. jmap_sync_folder demo_jmap client (demo_row (FolderId 1) 5 7) e = Some (Inr (), e')"
proof -
  let ?row = "demo_row (FolderId 1) 5 7"
  obtain e1 where "query_emails (js_http demo_jmap) client [fr_remote_name ?row] (since_state_of ?row) 256 e
      = Some (Inr one_email, e1)"
    by (simp add: query_emails_def call_eq demo_jmap_def)
  moreover obtain e2 where "ingest_email_response demo_jmap ?row one_email e1 = Some (Inr (), e2)"
    using demo_ingest by blast
  ultimately show ?thesis by (simp add: jmap_sync_folder_def try_bind_def)
qed

theorem jmap_pass_isolated_witness:
  "\<forall>client. \<exists>r e'. jmap_sync_folder demo_jmap client (demo_row (FolderId 1) 5 7) demo_engine = Some (r, e')
    \<and> mock_uids (en_store demo_engine) (FolderId 1) \<subseteq> mock_uids (en_store e') (FolderId 1)"
proof
  fix client
  obtain e' where run: "jmap_sync_folder demo_jmap client (demo_row (FolderId 1) 5 7) demo_engine = Some (Inr (), e')"
    using demo_jmap_pass by blast
  moreover have "mock_uids (en_store demo_engine) (FolderId 1) \<subseteq> mock_uids (en_store e') (FolderId 1)"
    using jmap_pass_isolated [OF demo_jmap_fields(1) run, of "FolderId 1"] by simp
  ultimately show "\<exists>r e'. jmap_sync_folder demo_jmap client (demo_row (FolderId 1) 5 7) demo_engine = Some (r, e')
      \<and> mock_uids (en_store demo_engine) (FolderId 1) \<subseteq> mock_uids (en_store e') (FolderId 1)" by blast
qed

text \<open>The service of a host whose HTTP client cannot be built.\<close>

lemma offline_jmap_cycle:
  "\<exists>er e'. jmap_one_cycle demo_jmap e = Some (Inl er, e') \<and> en_looks e' = en_looks e \<and> en_waits e' = en_waits e"
proof -
  obtain e1 where "emit_state (js_storage demo_jmap) (js_account demo_jmap) Connecting e
      = Some ((), e1)" "en_looks e1 = en_looks e" "en_waits e1 = en_waits e"
    using emit_state_run by blast
  moreover have "js_http_client demo_jmap = Inl []" by (simp add: demo_jmap_def)
  ultimately show ?thesis by (simp add: jmap_one_cycle_def eff_bind_def try_bind_def eff_lift_def)
qed

theorem jmap_reconnects_witness:
  "\<exists>e' evs t. jmap_run demo_jmap demo_engine = Some ((), e')
    \<and> conn_path Disconnected (states_of (AccountId 1) evs) t \<and> bus_sent (en_bus e') = evs"
proof -
  have c: "js_cancel demo_jmap = (\<lambda>n. 6 \<le> n)" by (simp add: demo_jmap_def)
  then obtain e' where run: "jmap_run demo_jmap demo_engine = Some ((), e')"
    unfolding jmap_run_def using failing_run [OF offline_jmap_cycle] by fastforce
  have "bus_open (en_bus demo_engine)" by (simp add: demo_engine_def bus_open_def)
  from jmap_reconnects [OF _ run this] have "\<exists>evs t. bus_sent (en_bus e') = bus_sent (en_bus demo_engine) @ evs
      \<and> conn_path Disconnected (states_of (AccountId 1) evs) t" unfolding c by auto
  with run show ?thesis by (auto simp: demo_engine_def)
qed

end
