(* ===== verification/Sync_Lookup.thy ===== *)
theory Sync_Lookup
  imports Sync_Facts
begin

text \<open>
  The flag pass and its lookup of messages by UID (\<open>flag_pass\<close> and \<open>message_by_uid\<close> of
  \<open>src/src/sync.rs\<close>): the paged lookup ends and finds what a search of the whole folder finds, and
  the cursor update of a flag pass forgets the folder's UIDVALIDITY.
\<close>

section \<open>Lists\<close>

lemma find_filter: "find P xs = (case filter P xs of [] \<Rightarrow> None | x # _ \<Rightarrow> Some x)"
  by (induction xs) auto

lemma find_append: "find P (xs @ ys) = (case find P xs of None \<Rightarrow> find P ys | Some x \<Rightarrow> Some x)"
  by (induction xs) auto

lemma find_sort_key: "find (\<lambda>x. k x = v) (sort_key k xs) = find (\<lambda>x. k x = v) xs"
  by (simp add: find_filter sort_key_stable)

lemma find_in_filter: "find P (filter Q xs) = find (\<lambda>x. Q x \<and> P x) xs"
  by (induction xs) auto

section \<open>The paged lookup\<close>

text \<open>The listing of a folder in UID order.\<close>

definition uid_order :: "mock_state \<Rightarrow> folder_id \<Rightarrow> mock_message list" where
  "uid_order s f = sort_key (\<lambda>m. int (unat (mm_uid m))) (filter (\<lambda>m. mm_folder m = f) (mk_messages s))"

lemma find_uid_order:
  "find (\<lambda>m. mm_uid m = u) (uid_order s f) = find (\<lambda>m. mm_folder m = f \<and> mm_uid m = u) (mk_messages s)"
proof -
  have eq: "int (unat x) = int (unat u) \<longleftrightarrow> x = u" for x :: u32
    by (simp only: of_nat_eq_iff word_unat_eq_iff)
  have "find (\<lambda>m. mm_uid m = u) (uid_order s f)
      = find (\<lambda>m. mm_uid m = u) (filter (\<lambda>m. mm_folder m = f) (mk_messages s))"
    using find_sort_key [of "\<lambda>m. int (unat (mm_uid m))" "int (unat u)" "filter (\<lambda>m. mm_folder m = f) (mk_messages s)"]
    unfolding uid_order_def by (simp only: eq)
  then show ?thesis by (simp only: find_in_filter)
qed

lemma find_summary: "find (\<lambda>m. ms_uid m = u) (map mock_message_summary ms)
    = map_option mock_message_summary (find (\<lambda>m. mm_uid m = u) ms)"
  by (induction ms) (auto simp: mock_message_summary_def)

lemma page_step_mock:
  "page_step (mock_ops env) f u off e =
     (let ms = take 500 (drop (unat off) (uid_order (en_store e) f)); off' = off + of_nat (length ms)
      in Some (if ms = [] then Inl None
         else case find (\<lambda>m. mm_uid m = u) ms of
                Some m \<Rightarrow> Inl (Some (mm_id m))
              | None \<Rightarrow> if of_nat (length (uid_order (en_store e) f)) \<le> off' then Inl None else Inr off', e))"
proof -
  have "ms_id (mock_message_summary m) = mm_id m" for m by (simp add: mock_message_summary_def)
  then show ?thesis
    by (simp add: page_step_def eff_bind_def run_store_def mock_list_messages_def page_limit_def Let_def
        find_summary uid_order_def eff_return_def split: option.splits)
qed

lemma message_by_uid_from:
  assumes "length (uid_order (en_store e) f) < 2 ^ 64"
  shows "eff_loop (page_step (mock_ops env) f u) off e =
    Some (map_option mm_id (find (\<lambda>m. mm_uid m = u) (drop (unat off) (uid_order (en_store e) f))), e)"
proof (induction "length (uid_order (en_store e) f) - unat off" arbitrary: off rule: less_induct)
  case less
  let ?L = "uid_order (en_store e) f"
  define ms where "ms = take 500 (drop (unat off) ?L)"
  define n where "n = length ms"
  have split: "drop (unat off) ?L = ms @ drop (unat off + n) ?L"
  proof -
    have "drop (unat off) ?L = ms @ drop 500 (drop (unat off) ?L)"
      unfolding ms_def by (rule append_take_drop_id [symmetric])
    moreover have "drop 500 (drop (unat off) ?L) = drop (unat off + n) ?L"
      unfolding n_def ms_def by (cases "500 \<le> length ?L - unat off") (simp_all add: min_def add.commute)
    ultimately show ?thesis by metis
  qed
  have step: "page_step (mock_ops env) f u off e = Some (if ms = [] then Inl None
         else case find (\<lambda>m. mm_uid m = u) ms of
                Some m \<Rightarrow> Inl (Some (mm_id m))
              | None \<Rightarrow> if of_nat (length ?L) \<le> off + of_nat n then Inl None else Inr (off + of_nat n), e)"
    by (simp only: page_step_mock Let_def ms_def n_def)
  show ?case
  proof (cases "ms = []")
    case True
    then have "drop (unat off) ?L = []" by (simp add: ms_def)
    then show ?thesis using True by (subst eff_loop.simps) (simp add: step)
  next
    case False
    then have n: "0 < n" "unat off + n \<le> length ?L" by (auto simp: n_def ms_def)
    have off': "unat (off + of_nat n) = unat off + n"
      using n(2) assms by (simp add: unat_word_ariths unat_of_nat)
    have "unat (of_nat (length ?L) :: u64) = length ?L" using assms by (simp add: unat_of_nat)
    then have len: "of_nat (length ?L) \<le> off + of_nat n \<longleftrightarrow> length ?L \<le> unat off + n"
      by (simp only: word_le_nat_alt off')
    have found: "find (\<lambda>m. mm_uid m = u) (drop (unat off) ?L) =
        (case find (\<lambda>m. mm_uid m = u) ms of Some m \<Rightarrow> Some m
         | None \<Rightarrow> find (\<lambda>m. mm_uid m = u) (drop (unat off + n) ?L))"
      by (subst split) (simp only: find_append)
    show ?thesis
      using less.hyps [of "off + of_nat n"] n False
      by (subst eff_loop.simps) (simp add: step len off' found split: option.splits)
  qed
qed

lemma message_by_uid_mock:
  assumes "length (mk_messages (en_store e)) < 2 ^ 64"
  shows "message_by_uid (mock_ops env) f u e =
    Some (map_option mm_id (find (\<lambda>m. mm_folder m = f \<and> mm_uid m = u) (mk_messages (en_store e))), e)"
proof -
  have "length (uid_order (en_store e) f) \<le> length (mk_messages (en_store e))"
    by (simp add: uid_order_def)
  then have "length (uid_order (en_store e) f) < 2 ^ 64" using assms by simp
  from message_by_uid_from [OF this, of env u 0] show ?thesis
    by (simp add: message_by_uid_def find_uid_order)
qed

text \<open>
  C21. The lookup of a message by UID always ends and finds the message: reading pages of 500 in
  UID order gives the identifier of the first stored message of the folder with that UID, or
  nothing exactly if there is none, for every folder of fewer than \<open>2 ^ 64\<close> messages.
\<close>

theorem message_by_uid_finds:
  assumes "length (mk_messages (en_store e)) < 2 ^ 64"
  shows "message_by_uid (mock_ops env) f u e =
    Some (map_option mm_id (find (\<lambda>m. mm_folder m = f \<and> mm_uid m = u) (mk_messages (en_store e))), e)"
  using assms by (rule message_by_uid_mock)

theorem message_by_uid_finds_witness:
  "message_by_uid (mock_ops demo_env) (FolderId 1) 3 demo_engine = Some (Some (MessageId 13), demo_engine)"
  using message_by_uid_finds [of demo_engine demo_env "FolderId 1" 3]
  by (simp add: demo_engine_def demo_store_def demo_message_def)

section \<open>The cursors after a flag pass\<close>

lemma messages_by_uids_mock:
  assumes "length (mk_messages (en_store e)) < 2 ^ 64"
  shows "messages_by_uids (mock_ops env :: (mock_state, 'p) mail_store_ops) f us e = Some (List.map_filter (\<lambda>u. map_option mm_id
    (find (\<lambda>m. mm_folder m = f \<and> mm_uid m = u) (mk_messages (en_store e)))) us, e)"
proof (induction us)
  case (Cons u us)
  have "message_by_uid (mock_ops env :: (mock_state, 'p) mail_store_ops) f u e =
    Some (map_option mm_id (find (\<lambda>m. mm_folder m = f \<and> mm_uid m = u) (mk_messages (en_store e))), e)"
    by (rule message_by_uid_mock [OF assms])
  with Cons show ?case by (simp add: eff_bind_def eff_return_def map_filter_Cons split: option.splits)
qed (simp add: eff_return_def)

text \<open>
  C22. A flag pass forgets the folder's UIDVALIDITY: when the server's highest modification sequence
  has grown, the pass ends with the cursors \<open>(0, highest)\<close>, and the row the next cycle reads passes
  the test for a changed UIDVALIDITY whatever the server then reports, so that a reset of the
  mailbox goes unnoticed.
\<close>

theorem flag_pass_forgets_validity:
  assumes "sv_storage sv = mock_ops env" and "length (mk_messages (en_store e)) < 2 ^ 64"
    and "fr_highest_modseq folder < si_highest_modseq info"
    and "mock_cursors (en_store e) (fr_id folder) \<noteq> None"
  shows "\<exists>e' row. flag_changes sv folder info out e = Some ((), e')
    \<and> mock_get_folder env (fr_id folder) (en_store e') = (Inr row, en_store e')
    \<and> fr_uid_validity row = 0 \<and> fr_highest_modseq row = si_highest_modseq info
    \<and> \<not> uid_validity_changed row info'"
proof -
  let ?f = "fr_id folder"
  define r where "r = mock_update_sync_cursors env ?f 0 (Some (si_highest_modseq info)) (en_store e)"
  obtain e1 where e1: "eff_when (ids \<noteq> []) (push_event (FlagsChanged ids)) e = Some ((), e1 ids)"
    "en_store (e1 ids) = en_store e" for ids
    by (rule that [of "\<lambda>ids. if ids = [] then e else e\<lparr>en_bus := bus_push (FlagsChanged ids) (en_bus e)\<rparr>"])
      (auto simp: eff_when_def eff_return_def)
  have ok: "fst r = Inr ()"
    using assms(4) unfolding r_def
    by (cases "find (\<lambda>r. fr_id r = ?f) (mk_folders (en_store e))")
      (simp_all add: mock_update_sync_cursors_def mock_cursors_def)
  then have "r = (Inr (), snd r)" by (metis prod.collapse)
  then have cur: "mock_cursors (snd r) ?f = Some (0, si_highest_modseq info)"
    using mock_cursors_update [of env ?f 0 "Some (si_highest_modseq info)" "en_store e" "Inr ()" "snd r"]
    by (auto simp: r_def)
  obtain ids where "messages_by_uids (sv_storage sv) ?f (changed_uids (sv_lib sv) (co_data out)) e = Some (ids, e)"
    using messages_by_uids_mock [OF assms(2)] assms(1) by auto
  then have run: "flag_changes sv folder info out e = Some ((), (e1 ids)\<lparr>en_store := snd r\<rparr>)"
    using assms(1,3) e1 [of ids]
    by (simp add: flag_changes_def eff_bind_def ignoring_def eff_when_def [of True]
        run_store_def Let_def r_def case_prod_unfold eff_return_def)
  obtain row where "find (\<lambda>r. fr_id r = ?f) (mk_folders (snd r)) = Some row"
    "fr_uid_validity row = 0" "fr_highest_modseq row = si_highest_modseq info"
    using cur by (auto simp: mock_cursors_def)
  with run show ?thesis
    by (intro exI [of _ "(e1 ids)\<lparr>en_store := snd r\<rparr>"] exI [of _ row])
      (simp add: mock_get_folder_def uid_validity_changed_def)
qed

theorem flag_pass_forgets_validity_witness:
  "\<exists>e' row. flag_changes (demo_service []) (demo_row (FolderId 1) 5 7)
      (select_info_default\<lparr>si_uid_validity := 5, si_highest_modseq := 9\<rparr>) demo_fetch demo_engine = Some ((), e')
    \<and> mock_get_folder demo_env (FolderId 1) (en_store e') = (Inr row, en_store e')
    \<and> \<not> uid_validity_changed row (select_info_demo 6)"
proof -
  have "mock_cursors (en_store demo_engine) (FolderId 1) \<noteq> None"
    by (simp add: mock_cursors_def demo_engine_def demo_store_def)
  moreover have "length (mk_messages (en_store demo_engine)) < 2 ^ 64"
    by (simp add: demo_engine_def demo_store_def)
  ultimately show ?thesis
    using flag_pass_forgets_validity [of "demo_service []" demo_env demo_engine "demo_row (FolderId 1) 5 7"
        "select_info_default\<lparr>si_uid_validity := 5, si_highest_modseq := 9\<rparr>" demo_fetch "select_info_demo 6"]
    by (simp add: select_info_default_def) blast
qed

end
