(* ===== verification/Engine_Moves.thy ===== *)
theory Engine_Moves
  imports Engine_Parts
begin

text \<open>
  What an engine does, taken apart into atomic moves: one operation of the store, one event, one look
  at the clock or the token, one connection, one wait.  Every run of either engine is a sequence of
  moves (the locale \<open>engine_runs\<close>, interpreted on sequences of moves), so that what every move keeps
  is kept however the moves of several engines are interleaved.
\<close>

section \<open>Whole runs\<close>

locale engine_runs = engine_cycles +
  assumes sleeping: "keeps P (sleep_for ms)"
begin

lemma reconnects: "keeps P cycle \<Longrightarrow> keeps P (reconnect cancel ops a cycle)"
  unfolding reconnect_def reconnect_round_def by (intro keeps_intros basics states sleeping)

lemma imap_run: "sv_storage sv = ops \<Longrightarrow> keeps P (run sv)"
  unfolding run_def using reconnects [OF imap_cycle] by simp

lemma jmap_whole_run: "js_storage sv = ops \<Longrightarrow> keeps P (jmap_run sv)"
  unfolding jmap_run_def using reconnects [OF jmap_cycle] by simp

end

section \<open>Moves\<close>

inductive engine_move :: "('s, 'p) mail_store_ops \<Rightarrow> 's engine \<Rightarrow> 's engine \<Rightarrow> bool" for ops where
  put_folder: "run_store (upsert_folder ops nf) e = Some (r1, e') \<Longrightarrow> engine_move ops e e'"
| see_folders: "run_store (list_folders ops a) e = Some (r2, e') \<Longrightarrow> engine_move ops e e'"
| see_folder: "run_store (get_folder ops f) e = Some (r3, e') \<Longrightarrow> engine_move ops e e'"
| put_messages: "run_store (ingest_batch ops b) e = Some (r4, e') \<Longrightarrow> engine_move ops e e'"
| see_messages: "run_store (list_messages ops f w srt) e = Some (r5, e') \<Longrightarrow> engine_move ops e e'"
| drop_messages: "run_store (purge_folder ops f) e = Some (r6, e') \<Longrightarrow> engine_move ops e e'"
| put_cursors: "run_store (update_sync_cursors ops f v q) e = Some (r7, e') \<Longrightarrow> engine_move ops e e'"
| see_max_uid: "run_store (max_uid ops f) e = Some (r8, e') \<Longrightarrow> engine_move ops e e'"
| put_blob: "run_store (write_blob ops bs) e = Some (r9, e') \<Longrightarrow> engine_move ops e e'"
| put_state: "run_store (set_account_state ops a st) e = Some (r10, e') \<Longrightarrow> engine_move ops e e'"
| report: "push_event ev e = Some (u, e') \<Longrightarrow> engine_move ops e e'"
| ask_bus: "send_event ev e = Some (ok, e') \<Longrightarrow> engine_move ops e e'"
| see_clock: "read_clock c e = Some (now, e') \<Longrightarrow> engine_move ops e e'"
| see_token: "is_cancelled d e = Some (cancelled, e') \<Longrightarrow> engine_move ops e e'"
| wait: "sleep_for ms e = Some (u, e') \<Longrightarrow> engine_move ops e e'"
| connect: "engine_move ops e (e\<lparr>en_connects := n\<rparr>)"

lemma rtranclp_order: "keeps_order R\<^sup>*\<^sup>*"
  unfolding keeps_order_def by (blast intro: rtranclp_trans)

text \<open>One move is a sequence of moves.\<close>

lemma move_keeps: "(\<And>e a e'. m e = Some (a, e') \<Longrightarrow> engine_move ops e e') \<Longrightarrow> keeps (engine_move ops)\<^sup>*\<^sup>* m"
  unfolding keeps_def by (blast intro: r_into_rtranclp)

interpretation moves: engine_runs "(engine_move ops)\<^sup>*\<^sup>*" ops for ops
proof
  show "(engine_move ops)\<^sup>*\<^sup>* e (e\<lparr>en_connects := n\<rparr>)" for ops :: "('s, 'p) mail_store_ops" and e n
    by (rule r_into_rtranclp) (rule connect)
  show "keeps (engine_move ops)\<^sup>*\<^sup>* (emit_state ops a st)" for ops :: "('s, 'p) mail_store_ops" and a st
    unfolding emit_state_def by (intro keeps_intros rtranclp_order move_keeps) (fact engine_move.intros)+
qed (rule rtranclp_order | (rule move_keeps, erule engine_move.intros))+

text \<open>A preorder that every move keeps is kept by every sequence of moves.\<close>

lemma moves_keep:
  assumes "keeps_order P" and "\<And>e e'. engine_move ops e e' \<Longrightarrow> P e e'"
  shows "(engine_move ops)\<^sup>*\<^sup>* e e' \<Longrightarrow> P e e'"
  by (induction rule: rtranclp_induct)
    (blast intro: keeps_order_refl [OF assms(1)] keeps_order_trans [OF assms(1)] assms(2))+

end
