(* ===== verification/Host.thy ===== *)
theory Host
  imports Outbox_Run Jmap_Run_Facts Sync_Lookup Engine_Moves
begin

text \<open>
  The services of a host together: any number of IMAP and JMAP engines and the outbox service work
  on one store at the same time, while the host puts messages into the outbox.  The engines'
  operations on the store interleave freely, also with the parts of a flush.
\<close>

section \<open>The engines and the outbox\<close>







section \<open>Steps of the host\<close>

text \<open>
  The state of the world, the rows that the outbox service has still to go through, and the row whose
  attempt has been made and not yet been settled.
\<close>

record host =
  ht_engine :: "mock_state engine"
  ht_due :: "outbox_row list"
  ht_sending :: "(outbox_row \<times> send_outcome) option"

definition resting :: "mock_state engine \<Rightarrow> host" where
  "resting e = \<lparr>ht_engine = e, ht_due = [], ht_sending = None\<rparr>"

text \<open>
  What can happen next: some engine makes a move; the outbox service collects the due rows, makes the
  attempt for the next one, or settles the one it has attempted; the host puts a message with a
  fresh id into the outbox.
\<close>

inductive host_step :: "(mock_state, 'p, 'c, 'q) outbox_service \<Rightarrow> host \<Rightarrow> host \<Rightarrow> bool" for ob where
  engine: "engine_move (ob_storage ob) e e' \<Longrightarrow>
    host_step ob \<lparr>ht_engine = e, ht_due = due, ht_sending = fly\<rparr> \<lparr>ht_engine = e', ht_due = due, ht_sending = fly\<rparr>"
| collect: "run_store (outbox_due (ob_storage ob)) e = Some (r, e') \<Longrightarrow>
    host_step ob (resting e) ((resting e')\<lparr>ht_due := unwrap_or [] r\<rparr>)"
| attempt: "try_send ob row e = Some (out, e') \<Longrightarrow>
    host_step ob \<lparr>ht_engine = e, ht_due = row # due, ht_sending = None\<rparr>
      \<lparr>ht_engine = e', ht_due = due, ht_sending = Some (row, out)\<rparr>"
| settle: "settle_row ob row out e = Some (u, e') \<Longrightarrow>
    host_step ob \<lparr>ht_engine = e, ht_due = due, ht_sending = Some (row, out)\<rparr>
      \<lparr>ht_engine = e', ht_due = due, ht_sending = None\<rparr>"
| enqueue: "or_id row \<notin> or_id ` set (mk_outbox (en_store e)) \<Longrightarrow>
    host_step ob \<lparr>ht_engine = e, ht_due = due, ht_sending = fly\<rparr>
      \<lparr>ht_engine = e\<lparr>en_store := mock_push_outbox row (en_store e)\<rparr>, ht_due = due, ht_sending = fly\<rparr>"

section \<open>Runs of the services are made of steps\<close>

definition by_steps :: "(mock_state, 'p, 'c, 'q) outbox_service \<Rightarrow> mock_state engine \<Rightarrow> mock_state engine \<Rightarrow> bool" where
  "by_steps ob e e' \<longleftrightarrow> (host_step ob)\<^sup>*\<^sup>* (resting e) (resting e')"

lemma by_steps_order [keeps_intros]: "keeps_order (by_steps ob)"
  unfolding keeps_order_def by_steps_def by (blast intro: rtranclp_trans)

lemma moves_by_steps: "(engine_move (ob_storage ob))\<^sup>*\<^sup>* e e' \<Longrightarrow> by_steps ob e e'"
  by (rule moves_keep [OF by_steps_order]) (auto simp: by_steps_def resting_def intro: host_step.engine)

lemma moves_lift: "keeps (engine_move (ob_storage ob))\<^sup>*\<^sup>* m \<Longrightarrow> keeps (by_steps ob) m"
  unfolding keeps_def by (blast intro: moves_by_steps)

lemmas engines_by_steps = moves_lift [OF moves.imap_run] moves_lift [OF moves.imap_cycle]
  moves_lift [OF moves.jmap_whole_run] moves_lift [OF moves.jmap_cycle]

lemma rows_by_steps:
  "eff_each (flush_row ob) rows e = Some (u, e') \<Longrightarrow> (host_step ob)\<^sup>*\<^sup>* ((resting e)\<lparr>ht_due := rows\<rparr>) (resting e')"
proof (induction rows arbitrary: e)
  case Nil
  then show ?case by (simp add: resting_def)
next
  case (Cons row rows)
  then obtain out e1 e2 where "try_send ob row e = Some (out, e1)" "settle_row ob row out e1 = Some ((), e2)"
    and rest: "(host_step ob)\<^sup>*\<^sup>* ((resting e2)\<lparr>ht_due := rows\<rparr>) (resting e')"
    by (auto simp: eff_bind_Some flush_row_def)
  from host_step.attempt [OF this(1), of rows] host_step.settle [OF this(2), of rows] rest show ?case
    by (simp add: resting_def)
qed

lemma flush_by_steps: "keeps (by_steps ob) (flush_once ob)"
proof (rule keepsI)
  fix e r e'
  assume "flush_once ob e = Some (r, e')"
  then obtain d e1 where "run_store (outbox_due (ob_storage ob)) e = Some (d, e1)"
    and rows: "eff_each (flush_row ob) (unwrap_or [] d) e1 = Some ((), e')"
    by (cases "fst (outbox_due (ob_storage ob) (en_store e))")
      (auto simp: flush_once_def try_bind_Some eff_bind_Some eff_lift_def run_store_Some)
  from host_step.collect [OF this(1)] rows_by_steps [OF rows] show "by_steps ob e e'"
    unfolding by_steps_def by (rule converse_rtranclp_into_rtranclp)
qed

lemma outbox_by_steps: "keeps (by_steps ob) (outbox_run ob)"
proof -
  have "keeps (by_steps ob) (is_cancelled d)" for d
    unfolding keeps_def by (blast intro: moves_by_steps see_token)
  then show ?thesis unfolding outbox_run_def outbox_round_def by (intro keeps_intros flush_by_steps) simp
qed

section \<open>What the host relies on\<close>

















section \<open>Properties\<close>


text \<open>
  C7. The steps are fine enough: every run and every cycle of either engine, every flush and every
  run of the outbox service that comes to its end is a sequence of steps of the host.
\<close>

theorem services_take_steps:
  assumes "sv_storage sv = ob_storage ob" "js_storage js = ob_storage ob"
    and "run sv e = Some (u, e') \<or> run_one_cycle sv e = Some (r, e') \<or> jmap_run js e = Some (u, e')
      \<or> jmap_one_cycle js e = Some (r, e') \<or> flush_once ob e = Some (r, e') \<or> outbox_run ob e = Some (u, e')"
  shows "(host_step ob)\<^sup>*\<^sup>* (resting e) (resting e')"
proof -
  have "by_steps ob e e'"
    using assms(3) keepsD [OF engines_by_steps(1) [OF assms(1)]] keepsD [OF engines_by_steps(2) [OF assms(1)]]
      keepsD [OF engines_by_steps(3) [OF assms(2)]] keepsD [OF engines_by_steps(4) [OF assms(2)]]
      keepsD [OF flush_by_steps] keepsD [OF outbox_by_steps] by (elim disjE) blast+
  then show ?thesis by (simp add: by_steps_def)
qed

text \<open>A run of an engine that cannot connect: three cycles and waits, as steps of the host.\<close>

theorem services_take_steps_witness:
  "\<exists>e'. run offline_service demo_engine = Some ((), e') \<and> (host_step (demo_outbox True))\<^sup>*\<^sup>* (resting demo_engine) (resting e')"
proof -
  obtain e' where run: "run offline_service demo_engine = Some ((), e')" using offline_run by blast
  have "sv_storage offline_service = ob_storage (demo_outbox True)" "js_storage demo_jmap = ob_storage (demo_outbox True)"
    by (simp_all add: offline_service_def)
  from services_take_steps [OF this] run show ?thesis by blast
qed



end
