(* ===== verification/Store_Types.thy ===== *)
theory Store_Types
  imports Host "HOL-Library.Sublist"
begin

text \<open>
  The shape of the store that the engines and the outbox service work on: names and ids are unique,
  every step of the host keeps them so, and what an id names never changes.
\<close>

section \<open>Well-formed stores\<close>

definition folder_keys :: "mock_state \<Rightarrow> (folder_id \<times> account_id \<times> rstr) list" where
  "folder_keys s = map (\<lambda>r. (fr_id r, fr_account r, fr_remote_name r)) (mk_folders s)"

definition message_keys :: "mock_state \<Rightarrow> (message_id \<times> folder_id \<times> u32) list" where
  "message_keys s = map (\<lambda>m. (mm_id m, mm_folder m, mm_uid m)) (mk_messages s)"

text \<open>
  Folders have distinct ids and distinct names within an account, messages distinct ids and distinct
  UIDs within a folder, a digest one blob and an account one state, and every id in use has been
  drawn.
\<close>

definition well_formed :: "mock_env \<Rightarrow> mock_state \<Rightarrow> bool" where
  "well_formed env s \<longleftrightarrow>
     distinct (map fst (folder_keys s)) \<and> distinct (map snd (folder_keys s))
     \<and> distinct (map fst (message_keys s)) \<and> distinct (map snd (message_keys s))
     \<and> distinct (map fst (mk_blobs s)) \<and> distinct (map fst (mk_account_states s))
     \<and> fst ` set (folder_keys s) \<subseteq> FolderId ` me_uuid env ` {..<mk_drawn s}
     \<and> fst ` set (message_keys s) \<subseteq> MessageId ` me_uuid env ` {..<mk_drawn s}"

text \<open>The UUIDs drawn so far are distinct.\<close>

definition fresh_uuids :: "mock_env \<Rightarrow> mock_state \<Rightarrow> bool" where
  "fresh_uuids env s \<longleftrightarrow> inj_on (me_uuid env) {..<mk_drawn s}"

text \<open>
  What an operation does to the shape: ids are drawn, folders are added behind the others and keep
  their ids and names, a message is an old one or has an id that is drawn meanwhile, and a
  well-formed store stays so unless an id has been drawn twice.
\<close>

definition shapes :: "mock_env \<Rightarrow> mock_state \<Rightarrow> mock_state \<Rightarrow> bool" where
  "shapes env s s' \<longleftrightarrow> mk_drawn s \<le> mk_drawn s' \<and> prefix (folder_keys s) (folder_keys s')
     \<and> (\<forall>k \<in> set (message_keys s') - set (message_keys s).
          fst k \<in> MessageId ` me_uuid env ` {mk_drawn s..<mk_drawn s'})
     \<and> (fresh_uuids env s' \<longrightarrow> well_formed env s \<longrightarrow> well_formed env s')"

lemma shapes_refl [simp]: "shapes env s s"
  by (simp add: shapes_def)

lemma shapes_trans:
  assumes "shapes env s t" "shapes env t u"
  shows "shapes env s u"
proof -
  have le: "mk_drawn s \<le> mk_drawn t" "mk_drawn t \<le> mk_drawn u" using assms by (simp_all add: shapes_def)
  then have fresh: "fresh_uuids env u \<Longrightarrow> fresh_uuids env t" by (auto simp: fresh_uuids_def intro: inj_on_subset)
  have "fst k \<in> MessageId ` me_uuid env ` {mk_drawn s..<mk_drawn u}" if "k \<in> set (message_keys u) - set (message_keys s)" for k
  proof (cases "k \<in> set (message_keys t)")
    case True
    with that assms(1) have "fst k \<in> MessageId ` me_uuid env ` {mk_drawn s..<mk_drawn t}" by (simp add: shapes_def)
    then show ?thesis by (rule subsetD [rotated]) (use le in \<open>auto intro!: image_mono\<close>)
  next
    case False
    with that assms(2) have "fst k \<in> MessageId ` me_uuid env ` {mk_drawn t..<mk_drawn u}" by (simp add: shapes_def)
    then show ?thesis by (rule subsetD [rotated]) (use le in \<open>auto intro!: image_mono\<close>)
  qed
  moreover have "prefix (folder_keys s) (folder_keys u)" using assms unfolding shapes_def by (meson prefix_order.trans)
  ultimately show ?thesis using assms le fresh by (simp add: shapes_def)
qed

section \<open>The operations\<close>

lemma shapes_same:
  assumes "mk_drawn s' = mk_drawn s" "folder_keys s' = folder_keys s" "message_keys s' = message_keys s"
    and "distinct (map fst (mk_blobs s)) \<longrightarrow> distinct (map fst (mk_blobs s'))"
    and "distinct (map fst (mk_account_states s)) \<longrightarrow> distinct (map fst (mk_account_states s'))"
  shows "shapes env s s'"
  using assms by (simp add: shapes_def well_formed_def)

lemmas key_defs = folder_keys_def message_keys_def

text \<open>An id that is drawn is new, unless it repeats an earlier one.\<close>

lemma drawn_new: "inj_on (me_uuid env) {..<Suc n} \<Longrightarrow> me_uuid env n \<notin> me_uuid env ` {..<n}"
  by (auto dest: inj_onD)

lemma ids_drawn:
  assumes "well_formed env s"
  shows "fst ` set (message_keys s) \<subseteq> MessageId ` me_uuid env ` {..<Suc (mk_drawn s)}"
    "fst ` set (folder_keys s) \<subseteq> FolderId ` me_uuid env ` {..<Suc (mk_drawn s)}"
proof -
  have mono: "C ` me_uuid env ` {..<mk_drawn s} \<subseteq> C ` me_uuid env ` {..<Suc (mk_drawn s)}" for C :: "uuid \<Rightarrow> 'a"
    by (intro image_mono) auto
  show "fst ` set (message_keys s) \<subseteq> MessageId ` me_uuid env ` {..<Suc (mk_drawn s)}"
    "fst ` set (folder_keys s) \<subseteq> FolderId ` me_uuid env ` {..<Suc (mk_drawn s)}"
    using assms by (simp_all only: well_formed_def order_trans [OF _ mono])
qed

lemma shapes_folder:
  assumes "mk_drawn s' = Suc (mk_drawn s)" "folder_keys s' = folder_keys s @ [(FolderId (me_uuid env (mk_drawn s)), k)]"
    and "k \<notin> snd ` set (folder_keys s)" "message_keys s' = message_keys s" "mk_blobs s' = mk_blobs s"
    "mk_account_states s' = mk_account_states s"
  shows "shapes env s s'"
proof -
  have "FolderId (me_uuid env (mk_drawn s)) \<notin> fst ` set (folder_keys s)" if "fresh_uuids env s'" "well_formed env s"
    using that drawn_new [of env "mk_drawn s"] by (auto simp: fresh_uuids_def assms(1) well_formed_def)
  with assms ids_drawn [of env s] show ?thesis by (simp add: shapes_def well_formed_def)
qed

lemma shapes_message:
  assumes "mk_drawn s' = Suc (mk_drawn s)" "message_keys s' = message_keys s @ [(MessageId (me_uuid env (mk_drawn s)), k)]"
    and "k \<notin> snd ` set (message_keys s)" "folder_keys s' = folder_keys s" "mk_blobs s' = mk_blobs s"
    "mk_account_states s' = mk_account_states s"
  shows "shapes env s s'"
proof -
  have "MessageId (me_uuid env (mk_drawn s)) \<notin> fst ` set (message_keys s)" if "fresh_uuids env s'" "well_formed env s"
    using that drawn_new [of env "mk_drawn s"] by (auto simp: fresh_uuids_def assms(1) well_formed_def)
  with assms ids_drawn [of env s] show ?thesis by (simp add: shapes_def well_formed_def insert_Diff_if)
qed

lemma upsert_shapes: "shapes env s (snd (mock_upsert_folder env nf s))"
proof (cases "find (\<lambda>r. fr_account r = nf_account nf \<and> fr_remote_name r = nf_remote_name nf) (mk_folders s)")
  case None
  then have "(nf_account nf, nf_remote_name nf) \<notin> snd ` set (folder_keys s)"
    by (auto simp: find_None_iff key_defs)
  with None show ?thesis by (intro shapes_folder) (simp_all add: mock_upsert_folder_def Let_def key_defs)
next
  case (Some r)
  then show ?thesis
    by (intro shapes_same) (simp_all add: mock_upsert_folder_def key_defs image_update_first)
qed

lemma ingest_one_shapes: "shapes env s (snd (mock_ingest_one env m s))"
proof (cases "find (\<lambda>x. mm_folder x = im_folder m \<and> mm_uid x = im_uid m) (mk_messages s)")
  case None
  then have "(im_folder m, im_uid m) \<notin> snd ` set (message_keys s)"
    by (auto simp: find_None_iff key_defs)
  with None show ?thesis by (intro shapes_message) (simp_all add: mock_ingest_one_def Let_def key_defs)
next
  case (Some x)
  then show ?thesis
    by (intro shapes_same) (simp_all add: mock_ingest_one_def key_defs image_update_first)
qed

lemma ingest_shapes: "shapes env s (snd (mock_ingest_batch env b s))"
proof -
  have "shapes env s (snd (mock_ingest_loop env b i u s))" for i u
  proof (induction b arbitrary: i u s)
    case (Cons m ms)
    have "shapes env s (snd (mock_ingest_one env m s))" by (rule ingest_one_shapes)
    with Cons show ?case by (cases "mock_ingest_one env m s") (auto intro: shapes_trans)
  qed simp
  moreover have "shapes env t (t\<lparr>mk_ingest_inserted := n\<rparr>)" for t n
    by (rule shapes_same) (simp_all add: key_defs)
  ultimately show ?thesis
    unfolding mock_ingest_batch_def Let_def case_prod_unfold snd_conv by (rule shapes_trans)
qed

lemma purge_shapes: "shapes env s (snd (mock_purge_folder f s))"
proof -
  let ?s' = "snd (mock_purge_folder f s)"
  have keys: "message_keys ?s' = filter (\<lambda>k. fst (snd k) \<noteq> f) (message_keys s)" "folder_keys ?s' = folder_keys s"
    by (simp_all add: mock_purge_folder_def Let_def key_defs filter_map comp_def)
  moreover have "mk_drawn ?s' = mk_drawn s" "mk_blobs ?s' = mk_blobs s" "mk_account_states ?s' = mk_account_states s"
    by (simp_all add: mock_purge_folder_def Let_def)
  ultimately show ?thesis by (auto simp: shapes_def well_formed_def distinct_map_filter)
qed

lemma account_state_shapes: "shapes env s (snd (mock_set_account_state a st s))"
proof (cases "find (\<lambda>(b, _). b = a) (mk_account_states s)")
  case None
  then have "a \<notin> fst ` set (mk_account_states s)" by (auto simp: find_None_iff)
  with None show ?thesis by (intro shapes_same) (simp_all add: mock_set_account_state_def key_defs)
next
  case (Some x)
  have "map fst (update_first (\<lambda>(b, _). b = a) (\<lambda>(b, _). (b, st)) xs) = map fst xs" for xs :: "(account_id \<times> connection_state) list"
    by (rule image_update_first) auto
  with Some show ?thesis by (intro shapes_same) (simp_all add: mock_set_account_state_def key_defs)
qed

lemma blob_shapes: "shapes env s (snd (mock_write_blob env bs s))"
  by (rule shapes_same) (auto simp: mock_write_blob_def Let_def key_defs)

lemma cursor_shapes: "shapes env s (snd (mock_update_sync_cursors env f v q s))"
  by (rule shapes_same)
    (simp_all add: mock_update_sync_cursors_def key_defs image_update_first split: option.splits)

lemma outbox_shapes: "shapes env s (s\<lparr>mk_outbox := rows\<rparr>)"
  by (rule shapes_same) (simp_all add: key_defs)

section \<open>The steps of the host\<close>

lemma move_shapes: "engine_move (mock_ops env) e e' \<Longrightarrow> shapes env (en_store e) (en_store e')"
  by (induction rule: engine_move.induct)
    (auto simp: run_store_Some upsert_shapes ingest_shapes purge_shapes account_state_shapes blob_shapes cursor_shapes
      mock_list_folders_def mock_get_folder_def mock_list_messages_def mock_max_uid_def send_event_def sleep_for_def
      Let_def split: option.splits prod.splits)

lemma host_step_shapes:
  assumes "ob_storage ob = mock_ops env" and "host_step ob h h'"
  shows "shapes env (en_store (ht_engine h)) (en_store (ht_engine h'))"
  using assms(2)
proof (cases rule: host_step.cases)
  case (engine e e' due fly)
  then show ?thesis using move_shapes [of env] assms(1) by simp
next
  case (collect e r e')
  then show ?thesis using assms(1) by (simp add: run_store_Some mock_outbox_due_def resting_def)
next
  case (attempt row e out e' due)
  then show ?thesis using try_send_Some [OF attempt(3)] assms(1) by (simp add: mock_read_blob_def split: option.splits prod.splits)
next
  case (settle row out e u e' due)
  then have "shapes env (en_store e) (en_store e')"
    using assms(1) by (cases out)
      (auto simp: settle_row_def mark_transient_def Let_def eff_bind_Some ignoring_Some run_store_Some eff_when_def
        mock_outbox_mark_sent_def mock_outbox_mark_retry_def outbox_shapes split: if_splits option.splits)
  then show ?thesis using settle by simp
next
  case (enqueue row e due fly)
  then show ?thesis by (simp add: mock_push_outbox_def outbox_shapes)
qed

section \<open>Property\<close>

text \<open>
  C8. The store keeps its type: as long as no UUID is drawn twice, every step of the engines and the
  outbox service leaves a well-formed store well-formed.  A folder keeps its id, its account and its
  name, and an id that names a message never comes to name another one, also when the folder is
  emptied and filled again in between.
\<close>

theorem store_stays_well_formed:
  assumes "ob_storage ob = mock_ops env" and "(host_step ob)\<^sup>*\<^sup>* (resting e) h"
    and "well_formed env (en_store e)" and "fresh_uuids env (en_store (ht_engine h))"
  shows "well_formed env (en_store (ht_engine h))
    \<and> prefix (folder_keys (en_store e)) (folder_keys (en_store (ht_engine h)))
    \<and> (\<forall>k \<in> set (message_keys (en_store e)). \<forall>k' \<in> set (message_keys (en_store (ht_engine h))). fst k' = fst k \<longrightarrow> k' = k)"
proof -
  let ?s = "en_store e" and ?t = "en_store (ht_engine h)"
  have sh: "shapes env ?s ?t"
    using assms(2)
  proof (induction rule: rtranclp_induct)
    case (step t u)
    then show ?case using shapes_trans host_step_shapes [OF assms(1) step(2)] by blast
  qed (simp add: resting_def)
  have "k' = k" if k: "k \<in> set (message_keys ?s)" "k' \<in> set (message_keys ?t)" "fst k' = fst k" for k k'
  proof (cases "k' \<in> set (message_keys ?s)")
    case True
    then show ?thesis using k(1,3) assms(3) by (metis distinct_map inj_onD well_formed_def)
  next
    case False
    then have "fst k' \<in> MessageId ` me_uuid env ` {mk_drawn ?s..<mk_drawn ?t}" using sh k(2) by (simp add: shapes_def)
    then obtain n where n: "mk_drawn ?s \<le> n" "n < mk_drawn ?t" "fst k' = MessageId (me_uuid env n)"
      by auto
    obtain m where m: "m < mk_drawn ?s" "fst k = MessageId (me_uuid env m)"
      using assms(3) k(1) by (auto simp: well_formed_def)
    with n k(3) have "m = n" using assms(4) by (auto simp: fresh_uuids_def inj_on_def)
    with n m show ?thesis by simp
  qed
  with sh assms(3,4) show ?thesis by (auto simp: shapes_def)
qed

text \<open>A new store, into which an engine puts a folder and a message.\<close>

definition demo_folder :: new_folder where
  "demo_folder = \<lparr>nf_account = AccountId 1, nf_remote_name = lit ''A'', nf_attributes = [], nf_role = None,
     nf_delimiter = lit ''/'', nf_uid_validity = 0, nf_highest_modseq = 0\<rparr>"

definition demo_mail :: "unit ingest_message" where
  "demo_mail = \<lparr>im_folder = FolderId 100, im_uid = 7, im_internal_date = 0, im_flags = [], im_parsed = (),
     im_raw_blob = None, im_raw_size = 0\<rparr>"

lemma demo_fresh: "mk_drawn s = 2 \<Longrightarrow> fresh_uuids demo_env s"
  by (auto simp: fresh_uuids_def demo_env_def lessThan_Suc numeral_2_eq_2)

lemma new_well_formed: "well_formed env mock_new"
  by (simp add: well_formed_def mock_new_def folder_keys_def message_keys_def)

theorem store_stays_well_formed_witness:
  "\<exists>h. (host_step (demo_outbox True))\<^sup>*\<^sup>* (resting (demo_engine\<lparr>en_store := mock_new\<rparr>)) h
    \<and> message_keys (en_store (ht_engine h)) = [(MessageId 101, FolderId 100, 7)]
    \<and> well_formed demo_env (en_store (ht_engine h))"
proof -
  let ?e0 = "demo_engine\<lparr>en_store := mock_new\<rparr>" and ?move = "engine_move (ob_storage (demo_outbox True))"
  obtain i s1 where s1: "mock_upsert_folder demo_env demo_folder mock_new = (Inr i, s1)" "mk_drawn s1 = 1" "mk_messages s1 = []"
    by (simp add: mock_upsert_folder_def mock_new_def Let_def)
  obtain st s2 where s2: "mock_ingest_batch demo_env [demo_mail] s1 = (Inr st, s2)" "mk_drawn s2 = 2"
    "message_keys s2 = [(MessageId 101, FolderId 100, 7)]"
    using s1 by (simp add: mock_ingest_batch_def mock_ingest_one_def Let_def demo_mail_def demo_env_def message_keys_def)
  have "?move ?e0 (?e0\<lparr>en_store := s1\<rparr>)"
    using s1 by (intro put_folder [of _ demo_folder]) (simp add: run_store_def)
  moreover have "?move (?e0\<lparr>en_store := s1\<rparr>) (?e0\<lparr>en_store := s2\<rparr>)"
    using s2 by (intro put_messages [of _ "[demo_mail]"]) (simp add: run_store_def)
  ultimately have "?move\<^sup>*\<^sup>* ?e0 (?e0\<lparr>en_store := s2\<rparr>)" by (meson rtranclp.intros)
  then have steps: "(host_step (demo_outbox True))\<^sup>*\<^sup>* (resting ?e0) (resting (?e0\<lparr>en_store := s2\<rparr>))"
    using moves_by_steps unfolding by_steps_def by blast
  have "well_formed demo_env s2"
    using store_stays_well_formed [OF _ steps, of demo_env] demo_fresh [OF s2(2)] new_well_formed by (simp add: resting_def)
  with steps s2(3) show ?thesis
    by (intro exI [of _ "resting (?e0\<lparr>en_store := s2\<rparr>)"] conjI) (simp_all add: resting_def)
qed

end
