(* ===== verification/Sync_Hierarchy.thy ===== *)
theory Sync_Hierarchy
  imports Store_Types
begin

text \<open>
  The folder listing of the IMAP engine (\<open>sync_hierarchy\<close> of \<open>src/src/sync.rs\<close>): what the stored
  folders are after a successful LIST.
\<close>

section \<open>A sequence of upserts\<close>

definition upserts :: "mock_env \<Rightarrow> new_folder list \<Rightarrow> mock_state \<Rightarrow> mock_state" where
  "upserts env nfs s = fold (\<lambda>nf s. snd (mock_upsert_folder env nf s)) nfs s"

lemma upserts_snoc: "upserts env (nfs @ [nf]) s = snd (mock_upsert_folder env nf (upserts env nfs s))"
  by (simp add: upserts_def)

lemma upserts_shapes: "shapes env s (upserts env nfs s)"
proof (induction nfs rule: rev_induct)
  case (snoc nf nfs)
  then show ?case unfolding upserts_snoc using upsert_shapes shapes_trans by blast
qed (simp add: upserts_def)

lemma each_upserts:
  "eff_each (\<lambda>nf. ignoring (on_engine (run_store (mock_upsert_folder env nf)))) nfs (e, s)
     = Some ((), (e\<lparr>en_store := upserts env nfs (en_store e)\<rparr>, s))"
proof (induction nfs arbitrary: e)
  case (Cons nf nfs)
  obtain r t where "mock_upsert_folder env nf (en_store e) = (r, t)" by (rule prod.exhaust)
  with Cons [of "e\<lparr>en_store := t\<rparr>"] show ?case
    by (simp add: eff_bind_def ignoring_def on_engine_def run_store_def upserts_def)
qed (simp add: upserts_def)

text \<open>The last entry of a listing with the given name decides.\<close>

definition last_named :: "new_folder list \<Rightarrow> rstr \<Rightarrow> new_folder option" where
  "last_named nfs n = find (\<lambda>nf. nf_remote_name nf = n) (rev nfs)"

lemma last_named_snoc: "last_named (nfs @ [nf]) n = (if nf_remote_name nf = n then Some nf else last_named nfs n)"
  by (simp add: last_named_def)

text \<open>A row of the account after the upserts: as its last entry says, or as it was.\<close>

definition as_listed :: "new_folder list \<Rightarrow> mock_state \<Rightarrow> folder_row \<Rightarrow> bool" where
  "as_listed nfs s row \<longleftrightarrow>
     (case last_named nfs (fr_remote_name row) of
        Some nf \<Rightarrow> fr_attributes row = nf_attributes nf \<and> fr_role row = nf_role nf \<and> fr_delimiter row = nf_delimiter nf
      | None \<Rightarrow> row \<in> set (mk_folders s))"

lemma update_first_mem:
  assumes "find p xs = Some x" "distinct (map h xs)" "\<And>y. p y \<longleftrightarrow> h y = k" "y \<in> set (update_first p g xs)"
  shows "y = g x \<or> y \<in> set xs \<and> \<not> p y"
  using assms(1,2,4)
proof (induction xs)
  case (Cons z zs)
  show ?case
  proof (cases "p z")
    case True
    with Cons.prems have "x = z" "y = g z \<or> y \<in> set zs" by auto
    moreover have "\<not> p y" if "y \<in> set zs"
      using that True Cons.prems(2) assms(3) by (metis distinct.simps(2) image_eqI list.map(2) list.set_map)
    ultimately show ?thesis by auto
  next
    case False
    with Cons show ?thesis by auto
  qed
qed simp

lemma names_distinct: "well_formed env s \<Longrightarrow> distinct (map (\<lambda>r. (fr_account r, fr_remote_name r)) (mk_folders s))"
  by (simp add: well_formed_def folder_keys_def comp_def)

lemma upserts_listed:
  assumes "well_formed env s" and "fresh_uuids env (upserts env nfs s)" and "\<forall>nf \<in> set nfs. nf_account nf = a"
    and "row \<in> set (mk_folders (upserts env nfs s))" and "fr_account row = a"
  shows "as_listed nfs s row"
  using assms(2-)
proof (induction nfs arbitrary: row rule: rev_induct)
  case Nil
  then show ?case by (simp add: upserts_def as_listed_def last_named_def)
next
  case (snoc nf nfs)
  let ?t = "upserts env nfs s"
  let ?same = "\<lambda>r. fr_account r = nf_account nf \<and> fr_remote_name r = nf_remote_name nf"
  have acc: "nf_account nf = a" using snoc.prems(2) by simp
  have "shapes env ?t (upserts env (nfs @ [nf]) s)" unfolding upserts_snoc by (rule upsert_shapes)
  then have fresh: "fresh_uuids env ?t"
    using snoc.prems(1) by (auto simp: shapes_def fresh_uuids_def intro: inj_on_subset)
  then have wf: "well_formed env ?t" using upserts_shapes [of env s nfs] assms(1) by (simp add: shapes_def)
  note IH = snoc.IH [OF fresh _ _ snoc.prems(4)]
  show ?case
  proof (cases "find ?same (mk_folders ?t)")
    case None
    then have other: "\<forall>r \<in> set (mk_folders ?t). \<not> ?same r" by (auto simp: find_None_iff)
    from None have "row \<in> set (mk_folders ?t)
        \<or> fr_remote_name row = nf_remote_name nf \<and> fr_attributes row = nf_attributes nf \<and> fr_role row = nf_role nf
          \<and> fr_delimiter row = nf_delimiter nf"
      using snoc.prems(3) by (auto simp: upserts_snoc mock_upsert_folder_def Let_def)
    with other show ?thesis using IH snoc.prems(2,4) acc by (auto simp: as_listed_def last_named_snoc)
  next
    case (Some r)
    have "row = r\<lparr>fr_attributes := nf_attributes nf, fr_role := nf_role nf, fr_delimiter := nf_delimiter nf\<rparr>
        \<or> row \<in> set (mk_folders ?t) \<and> \<not> ?same row"
      using snoc.prems(3) Some
      by (intro update_first_mem [OF Some names_distinct [OF wf]]) (auto simp: upserts_snoc mock_upsert_folder_def)
    moreover have "fr_remote_name r = nf_remote_name nf" using find_SomeD [OF Some] by simp
    ultimately show ?thesis using IH snoc.prems(2,4) acc by (auto simp: as_listed_def last_named_snoc)
  qed
qed

lemma upserts_names:
  assumes "\<forall>nf \<in> set nfs. nf_account nf = a"
  shows "fr_remote_name ` {r \<in> set (mk_folders (upserts env nfs s)). fr_account r = a}
    = fr_remote_name ` {r \<in> set (mk_folders s). fr_account r = a} \<union> nf_remote_name ` set nfs"
  using assms
proof (induction nfs rule: rev_induct)
  case (snoc nf nfs)
  let ?t = "upserts env nfs s"
  let ?names = "\<lambda>s. fr_remote_name ` {r \<in> set (mk_folders s). fr_account r = a}"
  let ?same = "\<lambda>r. fr_account r = nf_account nf \<and> fr_remote_name r = nf_remote_name nf"
  have acc: "nf_account nf = a" using snoc.prems by simp
  have keys: "?names u = snd ` {k \<in> snd ` set (folder_keys u). fst k = a}" for u
    by (auto simp: folder_keys_def image_iff)
  have "?names (snd (mock_upsert_folder env nf ?t)) = insert (nf_remote_name nf) (?names ?t)"
  proof (cases "find ?same (mk_folders ?t)")
    case None
    with acc have "snd ` set (folder_keys (snd (mock_upsert_folder env nf ?t))) = insert (a, nf_remote_name nf) (snd ` set (folder_keys ?t))"
      by (simp add: mock_upsert_folder_def Let_def folder_keys_def)
    moreover have "{k \<in> insert (a, nf_remote_name nf) K. fst k = a} = insert (a, nf_remote_name nf) {k \<in> K. fst k = a}" for K
      by auto
    ultimately show ?thesis unfolding keys by simp
  next
    case (Some r)
    then have "folder_keys (snd (mock_upsert_folder env nf ?t)) = folder_keys ?t"
      by (simp add: mock_upsert_folder_def folder_keys_def image_update_first)
    moreover have "nf_remote_name nf \<in> ?names ?t" using find_SomeD [OF Some] acc by force
    ultimately show ?thesis unfolding keys by (simp add: insert_absorb)
  qed
  with snoc show ?case by (simp add: upserts_snoc)
qed (simp add: upserts_def)

lemma find_update_first_view:
  "(\<And>x. h (g x) = h x) \<Longrightarrow> (\<And>x. q (g x) = q x) \<Longrightarrow> map_option h (find q (update_first p g xs)) = map_option h (find q xs)"
  by (induction xs) auto

lemma upserts_cursors: "mock_cursors s f \<noteq> None \<Longrightarrow> mock_cursors (upserts env nfs s) f = mock_cursors s f"
proof (induction nfs rule: rev_induct)
  case (snoc nf nfs)
  have "mock_cursors (snd (mock_upsert_folder env nf t)) f = mock_cursors t f" if "mock_cursors t f \<noteq> None" for t
    using that
    by (cases "find (\<lambda>r. fr_account r = nf_account nf \<and> fr_remote_name r = nf_remote_name nf) (mk_folders t)")
      (auto simp: mock_upsert_folder_def mock_cursors_def Let_def find_append find_update_first_view)
  with snoc show ?case by (simp add: upserts_snoc)
qed (simp add: upserts_def)

section \<open>Reading the folders back\<close>

lemma find_id: "distinct (map fr_id fs) \<Longrightarrow> r \<in> set fs \<Longrightarrow> find (\<lambda>f. fr_id f = fr_id r) fs = Some r"
  by (induction fs) auto

lemma mock_get_folders:
  assumes "distinct (map fr_id (mk_folders (en_store e)))" "set rows \<subseteq> set (mk_folders (en_store e))"
  shows "get_folders (mock_ops env) (map (mock_summary (en_store e)) rows) e = Some (rows, e)"
  using assms(2)
proof (induction rows)
  case (Cons r rows)
  then have "mock_get_folder env (fs_id (mock_summary (en_store e) r)) (en_store e) = (Inr r, en_store e)"
    using find_id [OF assms(1), of r] by (simp add: mock_get_folder_def mock_summary_def Let_def)
  with Cons show ?case by (simp add: eff_bind_def run_store_def)
qed simp

lemma mock_stored:
  assumes "distinct (map fr_id (mk_folders (en_store e)))"
  shows "list_stored_folders (mock_ops env) a e = Some (filter (\<lambda>r. fr_account r = a) (mk_folders (en_store e)), e)"
  using mock_get_folders [OF assms, of "filter (\<lambda>r. fr_account r = a) (mk_folders (en_store e))" env]
  by (simp add: list_stored_folders_def eff_bind_def run_store_def mock_list_folders_def)

lemma mock_stored_reads:
  assumes "list_stored_folders (mock_ops env) a e = Some (rows, e')"
  shows "en_store e' = en_store e"
proof -
  have order [keeps_intros]: "keeps_order (\<lambda>s s' :: mock_state. s' = s)" by (simp add: keeps_order_def)
  have "keeps (on_stores (\<lambda>s s'. s' = s)) (get_folders (mock_ops env :: (mock_state, 'p) mail_store_ops) fs)" for fs
    by (induction fs; unfold get_folders.simps mock_ops_simps; intro keeps_intros keeps_run_store)
      (simp add: mock_get_folder_def split: option.splits)
  then have "keeps (on_stores (\<lambda>s s'. s' = s)) (list_stored_folders (mock_ops env :: (mock_state, 'p) mail_store_ops) a)"
    unfolding list_stored_folders_def mock_ops_simps
    by (intro keeps_intros keeps_run_store) (simp_all add: mock_list_folders_def)
  from keepsD [OF this] show ?thesis using assms by (simp add: on_stores_def)
qed

section \<open>Property\<close>

text \<open>
  C9. After a successful LIST the stored folders are those listed and those known before: the folders
  returned are all folders of the account, their names the listed and the former ones; attributes,
  role and delimiter are as in the last entry of the name, and a folder that is not listed any more is
  as it was.  No folder loses its cursors.
\<close>

theorem hierarchy_lists:
  assumes "sv_storage sv = mock_ops env" and "sync_hierarchy sv (e, s) = Some (Inr rows, (e', s'))"
    and "well_formed env (en_store e)" and "fresh_uuids env (en_store e')"
  shows "\<exists>out s1. execute (sv_client sv) (sv_lib sv) (list_command (sv_lib sv)) 60 s = Some (Inr out, s1) \<and> is_ok out
    \<and> (let listed = List.map_filter (listed_folder sv) (co_data out);
           of_account = (\<lambda>st. filter (\<lambda>r. fr_account r = sv_account sv) (mk_folders st))
       in rows = of_account (en_store e')
        \<and> fr_remote_name ` set rows = fr_remote_name ` set (of_account (en_store e)) \<union> nf_remote_name ` set listed
        \<and> (\<forall>row \<in> set rows. as_listed listed (en_store e) row)
        \<and> (\<forall>f. mock_cursors (en_store e) f \<noteq> None \<longrightarrow> mock_cursors (en_store e') f = mock_cursors (en_store e) f))"
proof -
  obtain out s1 where out: "execute (sv_client sv) (sv_lib sv) (list_command (sv_lib sv)) 60 s = Some (Inr out, s1)" "is_ok out"
    and run: "eff_bind (eff_each (\<lambda>nf. ignoring (on_engine (run_store (mock_upsert_folder env nf))))
           (List.map_filter (listed_folder sv) (co_data out))) (\<lambda>_.
       eff_bind (on_engine (list_stored_folders (sv_storage sv) (sv_account sv))) (\<lambda>rows. eff_return (Inr rows))) (e, s1)
      = Some (Inr rows :: folder_row list sync_result, (e', s'))"
    using assms(1,2) by (auto simp: sync_hierarchy_def try_bind_Some on_session_Some eff_lift_def split: if_splits)
  let ?listed = "List.map_filter (listed_folder sv) (co_data out)"
  let ?t = "upserts env ?listed (en_store e)"
  have acc: "\<forall>nf \<in> set ?listed. nf_account nf = sv_account sv"
    by (auto simp: List.map_filter_def listed_folder_def Let_def split: imap_data.splits)
  obtain f' where stored: "list_stored_folders (sv_storage sv) (sv_account sv) (e\<lparr>en_store := ?t\<rparr>) = Some (rows, f')" "e' = f'"
    using run by (auto simp: each_upserts eff_bind_Some on_engine_Some)
  have store: "en_store e' = ?t" using mock_stored_reads [OF stored(1) [unfolded assms(1)]] stored(2) by simp
  have "well_formed env ?t" using upserts_shapes [of env "en_store e" ?listed] assms(3,4) by (simp add: shapes_def store)
  then have ids: "distinct (map fr_id (mk_folders ?t))" by (simp add: well_formed_def folder_keys_def comp_def)
  have rows: "rows = filter (\<lambda>r. fr_account r = sv_account sv) (mk_folders ?t)"
    using trans [OF stored(1) [unfolded assms(1), symmetric] mock_stored] ids by simp
  have "as_listed ?listed (en_store e) row" if "row \<in> set rows" for row
    using upserts_listed [OF assms(3) _ acc, of row] that rows assms(4) store by simp
  moreover have "fr_remote_name ` set rows = fr_remote_name ` set (filter (\<lambda>r. fr_account r = sv_account sv) (mk_folders (en_store e)))
      \<union> nf_remote_name ` set ?listed"
    using upserts_names [OF acc, of env "en_store e"] by (simp add: rows)
  ultimately show ?thesis using out rows upserts_cursors store by (intro exI [of _ out] exI [of _ s1]) (simp add: Let_def)
qed

text \<open>A new store and a server with two mailboxes.\<close>

definition list_script :: "client_next list list" where
  "list_script =
     [[Next_Event (Ev_DataReceived (Data_List MB_Inbox [] (Some 47))),
       Next_Event (Ev_DataReceived (Data_List (MB_Other (AAtom (lit ''Sent''))) [] None)),
       Next_Event (Ev_StatusReceived (St_Tagged (lit ''K1'') ok_body))]]"

lemma list_run:
  "\<exists>out s'. execute (script_client list_script) plain_lib cmd 60 (fresh_session list_script [5]) = Some (Inr out, s') \<and> is_ok out
     \<and> co_data out = [Data_List MB_Inbox [] (Some 47), Data_List (MB_Other (AAtom (lit ''Sent''))) [] None]"
  by (simp add: run_simps list_script_def)

theorem hierarchy_lists_witness:
  "\<exists>rows w. sync_hierarchy (demo_service list_script) (demo_engine\<lparr>en_store := mock_new\<rparr>, fresh_session list_script [5])
       = Some (Inr rows, w) \<and> fr_remote_name ` set rows = {lit ''INBOX'', lit ''Sent''}"
proof -
  let ?sv = "demo_service list_script" and ?s0 = "fresh_session list_script [5]" and ?e0 = "demo_engine\<lparr>en_store := mock_new\<rparr>"
  obtain out s1 where out: "execute (script_client list_script) plain_lib (list_command plain_lib) 60 ?s0 = Some (Inr out, s1)" "is_ok out"
    and data: "co_data out = [Data_List MB_Inbox [] (Some 47), Data_List (MB_Other (AAtom (lit ''Sent''))) [] None]"
    using list_run [of "list_command plain_lib"] by blast
  let ?listed = "List.map_filter (listed_folder ?sv) (co_data out)" and ?t = "upserts demo_env (List.map_filter (listed_folder ?sv) (co_data out)) mock_new"
  have drawn: "mk_drawn ?t = 2"
    by (simp add: data map_filter_Cons listed_folder_def upserts_def mock_upsert_folder_def mock_new_def mailbox_name_def
 Let_def lit_def)
  have "well_formed demo_env ?t" using upserts_shapes [of demo_env mock_new ?listed] new_well_formed demo_fresh [OF drawn] by (simp add: shapes_def)
  then have "distinct (map fr_id (mk_folders ?t))" by (simp add: well_formed_def folder_keys_def comp_def)
  then have "list_stored_folders (mock_ops demo_env :: (mock_state, unit) mail_store_ops) (AccountId 1) (?e0\<lparr>en_store := ?t\<rparr>)
      = Some (filter (\<lambda>r. fr_account r = AccountId 1) (mk_folders ?t), ?e0\<lparr>en_store := ?t\<rparr>)"
    using mock_stored [of "?e0\<lparr>en_store := ?t\<rparr>" demo_env "AccountId 1"] by simp
  then have "\<exists>rows. sync_hierarchy ?sv (?e0, ?s0) = Some (Inr rows, (?e0\<lparr>en_store := ?t\<rparr>, s1))"
    using out each_upserts [of demo_env ?listed ?e0 s1]
    by (simp add: sync_hierarchy_def try_bind_def eff_bind_def on_session_def on_engine_def demo_service_def)
  then obtain rows where run: "sync_hierarchy ?sv (?e0, ?s0) = Some (Inr rows, (?e0\<lparr>en_store := ?t\<rparr>, s1))" by blast
  have st: "en_store (?e0\<lparr>en_store := ?t\<rparr>) = ?t" "en_store ?e0 = mock_new" by simp_all
  from hierarchy_lists [OF demo_service_fields(1) run, unfolded st, OF new_well_formed demo_fresh [OF drawn]] out(1)
  have "fr_remote_name ` set rows = nf_remote_name ` set ?listed" by (auto simp: Let_def mock_new_def)
  with run show ?thesis by (auto simp: data map_filter_Cons listed_folder_def mailbox_name_def Let_def)
qed

end
